(* ===== verification/Prelude.thy ===== *)
theory Prelude
  imports Main "HOL-Library.Word"
begin

text \<open>
  Shared ground of the development: the machine integers of the program and Rust's
  arithmetic on them under both build profiles, the parts of \<open>str\<close> the sources call
  (\<open>split\<close>, \<open>splitn\<close>, \<open>rsplitn\<close>, \<open>lines\<close>, \<open>split_whitespace\<close>, \<open>parse\<close>, \<open>is_ascii\<close>),
  decimal \<open>Display\<close>, and the collections the component proofs simplify with.
  A Rust \<open>str\<close> is its UTF-8 byte sequence, here a \<^typ>\<open>string\<close> (a \<^typ>\<open>char\<close> is one byte).
\<close>

unbundle bit_operations_syntax

type_synonym u8 = "8 word"
type_synonym u16 = "16 word"
type_synonym u32 = "32 word"
type_synonym u64 = "64 word"
type_synonym bytes = "u8 list"

named_theorems u64_arith \<open>Rust arithmetic operators on words\<close>
named_theorems str_simps \<open>string splitting\<close>
named_theorems step_defs \<open>definitions of the operations that change the node\<close>

subsection \<open>Arithmetic under the two build profiles\<close>

text \<open>
  Cargo's dev profile compiles with overflow checks: an overflowing operator panics, and
  with \<open>panic = "abort"\<close> the process is gone (\<^term>\<open>None\<close>). The release profile wraps.
\<close>

datatype build = Debug | Release

definition add_w :: "build \<Rightarrow> 'a::len word \<Rightarrow> 'a word \<Rightarrow> 'a word option" where
  "add_w b x y =
     (if b = Debug \<and> 2 ^ LENGTH('a) \<le> unat x + unat y then None else Some (x + y))"

definition sub_w :: "build \<Rightarrow> 'a::len word \<Rightarrow> 'a word \<Rightarrow> 'a word option" where
  "sub_w b x y = (if b = Debug \<and> x < y then None else Some (x - y))"

definition mul_w :: "build \<Rightarrow> 'a::len word \<Rightarrow> 'a word \<Rightarrow> 'a word option" where
  "mul_w b x y =
     (if b = Debug \<and> 2 ^ LENGTH('a) \<le> unat x * unat y then None else Some (x * y))"

definition saturating_sub :: "'a::len word \<Rightarrow> 'a word \<Rightarrow> 'a word" where
  "saturating_sub x y = (if x < y then 0 else x - y)"

lemma add_w_exact [u64_arith]:
  fixes x y :: "'a::len word"
  shows "unat x + unat y < 2 ^ LENGTH('a) \<Longrightarrow> add_w b x y = Some (x + y)"
  by (simp add: add_w_def)

lemma mul_w_exact [u64_arith]:
  fixes x y :: "'a::len word"
  shows "unat x * unat y < 2 ^ LENGTH('a) \<Longrightarrow> mul_w b x y = Some (x * y)"
  by (simp add: mul_w_def)

lemma sub_w_exact [u64_arith]: "y \<le> x \<Longrightarrow> sub_w b x y = Some (x - y)"
  by (auto simp: sub_w_def)

lemma mul_w_Release [u64_arith]: "mul_w Release x y = Some (x * y)"
  by (simp add: mul_w_def)

lemma add_w_Release [u64_arith]: "add_w Release x y = Some (x + y)"
  by (simp add: add_w_def)

lemma sub_w_Release [u64_arith]: "sub_w Release x y = Some (x - y)"
  by (simp add: sub_w_def)

lemma mul_w_Debug_None:
  fixes x y :: "'a::len word"
  shows "mul_w Debug x y = None \<longleftrightarrow> 2 ^ LENGTH('a) \<le> unat x * unat y"
  by (simp add: mul_w_def)

lemma unat_add_exact:
  fixes x y :: "'a::len word"
  shows "unat x + unat y < 2 ^ LENGTH('a) \<Longrightarrow> unat (x + y) = unat x + unat y"
  by (simp add: unat_word_ariths)

lemma unat_mult_exact:
  fixes x y :: "'a::len word"
  shows "unat x * unat y < 2 ^ LENGTH('a) \<Longrightarrow> unat (x * y) = unat x * unat y"
  by (simp add: unat_word_ariths)

lemma unat_sub_exact: "y \<le> x \<Longrightarrow> unat (x - y) = unat x - unat y"
  by (rule unat_sub)

lemma unat_u64_less: "unat (x :: u64) < 2 ^ 64"
  using unsigned_less [of x] by simp

lemma unat_saturating_sub: "unat (saturating_sub x y) = unat x - unat y"
  by (auto simp: saturating_sub_def unat_sub not_less word_le_nat_alt word_less_nat_alt)

lemma saturating_sub_pos:
  assumes "saturating_sub x y = d" and "d \<noteq> 0"
  shows "y < x" and "unat x = unat y + unat d"
proof -
  from assms have "\<not> x < y" and "d = x - y" by (auto simp: saturating_sub_def split: if_splits)
  with assms(2) have "y \<noteq> x" by auto
  with \<open>\<not> x < y\<close> show "y < x" by auto
  then show "unat x = unat y + unat d"
    using \<open>d = x - y\<close> unat_sub_exact [of y x] by (simp add: word_less_nat_alt word_le_nat_alt)
qed

subsection \<open>Lists\<close>

lemma find_split:
  "find P xs = Some x \<Longrightarrow> \<exists>us vs. xs = us @ x # vs \<and> (\<forall>y\<in>set us. \<not> P y) \<and> P x"
proof (induction xs)
  case (Cons y xs)
  show ?case
  proof (cases "P y")
    case True
    with Cons.prems show ?thesis by (intro exI [of _ "[]"] exI [of _ xs]) simp
  next
    case False
    with Cons obtain us vs where "xs = us @ x # vs" "\<forall>y\<in>set us. \<not> P y" "P x" by auto
    with False show ?thesis by (intro exI [of _ "y # us"] exI [of _ vs]) simp
  qed
qed simp

lemma find_none: "find P xs = None \<longleftrightarrow> (\<forall>x\<in>set xs. \<not> P x)"
  by (auto simp: find_None_iff)

subsection \<open>Splitting strings\<close>

text \<open>\<open>str::split(c)\<close>: \<open>n\<close> separators give \<open>n + 1\<close> pieces, so the empty string gives one.\<close>

primrec split_on :: "char \<Rightarrow> string \<Rightarrow> string list" where
  "split_on c [] = [[]]"
| "split_on c (x # xs) =
     (if x = c then [] # split_on c xs
      else (x # hd (split_on c xs)) # tl (split_on c xs))"

lemma split_on_ne [simp]: "split_on c s \<noteq> []"
  by (cases s) auto

lemma split_on_free [str_simps]: "c \<notin> set s \<Longrightarrow> split_on c s = [s]"
  by (induction s) auto

lemma split_on_append [str_simps]:
  "c \<notin> set s \<Longrightarrow> split_on c (s @ c # t) = s # split_on c t"
  by (induction s) auto

lemma length_split_on: "length (split_on c s) = Suc (count_list s c)"
  by (induction s) auto

lemma split_on_pieces_free: "p \<in> set (split_on c s) \<Longrightarrow> c \<notin> set p"
proof (induction s arbitrary: p)
  case (Cons x s)
  show ?case
  proof (cases "x = c")
    case False
    have "hd (split_on c s) \<in> set (split_on c s)" by simp
    with Cons.IH have "c \<notin> set (hd (split_on c s))" by blast
    moreover have "p = x # hd (split_on c s) \<or> p \<in> set (split_on c s)"
      using Cons.prems False by (auto dest: list.set_sel(2) [rotated])
    ultimately show ?thesis using False Cons.IH by auto
  qed (use Cons in auto)
qed auto

text \<open>\<open>str::splitn(2, c)\<close> and \<open>str::rsplitn(2, c)\<close>: at most one cut, at the first / last separator.\<close>

definition splitn2 :: "char \<Rightarrow> string \<Rightarrow> string list" where
  "splitn2 c s = (case dropWhile (\<lambda>x. x \<noteq> c) s of
      [] \<Rightarrow> [s]
    | _ # r \<Rightarrow> [takeWhile (\<lambda>x. x \<noteq> c) s, r])"

definition rsplitn2 :: "char \<Rightarrow> string \<Rightarrow> string list" where
  "rsplitn2 c s = map rev (splitn2 c (rev s))"

lemma splitn2_free [str_simps]: "c \<notin> set s \<Longrightarrow> splitn2 c s = [s]"
proof -
  assume "c \<notin> set s"
  then have "dropWhile (\<lambda>x. x \<noteq> c) s = []" by auto
  then show ?thesis unfolding splitn2_def by (simp only: list.case)
qed

lemma splitn2_append [str_simps]: "c \<notin> set s \<Longrightarrow> splitn2 c (s @ c # t) = [s, t]"
  by (induction s) (auto simp: splitn2_def split: list.splits)

lemma splitn2_length: "length (splitn2 c s) = (if c \<in> set s then 2 else 1)"
proof (cases "c \<in> set s")
  case True
  then obtain u v where "s = u @ c # v" "c \<notin> set u" by (meson split_list_first)
  with True show ?thesis by (simp add: splitn2_append)
qed (simp add: splitn2_free)

lemma rsplitn2_free [str_simps]: "c \<notin> set s \<Longrightarrow> rsplitn2 c s = [s]"
  by (simp add: rsplitn2_def splitn2_free)

lemma rsplitn2_append [str_simps]: "c \<notin> set t \<Longrightarrow> rsplitn2 c (s @ c # t) = [t, s]"
  using splitn2_append [of c "rev t" "rev s"] by (simp add: rsplitn2_def)

lemma rsplitn2_length: "length (rsplitn2 c s) = (if c \<in> set s then 2 else 1)"
  by (simp add: rsplitn2_def splitn2_length)

text \<open>
  \<open>str::lines\<close> and \<open>BufRead::lines\<close>: cut at each line feed, drop a carriage return
  before it, and no empty last line after a final line feed.
\<close>

definition newline :: char where "newline = CHR 0x0A"

definition strip_cr :: "string \<Rightarrow> string" where
  "strip_cr l = (if l \<noteq> [] \<and> last l = CHR 0x0D then butlast l else l)"

definition lines :: "string \<Rightarrow> string list" where
  "lines s = (let ps = split_on newline s
              in map strip_cr (butlast ps) @ (if last ps = [] then [] else [last ps]))"

lemma lines_Nil [str_simps]: "lines [] = []"
  by (simp add: lines_def)

lemma lines_Cons [str_simps]:
  "newline \<notin> set l \<Longrightarrow> lines (l @ newline # s) = strip_cr l # lines s"
  by (simp add: lines_def str_simps Let_def)

lemma strip_cr_id [simp]: "CHR 0x0D \<notin> set l \<Longrightarrow> strip_cr l = l"
  by (auto simp: strip_cr_def dest: last_in_set)

text \<open>
  \<open>str::split_whitespace\<close> on the ASCII white space \<open>U+0009\<close>..\<open>U+000D\<close> and \<open>U+0020\<close>.
\<close>

definition is_ws :: "char \<Rightarrow> bool" where
  "is_ws c \<longleftrightarrow> c = CHR '' '' \<or> (9 \<le> (of_char c :: nat) \<and> (of_char c :: nat) \<le> 13)"

primrec split_ws :: "string \<Rightarrow> string list" where
  "split_ws [] = [[]]"
| "split_ws (x # xs) =
     (if is_ws x then [] # split_ws xs else (x # hd (split_ws xs)) # tl (split_ws xs))"

definition split_whitespace :: "string \<Rightarrow> string list" where
  "split_whitespace s = filter (\<lambda>w. w \<noteq> []) (split_ws s)"

lemma split_ws_ne [simp]: "split_ws s \<noteq> []"
  by (cases s) auto

lemma split_ws_append:
  "\<forall>c\<in>set s. \<not> is_ws c \<Longrightarrow> is_ws w \<Longrightarrow> split_ws (s @ w # t) = s # split_ws t"
  by (induction s) auto

lemma split_ws_free: "\<forall>c\<in>set s. \<not> is_ws c \<Longrightarrow> split_ws s = [s]"
  by (induction s) auto

lemma split_whitespace_word [str_simps]:
  "\<forall>c\<in>set s. \<not> is_ws c \<Longrightarrow> s \<noteq> [] \<Longrightarrow> is_ws w \<Longrightarrow>
     split_whitespace (s @ w # t) = s # split_whitespace t"
  by (simp add: split_whitespace_def split_ws_append)

lemma split_whitespace_ws [str_simps]:
  "is_ws w \<Longrightarrow> split_whitespace (w # t) = split_whitespace t"
  by (simp add: split_whitespace_def)

lemma split_whitespace_Nil [str_simps]: "split_whitespace [] = []"
  by (simp add: split_whitespace_def)

lemma split_ws_pieces: "p \<in> set (split_ws s) \<Longrightarrow> c \<in> set p \<Longrightarrow> \<not> is_ws c"
proof (induction s arbitrary: p)
  case (Cons x s)
  show ?case
  proof (cases "is_ws x")
    case False
    have hd: "hd (split_ws s) \<in> set (split_ws s)" by simp
    have "p = x # hd (split_ws s) \<or> p \<in> set (split_ws s)"
      using Cons.prems(1) False by (auto dest: list.set_sel(2) [rotated])
    then show ?thesis using False Cons.IH [OF hd] Cons.IH [of p] Cons.prems(2) by auto
  qed (use Cons in auto)
qed auto

text \<open>A byte of a string as a \<open>u8\<close>.\<close>

definition byte_of :: "char \<Rightarrow> u8" where
  "byte_of c = of_nat (of_char c)"

definition is_ascii :: "string \<Rightarrow> bool" where
  "is_ascii s \<longleftrightarrow> list_all (\<lambda>c. (of_char c :: nat) < 128) s"

end
