(* ===== verification/Codec.thy ===== *)
theory Codec
  imports Prelude
begin

text \<open>
  The contract of a textual field (what is printed is read back), the contract of a field
  that can stand between separators, and the decimal codec of the unsigned integers
  (\<open>Display\<close> and \<open>FromStr\<close> of \<open>u8\<close>..\<open>u64\<close>), which every parser of the program uses.
\<close>

subsection \<open>The interfaces\<close>

locale codec =
  fixes enc :: "'a \<Rightarrow> string" and dec :: "string \<Rightarrow> 'a option"
  assumes dec_enc: "dec (enc x) = Some x"
begin

lemma enc_inj: "enc x = enc y \<longleftrightarrow> x = y"
  using dec_enc by (metis option.inject)

end

locale field_codec = codec +
  fixes sep :: char
  assumes sep_free: "sep \<notin> set (enc x)"
begin

lemma split_field: "split_on sep (enc x @ sep # t) = enc x # split_on sep t"
  by (rule split_on_append [OF sep_free])

lemma split_last_field: "split_on sep (enc x) = [enc x]"
  by (rule split_on_free [OF sep_free])

lemma joined_inj: "enc x @ sep # s = enc y @ sep # t \<longleftrightarrow> x = y \<and> s = t"
proof
  assume eq: "enc x @ sep # s = enc y @ sep # t"
  have "[enc x, s] = splitn2 sep (enc x @ sep # s)"
    by (rule splitn2_append [OF sep_free, symmetric])
  also have "\<dots> = [enc y, t]"
    unfolding eq by (rule splitn2_append [OF sep_free])
  finally show "x = y \<and> s = t" by (simp add: enc_inj)
qed simp

end

subsection \<open>Decimal numbers\<close>

definition digit_char :: "nat \<Rightarrow> char" where
  "digit_char d = char_of (48 + d)"

definition digit_val :: "char \<Rightarrow> nat option" where
  "digit_val c = (let n = of_char c in if 48 \<le> n \<and> n \<le> 57 then Some (n - 48) else None)"

fun show_nat :: "nat \<Rightarrow> string" where
  "show_nat n = (if n < 10 then [digit_char n]
                 else show_nat (n div 10) @ [digit_char (n mod 10)])"

declare show_nat.simps [simp del]

definition show_word :: "'a::len word \<Rightarrow> string" where
  "show_word w = show_nat (unat w)"

fun parse_digits :: "nat \<Rightarrow> string \<Rightarrow> nat option" where
  "parse_digits acc [] = Some acc"
| "parse_digits acc (c # cs) =
     (case digit_val c of None \<Rightarrow> None | Some d \<Rightarrow> parse_digits (10 * acc + d) cs)"

text \<open>
  \<open>str::parse\<close> for an unsigned integer: one leading \<open>+\<close> is accepted, at least one digit is
  required, any other byte (a minus sign included) and a value out of range are errors.
\<close>

definition parse_word :: "string \<Rightarrow> 'a::len word option" where
  "parse_word s =
     (let ds = (case s of [] \<Rightarrow> [] | c # t \<Rightarrow> if c = CHR ''+'' then t else s)
      in if ds = [] then None
         else case parse_digits 0 ds of
                None \<Rightarrow> None
              | Some n \<Rightarrow> if n < 2 ^ LENGTH('a) then Some (of_nat n) else None)"

lemma digit_val_char [simp]: "d < 10 \<Longrightarrow> digit_val (digit_char d) = Some d"
  by (simp add: digit_val_def digit_char_def)

lemma parse_digits_append:
  "parse_digits acc (s @ t) =
     (case parse_digits acc s of None \<Rightarrow> None | Some n \<Rightarrow> parse_digits n t)"
  by (induction s arbitrary: acc) (auto split: option.splits)

lemma show_nat_ne [simp]: "show_nat n \<noteq> []"
  by (subst show_nat.simps) simp

lemma show_nat_digits: "c \<in> set (show_nat n) \<Longrightarrow> \<exists>d<10. c = digit_char d"
proof (induction n rule: show_nat.induct)
  case (1 n)
  show ?case
  proof (cases "n < 10")
    case True
    with "1.prems" show ?thesis by (subst (asm) show_nat.simps) auto
  next
    case False
    with "1.prems" have "c \<in> set (show_nat (n div 10)) \<or> c = digit_char (n mod 10)"
      by (subst (asm) show_nat.simps) auto
    then show ?thesis
    proof
      assume "c = digit_char (n mod 10)"
      then show ?thesis by (intro exI [of _ "n mod 10"]) simp
    qed (rule "1.IH" [OF False])
  qed
qed

lemma parse_digits_show: "parse_digits 0 (show_nat n) = Some n"
proof (induction n rule: show_nat.induct)
  case (1 n)
  show ?case
  proof (cases "n < 10")
    case True
    then show ?thesis by (subst show_nat.simps) simp
  next
    case False
    with "1.IH" show ?thesis by (subst show_nat.simps) (simp add: parse_digits_append)
  qed
qed

lemma digit_char_notin:
  assumes "digit_val c = None"
  shows "c \<notin> set (show_nat n)"
proof
  assume "c \<in> set (show_nat n)"
  then obtain d where "d < 10" "c = digit_char d" using show_nat_digits by blast
  with assms show False by simp
qed

lemma show_nat_no_sign: "show_nat n = c # t \<Longrightarrow> c \<noteq> CHR ''+''"
  using digit_char_notin [of "CHR ''+''" n] by (auto simp: digit_val_def)

lemma parse_show_word [simp]: "parse_word (show_word w) = Some w"
proof -
  obtain c t where s: "show_nat (unat w) = c # t" by (cases "show_nat (unat w)") auto
  have "c \<noteq> CHR ''+''" using show_nat_no_sign [OF s] .
  moreover have "parse_digits 0 (c # t) = Some (unat w)" using parse_digits_show [of "unat w"] s by simp
  ultimately show ?thesis by (simp add: parse_word_def show_word_def s)
qed

lemma parse_word_Nil [simp]: "parse_word [] = None"
  by (simp add: parse_word_def)

text \<open>Decimal \<open>u64\<close> fields between colons, as in the swap string.\<close>

interpretation dec64: field_codec "show_word :: u64 \<Rightarrow> string" parse_word "CHR '':''"
  by unfold_locales (simp, simp add: show_word_def digit_val_def digit_char_notin)

end
