(* ===== verification/HexUtils.thy ===== *)
theory HexUtils
  imports Codec
begin

text \<open>
  \<open>src/hex_utils.rs\<close>: the hexadecimal decoder and encoder every identifier of the command
  line goes through, and the compressed public key reader. The decoder is the source's loop
  over the bytes with its index, its shift register \<open>b\<close> and its output vector.
\<close>

subsection \<open>Definitions\<close>

definition nibble :: "u8 \<Rightarrow> u8 option" where
  "nibble c =
     (if 65 \<le> c \<and> c \<le> 70 then Some (c - 65 + 10)
      else if 97 \<le> c \<and> c \<le> 102 then Some (c - 97 + 10)
      else if 48 \<le> c \<and> c \<le> 57 then Some (c - 48)
      else None)"

fun to_vec_loop :: "nat \<Rightarrow> u8 \<Rightarrow> bytes \<Rightarrow> string \<Rightarrow> bytes option" where
  "to_vec_loop idx b out [] = Some out"
| "to_vec_loop idx b out (c # cs) =
     (let b = push_bit 4 b in
      case nibble (byte_of c) of
        None \<Rightarrow> None
      | Some d \<Rightarrow>
          (let b = b OR d in
           if idx AND 1 = 1 then to_vec_loop (Suc idx) 0 (out @ [b]) cs
           else to_vec_loop (Suc idx) b out cs))"

definition to_vec :: "string \<Rightarrow> bytes option" where
  "to_vec hex = to_vec_loop 0 0 [] hex"

definition hex_char :: "nat \<Rightarrow> char" where
  "hex_char d = (if d < 10 then char_of (48 + d) else char_of (87 + d))"

definition hex_byte :: "u8 \<Rightarrow> string" where
  "hex_byte v = [hex_char (unat v div 16), hex_char (unat v mod 16)]"

definition hex_str :: "bytes \<Rightarrow> string" where
  "hex_str value = concat (map hex_byte value)"

text \<open>\<open>PublicKey::from_slice\<close> is secp256k1's: the parameter \<open>from_slice\<close>.\<close>

definition to_compressed_pubkey :: "(bytes \<Rightarrow> 'pk option) \<Rightarrow> string \<Rightarrow> 'pk option" where
  "to_compressed_pubkey from_slice hex =
     (if length hex \<noteq> 33 * 2 then None
      else case to_vec (take (33 * 2) hex) of
             None \<Rightarrow> None
           | Some data \<Rightarrow> from_slice data)"

text \<open>\<open>vec.try_into()\<close> to a 32-byte array.\<close>

definition try_into_32 :: "bytes \<Rightarrow> bytes option" where
  "try_into_32 v = (if length v = 32 then Some v else None)"

definition is_hex :: "char \<Rightarrow> bool" where
  "is_hex c \<longleftrightarrow> nibble (byte_of c) \<noteq> None"

subsection \<open>The decoder against a two-digits-at-a-time reference\<close>

fun decode_pairs :: "string \<Rightarrow> bytes option" where
  "decode_pairs [] = Some []"
| "decode_pairs [c] = (if is_hex c then Some [] else None)"
| "decode_pairs (c # d # cs) =
     (case (nibble (byte_of c), nibble (byte_of d)) of
        (Some h, Some l) \<Rightarrow> map_option ((#) (16 * h + l)) (decode_pairs cs)
      | _ \<Rightarrow> None)"

lemma nibble_bound: "nibble c = Some d \<Longrightarrow> unat d < 16"
proof -
  assume d: "nibble c = Some d"
  have eq: "unat (x - y) = unat x - unat y" if "y \<le> x" for x y :: u8
    using that by (rule unat_sub_exact)
  show ?thesis
    using d eq [of 55 c] eq [of 87 c] eq [of 48 c]
    by (auto simp: nibble_def word_le_nat_alt unat_word_ariths split: if_splits)
qed

lemma or_nibbles:
  fixes h l :: u8
  assumes l: "unat l < 16"
  shows "push_bit 4 h OR l = 16 * h + l"
proof -
  have "\<not> bit l n" if "4 \<le> n" for n
  proof -
    have "unat l < 2 ^ n" using l that power_increasing [of 4 n "2::nat"] by simp
    then have "unat (drop_bit n l) = 0" unfolding unat_drop_bit_eq by (simp add: drop_bit_eq_div)
    then have "drop_bit n l = 0" by (simp add: unat_eq_zero)
    then show ?thesis by (simp add: bit_iff_odd_drop_bit)
  qed
  then have "push_bit 4 h AND l = 0" by (intro bit_word_eqI) (auto simp: bit_simps)
  then have "push_bit 4 h OR l = push_bit 4 h + l" by (simp add: disjunctive_add_eq_or)
  then show ?thesis by (simp add: push_bit_eq_mult mult.commute)
qed

lemma to_vec_loop_pairs:
  "even idx \<Longrightarrow> to_vec_loop idx 0 out s = map_option ((@) out) (decode_pairs s)"
proof (induction s arbitrary: idx out rule: decode_pairs.induct)
  case (2 c)
  then show ?case by (simp add: is_hex_def and_one_eq split: option.splits)
next
  case (3 c d cs)
  show ?case
  proof (cases "nibble (byte_of c)"; cases "nibble (byte_of d)")
    fix h l assume hl: "nibble (byte_of c) = Some h" "nibble (byte_of d) = Some l"
    have "push_bit 4 h OR l = 16 * h + l" by (rule or_nibbles [OF nibble_bound [OF hl(2)]])
    with 3 hl show ?thesis
      by (cases "decode_pairs cs") (auto simp: and_one_eq Let_def)
  qed (use 3 in \<open>auto simp: and_one_eq Let_def\<close>)
qed simp

lemma to_vec_decode_pairs: "to_vec s = decode_pairs s"
  by (cases "decode_pairs s") (simp_all add: to_vec_def to_vec_loop_pairs)

lemma decode_pairs_hex: "decode_pairs s \<noteq> None \<longleftrightarrow> list_all is_hex s"
  by (induction s rule: decode_pairs.induct) (auto simp: is_hex_def split: option.splits)

lemma decode_pairs_length: "decode_pairs s = Some v \<Longrightarrow> length v = length s div 2"
  by (induction s arbitrary: v rule: decode_pairs.induct)
     (auto split: option.splits if_splits)

subsection \<open>The encoder is inverted\<close>

lemma nibble_hex_char: "d < 16 \<Longrightarrow> nibble (byte_of (hex_char d)) = Some (of_nat d)"
proof -
  assume "d < 16"
  then have "d \<in> {0,1,2,3,4,5,6,7,8,9,10,11,12,13,14,15}"
    unfolding insert_iff empty_iff by presburger
  then show ?thesis
    by (elim insertE emptyE) (simp_all add: hex_char_def nibble_def byte_of_def)
qed

lemma unat_u8_less [simp]: "unat (v::u8) < 256"
  using unsigned_less [of v] by simp

lemma hex_byte_value: "16 * of_nat (unat v div 16) + of_nat (unat v mod 16) = (v :: u8)"
proof -
  have "16 * of_nat (unat v div 16) + of_nat (unat v mod 16)
      = (of_nat (16 * (unat v div 16) + unat v mod 16) :: u8)"
    by (simp only: of_nat_add of_nat_mult of_nat_numeral)
  also have "16 * (unat v div 16) + unat v mod 16 = unat v" by (rule mult_div_mod_eq)
  finally show ?thesis by simp
qed

lemma decode_pairs_hex_byte: "decode_pairs (hex_byte v @ s) = map_option ((#) v) (decode_pairs s)"
proof -
  have "unat v div 16 < 16" using unat_u8_less [of v] by (simp add: less_mult_imp_div_less)
  then show ?thesis by (simp add: hex_byte_def nibble_hex_char hex_byte_value)
qed

lemma decode_pairs_hex_str: "decode_pairs (hex_str v @ s) = map_option ((@) v) (decode_pairs s)"
  by (induction v)
     (auto simp: hex_str_def decode_pairs_hex_byte option.map_comp o_def option.map_ident)

lemma to_vec_hex [simp]: "to_vec (hex_str v) = Some v"
  using decode_pairs_hex_str [of v "[]"] by (simp add: to_vec_decode_pairs)

lemma length_hex_str [simp]: "length (hex_str v) = 2 * length v"
  by (induction v) (auto simp: hex_str_def hex_byte_def)

lemma hex_str_chars: "list_all is_hex (hex_str v)"
  using to_vec_hex [of v] by (simp add: to_vec_decode_pairs flip: decode_pairs_hex)

lemma hex_str_no_sep: "\<not> is_hex c \<Longrightarrow> c \<notin> set (hex_str v)"
  using hex_str_chars [of v] by (auto simp: list_all_iff)

interpretation hex: field_codec hex_str to_vec "CHR '':''"
  by unfold_locales (simp, rule hex_str_no_sep, simp add: is_hex_def nibble_def byte_of_def)

interpretation hex_at: field_codec hex_str to_vec "CHR ''@''"
  by unfold_locales (simp, rule hex_str_no_sep, simp add: is_hex_def nibble_def byte_of_def)

subsection \<open>Properties\<close>

text \<open>Decoding what \<open>hex_str\<close> printed gives the same bytes back, whatever the bytes.\<close>

theorem to_vec_hex_str: "to_vec (hex_str value) = Some value"
  by (rule hex.dec_enc)

text \<open>
  The decoder accepts exactly the strings of hexadecimal digits (of either case), of any
  length, and returns half as many bytes as digits, rounded down: a last unpaired digit
  is dropped without an error.
\<close>

theorem to_vec_accepts:
  "(\<exists>v. to_vec s = Some v \<and> length v = length s div 2) \<longleftrightarrow> list_all is_hex s"
  using decode_pairs_hex [of s] decode_pairs_length [of s]
  by (auto simp: to_vec_decode_pairs)

end
