(* ===== verification/Swap.thy ===== *)
theory Swap
  imports HexUtils
begin

text \<open>
  \<open>src/swap.rs\<close>: the two kinds of swap, the swap offer, its parser, and the text the maker
  prints (\<open>makerinit\<close> in \<open>src/cli.rs\<close>). \<open>ContractId\<close> belongs to the RGB library: its type is
  a type variable, its \<open>FromStr\<close> and \<open>Display\<close> are the parameters \<open>cid_from_str\<close>
  and \<open>cid_display\<close>.
\<close>

subsection \<open>Data and operations\<close>

datatype swap_type = BuyAsset u64 u64 | SellAsset u64 u64

text \<open>The fields of both variants are the amount of the asset, then the amount in millisatoshi.\<close>

primrec amount_rgb :: "swap_type \<Rightarrow> u64" where
  "amount_rgb (BuyAsset rgb msats) = rgb"
| "amount_rgb (SellAsset rgb msats) = rgb"

primrec amount_msats :: "swap_type \<Rightarrow> u64" where
  "amount_msats (BuyAsset rgb msats) = msats"
| "amount_msats (SellAsset rgb msats) = msats"

fun opposite :: "swap_type \<Rightarrow> swap_type" where
  "opposite (BuyAsset rgb msats) = SellAsset rgb msats"
| "opposite (SellAsset rgb msats) = BuyAsset rgb msats"

fun is_buy :: "swap_type \<Rightarrow> bool" where
  "is_buy (BuyAsset _ _) = True"
| "is_buy (SellAsset _ _) = False"

fun side :: "swap_type \<Rightarrow> string" where
  "side (BuyAsset _ _) = ''buy''"
| "side (SellAsset _ _) = ''sell''"

record 'c swap_string =
  ss_asset_id :: 'c
  ss_swap_type :: swap_type
  ss_expiry :: u64
  ss_payment_hash :: bytes

text \<open>The error texts of the parser, one constructor each.\<close>

datatype swap_error =
    WrongNumberOfParts | UnableToParseParts | ZeroAmountPriceOrExpiry | InvalidSwapType

text \<open>
  The result is \<^term>\<open>None\<close> where the multiplication \<open>amount * price\<close> panics, else the
  parser's \<open>Result\<close>.
\<close>

definition swap_from_str ::
  "build \<Rightarrow> (string \<Rightarrow> 'c option) \<Rightarrow> string \<Rightarrow> (swap_error + 'c swap_string) option" where
  "swap_from_str b cid_from_str s =
     (case split_on (CHR '':'') s of
        [amount, asset_id, sd, price, expiry, payment_hash] \<Rightarrow>
          (case (parse_word amount :: u64 option, cid_from_str asset_id,
                 parse_word price :: u64 option, parse_word expiry :: u64 option,
                 Option.bind (to_vec payment_hash) try_into_32) of
             (Some amount, Some asset_id, Some price, Some expiry, Some payment_hash) \<Rightarrow>
               if amount = 0 \<or> price = 0 \<or> expiry = 0 then Some (Inl ZeroAmountPriceOrExpiry)
               else if sd = ''buy'' then
                 map_option (\<lambda>m. Inr \<lparr>ss_asset_id = asset_id, ss_swap_type = BuyAsset amount m,
                     ss_expiry = expiry, ss_payment_hash = payment_hash\<rparr>) (mul_w b amount price)
               else if sd = ''sell'' then
                 map_option (\<lambda>m. Inr \<lparr>ss_asset_id = asset_id, ss_swap_type = SellAsset amount m,
                     ss_expiry = expiry, ss_payment_hash = payment_hash\<rparr>) (mul_w b amount price)
               else Some (Inl InvalidSwapType)
           | _ \<Rightarrow> Some (Inl UnableToParseParts))
      | _ \<Rightarrow> Some (Inl WrongNumberOfParts))"

text \<open>The line \<open>makerinit\<close> prints for the taker.\<close>

definition format_swapstring ::
  "('c \<Rightarrow> string) \<Rightarrow> u64 \<Rightarrow> 'c \<Rightarrow> string \<Rightarrow> u64 \<Rightarrow> u64 \<Rightarrow> bytes \<Rightarrow> string" where
  "format_swapstring cid_display amt_asset asset_id sd price expiry payment_hash =
     show_word amt_asset @ CHR '':'' # cid_display asset_id @ CHR '':'' # sd @ CHR '':'' #
     show_word price @ CHR '':'' # show_word expiry @ CHR '':'' # hex_str payment_hash"

subsection \<open>Lemmas\<close>

lemma opposite_opposite [simp]: "opposite (opposite t) = t"
  by (cases t) auto

lemma opposite_amounts [simp]:
  "amount_rgb (opposite t) = amount_rgb t" "amount_msats (opposite t) = amount_msats t"
  "is_buy (opposite t) \<longleftrightarrow> \<not> is_buy t"
  by (cases t; simp)+

lemma side_no_colon: "CHR '':'' \<notin> set (side t)"
  by (cases t) auto

lemma side_inj: "side t = side u \<longleftrightarrow> is_buy t = is_buy u"
  by (cases t; cases u) auto

lemma split_format:
  assumes "field_codec cid_display cid_from_str (CHR '':'')" and "CHR '':'' \<notin> set sd"
  shows "split_on (CHR '':'') (format_swapstring cid_display amt a sd price expiry h) =
           [show_word amt, cid_display a, sd, show_word price, show_word expiry, hex_str h]"
  unfolding format_swapstring_def dec64.split_field field_codec.split_field [OF assms(1)]
    split_on_append [OF assms(2)] hex.split_last_field ..

lemma swap_from_str_InrD:
  assumes "swap_from_str b p s = Some (Inr ss)"
  obtains amount aid sd price ex h a pr e ph m where
    "split_on (CHR '':'') s = [amount, aid, sd, price, ex, h]"
    "parse_word amount = Some a" "p aid = Some (ss_asset_id ss)" "parse_word price = Some pr"
    "parse_word ex = Some e" "to_vec h = Some ph" "length ph = 32"
    "a \<noteq> 0" "pr \<noteq> 0" "e \<noteq> 0" "mul_w b a pr = Some m"
    "sd = ''buy'' \<and> ss_swap_type ss = BuyAsset a m \<or> sd = ''sell'' \<and> ss_swap_type ss = SellAsset a m"
    "ss_expiry ss = e" "ss_payment_hash ss = ph"
proof -
  note split = list.splits option.splits if_splits bind_splits
  show thesis
    using assms unfolding swap_from_str_def try_into_32_def
    by (auto split: split simp: map_option_eq_Some intro: that)
qed

text \<open>
  What the two maps of trades hold: a non-zero amount of the asset, and a total that is a non-zero price
  times the amount, in the arithmetic of the build.
\<close>

definition trade_ok :: "build \<Rightarrow> swap_type \<Rightarrow> bool" where
  "trade_ok b st \<longleftrightarrow> amount_rgb st \<noteq> 0 \<and>
     (\<exists>price. price \<noteq> 0 \<and> mul_w b (amount_rgb st) price = Some (amount_msats st))"

lemma swap_from_str_trade:
  assumes "swap_from_str b p s = Some (Inr ss)"
  shows "trade_ok b (ss_swap_type ss)" and "length (ss_payment_hash ss) = 32"
  using assms by (auto elim!: swap_from_str_InrD simp: trade_ok_def)

lemma trade_ok_Debug:
  assumes "trade_ok Debug st"
  shows "\<exists>price. 0 < price \<and> unat (amount_msats st) = unat (amount_rgb st) * price"
    and "0 < unat (amount_rgb st) \<and> unat (amount_rgb st) \<le> unat (amount_msats st)"
proof -
  from assms obtain price where p: "amount_rgb st \<noteq> 0" "price \<noteq> 0" "mul_w Debug (amount_rgb st) price = Some (amount_msats st)"
    by (auto simp: trade_ok_def)
  then have "amount_msats st = amount_rgb st * price" "unat (amount_rgb st) * unat price < 2 ^ 64"
    by (auto simp: mul_w_def not_le split: if_splits)
  then have "unat (amount_msats st) = unat (amount_rgb st) * unat price"
    using unat_mult_exact [of "amount_rgb st" price] by simp
  moreover have "0 < unat price" "0 < unat (amount_rgb st)" using p(1,2) by (simp_all add: unat_gt_0)
  ultimately show "\<exists>price. 0 < price \<and> unat (amount_msats st) = unat (amount_rgb st) * price"
    and "0 < unat (amount_rgb st) \<and> unat (amount_rgb st) \<le> unat (amount_msats st)" by auto
qed

lemma swapstring_roundtrip_lemma:
  assumes cid: "field_codec cid_display cid_from_str (CHR '':'')"
    and "amount_rgb st \<noteq> 0" "price \<noteq> 0" "expiry \<noteq> 0" "length h = 32"
    and m: "mul_w b (amount_rgb st) price = Some (amount_msats st)"
  shows "swap_from_str b cid_from_str
           (format_swapstring cid_display (amount_rgb st) a (side st) price expiry h) =
         Some (Inr \<lparr>ss_asset_id = a, ss_swap_type = st, ss_expiry = expiry, ss_payment_hash = h\<rparr>)"
proof -
  have "cid_from_str (cid_display a) = Some a"
    using cid by (simp add: field_codec_def codec_def)
  then show ?thesis
    using assms unfolding swap_from_str_def split_format [OF cid side_no_colon]
    by (cases st) (auto simp: try_into_32_def)
qed

subsection \<open>Properties\<close>

text \<open>
  The line \<open>makerinit\<close> prints is read back by the taker as exactly the offer: same asset,
  same side and amounts, same expiry, same payment hash (given that the RGB library
  reads back the contract id it prints, and prints it without a colon).
\<close>

theorem swapstring_roundtrip:
  assumes cid: "field_codec cid_display cid_from_str (CHR '':'')"
    and "amount_rgb st \<noteq> 0" "price \<noteq> 0" "expiry \<noteq> 0" "length h = 32"
    and m: "mul_w b (amount_rgb st) price = Some (amount_msats st)"
  shows "swap_from_str b cid_from_str
           (format_swapstring cid_display (amount_rgb st) a (side st) price expiry h) =
         Some (Inr \<lparr>ss_asset_id = a, ss_swap_type = st, ss_expiry = expiry, ss_payment_hash = h\<rparr>)"
  using assms by (rule swapstring_roundtrip_lemma)

theorem swapstring_roundtrip_witness:
  "swap_from_str Debug to_vec
     (format_swapstring hex_str 10 [7, 255] (side (BuyAsset 10 2000)) 200 1700000000 (replicate 32 171)) =
   Some (Inr \<lparr>ss_asset_id = [7, 255], ss_swap_type = BuyAsset 10 2000,
              ss_expiry = 1700000000, ss_payment_hash = replicate 32 171\<rparr>)"
  using swapstring_roundtrip [of hex_str to_vec "BuyAsset 10 2000" 200 1700000000 "replicate 32 171"
      Debug "[7, 255]", OF hex.field_codec_axioms]
  by (simp add: mul_w_def)

text \<open>
  An offer the parser accepts has six colon-separated parts, a non-zero asset amount and
  expiry and a 32-byte payment hash, and its price in millisatoshi is the product of two
  non-zero numbers: exactly under the dev profile, modulo \<open>2\<^sup>6\<^sup>4\<close> under the release profile.
\<close>

theorem swap_from_str_sound:
  assumes "swap_from_str b cid_from_str s = Some (Inr ss)"
  shows "length (split_on (CHR '':'') s) = 6 \<and> amount_rgb (ss_swap_type ss) \<noteq> 0 \<and>
    ss_expiry ss \<noteq> 0 \<and> length (ss_payment_hash ss) = 32 \<and>
    (\<exists>price::u64. price \<noteq> 0 \<and>
       amount_msats (ss_swap_type ss) = amount_rgb (ss_swap_type ss) * price \<and>
       (b = Debug \<longrightarrow> unat (amount_msats (ss_swap_type ss)) =
                        unat (amount_rgb (ss_swap_type ss)) * unat price))"
proof -
  from assms obtain amount aid sd price ex h a pr e ph m where
    s: "split_on (CHR '':'') s = [amount, aid, sd, price, ex, h]" and
    nz: "a \<noteq> 0" "pr \<noteq> 0" "e \<noteq> 0" and ph: "length ph = 32" and
    m: "mul_w b a pr = Some m" and
    t: "ss_swap_type ss = BuyAsset a m \<or> ss_swap_type ss = SellAsset a m" and
    ss: "ss_expiry ss = e" "ss_payment_hash ss = ph"
    by (rule swap_from_str_InrD) blast
  from m have "m = a * pr" and "b = Debug \<longrightarrow> unat m = unat a * unat pr"
    by (auto simp: mul_w_def unat_mult_exact not_le split: if_splits)
  with nz ph t ss show ?thesis by (auto simp: s intro!: exI [of _ pr])
qed

theorem swap_from_str_sound_witness:
  "let ss = \<lparr>ss_asset_id = [1], ss_swap_type = SellAsset 3 12, ss_expiry = 9,
             ss_payment_hash = replicate 32 0\<rparr>;
       s = format_swapstring hex_str 3 [1] (side (SellAsset 3 12)) 4 9 (replicate 32 0)
   in swap_from_str Debug to_vec s = Some (Inr ss) \<and> length (split_on (CHR '':'') s) = 6"
proof -
  let ?ss = "\<lparr>ss_asset_id = [1], ss_swap_type = SellAsset 3 12, ss_expiry = 9,
              ss_payment_hash = replicate 32 0\<rparr>"
  let ?s = "format_swapstring hex_str 3 [1] (side (SellAsset 3 12)) 4 9 (replicate 32 0)"
  have *: "swap_from_str Debug to_vec ?s = Some (Inr ?ss)"
    unfolding swap_from_str_def split_format [OF hex.field_codec_axioms side_no_colon]
    by (simp add: try_into_32_def mul_w_def)
  then show ?thesis using swap_from_str_sound [OF *] by simp
qed

text \<open>
  The price check is not enough under the release profile: an offer to sell \<open>2\<^sup>3\<^sup>2\<close>
  units at \<open>2\<^sup>3\<^sup>2\<close> millisatoshi each parses as a sale for 0 millisatoshi, while the dev
  profile panics on it.
\<close>

theorem swap_price_overflow:
  assumes "field_codec cid_display cid_from_str (CHR '':'')" "expiry \<noteq> 0" "length h = 32"
  shows "swap_from_str Release cid_from_str
           (format_swapstring cid_display 0x100000000 a ''sell'' 0x100000000 expiry h) =
         Some (Inr \<lparr>ss_asset_id = a, ss_swap_type = SellAsset 0x100000000 0,
                    ss_expiry = expiry, ss_payment_hash = h\<rparr>) \<and>
         swap_from_str Debug cid_from_str
           (format_swapstring cid_display 0x100000000 a ''sell'' 0x100000000 expiry h) = None"
proof -
  have p: "cid_from_str (cid_display a) = Some a"
    using assms(1) by (simp add: field_codec_def codec_def)
  have c: "CHR '':'' \<notin> set ''sell''" by simp
  show ?thesis
    unfolding swap_from_str_def split_format [OF assms(1) c] using p assms(2,3)
    by (simp add: try_into_32_def mul_w_def)
qed

theorem swap_price_overflow_witness:
  "swap_from_str Release to_vec
     (format_swapstring hex_str 0x100000000 [1] ''sell'' 0x100000000 5 (replicate 32 0)) =
   Some (Inr \<lparr>ss_asset_id = [1], ss_swap_type = SellAsset 0x100000000 0,
              ss_expiry = 5, ss_payment_hash = replicate 32 0\<rparr>)"
  using swap_price_overflow [OF hex.field_codec_axioms, of 5 "replicate 32 0" "[1]"] by simp

end
