(* ===== verification/Node.thy ===== *)
theory Node
  imports Swap
begin

text \<open>
  The state the node keeps between operations, the calls it makes to the outside, and the
  answers it gets. The state is the in-memory maps of \<open>start_ldk\<close> (payments, swaps) and the
  files of the data directory its own code reads and writes. Calls to LDK, to the bdk wallet,
  to the RGB runtime, to the proxy and to the screen are recorded in order in the
  \<open>trace\<close>; what they answer is a parameter that may depend on the whole trace so far.
  Identifiers of libraries are their serialized bytes.
\<close>

subsection \<open>Data\<close>

type_synonym contract_id = bytes
type_synonym pubkey = bytes
type_synonym channel_id = bytes
type_synonym txid = bytes
type_synonym sockaddr = string

datatype htlc_status = Pending | Succeeded | Failed

record payment_info =
  pi_preimage :: "bytes option"
  pi_secret :: "bytes option"
  pi_status :: htlc_status
  pi_amt_msat :: "u64 option"

type_synonym payment_storage = "bytes \<rightharpoonup> payment_info"
type_synonym trades = "bytes \<rightharpoonup> contract_id \<times> swap_type"

datatype outpoint = OutPoint (op_txid: txid) (op_vout: u32)

record rgb_utxo =
  utxo_outpoint :: outpoint
  utxo_colored :: bool

record rgb_info =
  ri_contract_id :: contract_id
  ri_local_rgb_amount :: u64
  ri_remote_rgb_amount :: u64

text \<open>
  A \<open>GraphSeal\<close> is an output and its blinding secret. \<open>BlindedInfo\<close>: what \<open>receiveasset\<close> stores
  for the transfer it expects.
\<close>

type_synonym graph_seal = "outpoint \<times> u64"

record blinded_info =
  bi_contract_id :: "contract_id option"
  bi_seal :: graph_seal
  bi_consumed :: bool

text \<open>An output of a contract's history.\<close>

record fungible_output =
  fo_opout :: bytes
  fo_seal :: outpoint
  fo_value :: u64

text \<open>Where a transition assigns an amount: an output of the wallet, the receiver's seal, or an
  output of the transaction itself.\<close>

datatype rgb_seal = AtOutpoint outpoint | AtConcealed bytes | AtVout u32

text \<open>A transaction the wallet is asked to build.\<close>

record tx_request =
  tx_add_utxos :: "outpoint list"
  tx_unspendable :: "outpoint list"
  tx_recipients :: "(bytes \<times> u64) list"
  tx_data :: bool
  tx_manually_selected_only :: bool
  tx_drain :: bool

text \<open>The fields of LDK's data the program reads or writes.\<close>

record forwarding_info =
  fi_fee_base_msat :: u32
  fi_fee_proportional_millionths :: u32
  fi_cltv_expiry_delta :: u16

record channel_details =
  cd_channel_id :: channel_id
  cd_counterparty :: pubkey
  cd_short_channel_id :: "u64 option"
  cd_forwarding_info :: "forwarding_info option"
  cd_is_usable :: bool
  cd_balance_msat :: u64
  cd_funding_txid :: "txid option"
  cd_is_channel_ready :: bool
  cd_channel_value_satoshis :: u64
  cd_outbound_capacity_msat :: u64
  cd_inbound_capacity_msat :: u64
  cd_is_public :: bool

record invoice =
  inv_payment_hash :: bytes
  inv_payment_secret :: bytes
  inv_amount_msat :: "u64 option"
  inv_rgb_contract_id :: "contract_id option"
  inv_rgb_amount :: "u64 option"
  inv_payee :: pubkey
  inv_is_expired :: bool

record hop =
  hop_pubkey :: pubkey
  hop_scid :: u64
  hop_fee_msat :: u64
  hop_rgb_amount :: "u64 option"
  hop_payment_amount :: u64

record hint_hop =
  hh_src_node_id :: pubkey
  hh_short_channel_id :: u64
  hh_cltv_expiry_delta :: u16
  hh_base_msat :: u32
  hh_proportional_millionths :: u32

type_synonym path = "hop list"
type_synonym route = "path list"

record route_request =
  rr_start :: pubkey
  rr_dest :: pubkey
  rr_asset_id :: "contract_id option"
  rr_final_value_msat :: u64
  rr_hints :: "hint_hop list"

datatype network = Bitcoin | Testnet | Regtest | Signet

subsection \<open>Screen and calls\<close>

text \<open>
  One constructor for each text the modelled code prints; the error texts of the command
  line carry the command they belong to.
\<close>

datatype (plugins only: code size) msg =
    MReceivedPayment bytes u64 | MClaimedPayment bytes u64 | MClaimedEnd
  | MSentPayment "u64 option" "u64 option" bytes bytes
  | MPaymentFailed bytes
  | MInitiatedSending u64 pubkey | MSendFailed | MInitiatedSwap
  | MNoPreimage | MNoPathTakerToUs | MNoPathToTaker | MNoPath
  | MInvoice bytes | MInvoiceFailed
  | MStatusExpired | MStatusPending | MStatusSucceeded | MStatusFailed | MUnknownInvoice
  | MSwapRequested | MNotWhitelisted | MSwapMismatch | MSwapForwarding
  | MSwapString string | MPaymentSecret bytes | MTradeWhitelisted | MOurPk pubkey
  | MLine string | MInfo string | MBlindedUtxo string | MAssetId contract_id | MAssetBalance u64 | MTxid txid
  | MWarning string | MError string

datatype (plugins only: code size) effect =
    Print msg
  \<comment> \<open>LDK\<close>
  | ClaimFunds bytes
  | PayInvoice bytes
  | SendSpontaneousWithRetry bytes bytes pubkey u64
  | SendSpontaneous route bytes bytes
  | WriteRgbPaymentInfo bytes contract_id u64 "u64 option"
  | CreateInvoice u64 u32 "contract_id option" "u64 option"
  | CreateInboundPayment u64 u32
  | FindRoute route_request
  | FailIntercepted bytes
  | ForwardIntercepted bytes u64 u64 "u64 option"
  | CreateChannel pubkey u64 u64 bool bool
  | CloseChannel channel_id pubkey
  | ForceCloseChannel channel_id pubkey
  | FundingGenerated channel_id pubkey txid
  | SendOnionMessage "pubkey list" pubkey u64 bytes
  | ProcessPendingHtlcForwards
  \<comment> \<open>the peers\<close>
  | ConnectOutbound pubkey sockaddr
  | DisconnectPeer pubkey
  | DisconnectAllPeers | SetupInbound
  | BroadcastAnnouncement bytes "(bytes \<times> u16) list"
  | StopBackground
  \<comment> \<open>the bdk wallet and the chain\<close>
  | LockWallet | UnlockWallet | SyncWallet | NewAddress
  | BuildTx tx_request
  | SignTx | BroadcastTx txid
  | GenerateBlocks u16
  \<comment> \<open>the RGB runtime and the proxy\<close>
  | GetRuntime | DropRuntime
  | IssueContract u64 outpoint string string u8 u32
  | StoreSealSecret graph_seal
  | SendRgb contract_id "(rgb_seal \<times> u64) list"
  | ImportContract | AcceptTransfer | ConsumeTransfer txid
  | SaveConsignment string | PostConsignment string | GetConsignment string
  | RemoveBlinded string
  | SignMessage bytes

text \<open>The answers of LDK.\<close>

record ldk =
  our_node_id :: pubkey
  list_channels :: "effect list \<Rightarrow> channel_details list"
  list_usable_channels :: "effect list \<Rightarrow> channel_details list"
  pay_invoice_ok :: "effect list \<Rightarrow> invoice \<Rightarrow> bool"
  send_spontaneous_retry_ok :: "effect list \<Rightarrow> bytes \<Rightarrow> pubkey \<Rightarrow> u64 \<Rightarrow> bool"
  send_spontaneous_ok :: "effect list \<Rightarrow> route \<Rightarrow> bytes \<Rightarrow> bool"
  create_invoice :: "effect list \<Rightarrow> u64 \<Rightarrow> u32 \<Rightarrow> contract_id option \<Rightarrow> u64 option \<Rightarrow> invoice option"
  create_inbound_payment :: "effect list \<Rightarrow> u64 \<Rightarrow> u32 \<Rightarrow> (bytes \<times> bytes) option"
  get_payment_preimage :: "effect list \<Rightarrow> bytes \<Rightarrow> bytes \<Rightarrow> bytes option"
  find_route :: "effect list \<Rightarrow> route_request \<Rightarrow> route option"
  fail_intercepted_ok :: "effect list \<Rightarrow> bytes \<Rightarrow> bool"
  forward_intercepted_ok :: "effect list \<Rightarrow> bytes \<Rightarrow> bool"
  create_channel :: "effect list \<Rightarrow> pubkey \<Rightarrow> u64 \<Rightarrow> u64 \<Rightarrow> channel_id option"
  close_channel_ok :: "effect list \<Rightarrow> channel_id \<Rightarrow> pubkey \<Rightarrow> bool"
  force_close_channel_ok :: "effect list \<Rightarrow> channel_id \<Rightarrow> pubkey \<Rightarrow> bool"
  funding_generated_ok :: "effect list \<Rightarrow> channel_id \<Rightarrow> pubkey \<Rightarrow> txid \<Rightarrow> bool"
  peer_node_ids :: "effect list \<Rightarrow> pubkey list"
  connection :: "effect list \<Rightarrow> pubkey \<Rightarrow> sockaddr \<Rightarrow> (bool \<times> bool) list option"

subsection \<open>The node\<close>

record node =
  inbound_payments :: payment_storage
  outbound_payments :: payment_storage
  whitelisted_trades :: trades
  maker_trades :: trades
  rgb_channel_files :: "channel_id \<rightharpoonup> rgb_info"
  rgb_utxos :: "rgb_utxo list"
  channel_peer_data :: "string option"
  blinded_utxos :: "string \<rightharpoonup> blinded_info"
  intermediate_db :: "bytes option"
  trace :: "effect list"

text \<open>
  How an operation ends: it returns and the loop goes on, it leaves the command loop, it
  panics, which aborts the process (both Cargo profiles set \<open>panic = "abort"\<close>), or it waits
  for ever.
\<close>

datatype flow = Continue (flow_state: node) | Break (flow_state: node) | Abort (flow_state: node)
  | Hang (flow_state: node)

definition emit :: "effect \<Rightarrow> node \<Rightarrow> node" where
  "emit e s = s\<lparr>trace := trace s @ [e]\<rparr>"

abbreviation println :: "msg \<Rightarrow> node \<Rightarrow> node" where
  "println m \<equiv> emit (Print m)"

lemma emit_simps [simp]:
  "inbound_payments (emit e s) = inbound_payments s"
  "outbound_payments (emit e s) = outbound_payments s"
  "whitelisted_trades (emit e s) = whitelisted_trades s"
  "maker_trades (emit e s) = maker_trades s"
  "rgb_channel_files (emit e s) = rgb_channel_files s"
  "rgb_utxos (emit e s) = rgb_utxos s"
  "channel_peer_data (emit e s) = channel_peer_data s"
  "blinded_utxos (emit e s) = blinded_utxos s"
  "intermediate_db (emit e s) = intermediate_db s"
  "trace (emit e s) = trace s @ [e]"
  by (simp_all add: emit_def)

text \<open>What an operation added to the trace.\<close>

definition new_effects :: "node \<Rightarrow> flow \<Rightarrow> effect list" where
  "new_effects s f = drop (length (trace s)) (trace (flow_state f))"

subsection \<open>A concrete environment\<close>

text \<open>The effects that resolve an intercepted HTLC.\<close>

fun resolves :: "bytes \<Rightarrow> effect \<Rightarrow> bool" where
  "resolves iid (FailIntercepted i) = (i = iid)"
| "resolves iid (ForwardIntercepted i _ _ _) = (i = iid)"
| "resolves iid _ = False"

text \<open>
  An LDK for the concrete runs: channels 1 and 2, everything accepted, an intercepted HTLC
  resolved at most once.
\<close>

definition sample_channel :: "u64 \<Rightarrow> channel_details" where
  "sample_channel scid = \<lparr>cd_channel_id = [of_nat (unat scid)], cd_counterparty = [9],
     cd_short_channel_id = Some scid,
     cd_forwarding_info = Some \<lparr>fi_fee_base_msat = 1, fi_fee_proportional_millionths = 2,
                                fi_cltv_expiry_delta = 3\<rparr>,
     cd_is_usable = True, cd_balance_msat = 0,
     cd_funding_txid = None, cd_is_channel_ready = True, cd_channel_value_satoshis = 30000,
     cd_outbound_capacity_msat = 0, cd_inbound_capacity_msat = 0, cd_is_public = True\<rparr>"

definition sample_ldk :: ldk where
  "sample_ldk = \<lparr>our_node_id = [1],
     list_channels = (\<lambda>_. [sample_channel 1, sample_channel 2]),
     list_usable_channels = (\<lambda>_. [sample_channel 1, sample_channel 2]),
     pay_invoice_ok = (\<lambda>_ _. True), send_spontaneous_retry_ok = (\<lambda>_ _ _ _. True),
     send_spontaneous_ok = (\<lambda>_ _ _. True),
     create_invoice = (\<lambda>_ _ _ _ _. None), create_inbound_payment = (\<lambda>_ _ _. Some ([5], [6])),
     get_payment_preimage = (\<lambda>_ _ _. Some [7]), find_route = (\<lambda>_ _. None),
     fail_intercepted_ok = (\<lambda>tr iid. \<not> list_ex (resolves iid) tr),
     forward_intercepted_ok = (\<lambda>tr iid. \<not> list_ex (resolves iid) tr),
     create_channel = (\<lambda>_ _ _ _. Some [4]), close_channel_ok = (\<lambda>_ _ _. True),
     force_close_channel_ok = (\<lambda>_ _ _. True), funding_generated_ok = (\<lambda>_ _ _ _. True),
     peer_node_ids = (\<lambda>_. []), connection = (\<lambda>_ _ _. Some [(False, True)])\<rparr>"

definition sample_node :: node where
  "sample_node = \<lparr>inbound_payments = Map.empty, outbound_payments = Map.empty,
     whitelisted_trades = Map.empty, maker_trades = Map.empty,
     rgb_channel_files = [[1] \<mapsto> \<lparr>ri_contract_id = [42], ri_local_rgb_amount = 50,
                                  ri_remote_rgb_amount = 50\<rparr>],
     rgb_utxos = [], channel_peer_data = None, blinded_utxos = Map.empty, intermediate_db = None,
     trace = []\<rparr>"

end
