(* ===== verification/Args.thy ===== *)
theory Args
  imports Node
begin

text \<open>
  The command line of the node (\<open>src/args.rs\<close>): the bitcoind URL and its credentials (from the URL,
  the environment, the \<open>.env\<close> file or bitcoind's cookie), the storage directory, the peer port, the
  network, the announced name and addresses. A file, a variable or the home directory that cannot be
  read as text is \<^term>\<open>None\<close>; the standard library's parser of IP addresses is a parameter.
\<close>

subsection \<open>The environment of the process\<close>

datatype ip_addr = V4 bytes | V6 bytes

datatype net_address = IPv4 bytes u16 | IPv6 bytes u16

record process_env =
  env_args :: "string list"
  env_var :: "string \<rightharpoonup> string"
  env_file :: "string \<rightharpoonup> string"
  home_dir :: "string option"
  parse_ip :: "string \<Rightarrow> ip_addr option"

record ldk_user_info =
  bitcoind_rpc_username :: string
  bitcoind_rpc_password :: string
  bitcoind_rpc_port :: u16
  bitcoind_rpc_host :: string
  ldk_storage_dir_path :: string
  ldk_peer_listening_port :: u16
  ldk_announced_listen_addr :: "net_address list"
  ldk_announced_node_name :: bytes
  user_network :: network

datatype arg_msg = MUsage | MBadRpcPath | MBadCombo | MBadEnvFile | MNoCredentials | MRpcHelp string

datatype startup = Started ldk_user_info | Refused | Panicked

subsection \<open>Credentials\<close>

definition DEFAULT_BITCOIN_DATADIR :: string where
  "DEFAULT_BITCOIN_DATADIR = ''.bitcoin''"

definition BITCOIND_RPC_USER_KEY :: string where
  "BITCOIND_RPC_USER_KEY = ''RPC_USER''"

definition BITCOIND_RPC_PASSWORD_KEY :: string where
  "BITCOIND_RPC_PASSWORD_KEY = ''RPC_PASSWORD''"

text \<open>\<open>PathBuf::join\<close>: an absolute path replaces, otherwise one slash is between the parts.\<close>

definition path_join :: "string \<Rightarrow> string \<Rightarrow> string" where
  "path_join p q =
     (if q \<noteq> [] \<and> hd q = CHR ''/'' then q
      else if p = [] \<or> last p = CHR ''/'' then p @ q
      else p @ ''/'' @ q)"

definition print_rpc_auth_help :: "process_env \<Rightarrow> arg_msg list" where
  "print_rpc_auth_help env =
     (let home = map (\<lambda>c. if c = CHR 0x5C then CHR ''/'' else c)
                   (case home_dir env of None \<Rightarrow> ''$HOME'' | Some p \<Rightarrow> p)
      in [MRpcHelp (home @ ''/'' @ DEFAULT_BITCOIN_DATADIR)])"

text \<open>Each reader of credentials returns what it printed and the pair, if any.\<close>

type_synonym credentials = "arg_msg list \<times> (string \<times> string) option"

definition parse_rpc_auth :: "string \<Rightarrow> credentials" where
  "parse_rpc_auth rpc_auth =
     (case split_on (CHR '':'') rpc_auth of
        [rpc_username, rpc_password] \<Rightarrow> ([], Some (rpc_username, rpc_password))
      | _ \<Rightarrow> ([MBadCombo], None))"

definition get_cookie_path ::
  "process_env \<Rightarrow> (string \<times> bool) option \<Rightarrow> network option \<Rightarrow> string option \<Rightarrow> string option" where
  "get_cookie_path env data_dir net cookie_file_name =
     (let cookie = (case cookie_file_name of None \<Rightarrow> ''.cookie'' | Some n \<Rightarrow> n);
          data_dir_path = (case data_dir of
             Some (dir, True) \<Rightarrow> map_option (\<lambda>h. path_join h dir) (home_dir env)
           | Some (dir, False) \<Rightarrow> Some dir
           | None \<Rightarrow> map_option (\<lambda>h. path_join h DEFAULT_BITCOIN_DATADIR) (home_dir env))
      in map_option (\<lambda>d. path_join (case net of
             Some Testnet \<Rightarrow> path_join d ''testnet3''
           | Some Regtest \<Rightarrow> path_join d ''regtest''
           | Some Signet \<Rightarrow> path_join d ''signet''
           | _ \<Rightarrow> d) cookie) data_dir_path)"

definition get_rpc_auth_from_cookie ::
  "process_env \<Rightarrow> (string \<times> bool) option \<Rightarrow> network option \<Rightarrow> string option \<Rightarrow> credentials" where
  "get_rpc_auth_from_cookie env data_dir net cookie_file_name =
     (case get_cookie_path env data_dir net cookie_file_name of
        None \<Rightarrow> ([], None)
      | Some cookie_path \<Rightarrow>
          (case env_file env cookie_path of
             None \<Rightarrow> ([], None)
           | Some cookie_contents \<Rightarrow> parse_rpc_auth cookie_contents))"

definition get_rpc_auth_from_env_vars :: "process_env \<Rightarrow> credentials" where
  "get_rpc_auth_from_env_vars env =
     ([], case (env_var env BITCOIND_RPC_USER_KEY, env_var env BITCOIND_RPC_PASSWORD_KEY) of
            (Some username, Some password) \<Rightarrow> Some (username, password)
          | _ \<Rightarrow> None)"

fun env_lines :: "(string \<rightharpoonup> string) \<Rightarrow> string list \<Rightarrow> (string \<rightharpoonup> string) option" where
  "env_lines env_file_map [] = Some env_file_map"
| "env_lines env_file_map (line # rest) =
     (case splitn2 (CHR ''='') line of
        [k, v] \<Rightarrow> env_lines (env_file_map(k \<mapsto> v)) rest
      | _ \<Rightarrow> None)"

definition parse_env_file :: "process_env \<Rightarrow> string option \<Rightarrow> arg_msg list \<times> (string \<rightharpoonup> string) option" where
  "parse_env_file env env_file_name =
     (case env_file env (case env_file_name of Some filename \<Rightarrow> filename | None \<Rightarrow> ''.env'') of
        None \<Rightarrow> ([], None)
      | Some env_file_contents \<Rightarrow>
          (case env_lines Map.empty (lines env_file_contents) of
             None \<Rightarrow> ([MBadEnvFile], None)
           | Some m \<Rightarrow> ([], Some m)))"

definition get_rpc_auth_from_env_file :: "process_env \<Rightarrow> string option \<Rightarrow> credentials" where
  "get_rpc_auth_from_env_file env env_file_name =
     (case parse_env_file env env_file_name of
        (ms, None) \<Rightarrow> (ms, None)
      | (ms, Some m) \<Rightarrow>
          (ms, case (m BITCOIND_RPC_USER_KEY, m BITCOIND_RPC_PASSWORD_KEY) of
                 (Some username, Some password) \<Rightarrow> Some (username, password)
               | _ \<Rightarrow> None))"

text \<open>\<open>Result::or\<close> evaluates its argument before the call: what the argument prints is printed.\<close>

definition cred_or :: "credentials \<Rightarrow> credentials \<Rightarrow> credentials" where
  "cred_or a b = (fst a @ fst b, case snd a of Some c \<Rightarrow> Some c | None \<Rightarrow> snd b)"

definition find_credentials :: "process_env \<Rightarrow> network \<Rightarrow> credentials" where
  "find_credentials env net =
     cred_or (cred_or (cred_or (get_rpc_auth_from_env_vars env)
                               (get_rpc_auth_from_env_file env None))
                      (get_rpc_auth_from_cookie env None (Some net) None))
             (MNoCredentials # print_rpc_auth_help env, None)"

subsection \<open>The arguments\<close>

text \<open>\<open>env::args().skip(n).next()\<close>.\<close>

definition arg :: "process_env \<Rightarrow> nat \<Rightarrow> string option" where
  "arg env n = (case drop n (env_args env) of [] \<Rightarrow> None | a # _ \<Rightarrow> Some a)"

definition network_arg :: "string option \<Rightarrow> network option" where
  "network_arg a =
     (case a of
        None \<Rightarrow> Some Testnet
      | Some net \<Rightarrow>
          if net = ''testnet'' then Some Testnet
          else if net = ''regtest'' then Some Regtest
          else if net = ''signet'' then Some Signet
          else None)"

definition node_name :: "string \<Rightarrow> bytes option" where
  "node_name s = (if 32 < length s then None
                  else Some (map byte_of s @ replicate (32 - length s) 0))"

fun listen_addrs :: "(string \<Rightarrow> ip_addr option) \<Rightarrow> u16 \<Rightarrow> string list \<Rightarrow> net_address list option" where
  "listen_addrs ip port [] = Some []"
| "listen_addrs ip port (s # rest) =
     (case ip s of
        Some (V4 a) \<Rightarrow> map_option (\<lambda>l. IPv4 a port # l) (listen_addrs ip port rest)
      | Some (V6 a) \<Rightarrow> map_option (\<lambda>l. IPv6 a port # l) (listen_addrs ip port rest)
      | None \<Rightarrow> None)"

definition parse_startup_args :: "process_env \<Rightarrow> arg_msg list \<times> startup" where
  "parse_startup_args env =
     (case env_args env of
        _ # bitcoind_rpc_info # storage # third # _ \<Rightarrow>
          (let parts = rsplitn2 (CHR ''@'') bitcoind_rpc_info in
           (case split_on (CHR '':'') (hd parts) of
              [host, port_str] \<Rightarrow>
                (case parse_word port_str of
                   None \<Rightarrow> ([], Panicked)
                 | Some port \<Rightarrow>
                     (let (peer_port, arg_idx) =
                            (case parse_word third of Some p \<Rightarrow> (p, 4) | None \<Rightarrow> (9735, 3)) in
                      (case network_arg (arg env arg_idx) of
                         None \<Rightarrow> ([], Panicked)
                       | Some net \<Rightarrow>
                           (let (ms, creds) =
                                  (case parts of
                                     [_] \<Rightarrow> find_credentials env net
                                   | _ # auth # _ \<Rightarrow> parse_rpc_auth auth
                                   | [] \<Rightarrow> ([], None)) in
                            (case creds of
                               None \<Rightarrow> (ms, Refused)
                             | Some (user, password) \<Rightarrow>
                                 (let name_and_idx =
                                        (case arg env (arg_idx + 1) of
                                           None \<Rightarrow> Some (replicate 32 0, arg_idx)
                                         | Some s \<Rightarrow> map_option (\<lambda>n. (n, arg_idx + 1)) (node_name s)) in
                                  (case name_and_idx of
                                     None \<Rightarrow> (ms, Panicked)
                                   | Some (name, arg_idx) \<Rightarrow>
                                       (case listen_addrs (parse_ip env) peer_port
                                               (drop (arg_idx + 1) (env_args env)) of
                                          None \<Rightarrow> (ms, Panicked)
                                        | Some addrs \<Rightarrow>
                                            (ms, Started
                                              \<lparr>bitcoind_rpc_username = user,
                                               bitcoind_rpc_password = password,
                                               bitcoind_rpc_port = port,
                                               bitcoind_rpc_host = host,
                                               ldk_storage_dir_path = storage,
                                               ldk_peer_listening_port = peer_port,
                                               ldk_announced_listen_addr = addrs,
                                               ldk_announced_node_name = name,
                                               user_network = net\<rparr>)))))))))
            | _ \<Rightarrow> ([MBadRpcPath], Refused)))
      | _ \<Rightarrow> ([MUsage], Refused))"

subsection \<open>Facts\<close>

lemma parse_rpc_auth_Some:
  "snd (parse_rpc_auth s) = Some (u, p) \<longleftrightarrow> s = u @ '':'' @ p \<and> CHR '':'' \<notin> set u \<and> CHR '':'' \<notin> set p"
proof
  assume "snd (parse_rpc_auth s) = Some (u, p)"
  then have sp: "split_on (CHR '':'') s = [u, p]"
    by (auto simp: parse_rpc_auth_def split: list.splits)
  then have free: "CHR '':'' \<notin> set u" "CHR '':'' \<notin> set p"
    using split_on_pieces_free [of _ "CHR '':''" s] by auto
  have "CHR '':'' \<in> set s"
  proof (rule ccontr)
    assume "CHR '':'' \<notin> set s"
    with sp show False by (simp add: split_on_free)
  qed
  then obtain a b where ab: "s = a @ CHR '':'' # b" "CHR '':'' \<notin> set a" by (meson split_list_first)
  with sp have "a = u" "split_on (CHR '':'') b = [p]" by (simp_all add: split_on_append)
  moreover have "b = p"
  proof (cases "CHR '':'' \<in> set b")
    case True
    then obtain c d where "b = c @ CHR '':'' # d" "CHR '':'' \<notin> set c" by (meson split_list_first)
    with \<open>split_on (CHR '':'') b = [p]\<close> show ?thesis by (simp add: split_on_append)
  qed (use \<open>split_on (CHR '':'') b = [p]\<close> in \<open>simp add: split_on_free\<close>)
  ultimately show "s = u @ '':'' @ p \<and> CHR '':'' \<notin> set u \<and> CHR '':'' \<notin> set p" using ab free by simp
qed (auto simp: parse_rpc_auth_def str_simps)

definition addr_of :: "(string \<Rightarrow> ip_addr option) \<Rightarrow> u16 \<Rightarrow> string \<Rightarrow> net_address" where
  "addr_of ip port s = (case ip s of Some (V6 a) \<Rightarrow> IPv6 a port | Some (V4 a) \<Rightarrow> IPv4 a port
                        | None \<Rightarrow> IPv4 [] port)"

lemma listen_addrs_all:
  "(\<forall>s\<in>set ss. ip s \<noteq> None) \<Longrightarrow> listen_addrs ip port ss = Some (map (addr_of ip port) ss)"
  by (induction ss) (auto simp: addr_of_def split: ip_addr.splits)

lemma find_credentials_reports: "MNoCredentials \<in> set (fst (find_credentials env net))"
  by (simp add: find_credentials_def cred_or_def)

lemma network_arg_not_mainnet: "network_arg a = Some net \<Longrightarrow> net \<noteq> Bitcoin"
  by (auto simp: network_arg_def split: option.splits if_splits)

lemma rsplitn2_single: "rsplitn2 c s = [x] \<longleftrightarrow> c \<notin> set s \<and> x = s"
  using rsplitn2_length [of c s] by (cases "c \<in> set s") (auto simp: rsplitn2_free)

text \<open>What a run that starts the node has read.\<close>

lemma started:
  assumes "parse_startup_args env = (ms, Started u)"
  shows "\<exists>prog url storage third rest idx.
      env_args env = prog # url # storage # third # rest \<and>
      network_arg (arg env idx) = Some (user_network u) \<and>
      (ms, Some (bitcoind_rpc_username u, bitcoind_rpc_password u)) =
        (case rsplitn2 (CHR ''@'') url of
           [_] \<Rightarrow> find_credentials env (user_network u)
         | _ # auth # _ \<Rightarrow> parse_rpc_auth auth
         | [] \<Rightarrow> ([], None))"
proof -
  obtain prog url storage third rest where a: "env_args env = prog # url # storage # third # rest"
    using assms by (auto simp: parse_startup_args_def split: list.splits)
  obtain host port_str where h: "split_on (CHR '':'') (hd (rsplitn2 (CHR ''@'') url)) = [host, port_str]"
    using assms by (auto simp: parse_startup_args_def a Let_def split: list.splits)
  obtain port :: u16 where p: "parse_word port_str = Some port"
    using assms by (auto simp: parse_startup_args_def a h Let_def split: option.splits)
  obtain peer_port :: u16 and idx :: nat where
    i: "(case parse_word third of Some p \<Rightarrow> (p, 4) | None \<Rightarrow> (9735, 3)) = (peer_port, idx)"
    by (meson surj_pair)
  obtain net where n: "network_arg (arg env idx) = Some net"
    using assms by (auto simp: parse_startup_args_def a h p i split: option.splits)
  obtain m creds where
    c: "(case rsplitn2 (CHR ''@'') url of [_] \<Rightarrow> find_credentials env net
         | _ # auth # _ \<Rightarrow> parse_rpc_auth auth | [] \<Rightarrow> ([], None)) = (m, creds)"
    by (meson surj_pair)
  have "m = ms \<and> creds = Some (bitcoind_rpc_username u, bitcoind_rpc_password u) \<and> net = user_network u"
    using assms by (auto simp: parse_startup_args_def a h p i n c Let_def split: option.splits)
  with a n c show ?thesis by auto
qed

subsection \<open>Properties\<close>

text \<open>
  The node never starts on the main network, whatever its arguments, environment and files.
\<close>

theorem never_starts_on_mainnet: "snd (parse_startup_args env) = Started u \<Longrightarrow> user_network u \<noteq> Bitcoin"
  using started [of env "fst (parse_startup_args env)" u] network_arg_not_mainnet
  by (cases "parse_startup_args env") force

definition sample_env :: process_env where
  "sample_env = \<lparr>env_args = [''node'', ''u:p@h:8332'', ''dir'', ''9735'', ''regtest'', ''al'', ''1.2.3.4''],
     env_var = Map.empty, env_file = Map.empty, home_dir = Some ''/root'',
     parse_ip = (\<lambda>s. if s = ''1.2.3.4'' then Some (V4 [1, 2, 3, 4]) else None)\<rparr>"

theorem never_starts_on_mainnet_witness:
  "user_network \<lparr>bitcoind_rpc_username = ''u'', bitcoind_rpc_password = ''p'', bitcoind_rpc_port = 8332,
     bitcoind_rpc_host = ''h'', ldk_storage_dir_path = ''dir'', ldk_peer_listening_port = 9735,
     ldk_announced_listen_addr = [IPv4 [1, 2, 3, 4] 9735],
     ldk_announced_node_name = [97, 108] @ replicate 30 0, user_network = Regtest\<rparr> \<noteq> Bitcoin"
  by (rule never_starts_on_mainnet [of sample_env])
     (simp add: parse_startup_args_def sample_env_def rsplitn2_def splitn2_def Let_def parse_word_def
       digit_val_def arg_def network_arg_def parse_rpc_auth_def node_name_def byte_of_def)

text \<open>
  Credentials in the URL: the host follows the last at sign, so that the password may contain at
  signs; the peer port, the network, the name padded to 32 bytes and every announced address (under
  the peer port) are read as given, and nothing is printed.
\<close>

theorem startup_reads_arguments:
  assumes url: "CHR '':'' \<notin> set user \<union> set password \<union> set host" "CHR ''@'' \<notin> set host"
    and net: "network_arg (Some net_name) = Some net"
    and name: "length name \<le> 32" and ips: "\<forall>s\<in>set addrs. parse_ip env s \<noteq> None"
    and args: "env_args env = [prog, user @ '':'' @ password @ ''@'' @ host @ '':'' @ show_word (rpc_port :: u16),
       storage, show_word (peer_port :: u16), net_name, name] @ addrs"
  shows "parse_startup_args env = ([], Started
    \<lparr>bitcoind_rpc_username = user, bitcoind_rpc_password = password, bitcoind_rpc_port = rpc_port,
     bitcoind_rpc_host = host, ldk_storage_dir_path = storage, ldk_peer_listening_port = peer_port,
     ldk_announced_listen_addr = map (addr_of (parse_ip env) peer_port) addrs,
     ldk_announced_node_name = map byte_of name @ replicate (32 - length name) 0,
     user_network = net\<rparr>)"
proof -
  have at: "CHR ''@'' \<notin> set (host @ '':'' @ show_word rpc_port)"
    using url by (simp add: show_word_def digit_val_def digit_char_notin)
  have r: "rsplitn2 (CHR ''@'') (user @ '':'' @ password @ ''@'' @ host @ '':'' @ show_word rpc_port) =
      [host @ '':'' @ show_word rpc_port, user @ '':'' @ password]"
    using rsplitn2_append [OF at, of "user @ '':'' @ password"] by simp
  have h: "split_on (CHR '':'') (host @ '':'' @ show_word rpc_port) = [host, show_word rpc_port]"
    using url by (simp add: split_on_append split_on_free show_word_def digit_val_def digit_char_notin)
  have c: "parse_rpc_auth (user @ '':'' @ password) = ([], Some (user, password))"
    using url by (simp add: parse_rpc_auth_def str_simps)
  have d: "drop 6 (env_args env) = addrs" "arg env 5 = Some name" "arg env 4 = Some net_name"
    using args by (simp_all add: arg_def)
  show ?thesis
    using name net d by (simp add: parse_startup_args_def args r [simplified] h [simplified]
        c [simplified] Let_def node_name_def
        listen_addrs_all [OF ips])
qed

theorem startup_reads_arguments_witness:
  "parse_startup_args sample_env = ([], Started
    \<lparr>bitcoind_rpc_username = ''u'', bitcoind_rpc_password = ''p'', bitcoind_rpc_port = 8332,
     bitcoind_rpc_host = ''h'', ldk_storage_dir_path = ''dir'', ldk_peer_listening_port = 9735,
     ldk_announced_listen_addr = map (addr_of (parse_ip sample_env) 9735) [''1.2.3.4''],
     ldk_announced_node_name = map byte_of ''al'' @ replicate (32 - length ''al'') 0,
     user_network = Regtest\<rparr>)"
proof -
  have s: "show_nat 8332 = ''8332''" "show_nat 9735 = ''9735''"
    by (simp_all add: show_nat.simps digit_char_def char_of_def bit_Suc_0_iff)
  show ?thesis
    by (rule startup_reads_arguments) (simp_all add: sample_env_def network_arg_def show_word_def s)
qed

definition configured_credentials :: "process_env \<Rightarrow> network \<Rightarrow> (string \<times> string) option" where
  "configured_credentials env net =
     (let pair = (\<lambda>m. case (m ''RPC_USER'', m ''RPC_PASSWORD'') of
                          (Some user, Some password) \<Rightarrow> Some (user, password) | _ \<Rightarrow> None);
          file_pair = (case snd (parse_env_file env (Some ''.env'')) of None \<Rightarrow> None | Some m \<Rightarrow> pair m);
          cookie_pair = snd (get_rpc_auth_from_cookie env None (Some net) None)
      in if pair (env_var env) \<noteq> None then pair (env_var env)
         else if file_pair \<noteq> None then file_pair else cookie_pair)"

text \<open>
  Without credentials in the URL the environment variables win over the \<open>.env\<close> file, and that
  over the cookie of the network's data directory; and the error text about missing credentials with
  its help is printed even when credentials were found and the node starts.
\<close>

theorem credential_sources:
  assumes "env_args env = prog # url # rest" and "CHR ''@'' \<notin> set url"
    and "parse_startup_args env = (ms, Started u)"
  shows "Some (bitcoind_rpc_username u, bitcoind_rpc_password u) = configured_credentials env (user_network u) \<and>
    MNoCredentials \<in> set ms"
proof
  have "rsplitn2 (CHR ''@'') url = [url]" using assms(2) by (rule rsplitn2_free)
  with started [OF assms(3)] assms(1)
  have f: "find_credentials env (user_network u) =
      (ms, Some (bitcoind_rpc_username u, bitcoind_rpc_password u))" by auto
  then show "MNoCredentials \<in> set ms"
    using find_credentials_reports [of env "user_network u"] by simp
  have "Some (bitcoind_rpc_username u, bitcoind_rpc_password u) = snd (find_credentials env (user_network u))"
    using f by simp
  then show "Some (bitcoind_rpc_username u, bitcoind_rpc_password u) = configured_credentials env (user_network u)"
    by (auto simp: configured_credentials_def find_credentials_def cred_or_def get_rpc_auth_from_env_vars_def
        get_rpc_auth_from_env_file_def parse_env_file_def BITCOIND_RPC_USER_KEY_def Let_def
        BITCOIND_RPC_PASSWORD_KEY_def split: option.splits prod.splits)
qed

definition env_of_args :: process_env where
  "env_of_args = \<lparr>env_args = [''node'', ''h:1'', ''dir'', ''signet''],
     env_var = [''RPC_USER'' \<mapsto> ''u'', ''RPC_PASSWORD'' \<mapsto> ''p''], env_file = [''.env'' \<mapsto> ''bad''],
     home_dir = None, parse_ip = (\<lambda>_. None)\<rparr>"

theorem credential_sources_witness:
  "configured_credentials env_of_args Signet = Some (''u'', ''p'') \<and>
   MNoCredentials \<in> set [MBadEnvFile, MNoCredentials, MRpcHelp ''$HOME/.bitcoin'']"
proof -
  have p: "parse_startup_args env_of_args =
      ([MBadEnvFile, MNoCredentials, MRpcHelp ''$HOME/.bitcoin''],
       Started \<lparr>bitcoind_rpc_username = ''u'', bitcoind_rpc_password = ''p'', bitcoind_rpc_port = 1,
         bitcoind_rpc_host = ''h'', ldk_storage_dir_path = ''dir'', ldk_peer_listening_port = 9735,
         ldk_announced_listen_addr = [], ldk_announced_node_name = replicate 32 0, user_network = Signet\<rparr>)"
    by (simp add: parse_startup_args_def env_of_args_def rsplitn2_def splitn2_def Let_def parse_word_def
       digit_val_def arg_def network_arg_def find_credentials_def cred_or_def get_rpc_auth_from_env_vars_def
       get_rpc_auth_from_env_file_def parse_env_file_def lines_def newline_def get_rpc_auth_from_cookie_def
       get_cookie_path_def print_rpc_auth_help_def BITCOIND_RPC_USER_KEY_def BITCOIND_RPC_PASSWORD_KEY_def
       DEFAULT_BITCOIN_DATADIR_def)
  show ?thesis
    using credential_sources [OF _ _ p, of "''node''" "''h:1''" "[''dir'', ''signet'']"]
    by (simp add: env_of_args_def)
qed

definition env_text :: "(string \<times> string) list \<Rightarrow> string" where
  "env_text kvs = concat (map (\<lambda>(k, v). k @ ''='' @ v @ [newline]) kvs)"

definition env_entry_ok :: "string \<times> string \<Rightarrow> bool" where
  "env_entry_ok kv \<longleftrightarrow> CHR ''='' \<notin> set (fst kv) \<and> set (fst kv @ snd kv) \<inter> {newline, CHR 0x0D} = {}"

lemma lines_env_text:
  "\<forall>kv\<in>set kvs. env_entry_ok kv \<Longrightarrow>
     lines (env_text kvs @ t) = map (\<lambda>(k, v). k @ ''='' @ v) kvs @ lines t"
proof (induction kvs)
  case (Cons kv kvs)
  obtain k v where kv: "kv = (k, v)" by force
  have "newline \<notin> set (k @ CHR ''='' # v)" "CHR 0x0D \<notin> set (k @ CHR ''='' # v)"
    using Cons.prems kv by (auto simp: env_entry_ok_def newline_def)
  then have "lines ((k @ CHR ''='' # v) @ newline # s) = (k @ CHR ''='' # v) # lines s" for s
    using lines_Cons strip_cr_id by metis
  then show ?case using Cons kv by (simp add: env_text_def)
qed (simp add: env_text_def)

lemma env_lines_entries:
  "\<forall>kv\<in>set kvs. env_entry_ok kv \<Longrightarrow>
     env_lines m (map (\<lambda>(k, v). k @ ''='' @ v) kvs @ ls) = env_lines (m ++ map_of (rev kvs)) ls"
proof (induction kvs arbitrary: m)
  case (Cons kv kvs)
  obtain k v where kv: "kv = (k, v)" by force
  have "splitn2 (CHR ''='') (k @ CHR ''='' # v) = [k, v]"
    using Cons.prems kv by (intro splitn2_append) (simp add: env_entry_ok_def)
  then show ?case using Cons kv by (simp add: map_add_upd_left map_add_assoc [symmetric])
qed simp

text \<open>
  A \<open>.env\<close> file written as one \<open>key=value\<close> line per entry is read back as the map in which the
  last entry of a key wins (values may contain equals signs); one line without an equals sign, a blank
  line or a comment say, and the whole file is rejected.
\<close>

theorem env_file_read_back:
  assumes "\<forall>kv\<in>set kvs. env_entry_ok kv"
    and "env_file env ''.env'' = Some (env_text kvs @ rest)"
  shows "parse_env_file env None =
    (case env_lines (map_of (rev kvs)) (lines rest) of
       Some m \<Rightarrow> ([], Some m) | None \<Rightarrow> ([MBadEnvFile], None)) \<and>
    (rest = [] \<longrightarrow> snd (parse_env_file env None) = Some (map_of (rev kvs))) \<and>
    (\<forall>l t. rest = l @ newline # t \<and> newline \<notin> set l \<and> CHR ''='' \<notin> set l \<longrightarrow>
       snd (parse_env_file env None) = None)"
proof -
  have p: "parse_env_file env None =
    (case env_lines (map_of (rev kvs)) (lines rest) of
       Some m \<Rightarrow> ([], Some m) | None \<Rightarrow> ([MBadEnvFile], None))"
    using env_lines_entries [OF assms(1), of Map.empty "lines rest"]
    by (simp add: parse_env_file_def assms(2) lines_env_text [OF assms(1)] split: option.splits)
  moreover have "env_lines m (strip_cr l # ls) = None" if "CHR ''='' \<notin> set l" for m l ls
  proof -
    have "CHR ''='' \<notin> set (strip_cr l)" using that by (auto simp: strip_cr_def dest: in_set_butlastD)
    then show ?thesis by (simp add: splitn2_free)
  qed
  ultimately show ?thesis by (auto simp: lines_Nil lines_Cons)
qed

theorem env_file_read_back_witness:
  "snd (parse_env_file (sample_env\<lparr>env_file := [''.env'' \<mapsto>
     env_text [(''a'', ''1''), (''a'', ''2=3'')]]\<rparr>) None) = Some (map_of [(''a'', ''2=3''), (''a'', ''1'')])"
  using env_file_read_back [of "[(''a'', ''1''), (''a'', ''2=3'')]"
      "sample_env\<lparr>env_file := [''.env'' \<mapsto> env_text [(''a'', ''1''), (''a'', ''2=3'')]]\<rparr>" "[]"]
  by (simp add: env_entry_ok_def newline_def lines_Nil)

end
