(* ===== verification/Json.thy ===== *)
theory Json
  imports Complex_Main Prelude
begin

text \<open>
  JSON values as serde_json gives them to the program (a number is an integer or a floating-point value), the
  accessors of \<open>serde_json::Value\<close> the conversions use, and the fields of a record as the derived
  \<open>Deserialize\<close> reads them, by its documentation: unknown fields are ignored, a repeated one is an error, a
  missing \<open>Option\<close> is \<^term>\<open>None\<close>.
\<close>

datatype json = JNull | JBool bool | JInt int | JFloat rat | JString string 
  | JArray "json list" | JObject "(string \<times> json) list"

text \<open>
  \<open>v[name]\<close>: \<open>Null\<close> where there is no such field; the accessors. The rounding of an integer to an \<open>f64\<close> is the
  parameter \<open>fl\<close>.
\<close>

fun json_index :: "string \<Rightarrow> json \<Rightarrow> json" where
  "json_index name (JObject members) = (case map_of (rev members) name of None \<Rightarrow> JNull | Some j \<Rightarrow> j)"
| "json_index name _ = JNull"

fun as_f64 :: "(rat \<Rightarrow> rat) \<Rightarrow> json \<Rightarrow> rat option" where
  "as_f64 fl (JInt i) = Some (fl (of_int i))"
| "as_f64 fl (JFloat x) = Some x"
| "as_f64 fl _ = None"

fun as_unsigned :: "json \<Rightarrow> u64 option" where
  "as_unsigned (JInt i) = (if 0 \<le> i \<and> i < 2 ^ 64 then Some (of_int i) else None)"
| "as_unsigned _ = None"

text \<open>A field of an object: \<^term>\<open>None\<close> if it is repeated.\<close>

definition json_field :: "string \<Rightarrow> (string \<times> json) list \<Rightarrow> json option option" where
  "json_field name members =
     (case filter (\<lambda>f. fst f = name) members of [] \<Rightarrow> Some None | [f] \<Rightarrow> Some (Some (snd f)) | _ \<Rightarrow> None)"

definition optional_field :: "(json \<Rightarrow> 'a option) \<Rightarrow> string \<Rightarrow> (string \<times> json) list \<Rightarrow> 'a option option" where
  "optional_field decode name members =
     (case json_field name members of
        None \<Rightarrow> None
      | Some None \<Rightarrow> Some None
      | Some (Some JNull) \<Rightarrow> Some None
      | Some (Some j) \<Rightarrow> map_option Some (decode j))"

definition required_field :: "(json \<Rightarrow> 'a option) \<Rightarrow> string \<Rightarrow> (string \<times> json) list \<Rightarrow> 'a option" where
  "required_field decode name members =
     (case json_field name members of Some (Some j) \<Rightarrow> decode j | _ \<Rightarrow> None)"

fun as_string :: "json \<Rightarrow> string option" where
  "as_string (JString s) = Some s"
| "as_string _ = None"

lemma as_string_Some: "as_string j = Some s \<longleftrightarrow> j = JString s"
  by (cases j) auto

fun as_bool :: "json \<Rightarrow> bool option" where
  "as_bool (JBool b) = Some b"
| "as_bool _ = None"

fun as_i64 :: "json \<Rightarrow> int option" where
  "as_i64 (JInt i) = (if - (2 ^ 63) \<le> i \<and> i < 2 ^ 63 then Some i else None)"
| "as_i64 _ = None"

text \<open>A list of strings.\<close>

fun as_strings :: "json \<Rightarrow> string list option" where
  "as_strings (JArray js) = those (map as_string js)"
| "as_strings _ = None"

end
