(* ===== verification/Fees.thy ===== *)
theory Fees
  imports Json
begin

text \<open>
  The fee estimator: \<open>src/bitcoind_client.rs\<close> (the three stored fee rates, the polling
  task, \<open>get_est_sat_per_1000_weight\<close>) and the conversion of bitcoind's answers in
  \<open>src/convert.rs\<close>. An \<open>f64\<close> is its exact value; the rounding of a floating-point
  operation to the nearest \<open>f64\<close> is the parameter \<open>fl\<close>.
\<close>

subsection \<open>Conversion of the answers\<close>

record fee_response =
  fr_feerate_sat_per_kw :: "u32 option"
  fr_errored :: bool

text \<open>\<open>f64::round\<close> (half away from zero) and the saturating cast \<open>as u32\<close>.\<close>

definition round_f64 :: "rat \<Rightarrow> int" where
  "round_f64 x = (if 0 \<le> x then \<lfloor>x + 1/2\<rfloor> else \<lceil>x - 1/2\<rceil>)"

definition as_u32 :: "int \<Rightarrow> u32" where
  "as_u32 i = (if i < 0 then 0 else if 2 ^ 32 \<le> i then 2 ^ 32 - 1 else of_int i)"

definition fee_response_of :: "(rat \<Rightarrow> rat) \<Rightarrow> json \<Rightarrow> fee_response" where
  "fee_response_of fl j =
     \<lparr>fr_feerate_sat_per_kw = map_option
        (\<lambda>feerate_btc_per_kvbyte.
           as_u32 (round_f64 (fl (fl (feerate_btc_per_kvbyte * 100000000) / 4)))) (as_f64 fl (json_index ''feerate'' j)),
      fr_errored = (json_index ''errors'' j \<noteq> JNull)\<rparr>"

text \<open>\<open>BlockchainInfo\<close>: each \<open>unwrap\<close> of a missing or ill-typed field panics.\<close>

record blockchain_info =
  latest_height :: u64
  latest_blockhash :: bytes
  chain_name :: string

definition blockchain_info_of :: "(string \<Rightarrow> bytes option) \<Rightarrow> json \<Rightarrow> blockchain_info option" where
  "blockchain_info_of block_hash_from_hex j =
     (case (as_unsigned (json_index ''blocks'' j),
            Option.bind (as_string (json_index ''bestblockhash'' j)) block_hash_from_hex,
            as_string (json_index ''chain'' j)) of
        (Some h, Some bh, Some c) \<Rightarrow>
          Some \<lparr>latest_height = h, latest_blockhash = bh, chain_name = c\<rparr>
      | _ \<Rightarrow> None)"

text \<open>\<open>NewAddress\<close> and \<open>Generated\<close>: \<^term>\<open>None\<close> is the panic.\<close>

definition new_address_of :: "json \<Rightarrow> string option" where
  "new_address_of j = as_string j"

definition generated_of :: "json \<Rightarrow> string list option" where
  "generated_of j = as_strings j"

subsection \<open>The stored rates\<close>

datatype target = Background | Normal | HighPriority

definition MIN_FEERATE :: u32 where
  "MIN_FEERATE = 253"

definition initial_fees :: "target \<Rightarrow> u32" where
  "initial_fees t = (case t of Background \<Rightarrow> MIN_FEERATE | Normal \<Rightarrow> 2000 | HighPriority \<Rightarrow> 5000)"

fun default_estimate :: "target \<Rightarrow> u32" where
  "default_estimate Background = MIN_FEERATE"
| "default_estimate Normal = 2000"
| "default_estimate HighPriority = 5000"

definition estimate :: "target \<Rightarrow> fee_response \<Rightarrow> u32" where
  "estimate t resp =
     (case fr_feerate_sat_per_kw resp of
        Some feerate \<Rightarrow> max feerate MIN_FEERATE
      | None \<Rightarrow> default_estimate t)"

text \<open>
  One iteration of \<open>poll_for_fee_estimates\<close>: three calls, each \<open>unwrap\<close>ped (\<^term>\<open>None\<close>: the
  call failed and the task panics), then the three stores in order.
\<close>

definition poll_iteration ::
  "(rat \<Rightarrow> rat) \<Rightarrow> json option \<Rightarrow> json option \<Rightarrow> json option \<Rightarrow> (target \<times> u32) list option" where
  "poll_iteration fl background normal high_prio =
     (case (background, normal, high_prio) of
        (Some b, Some n, Some h) \<Rightarrow>
          Some [(Background, estimate Background (fee_response_of fl b)),
                (Normal, estimate Normal (fee_response_of fl n)),
                (HighPriority, estimate HighPriority (fee_response_of fl h))]
      | _ \<Rightarrow> None)"

definition get_est_sat_per_1000_weight :: "(target \<Rightarrow> u32) \<Rightarrow> target \<Rightarrow> u32" where
  "get_est_sat_per_1000_weight fees confirmation_target = fees confirmation_target"

text \<open>
  The three atomics are stored one after the other while other tasks read them: a state is the
  rates and the stores still to come.
\<close>

inductive fee_step ::
  "(rat \<Rightarrow> rat) \<Rightarrow> (target \<Rightarrow> u32) \<times> (target \<times> u32) list \<Rightarrow> (target \<Rightarrow> u32) \<times> (target \<times> u32) list \<Rightarrow> bool"
  for fl where
  poll: "poll_iteration fl b n h = Some stores \<Longrightarrow> fee_step fl (fees, []) (fees, stores)"
| store: "fee_step fl (fees, (t, v) # stores) (fees(t := v), stores)"

inductive fee_reachable :: "(rat \<Rightarrow> rat) \<Rightarrow> (target \<Rightarrow> u32) \<times> (target \<times> u32) list \<Rightarrow> bool" for fl where
  start: "fee_reachable fl (initial_fees, [])"
| step: "fee_reachable fl s \<Longrightarrow> fee_step fl s t \<Longrightarrow> fee_reachable fl t"

inductive_cases fee_step_cases: "fee_step fl s t"

definition fees_ok :: "(target \<Rightarrow> u32) \<times> (target \<times> u32) list \<Rightarrow> bool" where
  "fees_ok s \<longleftrightarrow> (\<forall>t. MIN_FEERATE \<le> fst s t) \<and> (\<forall>(t, v) \<in> set (snd s). MIN_FEERATE \<le> v)"

lemma estimate_min: "MIN_FEERATE \<le> estimate t resp"
  by (cases t) (auto simp: estimate_def MIN_FEERATE_def split: option.splits)

lemma fees_ok_initial: "fees_ok (initial_fees, [])"
  by (simp add: fees_ok_def initial_fees_def MIN_FEERATE_def split: target.splits)

lemma fees_ok_step: "fee_step fl s t \<Longrightarrow> fees_ok s \<Longrightarrow> fees_ok t"
  by (induction rule: fee_step.induct)
     (auto simp: fees_ok_def poll_iteration_def estimate_min split: option.splits)

lemma fees_ok_reachable: "fee_reachable fl s \<Longrightarrow> fees_ok s"
  by (induction rule: fee_reachable.induct) (auto intro: fees_ok_initial fees_ok_step)

subsection \<open>Properties\<close>

text \<open>
  C38. Whatever bitcoind answers, and between any two of the stores, the estimator never gives LDK a fee
  rate below the 253 sat per 1000 weight units LDK requires.
\<close>

theorem fee_rate_at_least_minimum:
  assumes "fee_reachable fl (fees, pending)"
  shows "MIN_FEERATE \<le> get_est_sat_per_1000_weight fees confirmation_target"
  using fees_ok_reachable [OF assms] by (simp add: fees_ok_def get_est_sat_per_1000_weight_def)

theorem fee_rate_at_least_minimum_witness:
  "MIN_FEERATE \<le> get_est_sat_per_1000_weight (initial_fees(Background := 250000)) Background"
proof -
  have f: "\<lfloor>500001 / 2 :: rat\<rfloor> = 250000" by (simp add: floor_eq_iff)
  have p: "poll_iteration id (Some (JObject [(''feerate'', JFloat (1/100))]))
      (Some (JObject []))
      (Some (JObject [])) =
    Some [(Background, 250000), (Normal, 2000), (HighPriority, 5000)]"
    by (simp add: poll_iteration_def estimate_def fee_response_of_def as_u32_def round_f64_def
        MIN_FEERATE_def f)
  have "fee_reachable id (initial_fees(Background := 250000), [(Normal, 2000), (HighPriority, 5000)])"
    by (rule fee_reachable.step [OF fee_reachable.step [OF fee_reachable.start fee_step.poll [OF p]]])
       (rule fee_step.store)
  from fee_rate_at_least_minimum [OF this] show ?thesis .
qed

text \<open>
  When the arithmetic is exact, a rate of \<open>x\<close> BTC per 1000 virtual bytes becomes the nearest whole
  number of satoshi per 1000 weight units to \<open>x \<cdot> 10\<^sup>8 / 4\<close>, raised to the minimum.
\<close>

theorem fee_conversion_exact:
  assumes "0 \<le> x" and "x * 100000000 / 4 < 2 ^ 31" and "\<And>y. fl y = y"
  shows "int (unat (estimate t (fee_response_of fl (JObject [(''feerate'', JFloat x)])))) =
    max 253 \<lfloor>x * 25000000 + 1/2\<rfloor>"
proof -
  let ?r = "\<lfloor>x * 25000000 + 1/2\<rfloor>"
  have r: "0 \<le> ?r" using assms(1) by simp
  have lt: "?r < 2 ^ 32"
  proof -
    have "of_int ?r \<le> x * 25000000 + 1/2" by (rule of_int_floor_le)
    also have "\<dots> < 2 ^ 32" using assms(2) by simp
    finally have "(of_int ?r :: rat) < of_int (2 ^ 32)" by simp
    then show ?thesis by (simp only: of_int_less_iff)
  qed
  have e: "estimate t (fee_response_of fl (JObject [(''feerate'', JFloat x)])) =
      max (of_int ?r) MIN_FEERATE"
    using r lt assms(1) by (simp add: estimate_def fee_response_of_def round_f64_def as_u32_def assms(3) mult.commute)
  have u: "uint (of_int ?r :: u32) = ?r" using r lt by (simp add: unsigned_of_int take_bit_int_eq_self)
  have "int (unat (max (of_int ?r) MIN_FEERATE :: u32)) = max ?r 253"
    using u by (auto simp: max_def word_le_def MIN_FEERATE_def)
  then show ?thesis by (simp add: e max.commute)
qed

theorem fee_conversion_exact_witness:
  "int (unat (estimate Normal (fee_response_of id (JObject [(''feerate'', JFloat (1/50000))])))) =
    max 253 \<lfloor>(1/50000 :: rat) * 25000000 + 1/2\<rfloor>"
  by (rule fee_conversion_exact) simp_all

end
