(* ===== verification/Logger.thy ===== *)
theory Logger
  imports Complex_Main Codec
begin

text \<open>
  The log of the node: \<open>FilesystemLogger\<close> of \<open>src/disk.rs\<close>. The date's text and the texts of a record are the
  library's; a file system is what its files hold, and which directories and files can be created and
  written is a parameter.
\<close>

subsection \<open>The logger\<close>

record log_record =
  lr_level :: string
  lr_module_path :: string
  lr_line :: u32
  lr_args :: string

type_synonym files = "string \<rightharpoonup> string"

text \<open>\<open>FilesystemLogger::new\<close>: the directory of the log, or a panic.\<close>

definition logger_new :: "(string \<Rightarrow> bool) \<Rightarrow> string \<Rightarrow> string option" where
  "logger_new dir_creatable data_dir =
     (let logs_path = data_dir @ ''/logs'' in if dir_creatable logs_path then Some logs_path else None)"

text \<open>The padding \<open>{:<5}\<close> and the line of a record.\<close>

definition pad_right :: "nat \<Rightarrow> string \<Rightarrow> string" where
  "pad_right n s = s @ replicate (n - length s) (CHR '' '')"

definition log_entry :: "string \<Rightarrow> log_record \<Rightarrow> string" where
  "log_entry date r =
     date @ '' '' @ pad_right 5 (lr_level r) @ '' ['' @ lr_module_path r @ '':'' @ show_word (lr_line r) @ ''] '' @
     lr_args r"

definition log_line :: "string \<Rightarrow> log_record \<Rightarrow> string" where
  "log_line date r = log_entry date r @ [newline]"

text \<open>\<open>log\<close>: the file is created or opened for appending, each failure a panic (\<^term>\<open>None\<close>).\<close>

definition log_record_to ::
  "(string \<Rightarrow> bool) \<Rightarrow> string \<Rightarrow> string \<Rightarrow> log_record \<Rightarrow> files \<Rightarrow> files option" where
  "log_record_to appendable data_dir date r fs =
     (let logs_file_path = data_dir @ ''/logs.txt'';
          old = (case fs logs_file_path of None \<Rightarrow> [] | Some s \<Rightarrow> s)
      in if appendable logs_file_path then Some (fs(logs_file_path \<mapsto> old @ log_line date r)) else None)"

fun log_all ::
  "(string \<Rightarrow> bool) \<Rightarrow> string \<Rightarrow> (string \<times> log_record) list \<Rightarrow> files \<Rightarrow> files option" where
  "log_all appendable data_dir [] fs = Some fs"
| "log_all appendable data_dir ((date, r) # rest) fs =
     Option.bind (log_record_to appendable data_dir date r fs) (log_all appendable data_dir rest)"

subsection \<open>Lemmas\<close>

definition log_text :: "(string \<times> log_record) list \<Rightarrow> string" where
  "log_text rs = concat (map (\<lambda>(date, r). log_line date r) rs)"

lemma log_all_Some:
  "log_all appendable dir rs fs = Some fs' \<Longrightarrow> rs \<noteq> [] \<Longrightarrow>
     fs' = fs(dir @ ''/logs.txt'' \<mapsto> (case fs (dir @ ''/logs.txt'') of None \<Rightarrow> [] | Some s \<Rightarrow> s) @ log_text rs)"
proof (induction rs arbitrary: fs)
  case (Cons dr rs)
  obtain date r where dr: "dr = (date, r)" by force
  from Cons.prems(1) dr have fs: "log_all appendable dir rs (fs(dir @ ''/logs.txt'' \<mapsto>
      (case fs (dir @ ''/logs.txt'') of None \<Rightarrow> [] | Some s \<Rightarrow> s) @ log_line date r)) = Some fs'"
    by (auto simp: log_record_to_def Let_def split: if_splits)
  show ?case
  proof (cases "rs = []")
    case True
    with fs dr show ?thesis by (simp add: log_text_def)
  next
    case False
    from Cons.IH [OF fs False] dr show ?thesis by (simp add: log_text_def fun_eq_iff)
  qed
qed simp

lemma log_all_succeeds: "appendable (dir @ ''/logs.txt'') \<Longrightarrow> log_all appendable dir rs fs \<noteq> None"
proof (induction rs arbitrary: fs)
  case (Cons dr rs)
  then show ?case by (cases dr) (simp add: log_record_to_def Let_def)
qed simp

definition one_line :: "string \<times> log_record \<Rightarrow> bool" where
  "one_line dr \<longleftrightarrow> (\<forall>s\<in>{fst dr, lr_level (snd dr), lr_module_path (snd dr), lr_args (snd dr)}.
     newline \<notin> set s \<and> CHR 0x0D \<notin> set s)"

lemma lines_log_text:
  "\<forall>dr\<in>set rs. one_line dr \<Longrightarrow> lines (log_text rs) = map (\<lambda>(date, r). log_entry date r) rs"
proof (induction rs)
  case (Cons dr rs)
  obtain date r where dr: "dr = (date, r)" by force
  have nl: "newline \<notin> set (show_word (lr_line r))" "CHR 0x0D \<notin> set (show_word (lr_line r))"
    by (simp_all add: newline_def show_word_def digit_val_def digit_char_notin)
  have free: "newline \<notin> set (log_entry date r)" "CHR 0x0D \<notin> set (log_entry date r)"
    using Cons.prems dr nl by (auto simp: log_entry_def one_line_def pad_right_def newline_def)
  have "lines (log_text (dr # rs)) = lines (log_entry date r @ newline # log_text rs)"
    using dr by (simp add: log_text_def log_line_def)
  also have "\<dots> = log_entry date r # lines (log_text rs)"
    by (simp add: lines_Cons [OF free(1)] strip_cr_id [OF free(2)])
  finally show ?case using Cons dr by simp
qed (simp add: log_text_def lines_Nil)

subsection \<open>Properties\<close>

text \<open>
  The log only grows and nothing else is touched: after any records the file holds what it held, then one line
  for each record in order, and, where the records' texts have no line ends of their own, a new log reads back line
  by line as the records written.
\<close>

theorem log_file_grows:
  assumes "log_all appendable dir rs fs = Some fs'" and "rs \<noteq> []"
  shows "fs' (dir @ ''/logs.txt'') =
      Some ((case fs (dir @ ''/logs.txt'') of None \<Rightarrow> [] | Some s \<Rightarrow> s) @ log_text rs) \<and>
    (\<forall>p. p \<noteq> dir @ ''/logs.txt'' \<longrightarrow> fs' p = fs p) \<and>
    (fs (dir @ ''/logs.txt'') = None \<and> list_all one_line rs \<longrightarrow>
       map_option lines (fs' (dir @ ''/logs.txt'')) =
         Some (map (\<lambda>(date, r). log_entry date r) rs))"
  using log_all_Some [OF assms] lines_log_text [of rs] by (auto simp: list_all_iff)

theorem log_file_grows_witness:
  "\<exists>fs'. log_all (\<lambda>_. True) ''d/logs''
      [(''2023-01-01 00:00:00.000'', \<lparr>lr_level = ''INFO'', lr_module_path = ''ldk_sample'', lr_line = 7, lr_args = ''up''\<rparr>)]
      Map.empty = Some fs' \<and>
     map_option lines (fs' ''d/logs/logs.txt'') = Some [''2023-01-01 00:00:00.000 INFO  [ldk_sample:7] up'']"
proof -
  let ?r = "\<lparr>lr_level = ''INFO'', lr_module_path = ''ldk_sample'', lr_line = 7, lr_args = ''up''\<rparr> :: log_record"
  let ?rs = "[(''2023-01-01 00:00:00.000'', ?r)]"
  obtain fs' where fs': "log_all (\<lambda>_. True) ''d/logs'' ?rs Map.empty = Some fs'"
    using log_all_succeeds [of "\<lambda>_. True" "''d/logs''" ?rs Map.empty] by blast
  have s: "show_word (7 :: u32) = ''7''" by (simp add: show_word_def show_nat.simps digit_char_def char_of_def bit_Suc_0_iff)
  have "list_all one_line ?rs" by (simp add: one_line_def newline_def)
  with log_file_grows [OF fs'] have "map_option lines (fs' (''d/logs'' @ ''/logs.txt'')) =
      Some (map (\<lambda>(date, r). log_entry date r) ?rs)" by auto
  also have "\<dots> = Some [''2023-01-01 00:00:00.000 INFO  [ldk_sample:7] up'']"
    by (simp add: log_entry_def pad_right_def s)
  finally show ?thesis using fs' by (intro exI [of _ fs'] conjI) (simp_all only: append.simps)
qed

end
