(* ===== verification/Bitcoind.thy ===== *)
theory Bitcoind
  imports Args Fees Logger
begin

text \<open>
  The client of bitcoind (\<open>src/bitcoind_client.rs\<close>): its construction, its calls, the broadcasting of
  transactions, and the three background activities that call it (the polling of fee rates, the polling of the
  chain's tip in \<open>src/main.rs\<close>, the broadcasting task). The RPC library, base64 and the parsers of library
  types are parameters. An error is \<^term>\<open>Some text\<close> of the inner error of a \<open>std::io::Error\<close>, or \<^term>\<open>None\<close> when it
  has none, as the errors of the operating system have.
\<close>

subsection \<open>Calls\<close>

datatype rpc_arg = NumArg nat | TextArg string

datatype rpc_call = RpcCall (rpc_method: string) (rpc_args: "rpc_arg list")

datatype 'r rpc_result = RpcOk 'r | RpcErr "string option"

record rpc_client =
  rc_credentials :: string
  rc_host :: string
  rc_port :: u16

record bitcoind_client =
  bitcoind_rpc_client :: rpc_client
  bc_host :: string
  bc_port :: u16
  bc_rpc_user :: string
  bc_rpc_password :: string
  bc_fees :: "target \<Rightarrow> u32"

text \<open>How a call of the client ends: with a value, with the error a \<open>Result\<close> carries, or with a panic.\<close>

datatype ('e, 'a) outcome = Value 'a | Failure 'e | Panic

text \<open>A call that is unwrapped, with a conversion that panics on an answer of another form.\<close>

definition unwrap :: "(json \<Rightarrow> 'a option) \<Rightarrow> json rpc_result \<Rightarrow> ('e, 'a) outcome" where
  "unwrap convert r =
     (case r of RpcErr _ \<Rightarrow> Panic | RpcOk j \<Rightarrow> (case convert j of None \<Rightarrow> Panic | Some v \<Rightarrow> Value v))"

subsection \<open>The client\<close>

datatype client_error = NoRpcClient | PermissionDenied string

definition permission_text :: string where
  "permission_text = ''Failed to make initial call to bitcoind - please check your RPC user/password and access settings''"

definition rpc_client_for :: "(string \<Rightarrow> string) \<Rightarrow> string \<Rightarrow> u16 \<Rightarrow> string \<Rightarrow> string \<Rightarrow> rpc_client" where
  "rpc_client_for base64 host port rpc_user rpc_password =
     \<lparr>rc_credentials = base64 (rpc_user @ '':'' @ rpc_password), rc_host = host, rc_port = port\<rparr>"

text \<open>
  \<open>new\<close>: what bitcoind answers to the first call is the JSON of \<open>getblockchaininfo\<close>; its conversion panics without
  the expected fields.
\<close>

definition client_new ::
  "(string \<Rightarrow> string) \<Rightarrow> (rpc_client \<Rightarrow> bool) \<Rightarrow> (string \<Rightarrow> bytes option) \<Rightarrow>
   (rpc_client \<Rightarrow> rpc_call \<Rightarrow> json rpc_result) \<Rightarrow> string \<Rightarrow> u16 \<Rightarrow> string \<Rightarrow> string \<Rightarrow>
   (client_error, bitcoind_client) outcome" where
  "client_new base64 client_ok from_hex call_method host port rpc_user rpc_password =
     (let client = rpc_client_for base64 host port rpc_user rpc_password in
      if \<not> client_ok client then Failure NoRpcClient
      else case call_method client (RpcCall ''getblockchaininfo'' []) of
        RpcErr _ \<Rightarrow> Failure (PermissionDenied permission_text)
      | RpcOk j \<Rightarrow>
          (case blockchain_info_of from_hex j of
             None \<Rightarrow> Panic
           | Some _ \<Rightarrow>
               Value \<lparr>bitcoind_rpc_client = client, bc_host = host, bc_port = port, bc_rpc_user = rpc_user,
                 bc_rpc_password = rpc_password, bc_fees = initial_fees\<rparr>))"

definition get_new_rpc_client :: "(string \<Rightarrow> string) \<Rightarrow> (rpc_client \<Rightarrow> bool) \<Rightarrow> bitcoind_client \<Rightarrow> rpc_client option" where
  "get_new_rpc_client base64 client_ok c =
     (let client = rpc_client_for base64 (bc_host c) (bc_port c) (bc_rpc_user c) (bc_rpc_password c)
      in if client_ok client then Some client else None)"

definition get_new_address ::
  "(string \<Rightarrow> 'addr option) \<Rightarrow> (rpc_client \<Rightarrow> rpc_call \<Rightarrow> json rpc_result) \<Rightarrow> bitcoind_client \<Rightarrow> ('e, 'addr) outcome" where
  "get_new_address address_from_str call_method c =
     unwrap (\<lambda>j. Option.bind (new_address_of j) address_from_str)
       (call_method (bitcoind_rpc_client c) (RpcCall ''getnewaddress'' [TextArg ''LDK output address'']))"

definition generate_to_adress ::
  "(rpc_client \<Rightarrow> rpc_call \<Rightarrow> json rpc_result) \<Rightarrow> bitcoind_client \<Rightarrow> u16 \<Rightarrow> string \<Rightarrow> ('e, string list) outcome" where
  "generate_to_adress call_method c blocks address =
     unwrap generated_of (call_method (bitcoind_rpc_client c)
       (RpcCall ''generatetoaddress'' [NumArg (unat blocks), TextArg address]))"

text \<open>\<open>BlockSource\<close>: the requests for headers and blocks are handed on to the same RPC client.\<close>

datatype block_request = HeaderOf bytes "u32 option" | BlockOf bytes | BestBlock

definition get_header :: "(rpc_client \<Rightarrow> block_request \<Rightarrow> 'a) \<Rightarrow> bitcoind_client \<Rightarrow> bytes \<Rightarrow> u32 option \<Rightarrow> 'a" where
  "get_header ask c header_hash height_hint = ask (bitcoind_rpc_client c) (HeaderOf header_hash height_hint)"

definition get_block :: "(rpc_client \<Rightarrow> block_request \<Rightarrow> 'a) \<Rightarrow> bitcoind_client \<Rightarrow> bytes \<Rightarrow> 'a" where
  "get_block ask c header_hash = ask (bitcoind_rpc_client c) (BlockOf header_hash)"

definition get_best_block :: "(rpc_client \<Rightarrow> block_request \<Rightarrow> 'a) \<Rightarrow> bitcoind_client \<Rightarrow> 'a" where
  "get_best_block ask c = ask (bitcoind_rpc_client c) BestBlock"

text \<open>The confirmation target and the mode of the three estimates.\<close>

fun estimate_call :: "target \<Rightarrow> rpc_call" where
  "estimate_call Background = RpcCall ''estimatesmartfee'' [NumArg 144, TextArg ''ECONOMICAL'']"
| "estimate_call Normal = RpcCall ''estimatesmartfee'' [NumArg 18, TextArg ''ECONOMICAL'']"
| "estimate_call HighPriority = RpcCall ''estimatesmartfee'' [NumArg 6, TextArg ''CONSERVATIVE'']"

text \<open>\<open>get_utxo\<close> is \<open>todo!()\<close>.\<close>

definition get_utxo_lookup :: "bytes \<Rightarrow> u64 \<Rightarrow> ('e, 'a) outcome" where
  "get_utxo_lookup genesis_hash short_channel_id = Panic"

subsection \<open>Broadcasting\<close>

definition broadcast_warning :: "string \<Rightarrow> string" where
  "broadcast_warning err_str =
     ''Warning, failed to broadcast a transaction, this is likely okay but may indicate an error: '' @ err_str"

text \<open>
  The spawned task of \<open>broadcast_transaction\<close>: \<open>Ok\<close>, a warning in the log and on the screen, or the panic of
  \<open>get_ref().unwrap()\<close> on an error without an inner error.
\<close>

datatype broadcast_end = Sent | Warned (warned_log: string) (warned_screen: string) | BroadcastPanic

definition broadcast_transaction ::
  "(rpc_client \<Rightarrow> rpc_call \<Rightarrow> bytes rpc_result) \<Rightarrow> bitcoind_client \<Rightarrow> string \<Rightarrow> broadcast_end" where
  "broadcast_transaction call_method c tx_serialized =
     (case call_method (bitcoind_rpc_client c) (RpcCall ''sendrawtransaction'' [TextArg tx_serialized]) of
        RpcOk _ \<Rightarrow> Sent
      | RpcErr (Some err_str) \<Rightarrow>
          Warned (broadcast_warning err_str @ newline # ''Transaction: '' @ tx_serialized)
                 (broadcast_warning err_str @ newline # ''> '')
      | RpcErr None \<Rightarrow> BroadcastPanic)"

subsection \<open>The background activities\<close>

text \<open>
  What the tasks do with bitcoind while the node runs: one polling of the fee rates (the three answers), one polling
  of the tip (whether it succeeded; \<open>unwrap\<close>), one broadcast (its answer). A panic of any task is the end of the
  process.
\<close>

datatype bitcoind_event =
    PollFees "json rpc_result" "json rpc_result" "json rpc_result"
  | PollTip "unit rpc_result"
  | Broadcast string "bytes rpc_result"

definition poll_fees ::
  "(rat \<Rightarrow> rat) \<Rightarrow> json rpc_result \<Rightarrow> json rpc_result \<Rightarrow> json rpc_result \<Rightarrow> bitcoind_client \<Rightarrow>
   bitcoind_client option" where
  "poll_fees fl b n h c =
     (let answer = (\<lambda>r. case r of RpcOk j \<Rightarrow> Some j | RpcErr _ \<Rightarrow> None) in
      map_option (\<lambda>stores. c\<lparr>bc_fees := fold (\<lambda>(t, v) f. f(t := v)) stores (bc_fees c)\<rparr>)
        (poll_iteration fl (answer b) (answer n) (answer h)))"

definition poll_tip :: "unit rpc_result \<Rightarrow> bitcoind_client \<Rightarrow> bitcoind_client option" where
  "poll_tip r c = (case r of RpcOk _ \<Rightarrow> Some c | RpcErr _ \<Rightarrow> None)"

fun bitcoind_step :: "(rat \<Rightarrow> rat) \<Rightarrow> bitcoind_event \<Rightarrow> bitcoind_client \<Rightarrow> bitcoind_client option" where
  "bitcoind_step fl (PollFees b n h) c = poll_fees fl b n h c"
| "bitcoind_step fl (PollTip r) c = poll_tip r c"
| "bitcoind_step fl (Broadcast tx r) c =
     (case broadcast_transaction (\<lambda>_ _. r) c tx of BroadcastPanic \<Rightarrow> None | _ \<Rightarrow> Some c)"

fun bitcoind_run :: "(rat \<Rightarrow> rat) \<Rightarrow> bitcoind_event list \<Rightarrow> bitcoind_client \<Rightarrow> bitcoind_client option" where
  "bitcoind_run fl [] c = Some c"
| "bitcoind_run fl (e # rest) c = Option.bind (bitcoind_step fl e c) (bitcoind_run fl rest)"

lemmas bitcoind_run_defs = poll_fees_def poll_tip_def broadcast_transaction_def poll_iteration_def

subsection \<open>Lemmas\<close>

text \<open>What the process survives: every polling answered, every broadcast answered or refused with a reason.\<close>

fun survivable :: "bitcoind_event \<Rightarrow> bool" where
  "survivable (PollFees b n h) \<longleftrightarrow> (\<forall>r\<in>{b, n, h}. \<exists>j. r = RpcOk j)"
| "survivable (PollTip r) \<longleftrightarrow> r = RpcOk ()"
| "survivable (Broadcast tx r) \<longleftrightarrow> r \<noteq> RpcErr None"

text \<open>An event while bitcoind does not answer: every call fails with an error of the operating system.\<close>

fun during_outage :: "bitcoind_event \<Rightarrow> bool" where
  "during_outage (PollFees b n h) \<longleftrightarrow> b = RpcErr None"
| "during_outage (PollTip r) \<longleftrightarrow> r = RpcErr None"
| "during_outage (Broadcast tx r) \<longleftrightarrow> r = RpcErr None"

lemma step_survives: "bitcoind_step fl e c \<noteq> None \<longleftrightarrow> survivable e"
  by (cases e) (auto simp: bitcoind_run_defs Let_def split: rpc_result.splits option.splits)

lemma run_survives: "bitcoind_run fl es c \<noteq> None \<longleftrightarrow> list_all survivable es"
proof (induction es arbitrary: c)
  case (Cons e es)
  show ?case
  proof (cases "bitcoind_step fl e c")
    case None
    with step_survives [of fl e c] show ?thesis by simp
  next
    case (Some c')
    with step_survives [of fl e c] Cons.IH [of c'] show ?thesis by simp
  qed
qed simp

lemma step_fees:
  assumes "bitcoind_step fl e c = Some c'" and "\<forall>t. MIN_FEERATE \<le> bc_fees c t"
  shows "\<forall>t. MIN_FEERATE \<le> bc_fees c' t"
  using assms
  by (cases e) (auto simp: bitcoind_run_defs Let_def estimate_min split: rpc_result.splits option.splits)

lemma run_fees:
  "bitcoind_run fl es c = Some c' \<Longrightarrow> \<forall>t. MIN_FEERATE \<le> bc_fees c t \<Longrightarrow> \<forall>t. MIN_FEERATE \<le> bc_fees c' t"
proof (induction es arbitrary: c)
  case (Cons e es)
  then obtain d where "bitcoind_step fl e c = Some d" "bitcoind_run fl es d = Some c'"
    by (auto simp: bind_eq_Some_conv)
  with Cons.IH [of d] step_fees [of fl e c d] Cons.prems(2) show ?case by blast
qed simp

lemma step_connection:
  "bitcoind_step fl e c = Some c' \<Longrightarrow> c'\<lparr>bc_fees := bc_fees c\<rparr> = c"
  by (cases e) (auto simp: bitcoind_run_defs Let_def split: rpc_result.splits option.splits)

lemma run_connection: "bitcoind_run fl es c = Some c' \<Longrightarrow> c'\<lparr>bc_fees := f\<rparr> = c\<lparr>bc_fees := f\<rparr>"
proof (induction es arbitrary: c)
  case (Cons e es)
  then obtain d where d: "bitcoind_step fl e c = Some d" "bitcoind_run fl es d = Some c'"
    by (auto simp: bind_eq_Some_conv)
  from step_connection [OF d(1)] have "d\<lparr>bc_fees := f\<rparr> = c\<lparr>bc_fees := f\<rparr>" by (cases c; cases d) auto
  with Cons.IH [OF d(2)] show ?case by simp
qed simp

lemma client_new_Value:
  assumes "client_new base64 client_ok from_hex call_method host port user password = Value c"
  shows "bitcoind_rpc_client c = rpc_client_for base64 host port user password \<and>
    client_ok (bitcoind_rpc_client c) \<and> get_new_rpc_client base64 client_ok c = Some (bitcoind_rpc_client c) \<and>
    bc_fees c = initial_fees"
  using assms
  by (auto simp: client_new_def get_new_rpc_client_def Let_def split: if_splits rpc_result.splits option.splits)

lemma outage_not_survivable: "during_outage e \<Longrightarrow> \<not> survivable e"
  by (cases e) auto

subsection \<open>Properties\<close>

text \<open>
  C14. What the process survives of its bitcoind: from a client that connected, a run of the background activities is
  survived exactly if every polling of the fee rates and of the tip was answered and every refused broadcast came
  with a reason, so that one call of any of them while bitcoind does not answer ends the node; a run that
  is survived leaves the connection as it was made and every fee rate at or above the minimum.
\<close>

theorem bitcoind_outage_ends_node:
  assumes "client_new base64 client_ok from_hex call_method host port user password = Value c"
  shows "(bitcoind_run fl es c \<noteq> None \<longleftrightarrow> list_all survivable es) \<and>
    (list_ex during_outage es \<longrightarrow> bitcoind_run fl es c = None) \<and>
    (\<forall>c'. bitcoind_run fl es c = Some c' \<longrightarrow>
       bitcoind_rpc_client c' = rpc_client_for base64 host port user password \<and>
       get_new_rpc_client base64 client_ok c' = Some (bitcoind_rpc_client c') \<and>
       (\<forall>t. MIN_FEERATE \<le> get_est_sat_per_1000_weight (bc_fees c') t))"
proof (intro conjI allI impI)
  note n = client_new_Value [OF assms]
  show r: "bitcoind_run fl es c \<noteq> None \<longleftrightarrow> list_all survivable es" by (rule run_survives)
  show "bitcoind_run fl es c = None" if "list_ex during_outage es"
    using that r outage_not_survivable by (auto simp: list_ex_iff list_all_iff)
  fix c' assume c': "bitcoind_run fl es c = Some c'"
  from run_connection [OF c', of initial_fees] have "c'\<lparr>bc_fees := initial_fees\<rparr> = c\<lparr>bc_fees := initial_fees\<rparr>" .
  then have same: "bitcoind_rpc_client c' = bitcoind_rpc_client c" "bc_host c' = bc_host c" "bc_port c' = bc_port c"
    "bc_rpc_user c' = bc_rpc_user c" "bc_rpc_password c' = bc_rpc_password c"
    by (cases c; cases c'; simp)+
  then show "bitcoind_rpc_client c' = rpc_client_for base64 host port user password" using n by simp
  show "get_new_rpc_client base64 client_ok c' = Some (bitcoind_rpc_client c')"
    using n by (simp add: get_new_rpc_client_def same)
  have "\<forall>t. MIN_FEERATE \<le> initial_fees t" using fees_ok_initial by (simp add: fees_ok_def)
  with run_fees [OF c'] n show "MIN_FEERATE \<le> get_est_sat_per_1000_weight (bc_fees c') t" for t
    by (simp add: get_est_sat_per_1000_weight_def)
qed

definition sample_client_call :: "rpc_client \<Rightarrow> rpc_call \<Rightarrow> json rpc_result" where
  "sample_client_call _ _ = RpcOk (JObject
     [(''blocks'', JInt 1), (''bestblockhash'', JString ''00''), (''chain'', JString ''regtest'')])"

theorem bitcoind_outage_ends_node_witness:
  "\<exists>c. client_new rev (\<lambda>_. True) (\<lambda>_. Some []) sample_client_call ''h'' 8332 ''u'' ''p'' = Value c \<and>
     bitcoind_run id [PollTip (RpcOk ()), Broadcast ''00'' (RpcErr (Some ''missing inputs''))] c \<noteq> None \<and>
     bitcoind_run id [PollTip (RpcOk ()), Broadcast ''00'' (RpcErr None)] c = None"
proof -
  obtain c where c: "client_new rev (\<lambda>_. True) (\<lambda>_. Some []) sample_client_call ''h'' 8332 ''u'' ''p'' = Value c"
    by (simp add: client_new_def sample_client_call_def blockchain_info_of_def Let_def)
  have s: "list_all survivable [PollTip (RpcOk ()), Broadcast ''00'' (RpcErr (Some ''missing inputs''))]"
    "list_ex during_outage [PollTip (RpcOk ()), Broadcast ''00'' (RpcErr None)]" by simp_all
  from c bitcoind_outage_ends_node [OF c] s show ?thesis by blast
qed

end
