(* ===== verification/RgbUtils.thy ===== *)
theory RgbUtils
  imports Node "HOL-Library.List_Lexorder"
begin

text \<open>
  \<open>src/rgb_utils.rs\<close> and the coin selection of \<open>sendasset\<close> (\<open>src/cli.rs\<close>) and of the funding
  handler (\<open>src/main.rs\<close>): which RGB allocations the wallet owns, how many of them are spent for an
  amount, what the change is, and which output carries the assets of a sweep.
  An \<open>Opout\<close> is its serialized bytes, ordered as the \<open>BTreeMap\<close> orders its keys.
\<close>

subsection \<open>Ordered maps\<close>

text \<open>A \<open>BTreeMap\<close> as the sorted list of its entries; \<open>insert\<close> replaces the value of a known key.\<close>

fun btree_insert :: "'k::linorder \<Rightarrow> 'v \<Rightarrow> ('k \<times> 'v) list \<Rightarrow> ('k \<times> 'v) list" where
  "btree_insert k v [] = [(k, v)]"
| "btree_insert k v ((k', v') # m) =
     (if k < k' then (k, v) # (k', v') # m
      else if k = k' then (k, v) # m
      else (k', v') # btree_insert k v m)"

definition btree_ok :: "('k::linorder \<times> 'v) list \<Rightarrow> bool" where
  "btree_ok m \<longleftrightarrow> sorted_wrt (<) (map fst m)"

lemma btree_insert_keys: "fst ` set (btree_insert k v m) = insert k (fst ` set m)"
  by (induction m rule: btree_insert.induct) auto

lemma btree_insert_ok: "btree_ok m \<Longrightarrow> btree_ok (btree_insert k v m)"
proof (induction k v m rule: btree_insert.induct)
  case (2 k v k' v' m)
  then show ?case
    using btree_insert_keys [of k v m] by (fastforce simp: btree_ok_def)
qed (simp add: btree_ok_def)

lemma btree_notin: "btree_ok ((k', v') # m) \<Longrightarrow> k < k' \<Longrightarrow> map_of m k = None"
  by (auto simp: btree_ok_def map_of_eq_None_iff)

lemma btree_lookup_insert: "btree_ok m \<Longrightarrow> map_of (btree_insert k v m) = (map_of m)(k \<mapsto> v)"
  by (induction k v m rule: btree_insert.induct) (auto simp: btree_ok_def fun_eq_iff)

text \<open>The contract of the map the code relies on, and its interpretation.\<close>

locale ordered_map =
  fixes ins :: "'k::linorder \<Rightarrow> 'v \<Rightarrow> 'm \<Rightarrow> 'm" and entries :: "'m \<Rightarrow> ('k \<times> 'v) list"
    and ok :: "'m \<Rightarrow> bool"
  assumes ok_ins: "ok m \<Longrightarrow> ok (ins k v m)"
    and lookup_ins: "ok m \<Longrightarrow> map_of (entries (ins k v m)) = (map_of (entries m))(k \<mapsto> v)"
    and ok_entries: "ok m \<Longrightarrow> sorted_wrt (<) (map fst (entries m))"
begin

lemma distinct_keys: "ok m \<Longrightarrow> distinct (map fst (entries m))"
  using ok_entries [of m] by (simp add: strict_sorted_iff)

lemma lookup_other: "ok m \<Longrightarrow> k' \<noteq> k \<Longrightarrow> map_of (entries (ins k v m)) k' = map_of (entries m) k'"
  by (simp add: lookup_ins)

lemma entry_iff: "ok m \<Longrightarrow> (k, v) \<in> set (entries m) \<longleftrightarrow> map_of (entries m) k = Some v"
  using distinct_keys by (simp add: map_of_eq_Some_iff)

end

interpretation btree: ordered_map btree_insert "\<lambda>m. m" btree_ok
  by unfold_locales (simp_all add: btree_insert_ok btree_lookup_insert, simp add: btree_ok_def)

subsection \<open>Owned allocations\<close>

datatype rgb_error = NoAvailableUtxos | UnknownContractId

definition owned_step ::
  "outpoint list \<Rightarrow> fungible_output \<Rightarrow> (bytes \<times> outpoint \<times> u64) list \<Rightarrow> (bytes \<times> outpoint \<times> u64) list" where
  "owned_step outpoints out m =
     (if fo_seal out \<in> set outpoints then btree_insert (fo_opout out) (fo_seal out, fo_value out) m
      else m)"

definition get_asset_owned_values ::
  "outpoint list \<Rightarrow> fungible_output list option \<Rightarrow> rgb_error + (bytes \<times> outpoint \<times> u64) list" where
  "get_asset_owned_values outpoints history =
     (case history of
        None \<Rightarrow> Inl UnknownContractId
      | Some fungibles \<Rightarrow> Inr (fold (owned_step outpoints) fungibles []))"

fun sum_w :: "build \<Rightarrow> u64 \<Rightarrow> u64 list \<Rightarrow> u64 option" where
  "sum_w b acc [] = Some acc"
| "sum_w b acc (x # xs) = (case add_w b acc x of None \<Rightarrow> None | Some a \<Rightarrow> sum_w b a xs)"

text \<open>\<^term>\<open>None\<close> where \<open>Iterator::sum\<close> overflows and panics.\<close>

definition get_rgb_total_amount ::
  "build \<Rightarrow> outpoint list \<Rightarrow> fungible_output list option \<Rightarrow> (rgb_error + u64) option" where
  "get_rgb_total_amount b outpoints history =
     (case get_asset_owned_values outpoints history of
        Inl e \<Rightarrow> Some (Inl e)
      | Inr m \<Rightarrow> map_option Inr (sum_w b 0 (map (\<lambda>(_, _, amt). amt) m)))"

subsection \<open>Coin selection\<close>

fun select_inputs ::
  "build \<Rightarrow> u64 \<Rightarrow> u64 \<Rightarrow> (bytes \<times> outpoint \<times> u64) list \<Rightarrow> (outpoint list \<times> u64) option" where
  "select_inputs b target input_amount [] = Some ([], input_amount)"
| "select_inputs b target input_amount ((_, outpoint, amount) # rest) =
     (if target \<le> input_amount then Some ([], input_amount)
      else case add_w b input_amount amount of
             None \<Rightarrow> None
           | Some input_amount \<Rightarrow>
               map_option (\<lambda>(os, t). (outpoint # os, t))
                 (select_inputs b target input_amount rest))"

text \<open>The selection and the change \<open>input_amount - amount\<close>; \<^term>\<open>None\<close> where an operator panics.\<close>

definition select_with_change ::
  "build \<Rightarrow> u64 \<Rightarrow> (bytes \<times> outpoint \<times> u64) list \<Rightarrow> (outpoint list \<times> u64) option" where
  "select_with_change b target owned =
     (case select_inputs b target 0 owned of
        None \<Rightarrow> None
      | Some (inputs, t) \<Rightarrow> map_option (\<lambda>change. (inputs, change)) (sub_w b t target))"

subsection \<open>The output of a sweep\<close>

text \<open>
  \<open>update_transition_beneficiary\<close>: the transaction's outputs as the list of their
  \<open>is_op_return\<close>, the transition builder by its \<open>add_raw_state_static\<close> (the RGB library's).
\<close>

fun find_index :: "('a \<Rightarrow> bool) \<Rightarrow> 'a list \<Rightarrow> nat option" where
  "find_index p [] = None"
| "find_index p (x # xs) = (if p x then Some 0 else map_option Suc (find_index p xs))"

definition seal_vout_of :: "bool list \<Rightarrow> u32" where
  "seal_vout_of outputs =
     (case find_index (\<lambda>r. r) outputs of None \<Rightarrow> 0 | Some index \<Rightarrow> of_nat index XOR 1)"

definition update_transition_beneficiary ::
  "('b \<Rightarrow> u16 \<Rightarrow> u32 \<Rightarrow> u64 \<Rightarrow> 'b option) \<Rightarrow> bool list \<Rightarrow> u32 list \<Rightarrow> 'b \<Rightarrow> u16 \<Rightarrow> u64 \<Rightarrow>
   (u32 \<times> u32 list \<times> 'b) option" where
  "update_transition_beneficiary add_raw_state outputs beneficiaries builder assignment_id amt_rgb =
     (let seal_vout = seal_vout_of outputs; beneficiaries = beneficiaries @ [seal_vout]
      in map_option (\<lambda>builder. (seal_vout, beneficiaries, builder))
           (add_raw_state builder assignment_id seal_vout amt_rgb))"

subsection \<open>Lemmas\<close>

abbreviation amounts :: "(bytes \<times> outpoint \<times> u64) list \<Rightarrow> nat" where
  "amounts m \<equiv> sum_list (map (\<lambda>(_, _, amt). unat amt) m)"

abbreviation outpoints_of :: "(bytes \<times> outpoint \<times> u64) list \<Rightarrow> outpoint list" where
  "outpoints_of m \<equiv> map (\<lambda>(_, o', _). o') m"

lemma sum_w_exact:
  "unat acc + sum_list (map unat xs) < 2 ^ 64 \<Longrightarrow>
   \<exists>t. sum_w b acc xs = Some t \<and> unat t = unat acc + sum_list (map unat xs)"
proof (induction xs arbitrary: acc)
  case (Cons x xs)
  then have lt: "unat acc + unat x < 2 ^ LENGTH(64)" by simp
  from Cons.prems have "unat (acc + x) + sum_list (map unat xs) < 2 ^ 64"
    by (simp add: unat_add_exact [OF lt])
  from Cons.IH [OF this] show ?case
    by (simp add: add_w_exact [OF lt] unat_add_exact [OF lt] add.assoc)
qed simp

lemma select_inputs_spec:
  "unat acc + amounts xs < 2 ^ 64 \<Longrightarrow>
   \<exists>k acc'. k \<le> length xs \<and> select_inputs b target acc xs = Some (outpoints_of (take k xs), acc') \<and>
     unat acc' = unat acc + amounts (take k xs) \<and> (k = length xs \<or> target \<le> acc') \<and>
     (\<forall>j<k. unat acc + amounts (take j xs) < unat target)"
proof (induction xs arbitrary: acc)
  case (Cons e xs)
  obtain o' p a where e: "e = (o', p, a)" by (cases e)
  from Cons.prems e have lt: "unat acc + unat a < 2 ^ LENGTH(64)" by simp
  show ?case
  proof (cases "target \<le> acc")
    case True
    then show ?thesis by (intro exI [of _ 0] exI [of _ acc]) (simp add: e)
  next
    case False
    have "unat (acc + a) + amounts xs < 2 ^ 64"
      using Cons.prems by (simp add: e unat_add_exact [OF lt])
    from Cons.IH [OF this] obtain k acc' where k: "k \<le> length xs"
      "select_inputs b target (acc + a) xs = Some (outpoints_of (take k xs), acc')"
      "unat acc' = unat acc + unat a + amounts (take k xs)" "k = length xs \<or> target \<le> acc'"
      "\<forall>j<k. unat acc + unat a + amounts (take j xs) < unat target"
      by (auto simp: unat_add_exact [OF lt])
    have "unat acc + amounts (take j (e # xs)) < unat target" if "j < Suc k" for j
      using k(5) that False by (cases j) (auto simp: e word_le_nat_alt)
    with k False show ?thesis
      by (intro exI [of _ "Suc k"] exI [of _ acc']) (auto simp: e add_w_exact [OF lt])
  qed
qed simp

lemma owned_fold_ok:
  assumes "btree_ok m"
  shows "btree_ok (fold (owned_step ops) fs m)"
  using assms by (induction fs arbitrary: m) (auto simp: owned_step_def btree.ok_ins)

lemma owned_fold_lookup:
  assumes "btree_ok m"
  shows "map_of (fold (owned_step ops) fs m) k =
    (case find (\<lambda>f. fo_seal f \<in> set ops \<and> fo_opout f = k) (rev fs) of
       None \<Rightarrow> map_of m k | Some f \<Rightarrow> Some (fo_seal f, fo_value f))"
  using assms
proof (induction fs rule: rev_induct)
  case (snoc f fs)
  have "btree_ok (fold (owned_step ops) fs m)" by (rule owned_fold_ok [OF snoc.prems])
  with snoc show ?case by (simp add: owned_step_def [of ops f] btree.lookup_ins)
qed simp

subsection \<open>Properties\<close>


definition sample_owned :: "(bytes \<times> outpoint \<times> u64) list" where
  "sample_owned = [([1], OutPoint [10] 0, 5), ([2], OutPoint [11] 1, 4), ([3], OutPoint [12] 0, 9)]"


text \<open>
  If the allocations do not cover the amount (the funding handler does not check that again after
  \<open>opencoloredchannel\<close> did), every allocation is selected and the subtraction underflows:
  the dev profile panics, the release profile computes a change of \<open>2\<^sup>6\<^sup>4\<close> minus the missing amount.
\<close>

theorem select_with_change_underflow:
  assumes "amounts owned < unat target"
  shows "select_with_change Debug target owned = None \<and>
    (\<exists>change. select_with_change Release target owned = Some (outpoints_of owned, change) \<and>
       unat change = 2 ^ 64 - (unat target - amounts owned))"
proof -
  have small: "amounts owned < 2 ^ 64" using assms unat_u64_less [of target] by simp
  have sel: "\<exists>t. select_inputs b target 0 owned = Some (outpoints_of owned, t) \<and> unat t = amounts owned"
    for b
  proof -
    obtain k t where k: "k \<le> length owned"
      "select_inputs b target 0 owned = Some (outpoints_of (take k owned), t)"
      "unat t = amounts (take k owned)" "k = length owned \<or> target \<le> t"
      using select_inputs_spec [of 0 owned b target] small by auto
    have "amounts (take k owned) + amounts (drop k owned) = amounts owned"
      by (metis append_take_drop_id map_append sum_list.append)
    with k(3,4) assms have "k = length owned" by (auto simp: word_le_nat_alt)
    with k show ?thesis by auto
  qed
  obtain td where td: "select_inputs Debug target 0 owned = Some (outpoints_of owned, td)"
    "unat td = amounts owned" using sel by blast
  obtain tr where tr: "select_inputs Release target 0 owned = Some (outpoints_of owned, tr)"
    "unat tr = amounts owned" using sel by blast
  have "unat (tr - target) = 2 ^ 64 - (unat target - amounts owned)"
    using tr(2) assms unat_u64_less [of target] unat_u64_less [of tr]
    by (subst unat_sub_if') (auto simp: word_le_nat_alt)
  with td tr assms show ?thesis
    by (auto simp: select_with_change_def sub_w_def word_less_nat_alt)
qed

theorem select_with_change_underflow_witness:
  "select_with_change Debug 10 [([1], OutPoint [10] 0, 4)] = None"
  using select_with_change_underflow [of "[([1], OutPoint [10] 0, 4)]" 10] by simp

text \<open>
  C27. The allocations counted for a contract are exactly those of its history whose seal is an
  unspent output of the wallet (for an opout listed more than once, its last such entry), each
  opout once.
\<close>

theorem owned_values_spec:
  "get_asset_owned_values outpoints None = Inl UnknownContractId \<and>
   (\<exists>m. get_asset_owned_values outpoints (Some fungibles) = Inr m \<and> distinct (map fst m) \<and>
     (\<forall>k o' v. (k, o', v) \<in> set m \<longleftrightarrow>
        (\<exists>f. find (\<lambda>f. fo_seal f \<in> set outpoints \<and> fo_opout f = k) (rev fungibles) = Some f \<and>
             fo_seal f = o' \<and> fo_value f = v)))"
proof -
  let ?m = "fold (owned_step outpoints) fungibles []"
  have nil: "btree_ok ([] :: (bytes \<times> outpoint \<times> u64) list)" by (simp add: btree_ok_def)
  have ok: "btree_ok ?m" by (rule owned_fold_ok [OF nil])
  have "(k, o', v) \<in> set ?m \<longleftrightarrow>
      (\<exists>f. find (\<lambda>f. fo_seal f \<in> set outpoints \<and> fo_opout f = k) (rev fungibles) = Some f \<and>
           fo_seal f = o' \<and> fo_value f = v)" for k o' v
    unfolding btree.entry_iff [OF ok] owned_fold_lookup [OF nil]
    by (auto split: option.splits)
  then show ?thesis using btree.distinct_keys [OF ok] by (simp add: get_asset_owned_values_def)
qed

text \<open>The balance is the exact sum of the owned allocations as long as it fits 64 bits.\<close>

theorem total_amount_exact:
  assumes "get_asset_owned_values outpoints history = Inr m" and "amounts m < 2 ^ 64"
  shows "\<exists>t. get_rgb_total_amount b outpoints history = Some (Inr t) \<and> unat t = amounts m"
proof -
  have eq: "map unat (map (\<lambda>(_, _, amt). amt) m) = map (\<lambda>(_, _, amt). unat amt) m"
    by (induction m) auto
  obtain t where "sum_w b 0 (map (\<lambda>(_, _, amt). amt) m) = Some t" "unat t = amounts m"
    using sum_w_exact [of 0 "map (\<lambda>(_, _, amt). amt) m" b] assms(2) unfolding eq by auto
  then show ?thesis by (simp add: get_rgb_total_amount_def assms(1))
qed

theorem total_amount_exact_witness:
  "\<exists>t. get_rgb_total_amount Debug [OutPoint [1] 0]
         (Some [\<lparr>fo_opout = [1], fo_seal = OutPoint [1] 0, fo_value = 5\<rparr>]) = Some (Inr t) \<and> unat t = 5"
  using total_amount_exact [of "[OutPoint [1] 0]"
      "Some [\<lparr>fo_opout = [1], fo_seal = OutPoint [1] 0, fo_value = 5\<rparr>]" "[([1], OutPoint [1] 0, 5)]" Debug]
  by (simp add: get_asset_owned_values_def owned_step_def)

text \<open>
  In a sweep transaction of two outputs, one of them the \<open>OP_RETURN\<close>, the assets are sealed to
  the other output, the amount is assigned to it and it is the last beneficiary.
\<close>

theorem sweep_seals_other_output:
  assumes "length outputs = 2" and "outputs ! i" and "\<not> outputs ! (1 - i)" and "i < 2"
    and "add builder assignment (of_nat (1 - i)) amt = Some builder'"
  shows "update_transition_beneficiary add outputs beneficiaries builder assignment amt =
    Some (of_nat (1 - i), beneficiaries @ [of_nat (1 - i)], builder')"
proof -
  obtain x y where o': "outputs = [x, y]"
    using assms(1) by (metis One_nat_def Suc_1 length_0_conv length_Suc_conv)
  from assms(4) consider "i = 0" | "i = 1" by linarith
  then have "seal_vout_of outputs = of_nat (1 - i)"
    by cases (use assms(2,3) in \<open>auto simp: seal_vout_of_def o'\<close>)
  then show ?thesis using assms(5) by (simp add: update_transition_beneficiary_def Let_def)
qed

theorem sweep_seals_other_output_witness:
  "update_transition_beneficiary (\<lambda>b a v amt. Some (b @ [(v, amt)])) [False, True] [] [] 4000 77 =
     Some (0, [0], [(0, 77)])"
  using sweep_seals_other_output [of "[False, True]" 1 "\<lambda>b a v amt. Some (b @ [(v, amt)])" "[]" 4000 77
      "[(0, 77)]" "[]"] by simp

end
