(* ===== verification/RgbUtxos.thy ===== *)
theory RgbUtxos
  imports RgbUtils
begin

text \<open>
  The file \<open>rgb_utxos\<close> of the data directory: which wallet outputs carry an RGB
  allocation (\<open>colored\<close>) and which are still free for one. \<open>createutxos\<close> adds free
  ones, \<open>issueasset\<close>, \<open>receiveasset\<close> and the change of \<open>sendasset\<close> take the first free one,
  the event handlers add colored ones. The file's content is the list it deserializes to.
\<close>

subsection \<open>Operations\<close>

definition UTXO_NUM :: nat where
  "UTXO_NUM = 4"

definition check_uncolored_utxos :: "rgb_utxo list \<Rightarrow> rgb_error + unit" where
  "check_uncolored_utxos utxos =
     (case find (\<lambda>u. \<not> utxo_colored u) utxos of
        Some _ \<Rightarrow> Inr () | None \<Rightarrow> Inl NoAvailableUtxos)"

text \<open>\<^term>\<open>None\<close> where \<open>expect("at least one unlocked UTXO")\<close> panics.\<close>

definition get_utxo :: "rgb_utxo list \<Rightarrow> rgb_utxo option" where
  "get_utxo utxos = find (\<lambda>u. \<not> utxo_colored u) utxos"

text \<open>
  \<open>iter_mut().find(|u| u.outpoint == outpoint).expect("UTXO found").colored = true\<close>.
\<close>

fun mark_colored :: "outpoint \<Rightarrow> rgb_utxo list \<Rightarrow> rgb_utxo list option" where
  "mark_colored outpoint [] = None"
| "mark_colored outpoint (u # us) =
     (if utxo_outpoint u = outpoint then Some (u\<lparr>utxo_colored := True\<rparr> # us)
      else map_option ((#) u) (mark_colored outpoint us))"

text \<open>
  The sequence \<open>check_uncolored_utxos\<close>, \<open>get_utxo\<close>, read, mark, write that \<open>issueasset\<close>,
  \<open>receiveasset\<close> and \<open>sendasset\<close> share: the outpoint and the new file, or the error,
  or a panic.
\<close>

definition take_uncolored ::
  "rgb_utxo list \<Rightarrow> (rgb_error + outpoint \<times> rgb_utxo list) option" where
  "take_uncolored utxos =
     (case check_uncolored_utxos utxos of
        Inl e \<Rightarrow> Some (Inl e)
      | Inr _ \<Rightarrow>
          (case get_utxo utxos of
             None \<Rightarrow> None
           | Some u \<Rightarrow>
               map_option (\<lambda>utxos'. Inr (utxo_outpoint u, utxos'))
                 (mark_colored (utxo_outpoint u) utxos)))"

text \<open>\<open>createutxos\<close>: the first \<open>UTXO_NUM\<close> outputs of the new transaction, uncolored.\<close>

definition push_created :: "txid \<Rightarrow> rgb_utxo list \<Rightarrow> rgb_utxo list" where
  "push_created txid utxos =
     utxos @ map (\<lambda>i. \<lparr>utxo_outpoint = OutPoint txid (of_nat i), utxo_colored = False\<rparr>) [0..<UTXO_NUM]"

text \<open>The change of a funding transaction and the output of a sweep: one colored entry.\<close>

definition push_colored :: "outpoint \<Rightarrow> rgb_utxo list \<Rightarrow> rgb_utxo list" where
  "push_colored outpoint utxos = utxos @ [\<lparr>utxo_outpoint = outpoint, utxo_colored = True\<rparr>]"

text \<open>
  The funding handler's list of outputs the wallet must not spend: all of the file but the
  colored ones among the channel's RGB inputs (\<^term>\<open>None\<close>: the channel is not colored).
\<close>

definition unspendable_for :: "outpoint list option \<Rightarrow> rgb_utxo list \<Rightarrow> outpoint list" where
  "unspendable_for rgb_inputs utxos =
     map utxo_outpoint (filter (\<lambda>u. case rgb_inputs of
         None \<Rightarrow> True
       | Some inputs \<Rightarrow> utxo_outpoint u \<notin> set inputs \<or> \<not> utxo_colored u) utxos)"

subsection \<open>Lemmas\<close>

definition utxos_wf :: "rgb_utxo list \<Rightarrow> bool" where
  "utxos_wf utxos \<longleftrightarrow> distinct (map utxo_outpoint utxos)"

definition uncolored :: "rgb_utxo list \<Rightarrow> outpoint set" where
  "uncolored utxos = {utxo_outpoint u | u. u \<in> set utxos \<and> \<not> utxo_colored u}"

definition colored :: "rgb_utxo list \<Rightarrow> outpoint set" where
  "colored utxos = {utxo_outpoint u | u. u \<in> set utxos \<and> utxo_colored u}"

lemma mark_colored_split:
  assumes "utxos_wf (us @ u # vs)"
  shows "mark_colored (utxo_outpoint u) (us @ u # vs) = Some (us @ u\<lparr>utxo_colored := True\<rparr> # vs)"
  using assms by (induction us) (auto simp: utxos_wf_def)

lemma take_uncolored_find:
  "find (\<lambda>u. \<not> utxo_colored u) utxos = None \<Longrightarrow> take_uncolored utxos = Some (Inl NoAvailableUtxos)"
  "find (\<lambda>u. \<not> utxo_colored u) utxos = Some u \<Longrightarrow> take_uncolored utxos =
     map_option (\<lambda>l. Inr (utxo_outpoint u, l)) (mark_colored (utxo_outpoint u) utxos)"
  by (simp_all add: take_uncolored_def check_uncolored_utxos_def get_utxo_def)

lemma take_uncolored_cases:
  assumes "utxos_wf utxos"
  obtains (none) "uncolored utxos = {}" "take_uncolored utxos = Some (Inl NoAvailableUtxos)"
  | (took) us u vs where "utxos = us @ u # vs" "\<forall>x\<in>set us. utxo_colored x" "\<not> utxo_colored u"
      "take_uncolored utxos = Some (Inr (utxo_outpoint u, us @ u\<lparr>utxo_colored := True\<rparr> # vs))"
proof (cases "find (\<lambda>u. \<not> utxo_colored u) utxos")
  case None
  then have "uncolored utxos = {}" by (auto simp: uncolored_def find_none)
  then show thesis using take_uncolored_find(1) [OF None] none by blast
next
  case (Some u)
  then obtain us vs where u: "utxos = us @ u # vs" "\<forall>x\<in>set us. utxo_colored x" "\<not> utxo_colored u"
    using find_split [OF Some] by blast
  have "mark_colored (utxo_outpoint u) utxos = Some (us @ u\<lparr>utxo_colored := True\<rparr> # vs)"
    using mark_colored_split [of us u vs] assms u(1) by simp
  then have "take_uncolored utxos = Some (Inr (utxo_outpoint u, us @ u\<lparr>utxo_colored := True\<rparr> # vs))"
    by (simp add: take_uncolored_find(2) [OF Some])
  then show thesis using took u by blast
qed

lemma uncolored_append: "uncolored (us @ vs) = uncolored us \<union> uncolored vs"
  by (auto simp: uncolored_def)

lemma colored_append: "colored (us @ vs) = colored us \<union> colored vs"
  by (auto simp: colored_def)

lemma uncolored_Cons:
  "uncolored (u # vs) = (if utxo_colored u then {} else {utxo_outpoint u}) \<union> uncolored vs"
  by (auto simp: uncolored_def)

lemma colored_Cons:
  "colored (u # vs) = (if utxo_colored u then {utxo_outpoint u} else {}) \<union> colored vs"
  by (auto simp: colored_def)

lemma uncolored_subset: "uncolored us \<subseteq> utxo_outpoint ` set us"
  by (auto simp: uncolored_def)

lemma take_uncolored_Inr:
  assumes "utxos_wf utxos" and "take_uncolored utxos = Some (Inr (o', utxos'))"
  shows "o' \<in> uncolored utxos \<and> uncolored utxos' = uncolored utxos - {o'} \<and>
    colored utxos' = insert o' (colored utxos) \<and>
    map utxo_outpoint utxos' = map utxo_outpoint utxos \<and> utxos_wf utxos'"
proof (rule take_uncolored_cases [OF assms(1)])
  fix us u vs
  assume *: "utxos = us @ u # vs" "\<not> utxo_colored u"
    "take_uncolored utxos = Some (Inr (utxo_outpoint u, us @ u\<lparr>utxo_colored := True\<rparr> # vs))"
  from *(1) assms(1) have "utxo_outpoint u \<notin> uncolored us" "utxo_outpoint u \<notin> uncolored vs"
    using uncolored_subset [of us] uncolored_subset [of vs] by (auto simp: utxos_wf_def)
  with * assms show ?thesis
    by (auto simp: uncolored_append colored_append uncolored_Cons colored_Cons utxos_wf_def)
qed (use assms in auto)

lemma take_uncolored_total: "utxos_wf utxos \<Longrightarrow> take_uncolored utxos \<noteq> None"
  by (rule take_uncolored_cases) auto

lemma take_uncolored_Inl:
  assumes "utxos_wf utxos"
  shows "uncolored utxos = {} \<longleftrightarrow> take_uncolored utxos = Some (Inl NoAvailableUtxos)"
  by (rule take_uncolored_cases [OF assms]) (auto simp: uncolored_append uncolored_Cons)

lemma finite_uncolored [simp]: "finite (uncolored utxos)"
proof -
  have "uncolored utxos \<subseteq> utxo_outpoint ` set utxos" by (auto simp: uncolored_def)
  then show ?thesis by (rule finite_subset) simp
qed

lemma sets_Nil [simp]: "uncolored [] = {}" "colored [] = {}"
  by (simp_all add: uncolored_def colored_def)

lemma push_created_eq: "push_created t us = us @
    [\<lparr>utxo_outpoint = OutPoint t 0, utxo_colored = False\<rparr>,
     \<lparr>utxo_outpoint = OutPoint t 1, utxo_colored = False\<rparr>,
     \<lparr>utxo_outpoint = OutPoint t 2, utxo_colored = False\<rparr>,
     \<lparr>utxo_outpoint = OutPoint t 3, utxo_colored = False\<rparr>]"
  by (simp add: push_created_def UTXO_NUM_def upt_rec)

lemma push_created_sets:
  "uncolored (push_created t us) = uncolored us \<union> {OutPoint t 0, OutPoint t 1, OutPoint t 2, OutPoint t 3}"
  "colored (push_created t us) = colored us"
  by (auto simp: push_created_eq uncolored_append colored_append uncolored_Cons colored_Cons)

lemma push_colored_sets:
  "uncolored (push_colored p us) = uncolored us"
  "colored (push_colored p us) = insert p (colored us)"
  by (simp_all add: push_colored_def uncolored_append colored_append uncolored_Cons colored_Cons)

lemma fresh_txid_outpoint:
  "\<forall>u\<in>set us. op_txid (utxo_outpoint u) \<noteq> t \<Longrightarrow> OutPoint t v \<notin> utxo_outpoint ` set us"
  by (metis imageE outpoint.sel(1))

lemma push_created_wf:
  "utxos_wf us \<Longrightarrow> \<forall>u\<in>set us. op_txid (utxo_outpoint u) \<noteq> t \<Longrightarrow> utxos_wf (push_created t us)"
  using fresh_txid_outpoint [of us t] by (simp add: utxos_wf_def push_created_eq)

lemma push_colored_wf:
  "utxos_wf us \<Longrightarrow> \<forall>u\<in>set us. utxo_outpoint u \<noteq> p \<Longrightarrow> utxos_wf (push_colored p us)"
  by (auto simp: utxos_wf_def push_colored_def)

subsection \<open>The store contract\<close>

text \<open>
  What the commands need of the file: taking gives a free output and only that one stops
  being free, it fails only when there is none, and the well-formedness is kept.
\<close>

locale utxo_store =
  fixes ok :: "'s \<Rightarrow> bool" and free :: "'s \<Rightarrow> 'o set" and take1 :: "'s \<Rightarrow> ('o \<times> 's) option"
  assumes take_ok: "ok s \<Longrightarrow> take1 s = Some (p, s') \<Longrightarrow> ok s'"
    and take_free: "ok s \<Longrightarrow> take1 s = Some (p, s') \<Longrightarrow> p \<in> free s \<and> free s' = free s - {p}"
    and take_none: "ok s \<Longrightarrow> take1 s = None \<longleftrightarrow> free s = {}"
    and free_finite: "finite (free s)"
begin

primrec takes :: "nat \<Rightarrow> 's \<Rightarrow> ('o list \<times> 's) option" where
  "takes 0 s = Some ([], s)"
| "takes (Suc n) s = (case take1 s of None \<Rightarrow> None
     | Some (p, s') \<Rightarrow> map_option (\<lambda>(ps, s''). (p # ps, s'')) (takes n s'))"

lemma takes_spec:
  "ok s \<Longrightarrow> takes n s = Some (ps, s') \<Longrightarrow>
   ok s' \<and> length ps = n \<and> distinct ps \<and> set ps \<subseteq> free s \<and> free s' = free s - set ps"
proof (induction n arbitrary: s ps)
  case (Suc n)
  then obtain p t qs where t: "take1 s = Some (p, t)" "takes n t = Some (qs, s')" "ps = p # qs"
    by (auto split: option.splits prod.splits)
  note f = take_free [OF Suc.prems(1) t(1)]
  have "ok s' \<and> length qs = n \<and> distinct qs \<and> set qs \<subseteq> free t \<and> free s' = free t - set qs"
    by (rule Suc.IH [OF take_ok [OF Suc.prems(1) t(1)] t(2)])
  with f t(3) show ?case by auto
qed simp

lemma takes_available: "ok s \<Longrightarrow> n \<le> card (free s) \<Longrightarrow> takes n s \<noteq> None"
proof (induction n arbitrary: s)
  case (Suc n)
  then have "free s \<noteq> {}" by auto
  then obtain p t where t: "take1 s = Some (p, t)" using take_none [OF Suc.prems(1)] by auto
  note f = take_free [OF Suc.prems(1) t]
  have "n \<le> card (free t)" using f Suc.prems(2) by (simp add: free_finite)
  from Suc.IH [OF take_ok [OF Suc.prems(1) t] this] show ?case using t by auto
qed simp

end

definition take_some :: "rgb_utxo list \<Rightarrow> (outpoint \<times> rgb_utxo list) option" where
  "take_some utxos = (case take_uncolored utxos of Some (Inr r) \<Rightarrow> Some r | _ \<Rightarrow> None)"

interpretation utxos: utxo_store utxos_wf uncolored take_some
proof unfold_locales
  fix s p s'
  assume wf: "utxos_wf s" and t: "take_some s = Some (p, s')"
  from t have "take_uncolored s = Some (Inr (p, s'))"
    by (auto simp: take_some_def split: option.splits sum.splits)
  from take_uncolored_Inr [OF wf this]
  show "utxos_wf s'" "p \<in> uncolored s \<and> uncolored s' = uncolored s - {p}" by auto
next
  fix s
  assume wf: "utxos_wf s"
  show "take_some s = None \<longleftrightarrow> uncolored s = {}"
    by (rule take_uncolored_cases [OF wf]) (auto simp: take_some_def uncolored_append uncolored_Cons)
qed simp

subsection \<open>Runs over the file\<close>

datatype utxo_op = Take | Create txid | AddColored outpoint

fun utxo_step :: "utxo_op \<Rightarrow> rgb_utxo list \<Rightarrow> outpoint list \<times> rgb_utxo list" where
  "utxo_step Take us = (case take_some us of None \<Rightarrow> ([], us) | Some (p, us') \<Rightarrow> ([p], us'))"
| "utxo_step (Create t) us = ([], push_created t us)"
| "utxo_step (AddColored p) us = ([], push_colored p us)"

fun utxo_run :: "utxo_op list \<Rightarrow> rgb_utxo list \<Rightarrow> outpoint list \<times> rgb_utxo list" where
  "utxo_run [] us = ([], us)"
| "utxo_run (x # xs) us =
     (case utxo_step x us of (ps, us') \<Rightarrow> case utxo_run xs us' of (qs, us'') \<Rightarrow> (ps @ qs, us''))"

text \<open>Transaction ids and outpoints that are pushed are new to the file.\<close>

fun fresh_op :: "utxo_op \<Rightarrow> rgb_utxo list \<Rightarrow> bool" where
  "fresh_op Take us = True"
| "fresh_op (Create t) us = list_all (\<lambda>u. op_txid (utxo_outpoint u) \<noteq> t) us"
| "fresh_op (AddColored p) us = list_all (\<lambda>u. utxo_outpoint u \<noteq> p) us"

fun fresh_run :: "utxo_op list \<Rightarrow> rgb_utxo list \<Rightarrow> bool" where
  "fresh_run [] us = True"
| "fresh_run (x # xs) us = (fresh_op x us \<and> fresh_run xs (snd (utxo_step x us)))"

lemma utxo_step_spec:
  assumes "utxos_wf us" "fresh_op x us" "utxo_step x us = (ps, us')"
  shows "utxos_wf us' \<and> colored us \<union> set ps \<subseteq> colored us' \<and> set ps \<inter> colored us = {} \<and> distinct ps"
proof (cases x)
  case Take
  show ?thesis
  proof (cases "take_some us")
    case (Some r)
    obtain p v where r: "r = (p, v)" by (cases r)
    from Some r have t: "take_uncolored us = Some (Inr (p, v))"
      by (auto simp: take_some_def split: option.splits sum.splits)
    have "p \<notin> colored us"
    proof
      assume "p \<in> colored us"
      then obtain a where a: "a \<in> set us" "utxo_colored a" "utxo_outpoint a = p"
        by (auto simp: colored_def)
      from take_uncolored_Inr [OF assms(1) t] obtain c where
        c: "c \<in> set us" "\<not> utxo_colored c" "utxo_outpoint c = p" by (auto simp: uncolored_def)
      from assms(1) a c have "a = c" by (auto simp: utxos_wf_def distinct_map inj_on_def)
      with a c show False by simp
    qed
    moreover have "utxos_wf v" and "colored v = insert p (colored us)"
      using take_uncolored_Inr [OF assms(1) t] by blast+
    moreover have "ps = [p]" and "us' = v" using assms(3) Take Some r by simp_all
    ultimately show ?thesis by simp
  qed (use assms Take in auto)
next
  case (Create t)
  then show ?thesis
    using assms push_created_wf [of us t] by (auto simp: push_created_sets list_all_iff)
next
  case (AddColored p)
  then show ?thesis
    using assms push_colored_wf [of us p] by (auto simp: push_colored_sets list_all_iff)
qed

lemma utxo_run_spec:
  "utxos_wf us \<Longrightarrow> fresh_run xs us \<Longrightarrow> utxo_run xs us = (ps, us') \<Longrightarrow>
   utxos_wf us' \<and> colored us \<union> set ps \<subseteq> colored us' \<and> set ps \<inter> colored us = {} \<and> distinct ps"
proof (induction xs arbitrary: us ps)
  case (Cons x xs)
  obtain qs v where st: "utxo_step x us = (qs, v)" by (cases "utxo_step x us")
  obtain rs w where rn: "utxo_run xs v = (rs, w)" by (cases "utxo_run xs v")
  have eq: "ps = qs @ rs" "us' = w" using Cons.prems(3) st rn by auto
  have s: "utxos_wf v \<and> colored us \<union> set qs \<subseteq> colored v \<and> set qs \<inter> colored us = {} \<and> distinct qs"
    using utxo_step_spec [OF Cons.prems(1) _ st] Cons.prems(2) by simp
  have "utxos_wf w \<and> colored v \<union> set rs \<subseteq> colored w \<and> set rs \<inter> colored v = {} \<and> distinct rs"
    using Cons.IH [of v rs] s Cons.prems(2) st rn eq by simp
  with s eq show ?case by auto
qed simp

subsection \<open>Two writers\<close>

text \<open>
  The command loop and the event handler are two tasks; each of them reads the file,
  changes its copy and writes it back, with nothing that excludes the other. A schedule
  is a list of their file accesses.
\<close>

datatype access = ReadFile nat | WriteFile nat

record shared =
  sh_file :: "rgb_utxo list"
  sh_copy :: "nat \<Rightarrow> rgb_utxo list"

fun access_step :: "(nat \<Rightarrow> rgb_utxo list \<Rightarrow> rgb_utxo list) \<Rightarrow> access \<Rightarrow> shared \<Rightarrow> shared" where
  "access_step upd (ReadFile i) s = s\<lparr>sh_copy := (sh_copy s)(i := sh_file s)\<rparr>"
| "access_step upd (WriteFile i) s = s\<lparr>sh_file := upd i (sh_copy s i)\<rparr>"

definition access_run ::
  "(nat \<Rightarrow> rgb_utxo list \<Rightarrow> rgb_utxo list) \<Rightarrow> access list \<Rightarrow> shared \<Rightarrow> shared" where
  "access_run upd sched s = fold (access_step upd) sched s"

text \<open>The update of \<open>receiveasset\<close> and that of the funding handler's change.\<close>

definition take_update :: "rgb_utxo list \<Rightarrow> rgb_utxo list" where
  "take_update us = (case take_some us of None \<Rightarrow> us | Some (_, us') \<Rightarrow> us')"

fun two_updates :: "outpoint \<Rightarrow> nat \<Rightarrow> rgb_utxo list \<Rightarrow> rgb_utxo list" where
  "two_updates change 0 us = push_colored change us"
| "two_updates change (Suc _) us = take_update us"

subsection \<open>Properties\<close>

definition sample_utxos :: "rgb_utxo list" where
  "sample_utxos = [\<lparr>utxo_outpoint = OutPoint [1] 0, utxo_colored = True\<rparr>,
     \<lparr>utxo_outpoint = OutPoint [1] 1, utxo_colored = False\<rparr>,
     \<lparr>utxo_outpoint = OutPoint [1] 2, utxo_colored = False\<rparr>]"

lemma sample_utxos_wf: "utxos_wf sample_utxos"
  by (simp add: sample_utxos_def utxos_wf_def)

text \<open>
  Taking an output for a new allocation never panics on a file without duplicates: it reports
  that none is available exactly when every output is colored, and otherwise gives the
  first uncolored one and writes back the same file with that one entry colored.
\<close>

theorem take_uncolored_correct:
  assumes "utxos_wf utxos"
  shows "(uncolored utxos = {} \<and> take_uncolored utxos = Some (Inl NoAvailableUtxos)) \<or>
    (\<exists>us u vs. utxos = us @ u # vs \<and> uncolored us = {} \<and> \<not> utxo_colored u \<and>
       take_uncolored utxos = Some (Inr (utxo_outpoint u, us @ u\<lparr>utxo_colored := True\<rparr> # vs)))"
proof (rule take_uncolored_cases [OF assms])
  fix us u vs
  assume *: "utxos = us @ u # vs" "\<forall>x\<in>set us. utxo_colored x" "\<not> utxo_colored u"
    "take_uncolored utxos = Some (Inr (utxo_outpoint u, us @ u\<lparr>utxo_colored := True\<rparr> # vs))"
  then have "uncolored us = {}" by (auto simp: uncolored_def)
  with * show ?thesis by blast
qed simp

theorem take_uncolored_correct_witness:
  "uncolored sample_utxos = {} \<and> take_uncolored sample_utxos = Some (Inl NoAvailableUtxos) \<or>
   (\<exists>us u vs. sample_utxos = us @ u # vs \<and> uncolored us = {} \<and> \<not> utxo_colored u \<and>
      take_uncolored sample_utxos = Some (Inr (utxo_outpoint u, us @ u\<lparr>utxo_colored := True\<rparr> # vs)))"
  by (rule take_uncolored_correct [OF sample_utxos_wf])

text \<open>
  C5. Over any run of takes, creations and colored additions (new outpoints only), no output is handed
  out twice, none that was already colored is handed out, and what is colored stays colored.
\<close>

theorem outputs_handed_out_once:
  assumes "utxos_wf us" and "fresh_run xs us" and "utxo_run xs us = (handed, us')"
  shows "distinct handed \<and> set handed \<inter> colored us = {} \<and> set handed \<subseteq> colored us' \<and>
    colored us \<subseteq> colored us' \<and> utxos_wf us'"
  using utxo_run_spec [OF assms] by blast

theorem outputs_handed_out_once_witness:
  "distinct [OutPoint [1] 1, OutPoint [1] 2, OutPoint [5] 0] \<and>
   fst (utxo_run [Take, Create [5], Take, Take] sample_utxos) = [OutPoint [1] 1, OutPoint [1] 2, OutPoint [5] 0]"
proof -
  note e = sample_utxos_def take_some_def take_uncolored_def check_uncolored_utxos_def get_utxo_def
    push_created_eq
  obtain us' where r: "utxo_run [Take, Create [5], Take, Take] sample_utxos =
      ([OutPoint [1] 1, OutPoint [1] 2, OutPoint [5] 0], us')" by (simp add: e)
  have f: "fresh_run [Take, Create [5], Take, Take] sample_utxos" by (simp add: e)
  from outputs_handed_out_once [OF sample_utxos_wf f r] r show ?thesis by simp
qed



text \<open>
  The file is not protected against the other task: if the funding handler read it before
  \<open>receiveasset\<close> took an output and writes it back afterwards, the output is free again in the file and
  the next command gets the same one, although it is already promised.
\<close>

theorem lost_update_hands_out_twice:
  assumes "utxos_wf us" and "take_some us = Some (p, us')"
  shows "let s = access_run (two_updates change) [ReadFile 0, ReadFile 1, WriteFile 1, WriteFile 0]
               \<lparr>sh_file = us, sh_copy = (\<lambda>_. [])\<rparr>
         in p \<in> colored (take_update us) \<and> p \<in> uncolored (sh_file s) \<and>
            map_option fst (take_some (sh_file s)) = Some p"
proof -
  from assms(2) have t: "take_uncolored us = Some (Inr (p, us'))"
    by (auto simp: take_some_def split: option.splits sum.splits)
  have inr: "p \<in> uncolored us" "colored us' = insert p (colored us)"
    using take_uncolored_Inr [OF assms(1) t] by blast+
  have first: "map_option fst (take_some (push_colored change us)) = Some p"
  proof (rule take_uncolored_cases [OF assms(1)])
    fix v u w
    assume *: "us = v @ u # w" "\<forall>x\<in>set v. utxo_colored x" "\<not> utxo_colored u"
      "take_uncolored us = Some (Inr (utxo_outpoint u, v @ u\<lparr>utxo_colored := True\<rparr> # w))"
    have "find (\<lambda>u. \<not> utxo_colored u) (push_colored change us) = Some u"
      using *(1-3) by (induction v arbitrary: us) (auto simp: push_colored_def)
    moreover have "mark_colored (utxo_outpoint u) (push_colored change us) \<noteq> None"
      using *(1) by (induction v arbitrary: us) (auto simp: push_colored_def)
    ultimately show ?thesis
      using *(4) t by (auto simp: take_some_def take_uncolored_find(2))
  qed (use inr in auto)
  show ?thesis
    using inr first assms(2)
    by (simp add: access_run_def take_update_def push_colored_sets Let_def)
qed

theorem lost_update_hands_out_twice_witness:
  "let s = access_run (two_updates (OutPoint [7] 2))
             [ReadFile 0, ReadFile 1, WriteFile 1, WriteFile 0]
             \<lparr>sh_file = sample_utxos, sh_copy = (\<lambda>_. [])\<rparr>
   in OutPoint [1] 1 \<in> colored (take_update sample_utxos) \<and> OutPoint [1] 1 \<in> uncolored (sh_file s) \<and>
      map_option fst (take_some (sh_file s)) = Some (OutPoint [1] 1)"
  by (rule lost_update_hands_out_twice [OF sample_utxos_wf, of _ "take_update sample_utxos"])
     (simp add: sample_utxos_def take_some_def take_uncolored_def check_uncolored_utxos_def
        get_utxo_def take_update_def)

end
