(* ===== verification/Payments.thy ===== *)
theory Payments
  imports Node
begin

text \<open>
  The two payment storages: the handlers of the payment events of \<open>handle_ldk_events\<close>
  (\<open>src/main.rs\<close>) and the commands that start or expect a payment (\<open>send_payment\<close>,
  \<open>keysend\<close>, \<open>get_invoice\<close>, \<open>invoice_status\<close> of \<open>src/cli.rs\<close>).
\<close>

subsection \<open>Events\<close>

datatype payment_purpose =
    InvoicePayment "bytes option" bytes
  | SpontaneousPayment bytes

fun purpose_preimage :: "payment_purpose \<Rightarrow> bytes option" where
  "purpose_preimage (InvoicePayment p _) = p"
| "purpose_preimage (SpontaneousPayment p) = Some p"

fun purpose_secret :: "payment_purpose \<Rightarrow> bytes option" where
  "purpose_secret (InvoicePayment _ s) = Some s"
| "purpose_secret (SpontaneousPayment _) = None"

definition payment_claimable :: "bytes \<Rightarrow> payment_purpose \<Rightarrow> u64 \<Rightarrow> node \<Rightarrow> flow" where
  "payment_claimable h purpose amount_msat s =
     (let s = println (MReceivedPayment h amount_msat) s in
      case purpose_preimage purpose of
        None \<Rightarrow> Abort s
      | Some p \<Rightarrow> Continue (emit (ClaimFunds p) s))"

definition payment_claimed :: "bytes \<Rightarrow> payment_purpose \<Rightarrow> u64 \<Rightarrow> node \<Rightarrow> flow" where
  "payment_claimed h purpose amount_msat s =
     (let s = println (MClaimedPayment h amount_msat) s;
          info = (case inbound_payments s h of
              Some p \<Rightarrow> p\<lparr>pi_status := Succeeded, pi_preimage := purpose_preimage purpose,
                          pi_secret := purpose_secret purpose\<rparr>
            | None \<Rightarrow> \<lparr>pi_preimage = purpose_preimage purpose,
                       pi_secret = purpose_secret purpose, pi_status = Succeeded,
                       pi_amt_msat = Some amount_msat\<rparr>);
          s = s\<lparr>inbound_payments := (inbound_payments s)(h \<mapsto> info)\<rparr>;
          s = println MClaimedEnd s
      in Continue (s\<lparr>maker_trades := (maker_trades s)(h := None)\<rparr>))"

text \<open>
  The loop over \<open>payments.iter_mut()\<close> updates the entries whose key is the event's hash and
  prints one line for each; a key occurs at most once in the map.
\<close>

definition payment_sent :: "bytes \<Rightarrow> bytes \<Rightarrow> u64 option \<Rightarrow> node \<Rightarrow> flow" where
  "payment_sent preimage h fee_paid_msat s =
     (let payments = outbound_payments s;
          s = s\<lparr>outbound_payments := (\<lambda>hash. case payments hash of
                  None \<Rightarrow> None
                | Some p \<Rightarrow> Some (if hash = h then p\<lparr>pi_preimage := Some preimage,
                                                     pi_status := Succeeded\<rparr> else p))\<rparr>
      in Continue (case payments h of
           None \<Rightarrow> s
         | Some p \<Rightarrow> println (MSentPayment (pi_amt_msat p) fee_paid_msat h preimage) s))"

definition payment_failed :: "bytes \<Rightarrow> node \<Rightarrow> flow" where
  "payment_failed h s =
     (let s = println (MPaymentFailed h) s in
      Continue (case outbound_payments s h of
          None \<Rightarrow> s
        | Some p \<Rightarrow>
            s\<lparr>outbound_payments := (outbound_payments s)(h \<mapsto> p\<lparr>pi_status := Failed\<rparr>)\<rparr>))"

subsection \<open>Commands\<close>

text \<open>\<open>send_payment\<close>: both \<open>unwrap\<close>s (the RGB amount, the amount) are panics of the model.\<close>

definition send_payment :: "ldk \<Rightarrow> invoice \<Rightarrow> node \<Rightarrow> flow" where
  "send_payment env invoice s =
     (let h = inv_payment_hash invoice;
          pay = (\<lambda>s.
            let ok = pay_invoice_ok env (trace s) invoice; s = emit (PayInvoice h) s in
            if ok then
              (case inv_amount_msat invoice of
                 None \<Rightarrow> Abort s
               | Some amt_msat \<Rightarrow>
                   let s = println (MInitiatedSending amt_msat (inv_payee invoice)) s in
                   Continue (s\<lparr>outbound_payments := (outbound_payments s)(h \<mapsto>
                     \<lparr>pi_preimage = None, pi_secret = Some (inv_payment_secret invoice),
                      pi_status = Pending, pi_amt_msat = inv_amount_msat invoice\<rparr>)\<rparr>))
            else
              let s = println MSendFailed s in
              Continue (s\<lparr>outbound_payments := (outbound_payments s)(h \<mapsto>
                \<lparr>pi_preimage = None, pi_secret = Some (inv_payment_secret invoice),
                 pi_status = Failed, pi_amt_msat = inv_amount_msat invoice\<rparr>)\<rparr>))
      in case inv_rgb_contract_id invoice of
           None \<Rightarrow> pay s
         | Some contract_id \<Rightarrow>
             (case inv_rgb_amount invoice of
                None \<Rightarrow> Abort s
              | Some amt \<Rightarrow> pay (emit (WriteRgbPaymentInfo h contract_id amt (Some amt)) s)))"

text \<open>\<open>keysend\<close>: the preimage is the entropy source's, the hash is SHA-256's.\<close>

definition keysend ::
  "ldk \<Rightarrow> (bytes \<Rightarrow> bytes) \<Rightarrow> bytes \<Rightarrow> pubkey \<Rightarrow> u64 \<Rightarrow> (contract_id \<times> u64) option \<Rightarrow> node \<Rightarrow> flow"
where
  "keysend env sha256 preimage payee_pubkey amt_msat rgb_payment s =
     (let h = sha256 preimage;
          s = (case rgb_payment of
                 None \<Rightarrow> s
               | Some (contract_id, amt_rgb) \<Rightarrow>
                   emit (WriteRgbPaymentInfo h contract_id amt_rgb (Some amt_rgb)) s);
          ok = send_spontaneous_retry_ok env (trace s) h payee_pubkey amt_msat;
          s = emit (SendSpontaneousWithRetry preimage h payee_pubkey amt_msat) s;
          s = println (if ok then MInitiatedSending amt_msat payee_pubkey else MSendFailed) s
      in Continue (s\<lparr>outbound_payments := (outbound_payments s)(h \<mapsto>
           \<lparr>pi_preimage = None, pi_secret = None,
            pi_status = (if ok then Pending else Failed), pi_amt_msat = Some amt_msat\<rparr>)\<rparr>))"

definition get_invoice ::
  "ldk \<Rightarrow> u64 \<Rightarrow> u32 \<Rightarrow> contract_id option \<Rightarrow> u64 option \<Rightarrow> node \<Rightarrow> flow" where
  "get_invoice env amt_msat expiry_secs contract_id amt_rgb s =
     (let res = create_invoice env (trace s) amt_msat expiry_secs contract_id amt_rgb;
          s = emit (CreateInvoice amt_msat expiry_secs contract_id amt_rgb) s
      in case res of
           None \<Rightarrow> Continue (println MInvoiceFailed s)
         | Some i \<Rightarrow>
             let s = println (MInvoice (inv_payment_hash i)) s in
             Continue (s\<lparr>inbound_payments := (inbound_payments s)(inv_payment_hash i \<mapsto>
               \<lparr>pi_preimage = None, pi_secret = Some (inv_payment_secret i),
                pi_status = Pending, pi_amt_msat = Some amt_msat\<rparr>)\<rparr>))"

definition invoice_status :: "invoice \<Rightarrow> node \<Rightarrow> flow" where
  "invoice_status invoice s = Continue (println
     (case inbound_payments s (inv_payment_hash invoice) of
        None \<Rightarrow> MUnknownInvoice
      | Some v \<Rightarrow>
          (case pi_status v of
             Pending \<Rightarrow> if inv_is_expired invoice then MStatusExpired else MStatusPending
           | Succeeded \<Rightarrow> MStatusSucceeded
           | Failed \<Rightarrow> MStatusFailed)) s)"

lemmas payment_defs = payment_claimable_def payment_claimed_def payment_sent_def
  payment_failed_def send_payment_def keysend_def get_invoice_def invoice_status_def

declare payment_defs [step_defs]

subsection \<open>The ledger contract\<close>

text \<open>
  What the two storages promise their readers, as an interface: a payment that is started
  is pending or failed as LDK answered, a sent event makes a known payment succeeded, a
  failed event makes it failed, and no operation touches another payment.
\<close>

locale payment_ledger =
  fixes status :: "'s \<Rightarrow> 'k \<Rightarrow> htlc_status option"
    and key :: "'a \<Rightarrow> 'k" and accepted :: "'a \<Rightarrow> 's \<Rightarrow> bool"
    and start :: "'a \<Rightarrow> 's \<Rightarrow> 's"
    and sent :: "'e \<Rightarrow> 'k \<Rightarrow> 's \<Rightarrow> 's" and failed :: "'k \<Rightarrow> 's \<Rightarrow> 's"
  assumes status_start:
      "status (start a s) = (status s)(key a \<mapsto> (if accepted a s then Pending else Failed))"
    and status_sent:
      "status (sent e k s) = (if status s k = None then status s else (status s)(k \<mapsto> Succeeded))"
    and status_failed:
      "status (failed k s) = (if status s k = None then status s else (status s)(k \<mapsto> Failed))"
begin

lemma started_sent: "key a = k \<Longrightarrow> status (sent e k (start a s)) k = Some Succeeded"
  by (simp add: status_sent status_start)

lemma unknown_events: "status s k = None \<Longrightarrow> status (sent e k s) = status s \<and> status (failed k s) = status s"
  by (simp add: status_sent status_failed)

lemma others:
  "k' \<noteq> k \<Longrightarrow> status (sent e k s) k' = status s k'"
  "k' \<noteq> k \<Longrightarrow> status (failed k s) k' = status s k'"
  "k' \<noteq> key a \<Longrightarrow> status (start a s) k' = status s k'"
  by (simp_all add: status_sent status_failed status_start)

text \<open>Starting a payment again forgets how it ended.\<close>

lemma restart_forgets:
  "\<not> accepted a s \<Longrightarrow> status (start a s) (key a) = Some Failed"
  by (simp add: status_start)

end

definition outbound_status :: "node \<Rightarrow> bytes \<Rightarrow> htlc_status option" where
  "outbound_status s h = map_option pi_status (outbound_payments s h)"

type_synonym keysend_args =
  "ldk \<times> (bytes \<Rightarrow> bytes) \<times> bytes \<times> pubkey \<times> u64 \<times> (contract_id \<times> u64) option"

fun keysend_key :: "keysend_args \<Rightarrow> bytes" where
  "keysend_key (env, sha256, preimage, _) = sha256 preimage"

fun keysend_accepted :: "keysend_args \<Rightarrow> node \<Rightarrow> bool" where
  "keysend_accepted (env, sha256, preimage, pk, amt, rgb) s =
     send_spontaneous_retry_ok env
       (trace s @ (case rgb of None \<Rightarrow> []
                   | Some (c, a) \<Rightarrow> [WriteRgbPaymentInfo (sha256 preimage) c a (Some a)]))
       (sha256 preimage) pk amt"

fun keysend_run :: "keysend_args \<Rightarrow> node \<Rightarrow> node" where
  "keysend_run (env, sha256, preimage, pk, amt, rgb) s =
     flow_state (keysend env sha256 preimage pk amt rgb s)"

interpretation outbound: payment_ledger outbound_status keysend_key keysend_accepted keysend_run
  "\<lambda>(preimage, fee) h s. flow_state (payment_sent preimage h fee s)"
  "\<lambda>h s. flow_state (payment_failed h s)"
proof (unfold_locales, goal_cases)
  case (1 a s)
  then show ?case
    by (cases a) (auto simp: outbound_status_def keysend_def Let_def fun_eq_iff
        split: option.splits)
next
  case (2 e k s)
  then show ?case
    by (cases e) (auto simp: outbound_status_def payment_sent_def Let_def fun_eq_iff
        split: option.splits)
next
  case (3 k s)
  then show ?case
    by (auto simp: outbound_status_def payment_failed_def Let_def fun_eq_iff
        split: option.splits)
qed

subsection \<open>Success is only recorded with its preimage\<close>

definition success_has_preimage :: "node \<Rightarrow> bool" where
  "success_has_preimage s \<longleftrightarrow> (\<forall>h p. outbound_payments s h = Some p \<longrightarrow>
     pi_status p = Succeeded \<longrightarrow> pi_preimage p \<noteq> None)"

named_theorems success_pres \<open>operations that keep \<open>success_has_preimage\<close>\<close>

lemma success_claimable [success_pres]:
  "success_has_preimage s \<Longrightarrow> success_has_preimage (flow_state (payment_claimable h p a s))"
  by (auto simp: success_has_preimage_def payment_claimable_def Let_def split: option.splits)

lemma success_claimed [success_pres]:
  "success_has_preimage s \<Longrightarrow> success_has_preimage (flow_state (payment_claimed h p a s))"
  by (auto simp: success_has_preimage_def payment_claimed_def Let_def)

lemma success_sent [success_pres]:
  "success_has_preimage s \<Longrightarrow> success_has_preimage (flow_state (payment_sent x h f s))"
  by (auto simp: success_has_preimage_def payment_sent_def Let_def split: option.splits if_splits)

lemma success_failed [success_pres]:
  "success_has_preimage s \<Longrightarrow> success_has_preimage (flow_state (payment_failed h s))"
  by (auto simp: success_has_preimage_def payment_failed_def Let_def split: option.splits)

lemma success_send_payment [success_pres]:
  "success_has_preimage s \<Longrightarrow> success_has_preimage (flow_state (send_payment env i s))"
  by (auto simp: success_has_preimage_def send_payment_def Let_def split: option.splits)

lemma success_keysend [success_pres]:
  "success_has_preimage s \<Longrightarrow> success_has_preimage (flow_state (keysend env sha x pk a r s))"
  by (auto simp: success_has_preimage_def keysend_def Let_def split: option.splits)

lemma success_get_invoice [success_pres]:
  "success_has_preimage s \<Longrightarrow> success_has_preimage (flow_state (get_invoice env a e c r s))"
  by (auto simp: success_has_preimage_def get_invoice_def Let_def split: option.splits)

lemma success_invoice_status [success_pres]:
  "success_has_preimage s \<Longrightarrow> success_has_preimage (flow_state (invoice_status i s))"
  by (auto simp: success_has_preimage_def invoice_status_def)

subsection \<open>Properties\<close>

text \<open>
  The life of a keysend payment: once LDK reports it as sent, the payment started before is recorded
  as succeeded under the hash of its preimage, and neither the command nor the event changes the
  recorded status of any other payment.
\<close>

theorem keysend_lifecycle:
  "let h = sha256 preimage;
       started = flow_state (keysend env sha256 preimage payee amt_msat rgb_payment s);
       ended = flow_state (payment_sent preimage' h fee started)
   in outbound_status ended h = Some Succeeded \<and>
      (\<forall>h'. h' \<noteq> h \<longrightarrow> outbound_status ended h' = outbound_status s h')"
  using outbound.started_sent [of "(env, sha256, preimage, payee, amt_msat, rgb_payment)" "sha256 preimage" "(preimage', fee)" s]
    outbound.others(1) [of _ "sha256 preimage" "(preimage', fee)"
      "flow_state (keysend env sha256 preimage payee amt_msat rgb_payment s)"]
    outbound.others(3) [of _ "(env, sha256, preimage, payee, amt_msat, rgb_payment)" s]
  by (simp add: Let_def)

theorem keysend_lifecycle_witness:
  "let ended = flow_state (payment_sent [5, 7] [7, 5] None
         (flow_state (keysend sample_ldk rev [5, 7] [9] 1000 None sample_node)))
   in outbound_status ended [7, 5] = Some Succeeded \<and> outbound_status ended [1] = None"
  using keysend_lifecycle [of rev "[5, 7]" sample_ldk "[9]" 1000 None sample_node "[5, 7]" None]
  by (simp add: Let_def outbound_status_def sample_node_def)

text \<open>
  A payment that arrives is recorded as succeeded with the preimage and secret of the event, keeping
  the amount of the invoice it belongs to, and ends the maker's trade with that hash; nothing else
  changes.
\<close>

theorem payment_claimed_records:
  "payment_claimed h purpose amount_msat s = Continue
     (s\<lparr>inbound_payments := (inbound_payments s)(h \<mapsto>
          \<lparr>pi_preimage = purpose_preimage purpose, pi_secret = purpose_secret purpose, pi_status = Succeeded,
           pi_amt_msat = (case inbound_payments s h of Some p \<Rightarrow> pi_amt_msat p | None \<Rightarrow> Some amount_msat)\<rparr>),
        maker_trades := (maker_trades s)(h := None),
        trace := trace s @ [Print (MClaimedPayment h amount_msat), Print MClaimedEnd]\<rparr>)"
  by (cases s; cases "inbound_payments s h") (auto simp: payment_claimed_def emit_def Let_def)

text \<open>
  Paying an invoice again forgets that it was paid: when LDK refuses the second attempt (it knows
  the payment id), the record that says succeeded, with its preimage, is replaced by a failed one
  without.
\<close>

theorem paying_again_forgets_success:
  assumes "inv_rgb_contract_id invoice = None" and "\<not> pay_invoice_ok env (trace s) invoice"
    and "outbound_payments s (inv_payment_hash invoice) = Some p" and "pi_status p = Succeeded"
  shows "outbound_payments (flow_state (send_payment env invoice s)) (inv_payment_hash invoice) =
    Some \<lparr>pi_preimage = None, pi_secret = Some (inv_payment_secret invoice), pi_status = Failed,
          pi_amt_msat = inv_amount_msat invoice\<rparr>"
  using assms by (simp add: send_payment_def Let_def)

theorem paying_again_forgets_success_witness:
  "outbound_payments (flow_state (send_payment (sample_ldk\<lparr>pay_invoice_ok := \<lambda>_ _. False\<rparr>)
      \<lparr>inv_payment_hash = [5], inv_payment_secret = [6], inv_amount_msat = Some 3000000,
       inv_rgb_contract_id = None, inv_rgb_amount = None, inv_payee = [9], inv_is_expired = False\<rparr>
      (sample_node\<lparr>outbound_payments := [[5] \<mapsto> \<lparr>pi_preimage = Some [4], pi_secret = Some [6],
         pi_status = Succeeded, pi_amt_msat = Some 3000000\<rparr>]\<rparr>))) [5] =
    Some \<lparr>pi_preimage = None, pi_secret = Some [6], pi_status = Failed, pi_amt_msat = Some 3000000\<rparr>"
  using paying_again_forgets_success [of "\<lparr>inv_payment_hash = [5], inv_payment_secret = [6],
      inv_amount_msat = Some 3000000, inv_rgb_contract_id = None, inv_rgb_amount = None, inv_payee = [9],
      inv_is_expired = False\<rparr>" "sample_ldk\<lparr>pay_invoice_ok := \<lambda>_ _. False\<rparr>"]
  by simp

end
