(* ===== verification/Peers.thy ===== *)
theory Peers
  imports Node
begin

text \<open>
  Peers: reading \<open>pubkey@host:port\<close> (\<open>parse_peer_info\<close>), the file of channel peers
  (\<open>src/disk.rs\<close>), connecting and disconnecting (\<open>src/cli.rs\<close>), and the task of \<open>start_ldk\<close> that
  reconnects the peers of open channels. \<open>to_socket_addrs\<close> asks the resolver: the parameter
  \<open>resolve\<close> (\<^term>\<open>None\<close> for an error, else the addresses found).
\<close>

subsection \<open>Peer info and the peer file\<close>

datatype peer_error = BadPeerFormat | BadSocketAddress | BadPeerPubkey

definition parse_peer_info ::
  "(string \<Rightarrow> sockaddr list option) \<Rightarrow> (bytes \<Rightarrow> pubkey option) \<Rightarrow> string \<Rightarrow>
   peer_error + pubkey \<times> sockaddr" where
  "parse_peer_info resolve from_slice s =
     (case split_on (CHR ''@'') s of
        pubkey # peer_addr_str # _ \<Rightarrow>
          (case resolve peer_addr_str of
             Some (peer_addr # _) \<Rightarrow>
               (case to_compressed_pubkey from_slice pubkey of
                  None \<Rightarrow> Inl BadPeerPubkey
                | Some pubkey \<Rightarrow> Inr (pubkey, peer_addr))
           | _ \<Rightarrow> Inl BadSocketAddress)
      | _ \<Rightarrow> Inl BadPeerFormat)"

definition persist_channel_peer :: "string \<Rightarrow> string option \<Rightarrow> string option" where
  "persist_channel_peer peer_info file =
     Some ((case file of None \<Rightarrow> [] | Some c \<Rightarrow> c) @ peer_info @ [newline])"

fun read_peer_lines ::
  "(string \<Rightarrow> peer_error + pubkey \<times> sockaddr) \<Rightarrow> (pubkey \<rightharpoonup> sockaddr) \<Rightarrow> string list \<Rightarrow>
   peer_error + (pubkey \<rightharpoonup> sockaddr)" where
  "read_peer_lines parse peer_data [] = Inr peer_data"
| "read_peer_lines parse peer_data (l # ls) =
     (case parse l of
        Inr (pubkey, addr) \<Rightarrow> read_peer_lines parse (peer_data(pubkey \<mapsto> addr)) ls
      | Inl e \<Rightarrow> Inl e)"

definition read_channel_peer_data ::
  "(string \<Rightarrow> peer_error + pubkey \<times> sockaddr) \<Rightarrow> string option \<Rightarrow>
   peer_error + (pubkey \<rightharpoonup> sockaddr)" where
  "read_channel_peer_data parse file =
     (case file of
        None \<Rightarrow> Inr Map.empty
      | Some contents \<Rightarrow> read_peer_lines parse Map.empty (lines contents))"

subsection \<open>Connections\<close>

text \<open>
  The loop of \<open>do_connect_peer\<close> over its ticks: whether the connection was closed, and else whether
  the peer is connected after 10 ms. \<^term>\<open>None\<close>: no tick of the list decides.
\<close>

fun await_connection :: "(bool \<times> bool) list \<Rightarrow> bool option" where
  "await_connection [] = None"
| "await_connection ((closed, connected) # ticks) =
     (if closed then Some False
      else if connected then Some True
      else await_connection ticks)"

definition do_connect_peer :: "ldk \<Rightarrow> pubkey \<Rightarrow> sockaddr \<Rightarrow> node \<Rightarrow> bool option \<times> node" where
  "do_connect_peer env pubkey peer_addr s =
     (let c = connection env (trace s) pubkey peer_addr; s = emit (ConnectOutbound pubkey peer_addr) s
      in case c of
           None \<Rightarrow> (Some False, s)
         | Some ticks \<Rightarrow> (await_connection ticks, s))"

definition connect_peer_if_necessary :: "ldk \<Rightarrow> pubkey \<Rightarrow> sockaddr \<Rightarrow> node \<Rightarrow> bool option \<times> node" where
  "connect_peer_if_necessary env pubkey peer_addr s =
     (if pubkey \<in> set (peer_node_ids env (trace s)) then (Some True, s)
      else case do_connect_peer env pubkey peer_addr s of
             (Some False, s) \<Rightarrow> (Some False, println (MError ''failed to connect to peer'') s)
           | r \<Rightarrow> r)"

definition do_disconnect_peer :: "ldk \<Rightarrow> pubkey \<Rightarrow> node \<Rightarrow> bool \<times> node" where
  "do_disconnect_peer env pubkey s =
     (if pubkey \<in> set (map cd_counterparty (list_channels env (trace s)))
      then (False, println (MError ''Node has an active channel with this peer, close any channels first'') s)
      else if pubkey \<notin> set (peer_node_ids env (trace s))
      then (False, println (MError ''Could not find peer'') s)
      else (True, emit (DisconnectPeer pubkey) s))"

text \<open>
  One tick of the reconnecting task. The peers are looked up once, before the loop over
  the channels; the result of each attempt is ignored, and one that never returns stops
  the task. The shutdown flag is read before each channel.
\<close>

fun reconnect_channels ::
  "ldk \<Rightarrow> (effect list \<Rightarrow> bool) \<Rightarrow> (pubkey \<rightharpoonup> sockaddr) \<Rightarrow> pubkey list \<Rightarrow> node \<Rightarrow> flow" where
  "reconnect_channels env stop info [] s = Continue s"
| "reconnect_channels env stop info (node_id # ids) s =
     (if stop (trace s) then Break s
      else case info node_id of
             None \<Rightarrow> reconnect_channels env stop info ids s
           | Some peer_addr \<Rightarrow>
               (case do_connect_peer env node_id peer_addr s of
                  (None, s) \<Rightarrow> Hang s
                | (Some _, s) \<Rightarrow> reconnect_channels env stop info ids s))"

definition reconnect_tick ::
  "ldk \<Rightarrow> (effect list \<Rightarrow> bool) \<Rightarrow> (string \<Rightarrow> peer_error + pubkey \<times> sockaddr) \<Rightarrow> node \<Rightarrow> flow" where
  "reconnect_tick env stop parse s =
     (case read_channel_peer_data parse (channel_peer_data s) of
        Inr info \<Rightarrow>
          (let peers = peer_node_ids env (trace s) in
           reconnect_channels env stop info
             (filter (\<lambda>i. i \<notin> set peers) (map cd_counterparty (list_channels env (trace s)))) s)
      | Inl e \<Rightarrow> Continue (println (MError ''errored reading channel peer info from disk'') s))"

subsection \<open>Lemmas\<close>

text \<open>A line the command line can have passed on: one word, so without line breaks.\<close>

definition one_line :: "string \<Rightarrow> bool" where
  "one_line l \<longleftrightarrow> newline \<notin> set l \<and> CHR 0x0D \<notin> set l"

lemma word_one_line: "w \<in> set (split_whitespace l) \<Longrightarrow> one_line w"
proof -
  assume "w \<in> set (split_whitespace l)"
  then have "w \<in> set (split_ws l)" by (simp add: split_whitespace_def)
  then have "\<forall>c\<in>set w. \<not> is_ws c" using split_ws_pieces by blast
  moreover have "is_ws newline" "is_ws (CHR 0x0D)" by (simp_all add: is_ws_def newline_def)
  ultimately show ?thesis by (auto simp: one_line_def)
qed

lemma lines_concat:
  "list_all one_line ls \<Longrightarrow> lines (concat (map (\<lambda>l. l @ [newline]) ls)) = ls"
  by (induction ls) (auto simp: one_line_def str_simps)

lemma read_peer_lines_append:
  "read_peer_lines parse m (ls @ ms) =
     (case read_peer_lines parse m ls of Inl e \<Rightarrow> Inl e | Inr m' \<Rightarrow> read_peer_lines parse m' ms)"
  by (induction ls arbitrary: m) (auto split: sum.splits)

text \<open>The file as the program writes it: lines that parse.\<close>

definition peer_file_ok :: "(string \<Rightarrow> peer_error + pubkey \<times> sockaddr) \<Rightarrow> string option \<Rightarrow> bool" where
  "peer_file_ok parse file \<longleftrightarrow> file = None \<or>
     (\<exists>ls. file = Some (concat (map (\<lambda>l. l @ [newline]) ls)) \<and> list_all one_line ls \<and>
        (\<forall>l\<in>set ls. \<exists>r. parse l = Inr r))"

lemma read_ok_lines: "\<forall>l\<in>set ls. \<exists>r. parse l = Inr r \<Longrightarrow> \<exists>m'. read_peer_lines parse m ls = Inr m'"
  by (induction ls arbitrary: m) force+

lemma read_persisted:
  assumes "peer_file_ok parse file" and "one_line l" and "parse l = Inr (pk, addr)"
  shows "\<exists>m. read_channel_peer_data parse file = Inr m \<and>
    read_channel_peer_data parse (persist_channel_peer l file) = Inr (m(pk \<mapsto> addr)) \<and>
    peer_file_ok parse (persist_channel_peer l file)"
proof -
  obtain ls where ls: "(case file of None \<Rightarrow> [] | Some c \<Rightarrow> c) = concat (map (\<lambda>l. l @ [newline]) ls)"
    "list_all one_line ls" "\<forall>l\<in>set ls. \<exists>r. parse l = Inr r"
    using assms(1) unfolding peer_file_ok_def
    by (metis concat.simps(1) list.pred_inject(1) list.set(1) list.simps(8) option.simps(4,5) empty_iff)
  obtain m where m: "read_peer_lines parse Map.empty ls = Inr m"
    using read_ok_lines [OF ls(3)] by blast
  have r: "read_channel_peer_data parse file = Inr m"
  proof (cases "file")
    case None
    then have "concat (map (\<lambda>l. l @ [newline]) ls) = []" using ls(1) by simp
    then have "ls = []" by (cases ls) auto
    with m None show ?thesis by (simp add: read_channel_peer_data_def)
  next
    case (Some c)
    then show ?thesis using m ls by (simp add: read_channel_peer_data_def lines_concat)
  qed
  have p: "persist_channel_peer l file = Some (concat (map (\<lambda>l. l @ [newline]) (ls @ [l])))"
    by (simp add: persist_channel_peer_def ls(1))
  have all: "list_all one_line (ls @ [l])" using ls(2) assms(2) by simp
  have "read_channel_peer_data parse (persist_channel_peer l file) = Inr (m(pk \<mapsto> addr))"
    unfolding p read_channel_peer_data_def option.case lines_concat [OF all]
    by (simp add: read_peer_lines_append m assms(3))
  moreover have "peer_file_ok parse (persist_channel_peer l file)"
    unfolding peer_file_ok_def p using all ls(3) assms(3) by (intro disjI2 exI [of _ "ls @ [l]"]) auto
  ultimately show ?thesis using r by blast
qed

lemma peer_file_grows:
  assumes "peer_file_ok parse file" and "l \<in> set (split_whitespace command_line)" and "parse l = Inr (pk, addr)"
  shows "\<exists>m. read_channel_peer_data parse file = Inr m \<and>
    read_channel_peer_data parse (persist_channel_peer l file) = Inr (m(pk \<mapsto> addr)) \<and>
    peer_file_ok parse (persist_channel_peer l file)"
  by (rule read_persisted [OF assms(1) word_one_line [OF assms(2)] assms(3)])

lemma do_connect_trace: "trace (snd (do_connect_peer env pk addr s)) = trace s @ [ConnectOutbound pk addr]"
  by (auto simp: do_connect_peer_def Let_def split: option.splits)

lemma reconnect_channels_cases:
  obtains "stop (trace s)" | "\<not> stop (trace s)" "info i = None"
    | a t where "\<not> stop (trace s)" "info i = Some a" "do_connect_peer env i a s = (None, t)"
        "trace t = trace s @ [ConnectOutbound i a]"
    | a r t where "\<not> stop (trace s)" "info i = Some a" "do_connect_peer env i a s = (Some r, t)"
        "trace t = trace s @ [ConnectOutbound i a]"
  by (metis do_connect_trace option.exhaust snd_conv surj_pair)

abbreviation dial :: "(pubkey \<rightharpoonup> sockaddr) \<Rightarrow> pubkey list \<Rightarrow> effect list" where
  "dial info ids \<equiv> map (\<lambda>i. ConnectOutbound i (the (info i))) ids"

lemma reconnect_channels_trace:
  "\<exists>ids'. trace (flow_state (reconnect_channels env stop info ids s)) = trace s @ dial info ids' \<and>
     (\<forall>i\<in>set ids'. i \<in> set ids \<and> info i \<noteq> None)"
proof (induction ids arbitrary: s)
  case (Cons i ids)
  show ?case
  proof (cases rule: reconnect_channels_cases [where stop = stop and s = s and info = info and i = i and env = env])
    case 1
    then show ?thesis by (intro exI [of _ "[]"]) simp
  next
    case 2
    obtain ids' where "trace (flow_state (reconnect_channels env stop info ids s)) = trace s @ dial info ids'"
      "\<forall>i\<in>set ids'. i \<in> set ids \<and> info i \<noteq> None" using Cons.IH [of s] by blast
    with 2 show ?thesis by (intro exI [of _ ids']) simp
  next
    case (3 a t)
    then show ?thesis by (intro exI [of _ "[i]"]) simp
  next
    case (4 a r t)
    obtain ids' where "trace (flow_state (reconnect_channels env stop info ids t)) = trace t @ dial info ids'"
      "\<forall>i\<in>set ids'. i \<in> set ids \<and> info i \<noteq> None" using Cons.IH [of t] by blast
    with 4 show ?thesis by (intro exI [of _ "i # ids'"]) simp
  qed
qed simp

lemma reconnect_channels_complete:
  "reconnect_channels env stop info ids s = Continue u \<Longrightarrow>
     trace u = trace s @ dial info (filter (\<lambda>i. info i \<noteq> None) ids)"
proof (induction ids arbitrary: s)
  case (Cons i ids)
  show ?case
  proof (cases rule: reconnect_channels_cases [where stop = stop and s = s and info = info and i = i and env = env])
    case (4 a r t)
    then show ?thesis using Cons.IH [of t] Cons.prems by simp
  qed (use Cons.IH [of s] Cons.prems in simp_all)
qed simp

subsection \<open>Properties\<close>

definition sample_resolve :: "string \<Rightarrow> sockaddr list option" where
  "sample_resolve a = (if a = [] then None else Some [a])"

text \<open>
  A peer written as the hexadecimal form of a 33-byte public key, \<open>@\<close> and an address is
  read back as that key and the first address the resolver gives, and whatever follows a second
  \<open>@\<close> is ignored.
\<close>

theorem parse_peer_info_correct:
  assumes "length bs = 33" and "from_slice bs = Some pk" and "CHR ''@'' \<notin> set addr"
    and "resolve addr = Some (a # as)"
  shows "parse_peer_info resolve from_slice (hex_str bs @ CHR ''@'' # addr) = Inr (pk, a) \<and>
    parse_peer_info resolve from_slice (hex_str bs @ CHR ''@'' # addr @ CHR ''@'' # rest) = Inr (pk, a)"
  using assms
  by (simp add: parse_peer_info_def hex_at.split_field split_on_free split_on_append
      to_compressed_pubkey_def)

theorem parse_peer_info_correct_witness:
  "parse_peer_info sample_resolve Some (hex_str (replicate 33 2) @ CHR ''@'' # ''h:1'') =
     Inr (replicate 33 2, ''h:1'')"
  using parse_peer_info_correct [of "replicate 33 2" Some "replicate 33 2" "''h:1''" sample_resolve "''h:1''" "[]"]
  by (simp add: sample_resolve_def)

text \<open>
  The peer file round trip: appending a line \<open>opencoloredchannel\<close> or \<open>openchannel\<close> accepted makes the next
  read return the previous peers plus this one (its newest address wins), and keeps the
  file readable.
\<close>

theorem peer_file_roundtrip:
  assumes "peer_file_ok parse file" and "l \<in> set (split_whitespace command_line)"
    and "parse l = Inr (pk, addr)"
  shows "\<exists>m. read_channel_peer_data parse file = Inr m \<and>
    read_channel_peer_data parse (persist_channel_peer l file) = Inr (m(pk \<mapsto> addr)) \<and>
    peer_file_ok parse (persist_channel_peer l file)"
  using peer_file_grows [OF assms] .

theorem peer_file_roundtrip_witness:
  "\<exists>m. read_channel_peer_data (\<lambda>l. Inr ([1], l)) None = Inr m \<and>
    read_channel_peer_data (\<lambda>l. Inr ([1], l)) (persist_channel_peer ''a'' None) = Inr (m([1] \<mapsto> ''a'')) \<and>
    peer_file_ok (\<lambda>l. Inr ([1], l)) (persist_channel_peer ''a'' None)"
  by (rule peer_file_roundtrip [of _ None "''a''" "''a b''"])
     (simp_all add: peer_file_ok_def split_whitespace_def is_ws_def)

text \<open>
  C33. The reconnecting task dials only counterparties of open channels that were not connected
  when the tick began, at their address in the peer file, and a tick that returns
  has dialled every such counterparty the file knows, in channel order.
\<close>

theorem reconnect_tick_correct:
  assumes "read_channel_peer_data parse (channel_peer_data s) = Inr info"
  shows "(\<exists>ids. new_effects s (reconnect_tick env stop parse s) = dial info ids \<and>
      (\<forall>i\<in>set ids. info i \<noteq> None \<and> i \<notin> set (peer_node_ids env (trace s)) \<and>
         i \<in> cd_counterparty ` set (list_channels env (trace s)))) \<and>
    (\<forall>t. reconnect_tick env stop parse s = Continue t \<longrightarrow>
       new_effects s (Continue t) = dial info
         (filter (\<lambda>i. info i \<noteq> None)
            (filter (\<lambda>i. i \<notin> set (peer_node_ids env (trace s)))
               (map cd_counterparty (list_channels env (trace s))))))"
proof -
  let ?ids = "filter (\<lambda>i. i \<notin> set (peer_node_ids env (trace s)))
      (map cd_counterparty (list_channels env (trace s)))"
  have eq: "reconnect_tick env stop parse s = reconnect_channels env stop info ?ids s"
    by (simp add: reconnect_tick_def assms Let_def)
  obtain ids where
    "trace (flow_state (reconnect_channels env stop info ?ids s)) = trace s @ dial info ids"
    "\<forall>i\<in>set ids. i \<in> set ?ids \<and> info i \<noteq> None"
    using reconnect_channels_trace [of env stop info ?ids s] by blast
  moreover have "new_effects s (Continue t) = dial info (filter (\<lambda>i. info i \<noteq> None) ?ids)"
    if "reconnect_channels env stop info ?ids s = Continue t" for t
    using reconnect_channels_complete [OF that] by (simp add: new_effects_def)
  ultimately show ?thesis unfolding eq
    by (intro conjI exI [of _ ids]) (auto simp: new_effects_def)
qed

theorem reconnect_tick_correct_witness:
  "let s = sample_node\<lparr>channel_peer_data := Some (''a'' @ [newline])\<rparr>;
       tick = reconnect_tick sample_ldk (\<lambda>_. False) (\<lambda>l. Inr ([9], l)) s
   in \<forall>t. tick = Continue t \<longrightarrow>
        new_effects s (Continue t) = [ConnectOutbound [9] ''a'', ConnectOutbound [9] ''a'']"
  using reconnect_tick_correct [of "\<lambda>l. Inr ([9], l)" "sample_node\<lparr>channel_peer_data := Some (''a'' @ [newline])\<rparr>"
      "[[9] \<mapsto> ''a'']" sample_ldk "\<lambda>_. False"]
  by (simp add: read_channel_peer_data_def sample_node_def sample_ldk_def sample_channel_def
      lines_def newline_def strip_cr_def)

end
