(* ===== verification/Intercept.thy ===== *)
theory Intercept
  imports Node
begin

text \<open>
  The taker's side of a swap: the \<open>HTLCIntercepted\<close> arm of \<open>handle_ldk_events\<close>
  (\<open>src/main.rs\<close>). An HTLC that asks this node to swap assets for bitcoin is forwarded only
  if the payment hash is on the whitelist and the amounts and channels are those agreed on.
\<close>

definition HTLC_MIN_MSAT :: u64 where
  "HTLC_MIN_MSAT = 3000000"

subsection \<open>The handler\<close>

record intercepted_htlc =
  ih_is_swap :: bool
  ih_payment_hash :: bytes
  ih_intercept_id :: bytes
  ih_inbound_amount_msat :: u64
  ih_expected_outbound_amount_msat :: u64
  ih_inbound_rgb_amount :: "u64 option"
  ih_expected_outbound_rgb_amount :: "u64 option"
  ih_requested_next_hop_scid :: u64
  ih_prev_short_channel_id :: u64

text \<open>\<open>channel_manager.fail_intercepted_htlc(id).unwrap()\<close>; the flag says whether it panicked.\<close>

definition fail_intercepted :: "ldk \<Rightarrow> bytes \<Rightarrow> node \<Rightarrow> bool \<times> node" where
  "fail_intercepted env iid s = (fail_intercepted_ok env (trace s) iid, emit (FailIntercepted iid) s)"

text \<open>The closure \<open>get_rgb_info\<close>: the RGB file of the channel, if there is one.\<close>

definition get_rgb_info :: "node \<Rightarrow> channel_id \<Rightarrow> (contract_id \<times> u64 \<times> u64) option" where
  "get_rgb_info s cid = map_option
     (\<lambda>i. (ri_contract_id i, ri_local_rgb_amount i, ri_remote_rgb_amount i)) (rgb_channel_files s cid)"

definition find_by_scid :: "ldk \<Rightarrow> u64 \<Rightarrow> node \<Rightarrow> channel_details option" where
  "find_by_scid env scid s =
     find (\<lambda>d. cd_short_channel_id d = Some scid) (list_channels env (trace s))"

text \<open>The check of the whitelisted swap against what the HTLC asks for (true: reject).\<close>

fun swap_mismatch ::
  "contract_id \<times> swap_type \<Rightarrow> intercepted_htlc \<Rightarrow>
   (contract_id \<times> u64 \<times> u64) option \<Rightarrow> (contract_id \<times> u64 \<times> u64) option \<Rightarrow> bool" where
  "swap_mismatch (cid, BuyAsset rgb msats) ih inbound_rgb_info outbound_rgb_info =
     (let net_msat_diff = saturating_sub (ih_expected_outbound_amount_msat ih)
            (saturating_sub (ih_inbound_amount_msat ih) HTLC_MIN_MSAT)
      in ih_inbound_rgb_amount ih \<noteq> Some rgb \<or> map_option fst inbound_rgb_info \<noteq> Some cid \<or>
         net_msat_diff \<noteq> msats \<or> outbound_rgb_info \<noteq> None)"
| "swap_mismatch (cid, SellAsset rgb msats) ih inbound_rgb_info outbound_rgb_info =
     (let net_msat_diff = saturating_sub (ih_inbound_amount_msat ih)
            (ih_expected_outbound_amount_msat ih)
      in ih_expected_outbound_rgb_amount ih \<noteq> Some rgb \<or>
         map_option fst outbound_rgb_info \<noteq> Some cid \<or>
         net_msat_diff \<noteq> msats \<or> inbound_rgb_info \<noteq> None)"

text \<open>
  The arm after its first guard: the source does not return there, so a refused
  non-swap HTLC goes through the rest as well.
\<close>

definition htlc_intercepted_swap :: "ldk \<Rightarrow> intercepted_htlc \<Rightarrow> node \<Rightarrow> flow" where
  "htlc_intercepted_swap env ih s =
     (case (find_by_scid env (ih_prev_short_channel_id ih) s,
            find_by_scid env (ih_requested_next_hop_scid ih) s) of
        (Some inbound_channel, Some outbound_channel) \<Rightarrow>
          (let inbound_rgb_info = get_rgb_info s (cd_channel_id inbound_channel);
               outbound_rgb_info = get_rgb_info s (cd_channel_id outbound_channel);
               s = println MSwapRequested s;
               reject = (\<lambda>m s. case fail_intercepted env (ih_intercept_id ih) (println m s) of
                   (True, s) \<Rightarrow> Continue s
                 | (False, s) \<Rightarrow> Abort s)
           in case whitelisted_trades s (ih_payment_hash ih) of
                None \<Rightarrow> reject MNotWhitelisted s
              | Some trade \<Rightarrow>
                  if swap_mismatch trade ih inbound_rgb_info outbound_rgb_info
                  then reject MSwapMismatch s
                  else
                    (let s = println MSwapForwarding s;
                         s = s\<lparr>whitelisted_trades :=
                               (whitelisted_trades s)(ih_payment_hash ih := None)\<rparr>;
                         ok = forward_intercepted_ok env (trace s) (ih_intercept_id ih);
                         s = emit (ForwardIntercepted (ih_intercept_id ih)
                               (ih_requested_next_hop_scid ih)
                               (ih_expected_outbound_amount_msat ih)
                               (ih_expected_outbound_rgb_amount ih)) s
                     in if ok then Continue s else Abort s))
      | _ \<Rightarrow> Abort s)"

definition htlc_intercepted :: "ldk \<Rightarrow> intercepted_htlc \<Rightarrow> node \<Rightarrow> flow" where
  "htlc_intercepted env ih s =
     (if ih_is_swap ih then htlc_intercepted_swap env ih s
      else case fail_intercepted env (ih_intercept_id ih) s of
             (True, s) \<Rightarrow> htlc_intercepted_swap env ih s
           | (False, s) \<Rightarrow> Abort s)"

lemmas intercept_defs = htlc_intercepted_def htlc_intercepted_swap_def fail_intercepted_def

declare intercept_defs [step_defs]

subsection \<open>What an intercepted HTLC can lead to\<close>

fun is_forward :: "effect \<Rightarrow> bool" where
  "is_forward (ForwardIntercepted _ _ _ _) = True"
| "is_forward _ = False"

text \<open>The condition under which the arm forwards.\<close>

definition forwards :: "ldk \<Rightarrow> intercepted_htlc \<Rightarrow> node \<Rightarrow> bool" where
  "forwards env ih s \<longleftrightarrow> ih_is_swap ih \<and>
     (\<exists>ic oc trade.
        find_by_scid env (ih_prev_short_channel_id ih) s = Some ic \<and>
        find_by_scid env (ih_requested_next_hop_scid ih) s = Some oc \<and>
        whitelisted_trades s (ih_payment_hash ih) = Some trade \<and>
        \<not> swap_mismatch trade ih (get_rgb_info s (cd_channel_id ic)) (get_rgb_info s (cd_channel_id oc)))"

text \<open>
  The outcome of the swap part, case by case: a panic for an unknown channel, a rejection,
  or a forward that takes the trade off the whitelist.
\<close>

lemma swap_part_cases:
  obtains (no_channel) "htlc_intercepted_swap env ih s = Abort s"
      "find_by_scid env (ih_prev_short_channel_id ih) s = None \<or>
       find_by_scid env (ih_requested_next_hop_scid ih) s = None"
  | (reject) m tr where
      "whitelisted_trades s (ih_payment_hash ih) = None \<and> m = MNotWhitelisted \<or>
       whitelisted_trades s (ih_payment_hash ih) \<noteq> None \<and> m = MSwapMismatch"
      "tr = trace s @ [Print MSwapRequested, Print m]"
      "htlc_intercepted_swap env ih s =
         (if fail_intercepted_ok env tr (ih_intercept_id ih) then Continue else Abort)
           (s\<lparr>trace := tr @ [FailIntercepted (ih_intercept_id ih)]\<rparr>)"
      "forwards env (ih\<lparr>ih_is_swap := True\<rparr>) s \<Longrightarrow> False"
  | (forward) tr where
      "forwards env (ih\<lparr>ih_is_swap := True\<rparr>) s"
      "tr = trace s @ [Print MSwapRequested, Print MSwapForwarding]"
      "htlc_intercepted_swap env ih s =
         (if forward_intercepted_ok env tr (ih_intercept_id ih) then Continue else Abort)
           (s\<lparr>whitelisted_trades := (whitelisted_trades s)(ih_payment_hash ih := None),
              trace := tr @ [ForwardIntercepted (ih_intercept_id ih)
                (ih_requested_next_hop_scid ih) (ih_expected_outbound_amount_msat ih)
                (ih_expected_outbound_rgb_amount ih)]\<rparr>)"
proof (cases "find_by_scid env (ih_prev_short_channel_id ih) s = None \<or>
    find_by_scid env (ih_requested_next_hop_scid ih) s = None")
  case True
  then show thesis
    by (intro no_channel) (auto simp: htlc_intercepted_swap_def split: option.splits)
next
  case False
  then obtain ic oc where ch: "find_by_scid env (ih_prev_short_channel_id ih) s = Some ic"
      "find_by_scid env (ih_requested_next_hop_scid ih) s = Some oc" by auto
  let ?i = "get_rgb_info s (cd_channel_id ic)" and ?o = "get_rgb_info s (cd_channel_id oc)"
  have mm: "swap_mismatch t (ih\<lparr>ih_is_swap := b\<rparr>) x y = swap_mismatch t ih x y" for t b x y
    by (cases t; cases "snd t") (auto simp: Let_def)
  show thesis
  proof (cases "whitelisted_trades s (ih_payment_hash ih)")
    case None
    with ch show thesis
      by (intro reject [of MNotWhitelisted])
         (auto simp: htlc_intercepted_swap_def fail_intercepted_def emit_def Let_def forwards_def)
  next
    case (Some trade)
    show thesis
    proof (cases "swap_mismatch trade ih ?i ?o")
      case True
      with ch Some show thesis
        by (intro reject [of MSwapMismatch])
           (auto simp: htlc_intercepted_swap_def fail_intercepted_def emit_def Let_def forwards_def mm)
    next
      case False
      with ch Some show thesis
        by (intro forward)
           (auto simp: htlc_intercepted_swap_def fail_intercepted_def emit_def Let_def forwards_def mm)
    qed
  qed
qed

lemma forwards_swap_flag: "ih_is_swap ih \<Longrightarrow> ih\<lparr>ih_is_swap := True\<rparr> = ih"
  by simp

lemma forwards_imp_swap: "forwards env ih s \<Longrightarrow> ih_is_swap ih"
  by (simp add: forwards_def)

lemma forwards_whitelisted: "forwards env ih s \<Longrightarrow> whitelisted_trades s (ih_payment_hash ih) \<noteq> None"
  by (auto simp: forwards_def)

lemma whitelist_after:
  "whitelisted_trades (flow_state (htlc_intercepted env ih s)) =
     (if forwards env ih s then (whitelisted_trades s)(ih_payment_hash ih := None)
      else whitelisted_trades s)
   \<or> \<not> ih_is_swap ih"
proof (cases "ih_is_swap ih")
  case True
  note eq = forwards_swap_flag [OF True]
  show ?thesis
    by (rule swap_part_cases [of env ih s])
       (use True in \<open>auto simp: htlc_intercepted_def eq forwards_def\<close>)
qed simp

lemma swap_effects:
  assumes "ih_is_swap ih"
  shows "filter is_forward (new_effects s (htlc_intercepted env ih s)) =
    (if forwards env ih s
     then [ForwardIntercepted (ih_intercept_id ih) (ih_requested_next_hop_scid ih)
             (ih_expected_outbound_amount_msat ih) (ih_expected_outbound_rgb_amount ih)]
     else [])"
proof -
  note eq = forwards_swap_flag [OF assms]
  show ?thesis
    by (rule swap_part_cases [of env ih s])
       (use assms in \<open>auto simp: htlc_intercepted_def eq new_effects_def forwards_def\<close>)
qed

text \<open>
  LDK's documented contract: an intercepted HTLC is known to it until it has been failed
  or forwarded; after that both calls return an error.
\<close>

definition resolves_once :: "ldk \<Rightarrow> bool" where
  "resolves_once env \<longleftrightarrow> (\<forall>tr iid. list_ex (resolves iid) tr \<longrightarrow>
     \<not> fail_intercepted_ok env tr iid \<and> \<not> forward_intercepted_ok env tr iid)"

text \<open>A sequence of intercepted HTLCs, as the event loop hands them over, up to a panic.\<close>

fun intercept_run :: "ldk \<Rightarrow> intercepted_htlc list \<Rightarrow> node \<Rightarrow> flow" where
  "intercept_run env [] s = Continue s"
| "intercept_run env (ih # ihs) s =
     (case htlc_intercepted env ih s of Continue s' \<Rightarrow> intercept_run env ihs s' | f \<Rightarrow> f)"

text \<open>How many HTLCs of the sequence were forwarded for one payment hash.\<close>

fun forwarded_count :: "ldk \<Rightarrow> bytes \<Rightarrow> intercepted_htlc list \<Rightarrow> node \<Rightarrow> nat" where
  "forwarded_count env h [] s = 0"
| "forwarded_count env h (ih # ihs) s =
     (if ih_payment_hash ih = h
      then length (filter is_forward (new_effects s (htlc_intercepted env ih s))) else 0) +
     (case htlc_intercepted env ih s of Continue s' \<Rightarrow> forwarded_count env h ihs s' | _ \<Rightarrow> 0)"

lemma forwarded_count_bound:
  "list_all ih_is_swap ihs \<Longrightarrow>
   forwarded_count env h ihs s \<le> (if whitelisted_trades s h = None then 0 else 1)"
proof (induction ihs arbitrary: s)
  case (Cons ih ihs)
  let ?f = "htlc_intercepted env ih s"
  have swap: "ih_is_swap ih" and rest: "list_all ih_is_swap ihs" using Cons.prems by auto
  have wl: "whitelisted_trades (flow_state ?f) =
      (if forwards env ih s then (whitelisted_trades s)(ih_payment_hash ih := None)
       else whitelisted_trades s)"
    using whitelist_after [of env ih s] swap by blast
  have IH: "(case ?f of Continue s' \<Rightarrow> forwarded_count env h ihs s' | _ \<Rightarrow> 0) \<le>
      (if whitelisted_trades (flow_state ?f) h = None then 0 else 1)"
    using Cons.IH [OF rest] by (cases ?f) auto
  show ?case
    using IH forwards_whitelisted [of env ih s] unfolding wl
    by (auto simp: swap_effects [OF swap] split: if_splits)
qed simp

subsection \<open>Properties\<close>

definition sample_buy :: intercepted_htlc where
  "sample_buy = \<lparr>ih_is_swap = True, ih_payment_hash = [8], ih_intercept_id = [3],
     ih_inbound_amount_msat = 3000000, ih_expected_outbound_amount_msat = 2000,
     ih_inbound_rgb_amount = Some 10, ih_expected_outbound_rgb_amount = None,
     ih_requested_next_hop_scid = 2, ih_prev_short_channel_id = 1\<rparr>"

definition sample_sell :: intercepted_htlc where
  "sample_sell = \<lparr>ih_is_swap = True, ih_payment_hash = [8], ih_intercept_id = [3],
     ih_inbound_amount_msat = 5000, ih_expected_outbound_amount_msat = 3000,
     ih_inbound_rgb_amount = None, ih_expected_outbound_rgb_amount = Some 10,
     ih_requested_next_hop_scid = 1, ih_prev_short_channel_id = 2\<rparr>"

lemmas sample_defs = sample_channel_def sample_ldk_def sample_node_def sample_buy_def sample_sell_def
  find_by_scid_def get_rgb_info_def forwards_def HTLC_MIN_MSAT_def saturating_sub_def

lemma resolves_once_sample: "resolves_once sample_ldk"
  by (simp add: resolves_once_def sample_ldk_def)





text \<open>
  At a zero price (which the release profile can produce, see the swap string) the check of a sale
  saturates: any HTLC that pays the taker no more than it takes out is forwarded, so the
  taker gives the assets away.
\<close>

theorem zero_price_sale_forwarded:
  assumes "ih_is_swap ih"
    and "whitelisted_trades s (ih_payment_hash ih) = Some (cid, SellAsset rgb 0)"
    and "find_by_scid env (ih_prev_short_channel_id ih) s = Some ic"
    and "rgb_channel_files s (cd_channel_id ic) = None"
    and "find_by_scid env (ih_requested_next_hop_scid ih) s = Some oc"
    and "rgb_channel_files s (cd_channel_id oc) = Some info" and "ri_contract_id info = cid"
    and "ih_expected_outbound_rgb_amount ih = Some rgb"
    and "ih_inbound_amount_msat ih \<le> ih_expected_outbound_amount_msat ih"
  shows "\<exists>amt. ForwardIntercepted (ih_intercept_id ih) (ih_requested_next_hop_scid ih) amt (Some rgb)
           \<in> set (new_effects s (htlc_intercepted env ih s)) \<and> ih_inbound_amount_msat ih \<le> amt"
proof -
  have "forwards env ih s"
    using assms by (auto simp: forwards_def get_rgb_info_def saturating_sub_def Let_def)
  then have "filter is_forward (new_effects s (htlc_intercepted env ih s)) =
     [ForwardIntercepted (ih_intercept_id ih) (ih_requested_next_hop_scid ih)
        (ih_expected_outbound_amount_msat ih) (Some rgb)]"
    using assms by (simp add: swap_effects)
  then have "ForwardIntercepted (ih_intercept_id ih) (ih_requested_next_hop_scid ih)
      (ih_expected_outbound_amount_msat ih) (Some rgb)
      \<in> set (filter is_forward (new_effects s (htlc_intercepted env ih s)))" by simp
  then show ?thesis using assms(9) by auto
qed

theorem zero_price_sale_forwarded_witness:
  "let s = sample_node\<lparr>whitelisted_trades := [[8] \<mapsto> ([42], SellAsset 10 0)]\<rparr>;
       ih = sample_sell\<lparr>ih_inbound_amount_msat := 1\<rparr>
   in \<exists>amt. ForwardIntercepted [3] 1 amt (Some 10)
        \<in> set (new_effects s (htlc_intercepted sample_ldk ih s)) \<and> 1 \<le> amt"
  using zero_price_sale_forwarded [of "sample_sell\<lparr>ih_inbound_amount_msat := 1\<rparr>"
      "sample_node\<lparr>whitelisted_trades := [[8] \<mapsto> ([42], SellAsset 10 0)]\<rparr>" "[42]" 10 sample_ldk
      "sample_channel 2" "sample_channel 1"]
  by (simp add: sample_defs)

text \<open>
  C8. Over any sequence of swap HTLCs a whitelisted trade is forwarded at most once, and an
  unlisted payment hash never.
\<close>

theorem forwarded_at_most_once:
  assumes "list_all ih_is_swap ihs"
  shows "forwarded_count env h ihs s \<le> (if whitelisted_trades s h = None then 0 else 1)"
  by (rule forwarded_count_bound [OF assms])

theorem forwarded_at_most_once_witness:
  "let s = sample_node\<lparr>whitelisted_trades := [[8] \<mapsto> ([42], SellAsset 10 2000)]\<rparr>
   in forwarded_count sample_ldk [8] [sample_sell, sample_sell\<lparr>ih_intercept_id := [4]\<rparr>] s \<le> 1"
  using forwarded_at_most_once [of "[sample_sell, sample_sell\<lparr>ih_intercept_id := [4]\<rparr>]" sample_ldk
      "[8]" "sample_node\<lparr>whitelisted_trades := [[8] \<mapsto> ([42], SellAsset 10 2000)]\<rparr>"]
  by (simp add: sample_defs)

text \<open>
  C16. A swap HTLC over known channels is resolved exactly once: the handler makes
  one call of LDK for its id, to fail it or to forward it, never both and never none.
\<close>

theorem swap_htlc_resolved_once:
  assumes "ih_is_swap ih"
    and "find_by_scid env (ih_prev_short_channel_id ih) s \<noteq> None"
    and "find_by_scid env (ih_requested_next_hop_scid ih) s \<noteq> None"
  shows "\<exists>e. filter (resolves (ih_intercept_id ih)) (new_effects s (htlc_intercepted env ih s)) = [e]"
  by (rule swap_part_cases [of env ih s])
     (use assms in \<open>auto simp: htlc_intercepted_def new_effects_def\<close>)

theorem swap_htlc_resolved_once_witness:
  "\<exists>e. filter (resolves [3]) (new_effects sample_node (htlc_intercepted sample_ldk sample_buy sample_node)) = [e]"
  using swap_htlc_resolved_once [of sample_buy sample_ldk sample_node]
  by (simp add: sample_defs)

text \<open>
  C40. An intercepted HTLC that is not a swap always aborts the node: the handler fails it and does
  not return, so it goes on to an unknown channel or to a second resolution, and the
  \<open>unwrap\<close> panics.
\<close>

theorem non_swap_htlc_aborts:
  assumes "resolves_once env" and "\<not> ih_is_swap ih"
  shows "\<exists>s'. htlc_intercepted env ih s = Abort s'"
proof (cases "fail_intercepted_ok env (trace s) (ih_intercept_id ih)")
  case False
  with assms(2) show ?thesis by (simp add: htlc_intercepted_def fail_intercepted_def)
next
  case True
  let ?s = "emit (FailIntercepted (ih_intercept_id ih)) s"
  have again: "\<not> fail_intercepted_ok env tr (ih_intercept_id ih) \<and>
      \<not> forward_intercepted_ok env tr (ih_intercept_id ih)"
    if "FailIntercepted (ih_intercept_id ih) \<in> set tr" for tr
  proof -
    have "list_ex (resolves (ih_intercept_id ih)) tr" using that by (force simp: list_ex_iff)
    then show ?thesis using assms(1) unfolding resolves_once_def by blast
  qed
  have "\<exists>s'. htlc_intercepted_swap env ih ?s = Abort s'"
    by (rule swap_part_cases [of env ih ?s]) (auto simp: again)
  with True assms(2) show ?thesis by (simp add: htlc_intercepted_def fail_intercepted_def)
qed

theorem non_swap_htlc_aborts_witness:
  "\<exists>s'. htlc_intercepted sample_ldk (sample_buy\<lparr>ih_is_swap := False\<rparr>) sample_node = Abort s'"
  by (rule non_swap_htlc_aborts [OF resolves_once_sample]) (simp add: sample_buy_def)

end
