(* ===== verification/World.thy ===== *)
theory World
  imports Complex_Main RgbUtxos Payments Peers Intercept
begin

text \<open>
  What the commands of \<open>src/cli.rs\<close> and the event handlers of \<open>src/main.rs\<close> ask of the world: the
  clock, the random source, the parsers of library types, the bdk wallet, the RGB runtime, the proxy.
  Every answer that may change between two calls is a function of the trace so far. Then the control
  structure the handlers share: a missing value that ends the command with a message or a panic, a
  scope that releases the wallet's mutex, and the reading of the command line's words.
\<close>

text \<open>An answer of the proxy: \<open>JsonRpcResponse\<close> of \<open>src/proxy.rs\<close>, its error as code and message.\<close>

record 'r json_rpc_response =
  rs_id :: "string option"
  rs_result :: "'r option"
  rs_error :: "(int \<times> string) option"

record world =
  w_ldk :: ldk
  w_build :: build
  w_network :: network
  now :: "effect list \<Rightarrow> u64"
  entropy :: "effect list \<Rightarrow> bytes"
  sha256 :: "bytes \<Rightarrow> bytes"
  pk_from_slice :: "bytes \<Rightarrow> pubkey option"
  pk_from_str :: "string \<Rightarrow> pubkey option"
  contract_from_str :: "string \<Rightarrow> contract_id option"
  show_contract :: "contract_id \<Rightarrow> string"
  invoice_from_str :: "string \<Rightarrow> invoice option"
  seal_from_str :: "string \<Rightarrow> bytes option"
  conceal :: "graph_seal \<Rightarrow> string"
  base64_decode :: "string \<Rightarrow> bytes option"
  resolve_addr :: "string \<Rightarrow> sockaddr list option"
  is_swap_scid :: u64
  bitfinex_last_price :: "effect list \<Rightarrow> rat option"
  round_to_f64 :: "rat \<Rightarrow> rat"
  \<comment> \<open>the bdk wallet and the chain\<close>
  wallet_sync_ok :: "effect list \<Rightarrow> bool"
  wallet_unspents :: "effect list \<Rightarrow> (outpoint \<times> u64) list option"
  wallet_total :: "effect list \<Rightarrow> u64 option"
  wallet_address :: "effect list \<Rightarrow> bytes option"
  wallet_finish_ok :: "effect list \<Rightarrow> tx_request \<Rightarrow> bool"
  wallet_signed_txid :: "effect list \<Rightarrow> txid option"
  broadcast_ok :: "effect list \<Rightarrow> bool"
  mine_ok :: "effect list \<Rightarrow> bool"
  \<comment> \<open>the RGB runtime and the proxy\<close>
  rgb_history :: "effect list \<Rightarrow> contract_id \<Rightarrow> fungible_output list option"
  ticker_ok :: "string \<Rightarrow> bool"
  name_ok :: "string \<Rightarrow> bool"
  precision_ok :: "u8 \<Rightarrow> bool"
  issue_ok :: "effect list \<Rightarrow> contract_id option"
  store_seal_ok :: "effect list \<Rightarrow> bool"
  send_rgb_ok :: "effect list \<Rightarrow> contract_id \<Rightarrow> bool"
  transition_ok :: "effect list \<Rightarrow> contract_id \<Rightarrow> bool"
  import_ok :: "effect list \<Rightarrow> bool"
  accept_transfer :: "effect list \<Rightarrow> bool option"
  \<comment> \<open>the proxy's answers, \<^term>\<open>None\<close> when the request or its decoding fails\<close>
  proxy_post :: "effect list \<Rightarrow> string \<Rightarrow> bool json_rpc_response option"
  proxy_get :: "effect list \<Rightarrow> string \<Rightarrow> string json_rpc_response option"
  load_transfer_ok :: "bytes \<Rightarrow> bool"
  validate_ok :: "effect list \<Rightarrow> bool"
  blinding :: "effect list \<Rightarrow> u64"
  blinded_dir :: "effect list \<Rightarrow> string list"
  show_txid :: "txid \<Rightarrow> string"
  transfer_info :: "effect list \<Rightarrow> txid \<Rightarrow> (contract_id \<times> u32) option"
  consume_transfer_ok :: "effect list \<Rightarrow> bool"
  bundle_assignments :: "effect list \<Rightarrow> txid \<Rightarrow> (u32 \<times> u64) option list option"
  psbt_op_returns :: "effect list \<Rightarrow> bool list"
  send_onion_ok :: "effect list \<Rightarrow> pubkey list \<Rightarrow> pubkey \<Rightarrow> bool"
  \<comment> \<open>the keys of swept outputs, and bdk's \<open>Wallet::new\<close> on a database (\<^term>\<open>None\<close>: new) with a key: the database
    after it\<close>
  channel_payment_key :: "bytes \<Rightarrow> bytes"
  destination_script :: bytes
  master_child_key :: "nat \<Rightarrow> bytes"
  wallet_new :: "bytes option \<Rightarrow> network \<Rightarrow> bytes \<Rightarrow> bytes option"
  background_exits_ok :: "effect list \<Rightarrow> bool"
  \<comment> \<open>what the listings read: the order in which a \<open>HashMap\<close> iterates, the network graph (of a known node,
    the alias it announced)\<close>
  payment_order :: "payment_storage \<Rightarrow> (bytes \<times> payment_info) list"
  trade_order :: "trades \<Rightarrow> (bytes \<times> contract_id \<times> swap_type) list"
  node_alias :: "effect list \<Rightarrow> pubkey \<Rightarrow> string option option"

text \<open>What the callers of the proxy look at: whether the answer has a result, whatever it is.\<close>

definition post_consignment_ok :: "world \<Rightarrow> effect list \<Rightarrow> string \<Rightarrow> bool" where
  "post_consignment_ok w tr consignment_id = (Option.bind (proxy_post w tr consignment_id) rs_result \<noteq> None)"

definition get_consignment :: "world \<Rightarrow> effect list \<Rightarrow> string \<Rightarrow> string option" where
  "get_consignment w tr consignment_id = Option.bind (proxy_get w tr consignment_id) rs_result"

subsection \<open>Control flow\<close>

text \<open>
  \<open>need x other k\<close>: the value of \<open>x\<close> for the rest \<open>k\<close>, or \<open>other\<close>: a \<open>match\<close> with an early
  \<open>continue\<close>. \<open>expect\<close>: the \<open>other\<close> branch is a panic. \<open>call\<close>: an effect that panics unless it succeeds.
\<close>

definition need :: "'a option \<Rightarrow> flow \<Rightarrow> ('a \<Rightarrow> flow) \<Rightarrow> flow" where
  "need x other k = (case x of None \<Rightarrow> other | Some v \<Rightarrow> k v)"

definition expect :: "'a option \<Rightarrow> node \<Rightarrow> ('a \<Rightarrow> flow) \<Rightarrow> flow" where
  "expect x s k = (case x of None \<Rightarrow> Abort s | Some v \<Rightarrow> k v)"

definition call :: "effect \<Rightarrow> (effect list \<Rightarrow> bool) \<Rightarrow> node \<Rightarrow> (node \<Rightarrow> flow) \<Rightarrow> flow" where
  "call e ok s k = (if ok (trace s) then k (emit e s) else Abort (emit e s))"

definition error :: "string \<Rightarrow> node \<Rightarrow> flow" where
  "error text s = Continue (println (MError text) s)"

text \<open>A mutex guard: released when its scope returns.\<close>

fun release :: "flow \<Rightarrow> flow" where
  "release (Continue s) = Continue (emit UnlockWallet s)"
| "release (Break s) = Break (emit UnlockWallet s)"
| "release f = f"

definition with_wallet :: "node \<Rightarrow> (node \<Rightarrow> flow) \<Rightarrow> flow" where
  "with_wallet s body = release (body (emit LockWallet s))"

definition word :: "nat \<Rightarrow> string list \<Rightarrow> string option" where
  "word n ws = (if n < length ws then Some (ws ! n) else None)"

lemmas flow_defs = need_def expect_def call_def error_def with_wallet_def

lemma need_split: "P (need x other k) \<longleftrightarrow> (x = None \<longrightarrow> P other) \<and> (\<forall>v. x = Some v \<longrightarrow> P (k v))"
  by (cases x) (auto simp: need_def)

lemma expect_split: "P (expect x s k) \<longleftrightarrow> (x = None \<longrightarrow> P (Abort s)) \<and> (\<forall>v. x = Some v \<longrightarrow> P (k v))"
  by (cases x) (auto simp: expect_def)

lemma call_split:
  "P (call e ok s k) \<longleftrightarrow> (ok (trace s) \<longrightarrow> P (k (emit e s))) \<and> (\<not> ok (trace s) \<longrightarrow> P (Abort (emit e s)))"
  by (auto simp: call_def)

lemma need_split_asm:
  "P (need x other k) \<longleftrightarrow> \<not> ((x = None \<and> \<not> P other) \<or> (\<exists>v. x = Some v \<and> \<not> P (k v)))"
  by (cases x) (auto simp: need_def)

lemma expect_split_asm:
  "P (expect x s k) \<longleftrightarrow> \<not> ((x = None \<and> \<not> P (Abort s)) \<or> (\<exists>v. x = Some v \<and> \<not> P (k v)))"
  by (cases x) (auto simp: expect_def)

lemma call_split_asm:
  "P (call e ok s k) \<longleftrightarrow> \<not> ((ok (trace s) \<and> \<not> P (k (emit e s))) \<or> (\<not> ok (trace s) \<and> \<not> P (Abort (emit e s))))"
  by (auto simp: call_def)

lemmas flow_splits = need_split need_split_asm expect_split expect_split_asm call_split call_split_asm

lemma word_simps [simp]:
  "word 0 (x # xs) = Some x" "word (Suc n) (x # xs) = word n xs" "word n [] = None"
  "word (numeral m) (x # xs) = word (pred_numeral m) xs"
  by (auto simp: word_def numeral_eq_Suc)

lemmas all_splits = flow_splits if_splits option.splits sum.splits prod.splits

text \<open>
  Where an operation ends when it returns or leaves the loop: the control constructs as introduction rules, so that a proof
  walks an operation down to its leaves.
\<close>

definition ends :: "(node \<Rightarrow> bool) \<Rightarrow> flow \<Rightarrow> bool" where
  "ends P f \<longleftrightarrow> (\<forall>t. f = Continue t \<or> f = Break t \<longrightarrow> P t)"

named_theorems ends_rules \<open>where an operation that returns ends\<close>

lemma ends_leaf [ends_rules]:
  "P t \<Longrightarrow> ends P (Continue t)" "P t \<Longrightarrow> ends P (Break t)" "ends P (Abort t)" "ends P (Hang t)"
  by (simp_all add: ends_def)

lemma ends_Continue: "ends P f \<Longrightarrow> f = Continue t \<Longrightarrow> P t"
  by (simp add: ends_def)

lemma ends_Break: "ends P f \<Longrightarrow> f = Break t \<Longrightarrow> P t"
  by (simp add: ends_def)

lemma ends_need [ends_rules]: "ends P other \<Longrightarrow> (\<And>v. x = Some v \<Longrightarrow> ends P (k v)) \<Longrightarrow> ends P (need x other k)"
  by (cases x) (simp_all add: need_def)

lemma ends_expect [ends_rules]: "(\<And>v. x = Some v \<Longrightarrow> ends P (k v)) \<Longrightarrow> ends P (expect x s k)"
  by (cases x) (simp_all add: expect_def ends_leaf)

lemma ends_if [ends_rules]: "(c \<Longrightarrow> ends P f) \<Longrightarrow> (\<not> c \<Longrightarrow> ends P g) \<Longrightarrow> ends P (if c then f else g)"
  by simp

lemma ends_sum [ends_rules]:
  "(\<And>a. x = Inl a \<Longrightarrow> ends P (f a)) \<Longrightarrow> (\<And>b. x = Inr b \<Longrightarrow> ends P (g b)) \<Longrightarrow>
   ends P (case x of Inl a \<Rightarrow> f a | Inr b \<Rightarrow> g b)"
  by (cases x) simp_all

lemma ends_option [ends_rules]:
  "(x = None \<Longrightarrow> ends P f) \<Longrightarrow> (\<And>v. x = Some v \<Longrightarrow> ends P (g v)) \<Longrightarrow>
   ends P (case x of None \<Rightarrow> f | Some v \<Rightarrow> g v)"
  by (cases x) simp_all

lemma ends_prod [ends_rules]: "(\<And>a b. x = (a, b) \<Longrightarrow> ends P (f a b)) \<Longrightarrow> ends P (case x of (a, b) \<Rightarrow> f a b)"
  by (cases x) simp_all

lemma ends_flow [ends_rules]:
  "ends Q f \<Longrightarrow> (\<And>t. Q t \<Longrightarrow> ends P (k t)) \<Longrightarrow> (\<And>t. Q t \<Longrightarrow> ends P (g t)) \<Longrightarrow> (\<And>t. ends P (h t)) \<Longrightarrow>
   (\<And>t. ends P (i t)) \<Longrightarrow>
   ends P (case f of Continue t \<Rightarrow> k t | Break t \<Rightarrow> g t | Abort t \<Rightarrow> h t | Hang t \<Rightarrow> i t)"
  by (cases f) (simp_all add: ends_def)

subsection \<open>Shared steps\<close>

definition sync_wallet :: "world \<Rightarrow> node \<Rightarrow> (node \<Rightarrow> flow) \<Rightarrow> flow" where
  "sync_wallet w s k = call SyncWallet (wallet_sync_ok w) s k"

definition broadcast_tx :: "world \<Rightarrow> txid \<Rightarrow> node \<Rightarrow> (node \<Rightarrow> flow) \<Rightarrow> flow" where
  "broadcast_tx w txid s k = call (BroadcastTx txid) (broadcast_ok w) s k"

definition new_address :: "world \<Rightarrow> node \<Rightarrow> (bytes \<Rightarrow> node \<Rightarrow> flow) \<Rightarrow> flow" where
  "new_address w s k =
     expect (wallet_address w (trace s)) (emit NewAddress s) (\<lambda>script. k script (emit NewAddress s))"

text \<open>\<open>build_tx\<close> up to \<open>finish\<close>, and \<open>sign\<close> with \<open>extract_tx\<close>.\<close>

definition finish_tx :: "world \<Rightarrow> tx_request \<Rightarrow> node \<Rightarrow> (node \<Rightarrow> flow) \<Rightarrow> flow" where
  "finish_tx w req s k = call (BuildTx req) (\<lambda>tr. wallet_finish_ok w tr req) s k"

definition sign_tx :: "world \<Rightarrow> node \<Rightarrow> (txid \<Rightarrow> node \<Rightarrow> flow) \<Rightarrow> flow" where
  "sign_tx w s k = expect (wallet_signed_txid w (trace s)) (emit SignTx s) (\<lambda>txid. k txid (emit SignTx s))"

text \<open>
  \<open>get_asset_owned_values\<close> with its effects: the wallet's mutex around the synchronisation and the
  list of unspent outputs.
\<close>

definition asset_owned_values ::
  "world \<Rightarrow> contract_id \<Rightarrow> node \<Rightarrow>
   (rgb_error + (bytes \<times> outpoint \<times> u64) list \<Rightarrow> node \<Rightarrow> flow) \<Rightarrow> flow" where
  "asset_owned_values w contract_id s k =
     sync_wallet w (emit LockWallet s) (\<lambda>s.
     expect (wallet_unspents w (trace s)) s (\<lambda>unspents.
     k (get_asset_owned_values (map fst unspents) (rgb_history w (trace s) contract_id))
       (emit UnlockWallet s)))"

definition rgb_total_amount ::
  "world \<Rightarrow> contract_id \<Rightarrow> node \<Rightarrow> (rgb_error + u64 \<Rightarrow> node \<Rightarrow> flow) \<Rightarrow> flow" where
  "rgb_total_amount w contract_id s k =
     sync_wallet w (emit LockWallet s) (\<lambda>s.
     expect (wallet_unspents w (trace s)) s (\<lambda>unspents.
     expect (get_rgb_total_amount (w_build w) (map fst unspents) (rgb_history w (trace s) contract_id))
       (emit UnlockWallet s) (\<lambda>r. k r (emit UnlockWallet s))))"

text \<open>
  The guard of \<open>makerinit\<close>, \<open>taker\<close> and \<open>opencoloredchannel\<close>: the node owns at least the amount.
  The error return leaves the runtime's lock taken, the refusal does not.
\<close>

definition check_rgb_funds :: "world \<Rightarrow> contract_id \<Rightarrow> u64 \<Rightarrow> node \<Rightarrow> (node \<Rightarrow> flow) \<Rightarrow> flow" where
  "check_rgb_funds w contract_id amount s k =
     rgb_total_amount w contract_id (emit GetRuntime s) (\<lambda>r s.
     case r of
       Inl e \<Rightarrow> error ''unknown contract'' s
     | Inr total_rgb_amount \<Rightarrow>
         (let s = emit DropRuntime s in
          if total_rgb_amount < amount then error ''do not have enough RGB assets'' s else k s))"

text \<open>\<open>check_uncolored_utxos\<close>, \<open>get_utxo\<close> and the rewriting of the file, on the node.\<close>

definition take_utxo :: "node \<Rightarrow> (outpoint \<Rightarrow> node \<Rightarrow> flow) \<Rightarrow> flow" where
  "take_utxo s k =
     (case take_uncolored (rgb_utxos s) of
        None \<Rightarrow> Abort s
      | Some (Inl e) \<Rightarrow> error ''no available UTXOs'' s
      | Some (Inr (outpoint, utxos)) \<Rightarrow> k outpoint (s\<lparr>rgb_utxos := utxos\<rparr>))"

subsection \<open>The runtime's lock\<close>

text \<open>
  \<open>get_rgb_runtime\<close> takes the lock file of the RGB data directory and \<open>drop_rgb_runtime\<close> removes it:
  whether it is taken after a trace.
\<close>

fun lock_step :: "bool \<Rightarrow> effect \<Rightarrow> bool" where
  "lock_step held GetRuntime = True"
| "lock_step held DropRuntime = False"
| "lock_step held _ = held"

definition runtime_held :: "effect list \<Rightarrow> bool" where
  "runtime_held tr = foldl lock_step False tr"

lemma runtime_held_Nil [simp]: "runtime_held [] = False"
  by (simp add: runtime_held_def)

lemma runtime_held_append [simp]: "runtime_held (tr @ es) = foldl lock_step (runtime_held tr) es"
  by (simp add: runtime_held_def)

lemma release_iff [simp]:
  "release f = Continue t \<longleftrightarrow> (\<exists>s. f = Continue s \<and> t = emit UnlockWallet s)"
  "release f = Break t \<longleftrightarrow> (\<exists>s. f = Break s \<and> t = emit UnlockWallet s)"
  "release f = Abort t \<longleftrightarrow> f = Abort t"
  "release f = Hang t \<longleftrightarrow> f = Hang t"
  by (cases f; auto)+

lemma release_held [simp]:
  "runtime_held (trace (flow_state (release f))) = runtime_held (trace (flow_state f))"
  by (cases f) auto

text \<open>
  A sequence of calls of one operation, and the contract of an operation that takes the lock: when
  it returns to the command loop the lock is free again.
\<close>

fun run_all :: "('i \<Rightarrow> node \<Rightarrow> flow) \<Rightarrow> 'i list \<Rightarrow> node \<Rightarrow> flow" where
  "run_all op [] s = Continue s"
| "run_all op (i # rest) s = (case op i s of Continue s \<Rightarrow> run_all op rest s | f \<Rightarrow> f)"

locale lock_user =
  fixes op :: "'i \<Rightarrow> node \<Rightarrow> flow"
  assumes frees: "op i s = Continue t \<Longrightarrow> \<not> runtime_held (trace s) \<Longrightarrow> \<not> runtime_held (trace t)"
begin

lemma run_frees:
  "run_all op is s = Continue t \<Longrightarrow> \<not> runtime_held (trace s) \<Longrightarrow> \<not> runtime_held (trace t)"
  by (induction "is" arbitrary: s) (auto split: flow.splits dest: frees)

end

subsection \<open>A concrete world\<close>

text \<open>
  A regtest node with one unspent output of 50000 satoshis, on whose wallet \<open>finish\<close> succeeds if
  the recipients can be paid from outputs it may spend; everything else succeeds.
\<close>

definition spendable :: "world \<Rightarrow> effect list \<Rightarrow> outpoint list \<Rightarrow> nat" where
  "spendable w tr unspendable =
     (case wallet_unspents w tr of
        None \<Rightarrow> 0
      | Some us \<Rightarrow> sum_list (map (\<lambda>u. unat (snd u)) (filter (\<lambda>u. fst u \<notin> set unspendable) us)))"

definition recipients_total :: "tx_request \<Rightarrow> nat" where
  "recipients_total req = sum_list (map (\<lambda>r. unat (snd r)) (tx_recipients req))"

definition sample_world :: world where
  "sample_world = \<lparr>w_ldk = sample_ldk, w_build = Debug, w_network = Regtest,
     now = (\<lambda>_. 1000), entropy = (\<lambda>_. [7]), sha256 = rev,
     pk_from_slice = (\<lambda>b. if length b = 33 then Some b else None),
     pk_from_str = (\<lambda>s. Some (map byte_of s)),
     contract_from_str = (\<lambda>s. Some (map byte_of s)), show_contract = hex_str,
     invoice_from_str = (\<lambda>_. None), seal_from_str = (\<lambda>s. Some (map byte_of s)),
     conceal = (\<lambda>_. ''blinded''), base64_decode = (\<lambda>s. Some (map byte_of s)),
     resolve_addr = (\<lambda>s. Some [s]), is_swap_scid = 2 ^ 63,
     bitfinex_last_price = (\<lambda>_. Some 50000), round_to_f64 = id,
     wallet_sync_ok = (\<lambda>_. True), wallet_unspents = (\<lambda>_. Some [(OutPoint [1] 0, 50000)]),
     wallet_total = (\<lambda>_. Some 50000), wallet_address = (\<lambda>_. Some [3]),
     wallet_finish_ok = (\<lambda>_ req. recipients_total req \<le>
       (if OutPoint [1] 0 \<in> set (tx_unspendable req) then 0 else 50000)),
     wallet_signed_txid = (\<lambda>_. Some [8]), broadcast_ok = (\<lambda>_. True), mine_ok = (\<lambda>_. True),
     rgb_history = (\<lambda>_ _. Some [\<lparr>fo_opout = [1], fo_seal = OutPoint [1] 0, fo_value = 100\<rparr>]),
     ticker_ok = (\<lambda>t. length t \<le> 8), name_ok = (\<lambda>n. length n \<le> 40), precision_ok = (\<lambda>p. p \<le> 18),
     issue_ok = (\<lambda>_. Some [42]), store_seal_ok = (\<lambda>_. True), send_rgb_ok = (\<lambda>_ _. True),
     transition_ok = (\<lambda>_ _. True), import_ok = (\<lambda>_. True), accept_transfer = (\<lambda>_. Some True),
     proxy_post = (\<lambda>_ _. Some \<lparr>rs_id = None, rs_result = Some True, rs_error = None\<rparr>),
     proxy_get = (\<lambda>_ _. Some \<lparr>rs_id = None, rs_result = Some ''QQ='', rs_error = None\<rparr>),
     load_transfer_ok = (\<lambda>_. True), validate_ok = (\<lambda>_. True), blinding = (\<lambda>_. 5),
     blinded_dir = (\<lambda>_. [''blinded'']), show_txid = hex_str,
     transfer_info = (\<lambda>_ _. None), consume_transfer_ok = (\<lambda>_. True), bundle_assignments = (\<lambda>_ _. Some []),
     psbt_op_returns = (\<lambda>_. [False, True]), send_onion_ok = (\<lambda>_ _ _. True),
     channel_payment_key = id, destination_script = [1], master_child_key = (\<lambda>i. [of_nat i]),
     wallet_new = (\<lambda>db _ key. if db = None \<or> db = Some key then Some key else None),
     background_exits_ok = (\<lambda>_. True), payment_order = (\<lambda>_. []), trade_order = (\<lambda>_. []), node_alias = (\<lambda>_ _. None)\<rparr>"

end
