(* ===== verification/OnChain.thy ===== *)
theory OnChain
  imports World
begin

text \<open>
  The on-chain commands of \<open>src/cli.rs\<close> outside transfers: \<open>mine\<close>, \<open>listunspent\<close>, \<open>getaddress\<close>,
  \<open>createutxos\<close>, \<open>issueasset\<close>, \<open>receiveasset\<close>, \<open>refresh\<close> and \<open>assetbalance\<close>. A command gets the words
  after its name.
\<close>

definition MIN_CREATE_UTXOS_SATS :: u64 where
  "MIN_CREATE_UTXOS_SATS = 10000"

definition UTXO_SIZE_SAT :: u64 where
  "UTXO_SIZE_SAT = 32000"

subsection \<open>Wallet commands\<close>

definition mine :: "world \<Rightarrow> u16 \<Rightarrow> node \<Rightarrow> flow" where
  "mine w num_blocks s = call (GenerateBlocks num_blocks) (mine_ok w) s Continue"

definition mine_cmd :: "world \<Rightarrow> string list \<Rightarrow> node \<Rightarrow> flow" where
  "mine_cmd w ws s =
     (if w_network w \<noteq> Regtest then error ''mine command is available only on regtest'' s
      else need (word 0 ws) (error ''mine has 1 required argument'' s) (\<lambda>num_blocks.
           need (parse_word num_blocks) (error ''num_blocks must be a number'' s) (\<lambda>num_blocks.
           mine w num_blocks s)))"

definition listunspent :: "world \<Rightarrow> node \<Rightarrow> flow" where
  "listunspent w s = with_wallet s (\<lambda>s.
     expect (wallet_unspents w (trace s)) s (\<lambda>unspents. Continue (println (MInfo ''Unspents'') s)))"

definition getaddress :: "world \<Rightarrow> node \<Rightarrow> flow" where
  "getaddress w s = with_wallet s (\<lambda>s.
     new_address w s (\<lambda>address s. Continue (println (MInfo ''Address'') s)))"

text \<open>The loop that adds \<open>n\<close> recipients at fresh addresses.\<close>

fun add_recipients ::
  "world \<Rightarrow> nat \<Rightarrow> (bytes \<times> u64) list \<Rightarrow> node \<Rightarrow> ((bytes \<times> u64) list \<Rightarrow> node \<Rightarrow> flow) \<Rightarrow> flow" where
  "add_recipients w 0 recipients s k = k recipients s"
| "add_recipients w (Suc n) recipients s k =
     new_address w s (\<lambda>script s. add_recipients w n (recipients @ [(script, UTXO_SIZE_SAT)]) s k)"

text \<open>The transaction with the new outputs and the new entries of the file, once it is broadcast.\<close>

definition create_tx :: "world \<Rightarrow> outpoint list \<Rightarrow> (bytes \<times> u64) list \<Rightarrow> node \<Rightarrow> flow" where
  "create_tx w unspendable_utxos recipients s =
     finish_tx w \<lparr>tx_add_utxos = [], tx_unspendable = unspendable_utxos, tx_recipients = recipients,
                  tx_data = False, tx_manually_selected_only = False, tx_drain = False\<rparr> s (\<lambda>s.
     sign_tx w s (\<lambda>txid s.
     broadcast_tx w txid s (\<lambda>s.
     let s = s\<lparr>rgb_utxos := push_created txid (rgb_utxos s)\<rparr> in
     sync_wallet w s (\<lambda>s.
     Continue (println (MInfo ''UTXO creation complete'') s)))))"

definition createutxos :: "world \<Rightarrow> node \<Rightarrow> flow" where
  "createutxos w s = with_wallet s (\<lambda>s.
     sync_wallet w s (\<lambda>s.
     let unspendable_utxos = map utxo_outpoint (rgb_utxos s) in
     expect (wallet_unspents w (trace s)) s (\<lambda>unspents.
     expect (sum_w (w_build w) 0 (map snd (filter (\<lambda>u. fst u \<in> set unspendable_utxos) unspents))) s
       (\<lambda>unspendable_amt.
     expect (wallet_total w (trace s)) s (\<lambda>balance.
     expect (sub_w (w_build w) balance unspendable_amt) s (\<lambda>available.
     if available < MIN_CREATE_UTXOS_SATS then error ''not enough funds'' s
     else add_recipients w UTXO_NUM [] s (create_tx w unspendable_utxos)))))))"

subsection \<open>Assets\<close>

text \<open>
  \<open>issue_contract\<close>: the details are checked by the constructors of the RGB library, the creation time is an
  \<open>i32\<close>, and each refusal is a panic; building, validating and importing the contract is the call.
\<close>

definition issue_contract ::
  "world \<Rightarrow> u64 \<Rightarrow> outpoint \<Rightarrow> string \<Rightarrow> string \<Rightarrow> u8 \<Rightarrow> node \<Rightarrow> (contract_id \<Rightarrow> node \<Rightarrow> flow) \<Rightarrow> flow" where
  "issue_contract w amount outpoint ticker name precision s k =
     (if \<not> ticker_ok w ticker \<or> \<not> name_ok w name \<or> \<not> precision_ok w precision then Abort s
      else
        (let created_at = now w (trace s) in
         if 2 ^ 31 \<le> unat created_at then Abort s
         else
           (let e = IssueContract amount outpoint ticker name precision (ucast created_at) in
            expect (issue_ok w (trace s)) (emit e s) (\<lambda>contract_id. k contract_id (emit e s)))))"

definition issueasset :: "world \<Rightarrow> string list \<Rightarrow> node \<Rightarrow> flow" where
  "issueasset w ws s =
     (let usage = error ''issueasset has 4 required arguments'' s in
      need (word 0 ws) usage (\<lambda>amount. need (word 1 ws) usage (\<lambda>ticker.
      need (word 2 ws) usage (\<lambda>name. need (word 3 ws) usage (\<lambda>precision.
      need (parse_word amount) (error ''amount must be a number'' s) (\<lambda>amount.
      if \<not> is_ascii ticker then error ''ticker must be an ASCII string'' s
      else if \<not> is_ascii name then error ''name must be an ASCII string'' s
      else
      need (parse_word precision) (error ''precision must be a number'' s) (\<lambda>precision.
      take_utxo s (\<lambda>outpoint s.
      issue_contract w amount outpoint ticker name precision (emit GetRuntime s) (\<lambda>contract_id s.
      let s = emit DropRuntime s in
      Continue (println (MAssetId contract_id) s))))))))))"

definition assetbalance :: "world \<Rightarrow> string list \<Rightarrow> node \<Rightarrow> flow" where
  "assetbalance w ws s =
     need (word 0 ws) (error ''assetbalance has 1 required argument'' s) (\<lambda>contract_id.
     need (contract_from_str w contract_id) (error ''contract_id must be a valid RGB asset ID'' s)
       (\<lambda>contract_id.
     rgb_total_amount w contract_id (emit GetRuntime s) (\<lambda>r s.
     case r of
       Inl e \<Rightarrow> error ''unknown contract'' s
     | Inr total_rgb_amount \<Rightarrow>
         Continue (println (MAssetBalance total_rgb_amount) (emit DropRuntime s)))))"

definition receiveasset :: "world \<Rightarrow> node \<Rightarrow> flow" where
  "receiveasset w s =
     take_utxo s (\<lambda>outpoint s.
     let graph_seal = (outpoint, blinding w (trace s)) in
     call (StoreSealSecret graph_seal) (store_seal_ok w) (emit GetRuntime s) (\<lambda>s.
     let s = emit DropRuntime s;
         blinded_utxo = conceal w graph_seal;
         s = s\<lparr>blinded_utxos := (blinded_utxos s)(blinded_utxo \<mapsto>
               \<lparr>bi_contract_id = None, bi_seal = graph_seal, bi_consumed = False\<rparr>)\<rparr>
     in Continue (println (MBlindedUtxo blinded_utxo) s)))"

subsection \<open>Refresh\<close>

text \<open>The body of the loop over the files of \<open>blinded_utxos\<close>.\<close>

definition refresh_file :: "world \<Rightarrow> string \<Rightarrow> node \<Rightarrow> flow" where
  "refresh_file w bf s =
     expect (blinded_utxos s bf) s (\<lambda>blinded_info.
     if bi_consumed blinded_info then Continue s
     else
       (let blinded_utxo = conceal w (bi_seal blinded_info);
            res = get_consignment w (trace s) blinded_utxo;
            s = emit (GetConsignment blinded_utxo) s in
        need res (Continue (println (MWarning ''unable to get consignment'') s)) (\<lambda>consignment.
        expect (base64_decode w consignment) s (\<lambda>consignment_bytes.
        let s = emit (SaveConsignment (''consignment_'' @ blinded_utxo)) s in
        if \<not> load_transfer_ok w consignment_bytes then Abort s
        else
          call ImportContract (import_ok w) (emit GetRuntime s) (\<lambda>s.
          if \<not> validate_ok w (trace s) then Abort s
          else
            expect (accept_transfer w (trace s)) (emit AcceptTransfer s) (\<lambda>valid.
            let s = emit DropRuntime (emit AcceptTransfer s) in
            if \<not> valid then Continue (println (MWarning ''error accepting transfer'') s)
            else with_wallet s (\<lambda>s. sync_wallet w s (\<lambda>s.
                 Continue (emit (RemoveBlinded bf) (s\<lparr>blinded_utxos := (blinded_utxos s)(bf := None)\<rparr>))))))))))"

fun refresh_loop :: "world \<Rightarrow> string list \<Rightarrow> node \<Rightarrow> flow" where
  "refresh_loop w [] s = Continue (println (MInfo ''Refresh complete'') s)"
| "refresh_loop w (bf # rest) s =
     (case refresh_file w bf s of Continue s \<Rightarrow> refresh_loop w rest s | f \<Rightarrow> f)"

definition refresh :: "world \<Rightarrow> node \<Rightarrow> flow" where
  "refresh w s = refresh_loop w (blinded_dir w (trace s)) s"

lemmas onchain_defs = mine_def mine_cmd_def listunspent_def getaddress_def createutxos_def
  issue_contract_def issueasset_def assetbalance_def receiveasset_def refresh_file_def

lemmas shared_defs = sync_wallet_def broadcast_tx_def finish_tx_def sign_tx_def new_address_def
  rgb_total_amount_def asset_owned_values_def take_utxo_def check_rgb_funds_def

subsection \<open>Lemmas\<close>



interpretation issue: lock_user "\<lambda>(w, ws). issueasset w ws"
proof (unfold_locales, goal_cases)
  case (1 i s t)
  then show ?case
    by (cases i) (auto simp: issueasset_def issue_contract_def shared_defs Let_def error_def split: all_splits)
qed

interpretation receive: lock_user receiveasset
proof (unfold_locales, goal_cases)
  case (1 w s t)
  then show ?case by (auto simp: receiveasset_def shared_defs Let_def error_def split: all_splits)
qed

interpretation refresh: lock_user "refresh_file w" for w
proof (unfold_locales, goal_cases)
  case (1 bf s t)
  then show ?case
    by (auto simp: refresh_file_def shared_defs Let_def error_def with_wallet_def split: all_splits)
qed

lemma refresh_loop_run:
  "refresh_loop w bfs s =
     (case run_all (refresh_file w) bfs s of
        Continue s \<Rightarrow> Continue (println (MInfo ''Refresh complete'') s) | f \<Rightarrow> f)"
  by (induction bfs arbitrary: s) (auto split: flow.splits)

text \<open>Whether the body removes the file: the transfer arrived and is valid.\<close>

definition refresh_ready :: "world \<Rightarrow> string \<Rightarrow> node \<Rightarrow> bool" where
  "refresh_ready w bf s =
     (case blinded_utxos s bf of
        None \<Rightarrow> False
      | Some info \<Rightarrow>
          \<not> bi_consumed info \<and> get_consignment w (trace s) (conceal w (bi_seal info)) \<noteq> None \<and>
          accept_transfer w (trace s @ [GetConsignment (conceal w (bi_seal info)),
            SaveConsignment (''consignment_'' @ conceal w (bi_seal info)), GetRuntime, ImportContract]) = Some True)"

lemma refresh_file_state:
  assumes "refresh_file w bf s = Continue t"
  shows "blinded_utxos t = (if refresh_ready w bf s then (blinded_utxos s)(bf := None) else blinded_utxos s) \<and>
    rgb_utxos t = rgb_utxos s \<and> bf \<in> dom (blinded_utxos s)"
  using assms
  by (auto simp: refresh_file_def refresh_ready_def sync_wallet_def Let_def with_wallet_def split: all_splits)

lemma add_recipients_cases:
  "(\<exists>n' \<le> n. \<exists>t. add_recipients w n rs s k = Abort t \<and> rgb_utxos t = rgb_utxos s \<and>
      trace t = trace s @ replicate n' NewAddress) \<or>
   (\<exists>scripts t. length scripts = n \<and> rgb_utxos t = rgb_utxos s \<and>
      trace t = trace s @ replicate n NewAddress \<and>
      add_recipients w n rs s k = k (rs @ map (\<lambda>x. (x, UTXO_SIZE_SAT)) scripts) t)"
proof (induction n arbitrary: rs s)
  case (Suc n)
  show ?case
  proof (cases "wallet_address w (trace s)")
    case None
    then show ?thesis
      by (intro disjI1 exI [of _ 1]) (simp add: new_address_def expect_def)
  next
    case (Some script)
    have e: "add_recipients w (Suc n) rs s k =
        add_recipients w n (rs @ [(script, UTXO_SIZE_SAT)]) (emit NewAddress s) k"
      by (simp add: new_address_def expect_def Some)
    from Suc [of "rs @ [(script, UTXO_SIZE_SAT)]" "emit NewAddress s"] show ?thesis
    proof (elim disjE exE conjE)
      fix n' t
      assume a: "n' \<le> n" "add_recipients w n (rs @ [(script, UTXO_SIZE_SAT)]) (emit NewAddress s) k = Abort t"
        "rgb_utxos t = rgb_utxos (emit NewAddress s)"
        "trace t = trace (emit NewAddress s) @ replicate n' NewAddress"
      then show ?thesis by (intro disjI1 exI [of _ "Suc n'"] conjI exI [of _ t]) (simp_all add: e del: add_recipients.simps)
    next
      fix scripts t
      assume a: "length scripts = n" "rgb_utxos t = rgb_utxos (emit NewAddress s)"
        "trace t = trace (emit NewAddress s) @ replicate n NewAddress"
        "add_recipients w n (rs @ [(script, UTXO_SIZE_SAT)]) (emit NewAddress s) k =
          k ((rs @ [(script, UTXO_SIZE_SAT)]) @ map (\<lambda>x. (x, UTXO_SIZE_SAT)) scripts) t"
      then show ?thesis
        by (intro disjI2 exI [of _ "script # scripts"] exI [of _ t] conjI)
           (simp_all add: e del: add_recipients.simps)
    qed
  qed
qed (rule disjI2, auto)

definition create_request :: "outpoint list \<Rightarrow> (bytes \<times> u64) list \<Rightarrow> tx_request" where
  "create_request unspendable recipients =
     \<lparr>tx_add_utxos = [], tx_unspendable = unspendable, tx_recipients = recipients, tx_data = False,
      tx_manually_selected_only = False, tx_drain = False\<rparr>"

lemma create_tx_run:
  assumes "create_tx w us rs s = Continue t"
  shows "\<exists>txid. rgb_utxos t = push_created txid (rgb_utxos s) \<and> trace t = trace s @
    [BuildTx (create_request us rs), SignTx, BroadcastTx txid, SyncWallet,
     Print (MInfo ''UTXO creation complete'')] \<and> wallet_finish_ok w (trace s) (create_request us rs)"
  using assms
  by (auto simp: create_tx_def shared_defs Let_def create_request_def split: all_splits)

text \<open>What the guard of \<open>createutxos\<close> looks at.\<close>

definition available_sats :: "world \<Rightarrow> effect list \<Rightarrow> outpoint list \<Rightarrow> u64 option" where
  "available_sats w tr unspendable =
     Option.bind (wallet_unspents w tr) (\<lambda>unspents.
     Option.bind (sum_w (w_build w) 0 (map snd (filter (\<lambda>u. fst u \<in> set unspendable) unspents))) (\<lambda>amt.
     Option.bind (wallet_total w tr) (\<lambda>balance. sub_w (w_build w) balance amt)))"

lemma createutxos_run:
  assumes "createutxos w s = Continue t"
  shows "rgb_utxos t = rgb_utxos s \<and>
      (\<exists>a. available_sats w (trace s @ [LockWallet, SyncWallet]) (map utxo_outpoint (rgb_utxos s)) = Some a \<and>
         a < MIN_CREATE_UTXOS_SATS) \<and>
      trace t = trace s @ [LockWallet, SyncWallet, Print (MError ''not enough funds''), UnlockWallet] \<or>
    (\<exists>txid scripts. length scripts = UTXO_NUM \<and> rgb_utxos t = push_created txid (rgb_utxos s) \<and>
      wallet_finish_ok w (trace s @ [LockWallet, SyncWallet] @ replicate UTXO_NUM NewAddress)
        (create_request (map utxo_outpoint (rgb_utxos s)) (map (\<lambda>x. (x, UTXO_SIZE_SAT)) scripts)) \<and>
      trace t = trace s @ [LockWallet, SyncWallet] @ replicate UTXO_NUM NewAddress @
        [BuildTx (create_request (map utxo_outpoint (rgb_utxos s)) (map (\<lambda>x. (x, UTXO_SIZE_SAT)) scripts)),
         SignTx, BroadcastTx txid, SyncWallet, Print (MInfo ''UTXO creation complete''), UnlockWallet])"
proof -
  let ?s = "emit SyncWallet (emit LockWallet s)" and ?us = "map utxo_outpoint (rgb_utxos s)"
  from assms obtain t' where t: "t = emit UnlockWallet t'"
    and c: "error ''not enough funds'' ?s = Continue t' \<and>
        (\<exists>a. available_sats w (trace s @ [LockWallet, SyncWallet]) ?us = Some a \<and> a < MIN_CREATE_UTXOS_SATS) \<or>
      add_recipients w UTXO_NUM [] ?s (create_tx w ?us) = Continue t'"
    by (auto simp: createutxos_def with_wallet_def sync_wallet_def Let_def available_sats_def split: all_splits)
  from c show ?thesis
  proof
    assume "error ''not enough funds'' ?s = Continue t' \<and>
        (\<exists>a. available_sats w (trace s @ [LockWallet, SyncWallet]) ?us = Some a \<and> a < MIN_CREATE_UTXOS_SATS)"
    then show ?thesis using t by (auto simp: error_def)
  next
    assume a: "add_recipients w UTXO_NUM [] ?s (create_tx w ?us) = Continue t'"
    from add_recipients_cases [of UTXO_NUM w "[]" ?s "create_tx w ?us"] a
    obtain scripts u where u: "length scripts = UTXO_NUM" "rgb_utxos u = rgb_utxos ?s"
        "trace u = trace ?s @ replicate UTXO_NUM NewAddress"
        "create_tx w ?us (map (\<lambda>x. (x, UTXO_SIZE_SAT)) scripts) u = Continue t'" by auto
    from create_tx_run [OF u(4)] u(1-3) show ?thesis
      by (intro disjI2) (auto simp: t)
  qed
qed

lemma createutxos_outcome: "\<exists>t. createutxos w s = Continue t \<or> createutxos w s = Abort t"
proof -
  have c: "\<exists>t. create_tx w us rs u = Continue t \<or> create_tx w us rs u = Abort t" for us rs u
    by (auto simp: create_tx_def shared_defs Let_def split: all_splits)
  have a: "\<exists>t. add_recipients w n rs u (create_tx w us) = Continue t \<or>
      add_recipients w n rs u (create_tx w us) = Abort t" for n rs u us
    by (induction n arbitrary: rs u) (auto simp: c new_address_def split: flow_splits)
  have r: "\<exists>t. release f = Continue t \<or> release f = Abort t"
    if "\<exists>t. f = Continue t \<or> f = Abort t" for f using that by auto
  show ?thesis
    unfolding createutxos_def with_wallet_def sync_wallet_def Let_def
    by (rule r) (auto simp: a error_def split: flow_splits)
qed

lemma refresh_loop_state:
  assumes "refresh_loop w bfs s = Continue t"
  shows "(blinded_utxos t bf = blinded_utxos s bf \<or>
      bf \<in> set bfs \<and> blinded_utxos t bf = None \<and>
      (\<exists>info. blinded_utxos s bf = Some info \<and> \<not> bi_consumed info)) \<and>
    rgb_utxos t = rgb_utxos s"
  using assms
proof (induction bfs arbitrary: s)
  case (Cons f bfs)
  then obtain u where u: "refresh_file w f s = Continue u" "refresh_loop w bfs u = Continue t"
    by (auto split: flow.splits)
  from refresh_file_state [OF u(1)] Cons.IH [OF u(2)] show ?case
    by (auto simp: refresh_ready_def split: if_splits option.splits)
qed auto

subsection \<open>Properties\<close>

text \<open>
  \<open>createutxos\<close> only checks for 10000 satoshis but builds four outputs of 32000: with between 10000
  and 127999 spendable satoshis the command panics and the node goes down. The wallet is assumed to
  refuse a transaction it cannot pay, to report the sum of its outputs as its balance, and not to
  change its outputs by handing out an address.
\<close>

theorem createutxos_underfunded_panics:
  assumes refuse: "\<And>tr req. wallet_finish_ok w tr req \<Longrightarrow>
      recipients_total req \<le> spendable w tr (tx_unspendable req)"
    and address: "\<And>tr. wallet_unspents w (tr @ [NewAddress]) = wallet_unspents w tr"
    and total: "\<And>tr us. wallet_unspents w tr = Some us \<Longrightarrow>
      (\<exists>b. wallet_total w tr = Some b \<and> unat b = sum_list (map (\<lambda>u. unat (snd u)) us))"
    and funds: "10000 \<le> spendable w (trace s @ [LockWallet, SyncWallet]) (map utxo_outpoint (rgb_utxos s))"
      "spendable w (trace s @ [LockWallet, SyncWallet]) (map utxo_outpoint (rgb_utxos s)) < 128000"
  shows "\<exists>t. createutxos w s = Abort t"
proof (rule ccontr)
  let ?tr = "trace s @ [LockWallet, SyncWallet]" and ?us = "map utxo_outpoint (rgb_utxos s)"
  assume "\<nexists>t. createutxos w s = Abort t"
  then obtain t where "createutxos w s = Continue t" using createutxos_outcome by blast
  from createutxos_run [OF this] show False
  proof (elim disjE conjE exE)
    fix a assume a: "available_sats w ?tr ?us = Some a" "a < MIN_CREATE_UTXOS_SATS"
    then obtain us amt b where us: "wallet_unspents w ?tr = Some us"
        "sum_w (w_build w) 0 (map snd (filter (\<lambda>u. fst u \<in> set ?us) us)) = Some amt"
        "wallet_total w ?tr = Some b" "sub_w (w_build w) b amt = Some a"
      by (auto simp: available_sats_def Option.bind_eq_Some_conv)
    let ?v = "\<lambda>us. sum_list (map (\<lambda>u. unat (snd u)) us)"
    have b: "unat b = ?v us" using total [OF us(1)] us(3) by auto
    have split: "?v us = ?v (filter (\<lambda>u. fst u \<in> set ?us) us) + ?v (filter (\<lambda>u. fst u \<notin> set ?us) us)"
      by (induction us) auto
    have "?v (filter (\<lambda>u. fst u \<in> set ?us) us) < 2 ^ 64"
      using unat_u64_less [of b] b split by simp
    then obtain amt' where "sum_w (w_build w) 0 (map snd (filter (\<lambda>u. fst u \<in> set ?us) us)) = Some amt'"
        "unat amt' = ?v (filter (\<lambda>u. fst u \<in> set ?us) us)"
      using sum_w_exact [of 0 "map snd (filter (\<lambda>u. fst u \<in> set ?us) us)"] by (auto simp: comp_def)
    with us(2) have amt: "unat amt = ?v (filter (\<lambda>u. fst u \<in> set ?us) us)" by simp
    have le: "amt \<le> b" using amt b split by (simp add: word_le_nat_alt)
    then have "a = b - amt" using us(4) by (simp add: sub_w_exact)
    then have "unat a = ?v (filter (\<lambda>u. fst u \<notin> set ?us) us)"
      using unat_sub_exact [OF le] amt b split by simp
    then have "unat a = spendable w ?tr ?us" by (simp add: spendable_def us(1))
    with funds(1) a(2) show False by (simp add: MIN_CREATE_UTXOS_SATS_def word_less_nat_alt)
  next
    fix txid scripts
    let ?req = "create_request ?us (map (\<lambda>x. (x, UTXO_SIZE_SAT)) scripts)"
    assume f: "length scripts = UTXO_NUM"
      "wallet_finish_ok w (trace s @ [LockWallet, SyncWallet] @ replicate UTXO_NUM NewAddress) ?req"
    have "wallet_unspents w (tr @ replicate n NewAddress) = wallet_unspents w tr" for tr n
      by (induction n arbitrary: tr) (simp, metis append_Cons append_assoc append_self_conv2 replicate_Suc address)
    then have sp: "spendable w (?tr @ replicate UTXO_NUM NewAddress) ?us = spendable w ?tr ?us"
      unfolding spendable_def by presburger
    have "recipients_total ?req = 128000"
      using f(1) by (simp add: recipients_total_def create_request_def comp_def UTXO_SIZE_SAT_def
          UTXO_NUM_def sum_list_triv)
    moreover have "recipients_total ?req \<le> spendable w ?tr ?us"
      using refuse [OF f(2)] sp by (simp add: create_request_def)
    ultimately show False using funds(2) by simp
  qed
qed

theorem createutxos_underfunded_panics_witness: "\<exists>t. createutxos sample_world sample_node = Abort t"
  by (rule createutxos_underfunded_panics)
     (auto simp: sample_world_def sample_node_def spendable_def)


definition rich_world :: world where
  "rich_world = sample_world\<lparr>wallet_total := \<lambda>_. Some 200000, wallet_finish_ok := \<lambda>_ _. True\<rparr>"

lemma UTXO_NUM_Suc: "UTXO_NUM = Suc (Suc (Suc (Suc 0)))"
  by (simp add: UTXO_NUM_def)

lemma rich_createutxos: "\<exists>t. createutxos rich_world sample_node = Continue t"
  by (auto simp: createutxos_def with_wallet_def sync_wallet_def rich_world_def sample_world_def sample_node_def
      Let_def call_def expect_def sub_w_def MIN_CREATE_UTXOS_SATS_def UTXO_NUM_Suc
      new_address_def create_tx_def finish_tx_def sign_tx_def broadcast_tx_def)


text \<open>
  \<open>issueasset\<close> with valid words issues the parsed amount on an output that was free, marks just that
  one, and frees the runtime's lock; with no free output it only prints an error.
\<close>

theorem issueasset_takes_free_output:
  assumes "utxos_wf (rgb_utxos s)" and "parse_word amount = Some a" and "parse_word precision = Some p"
    and "is_ascii ticker" "is_ascii name" and "ticker_ok w ticker" "name_ok w name" "precision_ok w p"
    and "\<And>tr. unat (now w tr) < 2 ^ 31" and "\<And>tr. issue_ok w tr = Some cid"
  shows "(uncolored (rgb_utxos s) = {} \<and>
      issueasset w [amount, ticker, name, precision] s = error ''no available UTXOs'' s) \<or>
    (\<exists>outpoint utxos. outpoint \<in> uncolored (rgb_utxos s) \<and>
      uncolored utxos = uncolored (rgb_utxos s) - {outpoint} \<and>
      colored utxos = insert outpoint (colored (rgb_utxos s)) \<and>
      issueasset w [amount, ticker, name, precision] s = Continue (s\<lparr>rgb_utxos := utxos,
        trace := trace s @ [GetRuntime,
          IssueContract a outpoint ticker name p (ucast (now w (trace s @ [GetRuntime]))), DropRuntime,
          Print (MAssetId cid)]\<rparr>))"
proof -
  have c: "\<not> 2 ^ 31 \<le> unat (now w tr)" for tr using assms(9) [of tr] by linarith
  have i: "issueasset w [amount, ticker, name, precision] s = take_utxo s (\<lambda>outpoint s.
      Continue (s\<lparr>trace := trace s @ [GetRuntime,
        IssueContract a outpoint ticker name p (ucast (now w (trace s @ [GetRuntime]))), DropRuntime,
        Print (MAssetId cid)]\<rparr>))"
    using assms(2-8,10) c by (simp add: issueasset_def issue_contract_def need_def Let_def expect_def emit_def)
  from assms(1) show ?thesis
  proof (cases rule: take_uncolored_cases)
    case none
    then show ?thesis by (simp add: i take_utxo_def)
  next
    case (took us u vs)
    then have t: "take_uncolored (rgb_utxos s) = Some (Inr (utxo_outpoint u, us @ u\<lparr>utxo_colored := True\<rparr> # vs))"
      by simp
    from take_uncolored_Inr [OF assms(1) t] show ?thesis
      by (intro disjI2 exI [of _ "utxo_outpoint u"] exI [of _ "us @ u\<lparr>utxo_colored := True\<rparr> # vs"])
         (simp add: i take_utxo_def t)
  qed
qed

definition node_with_utxo :: node where
  "node_with_utxo = sample_node\<lparr>rgb_utxos := [\<lparr>utxo_outpoint = OutPoint [1] 0, utxo_colored = False\<rparr>]\<rparr>"

theorem issueasset_takes_free_output_witness:
  "\<exists>outpoint utxos. outpoint \<in> uncolored (rgb_utxos node_with_utxo) \<and>
      issueasset sample_world [''1000'', ''TCK'', ''name'', ''0''] node_with_utxo =
        Continue (node_with_utxo\<lparr>rgb_utxos := utxos,
        trace := [GetRuntime, IssueContract 1000 outpoint ''TCK'' ''name'' 0 1000, DropRuntime, Print (MAssetId [42])]\<rparr>)"
proof -
  have "utxos_wf (rgb_utxos node_with_utxo)" by (simp add: utxos_wf_def node_with_utxo_def)
  moreover have "parse_word ''1000'' = Some (1000 :: u64)" "parse_word ''0'' = Some (0 :: u8)"
    by (simp_all add: parse_word_def digit_val_def)
  moreover have "is_ascii ''TCK''" "is_ascii ''name''" by (simp_all add: is_ascii_def)
  moreover have "issue_ok sample_world tr = Some [42]" "now sample_world tr = 1000" for tr
    by (simp_all add: sample_world_def)
  moreover have "ticker_ok sample_world ''TCK''" "name_ok sample_world ''name''" "precision_ok sample_world 0"
    by (simp_all add: sample_world_def)
  moreover have "uncolored (rgb_utxos node_with_utxo) \<noteq> {}" "trace node_with_utxo = []"
    by (auto simp: uncolored_def node_with_utxo_def sample_node_def)
  ultimately show ?thesis
    using issueasset_takes_free_output [of node_with_utxo "''1000''" 1000 "''0''" 0 "''TCK''" "''name''" sample_world "[42]"]
    by auto
qed

text \<open>
  \<open>issueasset\<close> accepts any ASCII words as ticker and name and any \<open>u8\<close> as precision; what the RGB library
  refuses aborts the node, after the chosen output was marked as coloured in the file although it holds no
  asset, and with the runtime's lock file in place.
\<close>

theorem issueasset_bad_details_abort:
  assumes "utxos_wf (rgb_utxos s)" and "uncolored (rgb_utxos s) \<noteq> {}"
    and "parse_word amount = Some (a :: u64)" and "parse_word precision = Some p"
    and "is_ascii ticker" "is_ascii name"
    and "\<not> (ticker_ok w ticker \<and> name_ok w name \<and> precision_ok w p)"
  shows "\<exists>t outpoint. issueasset w [amount, ticker, name, precision] s = Abort t \<and>
    outpoint \<in> uncolored (rgb_utxos s) \<and> colored (rgb_utxos t) = insert outpoint (colored (rgb_utxos s)) \<and>
    new_effects s (Abort t) = [GetRuntime] \<and> runtime_held (trace t)"
proof -
  have i: "issueasset w [amount, ticker, name, precision] s = take_utxo s (\<lambda>outpoint s. Abort (emit GetRuntime s))"
    using assms(3-) by (auto simp: issueasset_def issue_contract_def need_def Let_def)
  from assms(1) show ?thesis
  proof (cases rule: take_uncolored_cases)
    case none
    with assms(2) show ?thesis by simp
  next
    case (took us u vs)
    then have t: "take_uncolored (rgb_utxos s) = Some (Inr (utxo_outpoint u, us @ u\<lparr>utxo_colored := True\<rparr> # vs))"
      by simp
    let ?t = "emit GetRuntime (s\<lparr>rgb_utxos := us @ u\<lparr>utxo_colored := True\<rparr> # vs\<rparr>)"
    from take_uncolored_Inr [OF assms(1) t] show ?thesis
      by (intro exI [of _ ?t] exI [of _ "utxo_outpoint u"]) (simp add: i take_utxo_def t new_effects_def)
  qed
qed

theorem issueasset_bad_details_abort_witness:
  "\<exists>t. issueasset sample_world [''1000'', ''VERYLONGTICKER'', ''name'', ''0''] node_with_utxo = Abort t \<and>
     runtime_held (trace t)"
proof -
  have "utxos_wf (rgb_utxos node_with_utxo)" "uncolored (rgb_utxos node_with_utxo) \<noteq> {}"
    by (auto simp: utxos_wf_def uncolored_def node_with_utxo_def)
  moreover have "parse_word ''1000'' = Some (1000 :: u64)" "parse_word ''0'' = Some (0 :: u8)"
    by (simp_all add: parse_word_def digit_val_def)
  moreover have "is_ascii ''VERYLONGTICKER''" "is_ascii ''name''" by (simp_all add: is_ascii_def)
  moreover have "\<not> ticker_ok sample_world ''VERYLONGTICKER''" by (simp add: sample_world_def)
  ultimately show ?thesis
    using issueasset_bad_details_abort [of node_with_utxo "''1000''" 1000 "''0''" 0 "''VERYLONGTICKER''" "''name''" sample_world]
    by blast
qed

text \<open>
  \<open>refresh\<close> only ever removes a file that waits for a transfer: entries already consumed, files it
  did not list and all outputs keep their state, and the runtime's lock is free afterwards.
\<close>

theorem refresh_keeps_the_rest:
  assumes "refresh w s = Continue t"
  shows "(blinded_utxos t bf = blinded_utxos s bf \<or>
      bf \<in> set (blinded_dir w (trace s)) \<and> blinded_utxos t bf = None \<and>
      (\<exists>info. blinded_utxos s bf = Some info \<and> \<not> bi_consumed info)) \<and>
    rgb_utxos t = rgb_utxos s \<and> (\<not> runtime_held (trace s) \<longrightarrow> \<not> runtime_held (trace t))"
  using refresh_loop_state [OF assms [unfolded refresh_def]] assms
  by (auto simp: refresh_def refresh_loop_run split: flow.splits dest: refresh.run_frees)


definition received_node :: node where
  "received_node = flow_state (receiveasset sample_world node_with_utxo)"

definition refreshed_node :: node where
  "refreshed_node = flow_state (refresh sample_world received_node)"

lemma received_node:
  "receiveasset sample_world node_with_utxo = Continue received_node"
  "trace received_node = [GetRuntime, StoreSealSecret (OutPoint [1] 0, 5), DropRuntime] @
     [Print (MBlindedUtxo ''blinded'')]"
  "blinded_utxos received_node = [''blinded'' \<mapsto>
     \<lparr>bi_contract_id = None, bi_seal = (OutPoint [1] 0, 5), bi_consumed = False\<rparr>]"
  by (simp_all add: received_node_def receiveasset_def take_utxo_def take_uncolored_def check_uncolored_utxos_def
      get_utxo_def node_with_utxo_def sample_world_def sample_node_def call_def Let_def)

lemma refreshed_node: "refresh sample_world received_node = Continue refreshed_node"
  by (simp add: refreshed_node_def refresh_def refresh_file_def received_node get_consignment_def sample_world_def expect_def
      need_def Let_def call_def with_wallet_def sync_wallet_def)

theorem refresh_keeps_the_rest_witness:
  "rgb_utxos refreshed_node = rgb_utxos received_node \<and> \<not> runtime_held (trace refreshed_node)"
  using refresh_keeps_the_rest [OF refreshed_node, of "''blinded''"]
  by (simp add: received_node runtime_held_def)


text \<open>
  Every command that takes the lock of the RGB runtime and returns frees it, in any sequence
  of \<open>issueasset\<close> and \<open>receiveasset\<close> commands; \<open>assetbalance\<close> of an unknown contract returns with the lock
  taken.
\<close>

theorem runtime_lock_discipline:
  assumes "\<not> runtime_held (trace s)"
  shows "(run_all (\<lambda>(w, ws). issueasset w ws) cmds s = Continue t \<longrightarrow> \<not> runtime_held (trace t)) \<and>
    (run_all receiveasset worlds s = Continue t \<longrightarrow> \<not> runtime_held (trace t)) \<and>
    (assetbalance w ws s = Continue t \<longrightarrow>
       runtime_held (trace t) = (last (trace t) = Print (MError ''unknown contract'')))"
proof (intro conjI impI)
  assume "assetbalance w ws s = Continue t"
  then show "runtime_held (trace t) = (last (trace t) = Print (MError ''unknown contract''))"
    using assms
    by (auto simp: assetbalance_def shared_defs Let_def error_def get_rgb_total_amount_def
        get_asset_owned_values_def split: all_splits)
qed (use assms in \<open>auto dest: issue.run_frees receive.run_frees\<close>)

theorem runtime_lock_discipline_witness:
  "\<exists>t. assetbalance (sample_world\<lparr>rgb_history := \<lambda>_ _. None\<rparr>) [''rgb''] sample_node = Continue t \<and> runtime_held (trace t)"
proof -
  let ?w = "sample_world\<lparr>rgb_history := \<lambda>_ _. None\<rparr>"
  let ?t = "flow_state (assetbalance ?w [''rgb''] sample_node)"
  have r: "assetbalance ?w [''rgb''] sample_node = Continue ?t \<and>
      last (trace ?t) = Print (MError ''unknown contract'')"
    by (simp add: assetbalance_def need_def expect_def rgb_total_amount_def sync_wallet_def call_def
        sample_world_def sample_node_def get_rgb_total_amount_def get_asset_owned_values_def error_def)
  have "\<not> runtime_held (trace sample_node)" by (simp add: sample_node_def)
  from runtime_lock_discipline [OF this, of _ ?t _ ?w "[''rgb'']"] r show ?thesis by blast
qed

end
