(* ===== verification/Transfers.thy ===== *)
theory Transfers
  imports World
begin

text \<open>
  The operations that move assets on chain: \<open>sendasset\<close> (\<open>src/cli.rs\<close>) and the handlers of
  \<open>FundingGenerationReady\<close>, \<open>ChannelReady\<close> and \<open>SpendableOutputs\<close> (\<open>src/main.rs\<close>). The trace records
  which outputs a transaction spends (\<open>BuildTx\<close>) and which amounts the transition assigns where
  (\<open>SendRgb\<close>).
\<close>

subsection \<open>sendasset\<close>

text \<open>The part after the coin selection; \<open>change\<close> lists the change assignment, if there is one.\<close>

definition complete_send ::
  "world \<Rightarrow> contract_id \<Rightarrow> u64 \<Rightarrow> string \<Rightarrow> bytes \<Rightarrow> outpoint list \<Rightarrow> (rgb_seal \<times> u64) list \<Rightarrow> node \<Rightarrow> flow" where
  "complete_send w contract_id amt_rgb blinded_utxo concealed_seal rgb_inputs change s =
     with_wallet s (\<lambda>s.
     new_address w s (\<lambda>address s.
     finish_tx w \<lparr>tx_add_utxos = rgb_inputs, tx_unspendable = [], tx_recipients = [], tx_data = True,
                  tx_manually_selected_only = True, tx_drain = True\<rparr> s (\<lambda>s.
     call (SendRgb contract_id (change @ [(AtConcealed concealed_seal, amt_rgb)]))
       (\<lambda>tr. send_rgb_ok w tr contract_id) s (\<lambda>s.
     let s = emit (SaveConsignment ''consignment'') s;
         ok = post_consignment_ok w (trace s) blinded_utxo;
         s = emit (PostConsignment blinded_utxo) s
     in if \<not> ok then error ''unable to post consignment'' s
        else
          sign_tx w s (\<lambda>txid s.
          broadcast_tx w txid s (\<lambda>s.
          expect (accept_transfer w (trace s)) (emit AcceptTransfer s) (\<lambda>valid.
          let s = emit DropRuntime (emit AcceptTransfer s) in
          sync_wallet w s (\<lambda>s.
          Continue (println (MTxid txid) s)))))))))"

text \<open>From the allocations the wallet owns: the inputs, the change and an output for it.\<close>

definition send_owned ::
  "world \<Rightarrow> contract_id \<Rightarrow> u64 \<Rightarrow> string \<Rightarrow> bytes \<Rightarrow> (bytes \<times> outpoint \<times> u64) list \<Rightarrow> node \<Rightarrow> flow" where
  "send_owned w contract_id amt_rgb blinded_utxo concealed_seal owned s =
     (if \<not> transition_ok w (trace s) contract_id then Abort s
      else
        expect (select_with_change (w_build w) amt_rgb owned) s (\<lambda>(rgb_inputs, rgb_change_amount).
        if 0 < rgb_change_amount then
          take_utxo s (\<lambda>change_outpoint s.
          complete_send w contract_id amt_rgb blinded_utxo concealed_seal rgb_inputs
            [(AtOutpoint change_outpoint, rgb_change_amount)] s)
        else complete_send w contract_id amt_rgb blinded_utxo concealed_seal rgb_inputs [] s))"

definition sendasset :: "world \<Rightarrow> string list \<Rightarrow> node \<Rightarrow> flow" where
  "sendasset w ws s =
     (let usage = error ''sendasset has 3 required arguments'' s in
      need (word 2 ws) usage (\<lambda>blinded_utxo. need (word 1 ws) usage (\<lambda>amt_rgb.
      need (word 0 ws) usage (\<lambda>contract_id.
      need (contract_from_str w contract_id) (error ''contract_id must be a valid RGB asset ID'' s)
        (\<lambda>contract_id.
      need (parse_word amt_rgb) (error ''could not parse amt_rgb'' s) (\<lambda>amt_rgb.
      rgb_total_amount w contract_id (emit GetRuntime s) (\<lambda>r s.
      case r of
        Inl e \<Rightarrow> error ''unknown contract'' s
      | Inr total_rgb_amount \<Rightarrow>
          if total_rgb_amount < amt_rgb then error ''do not have enough RGB assets'' s
          else
            need (seal_from_str w blinded_utxo) (error ''blinded_utxo must be a valid RGB blinded UTXO'' s)
              (\<lambda>concealed_seal.
            asset_owned_values w contract_id s (\<lambda>r s.
            case r of
              Inl e \<Rightarrow> Abort s
            | Inr owned \<Rightarrow> send_owned w contract_id amt_rgb blinded_utxo concealed_seal owned s)))))))))"

subsection \<open>Funding a channel\<close>

text \<open>
  The spawned task: it publishes the consignment, takes and frees the runtime's lock, and gives the
  transaction to LDK.
\<close>

definition funding_task ::
  "world \<Rightarrow> channel_id \<Rightarrow> pubkey \<Rightarrow> txid \<Rightarrow> bool \<Rightarrow> node \<Rightarrow> flow" where
  "funding_task w temporary_channel_id counterparty_node_id funding_txid is_colored s =
     (let give = (\<lambda>s.
            let ok = funding_generated_ok (w_ldk w) (trace s) temporary_channel_id counterparty_node_id funding_txid;
                s = emit (FundingGenerated temporary_channel_id counterparty_node_id funding_txid) s
            in Continue (println (if ok then MInfo ''FUNDING COMPLETED''
                                  else MError ''Channel went away before we could fund it'') s))
      in if \<not> is_colored then give s
         else
           (let ok = post_consignment_ok w (trace s) (show_txid w funding_txid);
                s = emit (PostConsignment (show_txid w funding_txid)) s
            in if \<not> ok then Continue s
               else
                 (let s = emit GetRuntime s in
                  if \<not> validate_ok w (trace s) then Continue s
                  else give (emit DropRuntime s))))"

text \<open>The change output of a coloured funding transaction is its output 2.\<close>

definition fund_channel ::
  "world \<Rightarrow> channel_id \<Rightarrow> pubkey \<Rightarrow> u64 \<Rightarrow> bytes \<Rightarrow> (rgb_info \<times> outpoint list \<times> u64) option \<Rightarrow> node \<Rightarrow> flow" where
  "fund_channel w temporary_channel_id counterparty_node_id channel_value_satoshis script rgb_state s =
     (let utxos = rgb_utxos s;
          rgb_inputs = map_option (\<lambda>(_, inputs, _). inputs) rgb_state;
          finish = (\<lambda>s.
            sign_tx w s (\<lambda>funding_txid s.
            let s = (case rgb_state of
                   None \<Rightarrow> s
                 | Some (rgb_info, inputs, rgb_change_amount) \<Rightarrow>
                     let s = emit (SaveConsignment (''consignment_'' @ show_txid w funding_txid)) s;
                         s = (if 0 < rgb_change_amount
                              then s\<lparr>rgb_utxos := push_colored (OutPoint funding_txid 2) utxos\<rparr> else s)
                     in emit (SaveConsignment (''consignment_'' @ hex_str temporary_channel_id)) s)
            in funding_task w temporary_channel_id counterparty_node_id funding_txid
                 (rgb_state \<noteq> None) (emit UnlockWallet s)))
      in new_address w (emit LockWallet s) (\<lambda>address s.
         finish_tx w \<lparr>tx_add_utxos = (case rgb_inputs of None \<Rightarrow> [] | Some i \<Rightarrow> i),
             tx_unspendable = unspendable_for rgb_inputs utxos,
             tx_recipients = [(script, channel_value_satoshis)], tx_data = True,
             tx_manually_selected_only = False, tx_drain = True\<rparr> s (\<lambda>s.
         case rgb_state of
           None \<Rightarrow> finish s
         | Some (rgb_info, inputs, rgb_change_amount) \<Rightarrow>
             call (SendRgb (ri_contract_id rgb_info)
                 ((AtVout 0, ri_local_rgb_amount rgb_info) #
                  (if 0 < rgb_change_amount then [(AtVout 2, rgb_change_amount)] else [])))
               (\<lambda>tr. send_rgb_ok w tr (ri_contract_id rgb_info)) (emit GetRuntime s) (\<lambda>s.
             finish (emit DropRuntime s)))))"

definition funding_generation_ready ::
  "world \<Rightarrow> channel_id \<Rightarrow> pubkey \<Rightarrow> u64 \<Rightarrow> bytes option \<Rightarrow> node \<Rightarrow> flow" where
  "funding_generation_ready w temporary_channel_id counterparty_node_id channel_value_satoshis output_script s =
     expect output_script s (\<lambda>script.
     case rgb_channel_files s temporary_channel_id of
       None \<Rightarrow> fund_channel w temporary_channel_id counterparty_node_id channel_value_satoshis script None s
     | Some rgb_info \<Rightarrow>
         asset_owned_values w (ri_contract_id rgb_info) (emit GetRuntime s) (\<lambda>r s.
         case r of
           Inl e \<Rightarrow> Abort s
         | Inr owned \<Rightarrow>
             if \<not> transition_ok w (trace s) (ri_contract_id rgb_info) then Abort s
             else
               expect (select_with_change (w_build w) (ri_local_rgb_amount rgb_info) owned) s
                 (\<lambda>(rgb_inputs, rgb_change_amount).
               fund_channel w temporary_channel_id counterparty_node_id channel_value_satoshis script
                 (Some (rgb_info, rgb_inputs, rgb_change_amount)) (emit DropRuntime s))))"

definition channel_ready :: "world \<Rightarrow> channel_id \<Rightarrow> node \<Rightarrow> flow" where
  "channel_ready w cid s =
     (let s = println (MInfo ''Channel is ready to be used'') s in
      case rgb_channel_files s cid of
        None \<Rightarrow> Continue s
      | Some _ \<Rightarrow>
          (let s = emit GetRuntime s in
           if \<not> validate_ok w (trace s) then Abort s
           else expect (accept_transfer w (trace s)) (emit AcceptTransfer s) (\<lambda>valid.
                Continue (emit DropRuntime (emit AcceptTransfer s)))))"

subsection \<open>Sweeping the outputs of a closed channel\<close>

datatype spendable_kind = StaticPaymentOutput | DelayedPaymentOutput | StaticOutput

record spendable_output =
  so_kind :: spendable_kind
  so_txid :: txid
  so_index :: u32
  so_channel_keys_id :: bytes
  so_script :: bytes

text \<open>
  The amount the closing transaction's bundle assigns to the output: the revealed assignments at its
  index (\<^term>\<open>None\<close> in the list: a concealed one).
\<close>

definition amount_at :: "build \<Rightarrow> u32 \<Rightarrow> (u32 \<times> u64) option list \<Rightarrow> u64 option" where
  "amount_at b index assignments =
     sum_w b 0 (concat (map (\<lambda>a. case a of None \<Rightarrow> [] | Some (vout, amt) \<Rightarrow> if vout = index then [amt] else [])
       assignments))"

text \<open>
  The transfer of a coloured closing transaction is consumed and accepted; an invalid one ends this
  output with a warning (the \<open>continue\<close> of the loop).
\<close>

definition sweep_transfer ::
  "world \<Rightarrow> spendable_output \<Rightarrow> node \<Rightarrow> ((contract_id \<times> u64) option \<Rightarrow> node \<Rightarrow> flow) \<Rightarrow> flow" where
  "sweep_transfer w outp s k =
     (case transfer_info w (trace s) (so_txid outp) of
        None \<Rightarrow> k None s
      | Some (contract_id, vout) \<Rightarrow>
          call (ConsumeTransfer (so_txid outp)) (consume_transfer_ok w) s (\<lambda>s.
          if \<not> validate_ok w (trace s) then Abort s
          else
            expect (accept_transfer w (trace s)) (emit AcceptTransfer s) (\<lambda>valid.
            let s = emit AcceptTransfer s in
            if \<not> valid then Continue (println (MWarning ''error consuming transfer'') s)
            else
              expect (bundle_assignments w (trace s) (so_txid outp)) s (\<lambda>assignments.
              expect (amount_at (w_build w) (so_index outp) assignments) s (\<lambda>amt_rgb.
              if \<not> transition_ok w (trace s) contract_id then Abort s
              else k (Some (contract_id, amt_rgb)) s)))))"

text \<open>
  The key of the intermediate wallet: the channel's payment key, or the child of the master key the output
  was sent to. \<open>get_bdk_wallet_seckey\<close> opens the wallet of that key on the one database in \<open>intermediate\<close>.
\<close>

definition sweep_key :: "world \<Rightarrow> spendable_output \<Rightarrow> bytes" where
  "sweep_key w outp =
     (if so_kind outp = StaticPaymentOutput then channel_payment_key w (so_channel_keys_id outp)
      else master_child_key w (if so_script outp = destination_script w then 1 else 2))"

definition get_bdk_wallet_seckey :: "world \<Rightarrow> bytes \<Rightarrow> node \<Rightarrow> (node \<Rightarrow> flow) \<Rightarrow> flow" where
  "get_bdk_wallet_seckey w seckey s k =
     expect (wallet_new w (intermediate_db s) (w_network w) seckey) s (\<lambda>db. k (s\<lparr>intermediate_db := Some db\<rparr>))"

text \<open>
  The sweeping transaction: the wallet of the channel's key is synchronised for the two static kinds;
  the OP_RETURN output is left out only for an uncoloured static payment.
\<close>

definition sweep_build ::
  "world \<Rightarrow> spendable_output \<Rightarrow> (contract_id \<times> u64) option \<Rightarrow> node \<Rightarrow>
   (txid \<Rightarrow> u32 option \<Rightarrow> node \<Rightarrow> flow) \<Rightarrow> flow" where
  "sweep_build w outp rgb s k =
     (let req = \<lparr>tx_add_utxos = [OutPoint (so_txid outp) (so_index outp)], tx_unspendable = [],
                 tx_recipients = [], tx_data = (so_kind outp \<noteq> StaticPaymentOutput \<or> rgb \<noteq> None),
                 tx_manually_selected_only = True, tx_drain = True\<rparr>;
          build = (\<lambda>s. finish_tx w req s (\<lambda>s.
            case rgb of
              None \<Rightarrow> sign_tx w s (\<lambda>txid s. k txid None s)
            | Some (contract_id, amt_rgb) \<Rightarrow>
                expect (update_transition_beneficiary (\<lambda>b i v a. Some (b @ [(AtVout v, a)]))
                    (psbt_op_returns w (trace s)) [] [] 0 amt_rgb) s (\<lambda>(vout, beneficiaries, assignments).
                call (SendRgb contract_id assignments) (\<lambda>tr. send_rgb_ok w tr contract_id) s (\<lambda>s.
                sign_tx w s (\<lambda>txid s. k txid (Some vout) s)))))
      in if so_kind outp = DelayedPaymentOutput then build s
         else get_bdk_wallet_seckey w (sweep_key w outp) s (\<lambda>s. sync_wallet w s build))"

definition sweep_record :: "world \<Rightarrow> txid \<Rightarrow> u32 option \<Rightarrow> node \<Rightarrow> flow" where
  "sweep_record w txid rgb_vout s =
     broadcast_tx w txid s (\<lambda>s.
     sync_wallet w s (\<lambda>s.
     case rgb_vout of
       None \<Rightarrow> Continue s
     | Some vout \<Rightarrow>
         (let s = s\<lparr>rgb_utxos := push_colored (OutPoint txid vout) (rgb_utxos s)\<rparr> in
          if \<not> validate_ok w (trace s) then Abort s
          else expect (accept_transfer w (trace s)) (emit AcceptTransfer s) (\<lambda>valid.
               Continue (emit AcceptTransfer s)))))"

definition sweep_output :: "world \<Rightarrow> spendable_output \<Rightarrow> node \<Rightarrow> flow" where
  "sweep_output w outp s =
     sweep_transfer w outp s (\<lambda>rgb s.
     with_wallet s (\<lambda>s.
     new_address w s (\<lambda>address s.
     sweep_build w outp rgb s (\<lambda>txid rgb_vout s.
     sweep_record w txid rgb_vout s))))"

fun sweep_outputs :: "world \<Rightarrow> spendable_output list \<Rightarrow> node \<Rightarrow> flow" where
  "sweep_outputs w [] s = Continue s"
| "sweep_outputs w (outp # rest) s =
     (case sweep_output w outp s of Continue s \<Rightarrow> sweep_outputs w rest s | f \<Rightarrow> f)"

definition spendable_outputs :: "world \<Rightarrow> spendable_output list \<Rightarrow> node \<Rightarrow> flow" where
  "spendable_outputs w outputs s =
     (case sweep_outputs w outputs (emit GetRuntime s) of
        Continue s \<Rightarrow> Continue (println (MInfo ''Event::SpendableOutputs complete'') (emit DropRuntime s))
      | f \<Rightarrow> f)"

subsection \<open>Lemmas\<close>

text \<open>Under the dev profile a selection that returns is exact.\<close>

lemma select_inputs_Debug:
  "select_inputs Debug target acc xs = Some (os, t) \<Longrightarrow>
     \<exists>k. os = outpoints_of (take k xs) \<and> unat t = unat acc + amounts (take k xs)"
proof (induction xs arbitrary: acc os)
  case (Cons x xs)
  obtain o' p a where x: "x = (o', p, a)" by (cases x)
  show ?case
  proof (cases "target \<le> acc")
    case True
    with Cons.prems show ?thesis by (intro exI [of _ 0]) (simp add: x)
  next
    case False
    with Cons.prems obtain os' where a: "unat acc + unat a < 2 ^ LENGTH(64)" and
        s: "select_inputs Debug target (acc + a) xs = Some (os', t)" and o: "os = p # os'"
      by (auto simp: x add_w_def not_le split: if_splits)
    from Cons.IH [OF s] obtain k where "os' = outpoints_of (take k xs)" "unat t = unat (acc + a) + amounts (take k xs)"
      by blast
    then show ?thesis by (intro exI [of _ "Suc k"]) (simp add: x o unat_add_exact [OF a])
  qed
qed (auto intro: exI [of _ 0])

lemma select_with_change_Debug:
  assumes "select_with_change Debug target xs = Some (os, change)"
  shows "\<exists>k. os = outpoints_of (take k xs) \<and> unat target + unat change = amounts (take k xs)"
proof -
  from assms obtain t where t: "select_inputs Debug target 0 xs = Some (os, t)" and c: "sub_w Debug t target = Some change"
    by (auto simp: select_with_change_def split: option.splits)
  from c have "target \<le> t" "change = t - target" by (auto simp: sub_w_def not_less split: if_splits)
  then have "unat change = unat t - unat target" "unat target \<le> unat t"
    by (simp_all add: unat_sub_exact word_le_nat_alt)
  with select_inputs_Debug [OF t] show ?thesis by auto
qed

abbreviation assigned :: "(rgb_seal \<times> u64) list \<Rightarrow> nat" where
  "assigned outs \<equiv> sum_list (map (\<lambda>out. unat (snd out)) outs)"

text \<open>The transitions a trace hands to the RGB runtime.\<close>

definition transitions :: "effect list \<Rightarrow> (contract_id \<times> (rgb_seal \<times> u64) list) list" where
  "transitions tr = concat (map (\<lambda>e. case e of SendRgb c outs \<Rightarrow> [(c, outs)] | _ \<Rightarrow> []) tr)"

lemma transitions_simps [simp]:
  "transitions [] = []" "transitions (tr @ tr') = transitions tr @ transitions tr'"
  "transitions (SendRgb c outs # tr) = (c, outs) # transitions tr"
  "(\<And>c outs. e \<noteq> SendRgb c outs) \<Longrightarrow> transitions (e # tr) = transitions tr"
  by (auto simp: transitions_def split: effect.splits)

definition spends :: "effect list \<Rightarrow> outpoint list list" where
  "spends tr = concat (map (\<lambda>e. case e of BuildTx req \<Rightarrow> [tx_add_utxos req] | _ \<Rightarrow> []) tr)"

lemma spends_simps [simp]:
  "spends [] = []" "spends (tr @ tr') = spends tr @ spends tr'"
  "spends (BuildTx req # tr) = tx_add_utxos req # spends tr"
  "(\<And>req. e \<noteq> BuildTx req) \<Longrightarrow> spends (e # tr) = spends tr"
  by (auto simp: spends_def split: effect.splits)

lemma complete_send_Continue:
  assumes "complete_send w c amt b seal inputs change s = Continue t"
  shows "transitions (trace t) = transitions (trace s) @ [(c, change @ [(AtConcealed seal, amt)])] \<and>
    spends (trace t) = spends (trace s) @ [inputs] \<and> rgb_utxos t = rgb_utxos s \<and>
    (\<not> post_consignment_ok w (trace s @ [LockWallet, NewAddress,
        BuildTx \<lparr>tx_add_utxos = inputs, tx_unspendable = [], tx_recipients = [], tx_data = True,
                 tx_manually_selected_only = True, tx_drain = True\<rparr>,
        SendRgb c (change @ [(AtConcealed seal, amt)]), SaveConsignment ''consignment'']) b \<longrightarrow>
      (\<forall>txid. BroadcastTx txid \<in> set (trace t) \<longrightarrow> BroadcastTx txid \<in> set (trace s)) \<and>
      (runtime_held (trace t) = runtime_held (trace s)))"
  using assms
  by (auto simp: complete_send_def with_wallet_def sync_wallet_def broadcast_tx_def finish_tx_def sign_tx_def new_address_def error_def Let_def split: all_splits)

lemma send_owned_Continue:
  assumes "send_owned w c amt b seal owned s = Continue t" and "w_build w = Debug"
  shows "transitions (trace t) = transitions (trace s) \<and> spends (trace t) = spends (trace s) \<or>
    (\<exists>k outs. spends (trace t) = spends (trace s) @ [outpoints_of (take k owned)] \<and>
       transitions (trace t) = transitions (trace s) @ [(c, outs @ [(AtConcealed seal, amt)])] \<and>
       assigned outs + unat amt = amounts (take k owned) \<and>
       (\<forall>out\<in>set outs. \<exists>o'. fst out = AtOutpoint o' \<and> (utxos_wf (rgb_utxos s) \<longrightarrow>
          o' \<in> uncolored (rgb_utxos s) \<and> o' \<in> colored (rgb_utxos t))))"
proof -
  from assms obtain inputs change where sel: "select_with_change Debug amt owned = Some (inputs, change)"
    and t: "(if 0 < change then take_utxo s (\<lambda>o'. complete_send w c amt b seal inputs [(AtOutpoint o', change)])
       else complete_send w c amt b seal inputs [] s) = Continue t"
    by (auto simp: send_owned_def expect_def split: if_splits option.splits)
  from select_with_change_Debug [OF sel] obtain k where
    k: "inputs = outpoints_of (take k owned)" "unat amt + unat change = amounts (take k owned)" by blast
  show ?thesis
  proof (cases "0 < change")
    case False
    then have "unat change = 0" by (simp add: word_neq_0_conv [symmetric])
    with False t k complete_send_Continue [of w c amt b seal inputs "[]" s t] show ?thesis
      by (intro disjI2 exI [of _ k] exI [of _ "[]"]) simp
  next
    case True
    with t consider "t = println (MError ''no available UTXOs'') s"
      | o' utxos where "take_uncolored (rgb_utxos s) = Some (Inr (o', utxos))"
          "complete_send w c amt b seal inputs [(AtOutpoint o', change)] (s\<lparr>rgb_utxos := utxos\<rparr>) = Continue t"
      by (auto simp: take_utxo_def error_def split: option.splits sum.splits)
    then show ?thesis
    proof cases
      case 1
      then show ?thesis by simp
    next
      case 2
      have "utxos_wf (rgb_utxos s) \<longrightarrow> o' \<in> uncolored (rgb_utxos s) \<and> o' \<in> colored utxos"
        using take_uncolored_Inr [OF _ 2(1)] by blast
      with complete_send_Continue [OF 2(2)] k show ?thesis
        by (intro disjI2 exI [of _ k] exI [of _ "[(AtOutpoint o', change)]"]) simp
    qed
  qed
qed

lemma asset_owned_values_Continue:
  assumes "asset_owned_values w c s k = Continue t"
  obtains us r u tr where "k r u = Continue t" "trace u = trace s @ [LockWallet, SyncWallet, UnlockWallet]"
    "rgb_utxos u = rgb_utxos s" "rgb_channel_files u = rgb_channel_files s"
    "wallet_unspents w tr = Some us" "get_asset_owned_values (map fst us) (rgb_history w tr c) = r"
proof -
  let ?u = "emit SyncWallet (emit LockWallet s)"
  from assms obtain us where "wallet_unspents w (trace ?u) = Some us"
      "k (get_asset_owned_values (map fst us) (rgb_history w (trace ?u) c)) (emit UnlockWallet ?u) = Continue t"
    by (auto simp: asset_owned_values_def sync_wallet_def split: flow_splits)
  then show thesis by (intro that [of _ "emit UnlockWallet ?u"]) simp_all
qed

lemma rgb_total_amount_Continue:
  assumes "rgb_total_amount w c s k = Continue t"
  obtains r u where "k r u = Continue t" "trace u = trace s @ [LockWallet, SyncWallet, UnlockWallet]"
    "rgb_utxos u = rgb_utxos s"
proof -
  let ?u = "emit SyncWallet (emit LockWallet s)"
  from assms obtain r where "k r (emit UnlockWallet ?u) = Continue t"
    by (auto simp: rgb_total_amount_def sync_wallet_def split: flow_splits)
  then show thesis by (intro that [of _ "emit UnlockWallet ?u"]) simp_all
qed

lemma sendasset_Continue:
  assumes "sendasset w ws s = Continue t"
  shows "transitions (trace t) = transitions (trace s) \<and> spends (trace t) = spends (trace s) \<and> rgb_utxos t = rgb_utxos s \<and> last (trace t) \<noteq> UnlockWallet \<or>
    (\<exists>c amt b seal owned u. send_owned w c amt b seal owned u = Continue t \<and>
       trace u = trace s @ [GetRuntime, LockWallet, SyncWallet, UnlockWallet, LockWallet, SyncWallet, UnlockWallet] \<and>
       transitions (trace u) = transitions (trace s) \<and> spends (trace u) = spends (trace s) \<and> rgb_utxos u = rgb_utxos s \<and>
       word 2 ws = Some b \<and> seal_from_str w b = Some seal \<and> Option.bind (word 1 ws) parse_word = Some (amt :: u64) \<and>
       Option.bind (word 0 ws) (contract_from_str w) = Some c \<and>
       (\<exists>us tr. wallet_unspents w tr = Some us \<and> get_asset_owned_values (map fst us) (rgb_history w tr c) = Inr owned))"
    (is "?unchanged \<or> ?sent")
proof -
  have err: ?unchanged if "error m u = Continue t" "transitions (trace u) = transitions (trace s)"
      "spends (trace u) = spends (trace s)" "rgb_utxos u = rgb_utxos s" for m u
    using that by (auto simp: error_def)
  show ?thesis
  proof (cases "\<exists>b amt c. word 2 ws = Some b \<and> Option.bind (word 1 ws) parse_word = Some (amt :: u64) \<and>
      Option.bind (word 0 ws) (contract_from_str w) = Some c")
    case False
    with assms show ?thesis
      by (intro disjI1) (auto simp: sendasset_def Let_def error_def split: need_split_asm)
  next
    case True
    then obtain b amt c where w: "word 2 ws = Some b" "Option.bind (word 1 ws) parse_word = Some (amt :: u64)"
        "Option.bind (word 0 ws) (contract_from_str w) = Some c" by blast
    then obtain w1 w0 where ww: "word 1 ws = Some w1" "parse_word w1 = Some amt" "word 0 ws = Some w0"
        "contract_from_str w w0 = Some c" by (auto simp: Option.bind_eq_Some_conv)
    let ?k = "\<lambda>r s. case (r :: rgb_error + u64) of Inl e \<Rightarrow> error ''unknown contract'' s
      | Inr total_rgb_amount \<Rightarrow>
          if total_rgb_amount < amt then error ''do not have enough RGB assets'' s
          else need (seal_from_str w b) (error ''blinded_utxo must be a valid RGB blinded UTXO'' s)
              (\<lambda>seal. asset_owned_values w c s (\<lambda>r s. case r of Inl e \<Rightarrow> Abort s
            | Inr owned \<Rightarrow> send_owned w c amt b seal owned s))"
    have "rgb_total_amount w c (emit GetRuntime s) ?k = Continue t"
      using assms by (simp add: sendasset_def need_def w ww [simplified])
    then obtain r u where k: "?k r u = Continue t" and
      u': "trace u = trace (emit GetRuntime s) @ [LockWallet, SyncWallet, UnlockWallet]" "rgb_utxos u = rgb_utxos (emit GetRuntime s)"
      by (rule rgb_total_amount_Continue)
    from u' have tu: "trace u = trace s @ [GetRuntime, LockWallet, SyncWallet, UnlockWallet]" by simp
    from u' have u: "transitions (trace u) = transitions (trace s)" "spends (trace u) = spends (trace s)"
      "rgb_utxos u = rgb_utxos s" by simp_all
    show ?thesis
    proof (cases "seal_from_str w b")
      case None
      with k err [OF _ u] show ?thesis by (auto simp: need_def split: sum.splits if_splits)
    next
      case (Some seal)
      with k err [OF _ u] have "?unchanged \<or> asset_owned_values w c u (\<lambda>r s. case r of Inl e \<Rightarrow> Abort s
            | Inr owned \<Rightarrow> send_owned w c amt b seal owned s) = Continue t"
        by (auto simp: need_def split: sum.splits if_splits)
      then show ?thesis
      proof
        assume "asset_owned_values w c u (\<lambda>r s. case r of Inl e \<Rightarrow> Abort s
            | Inr owned \<Rightarrow> send_owned w c amt b seal owned s) = Continue t"
        then obtain us r v tr where
          o: "(case r of Inl e \<Rightarrow> Abort v | Inr owned \<Rightarrow> send_owned w c amt b seal owned v) = Continue t"
            "trace v = trace u @ [LockWallet, SyncWallet, UnlockWallet]" "rgb_utxos v = rgb_utxos u"
            "wallet_unspents w tr = Some us" "get_asset_owned_values (map fst us) (rgb_history w tr c) = r"
          by (rule asset_owned_values_Continue)
        then obtain owned where r: "r = Inr owned" by (cases r) auto
        show ?thesis
          by (rule disjI2, rule exI [of _ c], rule exI [of _ amt], rule exI [of _ b], rule exI [of _ seal],
              rule exI [of _ owned], rule exI [of _ v])
             (use o u tu w Some r in \<open>auto\<close>)
      qed simp
    qed
  qed
qed

lemma funding_task_Continue:
  assumes "funding_task w tmp cp txid col s = Continue t"
  shows "transitions (trace t) = transitions (trace s) \<and> spends (trace t) = spends (trace s) \<and>
    rgb_utxos t = rgb_utxos s \<and>
    (\<forall>x. FundingGenerated tmp cp x \<in> set (trace t) \<longrightarrow> x = txid \<or> FundingGenerated tmp cp x \<in> set (trace s))"
  using assms by (auto simp: funding_task_def Let_def split: if_splits)

lemma fund_channel_Continue:
  assumes "fund_channel w tmp cp sats script (Some (info, inputs, change)) s = Continue t"
  shows "\<exists>txid req. transitions (trace t) = transitions (trace s) @ [(ri_contract_id info,
        (AtVout 0, ri_local_rgb_amount info) # (if 0 < change then [(AtVout 2, change)] else []))] \<and>
      spends (trace t) = spends (trace s) @ [inputs] \<and> BuildTx req \<in> set (trace t) \<and>
      tx_recipients req = [(script, sats)] \<and> tx_unspendable req = unspendable_for (Some inputs) (rgb_utxos s) \<and>
      rgb_utxos t = (if 0 < change then push_colored (OutPoint txid 2) (rgb_utxos s) else rgb_utxos s) \<and>
      (\<forall>x. FundingGenerated tmp cp x \<in> set (trace t) \<longrightarrow> x = txid \<or> FundingGenerated tmp cp x \<in> set (trace s))"
proof -
  let ?req = "\<lparr>tx_add_utxos = inputs, tx_unspendable = unspendable_for (Some inputs) (rgb_utxos s),
      tx_recipients = [(script, sats)], tx_data = True, tx_manually_selected_only = False, tx_drain = True\<rparr>"
  obtain txid u where task: "funding_task w tmp cp txid True u = Continue t"
    and u: "transitions (trace u) = transitions (trace s) @ [(ri_contract_id info,
        (AtVout 0, ri_local_rgb_amount info) # (if 0 < change then [(AtVout 2, change)] else []))]"
      "spends (trace u) = spends (trace s) @ [inputs]" "BuildTx ?req \<in> set (trace u)"
      "rgb_utxos u = (if 0 < change then push_colored (OutPoint txid 2) (rgb_utxos s) else rgb_utxos s)"
      "\<forall>x. FundingGenerated tmp cp x \<in> set (trace u) \<longrightarrow> FundingGenerated tmp cp x \<in> set (trace s)"
    using assms
    by (auto simp: fund_channel_def Let_def new_address_def finish_tx_def sign_tx_def split: flow_splits if_splits)
  have "BuildTx ?req \<in> set (trace t)"
    using task u(3) by (auto simp: funding_task_def Let_def split: if_splits)
  with funding_task_Continue [OF task] u show ?thesis
    by (intro exI [of _ txid] exI [of _ ?req]) auto
qed

lemma complete_send_ends:
  assumes "complete_send w c amt b seal inputs change s = Continue t"
  shows "\<exists>es. trace t = trace s @ es \<and>
    (butlast es = butlast (butlast es) @ [Print (MError ''unable to post consignment'')] \<longrightarrow>
       (\<forall>txid. BroadcastTx txid \<notin> set es) \<and> runtime_held (trace t) = runtime_held (trace s))"
  using assms
  by (auto simp: complete_send_def with_wallet_def sync_wallet_def broadcast_tx_def finish_tx_def sign_tx_def
      new_address_def error_def Let_def split: all_splits)

lemma send_owned_ends:
  assumes "send_owned w c amt b seal owned s = Continue t"
  shows "last (trace t) \<noteq> UnlockWallet \<or> (\<exists>es. trace t = trace s @ es \<and>
    (butlast es = butlast (butlast es) @ [Print (MError ''unable to post consignment'')] \<longrightarrow>
       (\<forall>txid. BroadcastTx txid \<notin> set es) \<and> runtime_held (trace t) = runtime_held (trace s)))"
proof -
  from assms consider "last (trace t) \<noteq> UnlockWallet"
    | inputs change u where "complete_send w c amt b seal inputs change u = Continue t" "trace u = trace s"
    by (auto simp: send_owned_def take_utxo_def error_def split: all_splits)
  then show ?thesis
  proof cases
    case 2
    from complete_send_ends [OF 2(1)] show ?thesis by (simp add: 2(2))
  qed simp
qed

lemma sweep_transfer_Continue:
  assumes "sweep_transfer w outp s k = Continue t"
  obtains (warned) "rgb_utxos t = rgb_utxos s" "transitions (trace t) = transitions (trace s)"
  | (go) rgb u where "k rgb u = Continue t" "rgb_utxos u = rgb_utxos s" "transitions (trace u) = transitions (trace s)"
      "rgb = None \<or> (\<exists>cid vout amt assignments tr. rgb = Some (cid, amt) \<and>
         transfer_info w (trace s) (so_txid outp) = Some (cid, vout) \<and>
         bundle_assignments w tr (so_txid outp) = Some assignments \<and>
         amount_at (w_build w) (so_index outp) assignments = Some amt)"
proof (cases "transfer_info w (trace s) (so_txid outp)")
  case None
  with assms have "k None s = Continue t" by (simp add: sweep_transfer_def)
  then show thesis by (rule go) simp_all
next
  case (Some i)
  obtain cid vout where i: "i = (cid, vout)" by force
  let ?u = "emit AcceptTransfer (emit (ConsumeTransfer (so_txid outp)) s)"
  have "t = println (MWarning ''error consuming transfer'') ?u \<or>
    (\<exists>assignments amt. bundle_assignments w (trace ?u) (so_txid outp) = Some assignments \<and>
        amount_at (w_build w) (so_index outp) assignments = Some amt \<and> k (Some (cid, amt)) ?u = Continue t)"
    using assms by (auto simp: sweep_transfer_def Some i Let_def split: flow_splits if_splits)
  then consider "t = println (MWarning ''error consuming transfer'') ?u"
    | assignments amt where "bundle_assignments w (trace ?u) (so_txid outp) = Some assignments"
        "amount_at (w_build w) (so_index outp) assignments = Some amt" "k (Some (cid, amt)) ?u = Continue t"
    by blast
  then show thesis
  proof cases
    case 1
    then show thesis by (intro warned) simp_all
  next
    case 2
    show thesis by (rule go [OF 2(3)]) (use 2 Some i in auto)
  qed
qed

lemma update_transition_assigns:
  "update_transition_beneficiary (\<lambda>b i v a. Some (b @ [(AtVout v, a)])) outputs [] [] i amt =
     Some (seal_vout_of outputs, [seal_vout_of outputs], [(AtVout (seal_vout_of outputs), amt)])"
  by (simp add: update_transition_beneficiary_def Let_def)

lemma sweep_record_Continue:
  assumes "sweep_record w txid v s = Continue t"
  shows "transitions (trace t) = transitions (trace s) \<and>
    rgb_utxos t = (case v of None \<Rightarrow> rgb_utxos s | Some vout \<Rightarrow> push_colored (OutPoint txid vout) (rgb_utxos s)) \<and>
    BroadcastTx txid \<in> set (trace t)"
  using assms
  by (auto simp: sweep_record_def sync_wallet_def broadcast_tx_def Let_def split: flow_splits if_splits option.splits)

lemma sweep_build_Continue:
  assumes "sweep_build w outp rgb s k = Continue t"
  shows "\<exists>txid u tr. k txid (map_option (\<lambda>_. seal_vout_of (psbt_op_returns w tr)) rgb) u = Continue t \<and>
    rgb_utxos u = rgb_utxos s \<and> transitions (trace u) = transitions (trace s) @
      (case rgb of None \<Rightarrow> [] | Some (cid, amt) \<Rightarrow> [(cid, [(AtVout (seal_vout_of (psbt_op_returns w tr)), amt)])])"
proof -
  define req where "req = \<lparr>tx_add_utxos = [OutPoint (so_txid outp) (so_index outp)], tx_unspendable = [],
      tx_recipients = [], tx_data = (so_kind outp \<noteq> StaticPaymentOutput \<or> rgb \<noteq> None),
      tx_manually_selected_only = True, tx_drain = True\<rparr>"
  define rest where "rest = (\<lambda>s. case rgb of
      None \<Rightarrow> sign_tx w s (\<lambda>txid s. k txid None s)
    | Some (contract_id, amt_rgb) \<Rightarrow>
        expect (update_transition_beneficiary (\<lambda>b i v a. Some (b @ [(AtVout v, a)]))
            (psbt_op_returns w (trace s)) [] [] 0 amt_rgb) s (\<lambda>(vout, beneficiaries, assignments).
        call (SendRgb contract_id assignments) (\<lambda>tr. send_rgb_ok w tr contract_id) s (\<lambda>s.
        sign_tx w s (\<lambda>txid s. k txid (Some vout) s))))"
  have "\<exists>u. rest u = Continue t \<and> rgb_utxos u = rgb_utxos s \<and> transitions (trace u) = transitions (trace s)"
  proof -
    have b: "sweep_build w outp rgb s k = (if so_kind outp = DelayedPaymentOutput then finish_tx w req s rest
        else get_bdk_wallet_seckey w (sweep_key w outp) s (\<lambda>s. sync_wallet w s (\<lambda>s. finish_tx w req s rest)))"
      by (simp add: sweep_build_def rest_def req_def Let_def)
    from assms consider "rest (emit (BuildTx req) s) = Continue t"
      | db where "rest (emit (BuildTx req) (emit SyncWallet (s\<lparr>intermediate_db := Some db\<rparr>))) = Continue t"
      unfolding b
      by (auto simp: finish_tx_def sync_wallet_def get_bdk_wallet_seckey_def split: if_splits flow_splits)
    then show ?thesis
      by cases (rule exI, rule conjI, assumption, simp)+
  qed
  then obtain u where u: "rest u = Continue t" "rgb_utxos u = rgb_utxos s" "transitions (trace u) = transitions (trace s)"
    by blast
  show ?thesis
  proof (cases rgb)
    case None
    with u(1) obtain txid where "k txid None (emit SignTx u) = Continue t"
      by (auto simp: rest_def sign_tx_def split: expect_split_asm)
    with u None show ?thesis
      by (intro exI [of _ txid] exI [of _ "emit SignTx u"]) simp
  next
    case (Some r)
    obtain cid amt where r: "r = (cid, amt)" by force
    let ?v = "seal_vout_of (psbt_op_returns w (trace u))"
    let ?u = "emit SignTx (emit (SendRgb cid [(AtVout ?v, amt)]) u)"
    from u(1) obtain txid where "k txid (Some ?v) ?u = Continue t"
      by (auto simp: rest_def Some r update_transition_assigns sign_tx_def split: flow_splits)
    with u show ?thesis
      by (intro exI [of _ txid] exI [of _ ?u] exI [of _ "trace u"]) (simp add: Some r)
  qed
qed

subsection \<open>Properties\<close>



text \<open>
  When the proxy refuses the consignment, \<open>sendasset\<close> returns without broadcasting anything but with
  the lock of the RGB runtime still taken: the next command that needs the runtime waits for it.
\<close>

theorem sendasset_failed_post_keeps_lock:
  assumes "sendasset w ws s = Continue t" and "\<not> runtime_held (trace s)"
    and "trace t = tr @ [Print (MError ''unable to post consignment''), UnlockWallet]"
  shows "runtime_held (trace t) \<and> (\<forall>txid. BroadcastTx txid \<notin> set (new_effects s (Continue t)))"
  using sendasset_Continue [OF assms(1)]
proof (elim disjE conjE exE)
  fix c amt b seal owned u
  assume so: "send_owned w c amt b seal owned u = Continue t"
    and u: "trace u = trace s @ [GetRuntime, LockWallet, SyncWallet, UnlockWallet, LockWallet, SyncWallet, UnlockWallet]"
  have "last (trace t) = UnlockWallet" using assms(3) by simp
  with send_owned_ends [OF so] obtain es where
    es: "trace t = trace u @ es" "butlast es = butlast (butlast es) @ [Print (MError ''unable to post consignment'')] \<longrightarrow>
       (\<forall>txid. BroadcastTx txid \<notin> set es) \<and> runtime_held (trace t) = runtime_held (trace u)" by blast
  have "butlast es = butlast (butlast es) @ [Print (MError ''unable to post consignment'')]"
  proof (cases es rule: rev_cases)
    case Nil
    with es(1) assms(3) u show ?thesis by auto
  next
    case (snoc es' e)
    with es(1) assms(3) u show ?thesis by (cases es' rule: rev_cases) (auto simp: butlast_append)
  qed
  with es u show ?thesis by (auto simp: new_effects_def)
qed (use assms(3) in auto)

text \<open>
  C28. A sweep records exactly the output that carries the assets: a new coloured entry of the file comes
  with one transition, of the contract of the closing transaction and with the amount its bundle assigns
  to the swept output, to that very output of the broadcast transaction; without assets nothing is
  recorded.
\<close>

theorem sweep_records_the_assets:
  assumes "sweep_output w outp s = Continue t"
  shows "rgb_utxos t = rgb_utxos s \<and> transitions (trace t) = transitions (trace s) \<or>
    (\<exists>cid v amt assignments tr vout txid. transfer_info w (trace s) (so_txid outp) = Some (cid, v) \<and>
       bundle_assignments w tr (so_txid outp) = Some assignments \<and>
       amount_at (w_build w) (so_index outp) assignments = Some amt \<and>
       transitions (trace t) = transitions (trace s) @ [(cid, [(AtVout vout, amt)])] \<and>
       rgb_utxos t = push_colored (OutPoint txid vout) (rgb_utxos s) \<and> BroadcastTx txid \<in> set (trace t))"
  using assms unfolding sweep_output_def
proof (cases rule: sweep_transfer_Continue)
  case warned
  then show ?thesis by simp
next
  case (go rgb u)
  then obtain x where x: "new_address w (emit LockWallet u) (\<lambda>address s.
      sweep_build w outp rgb s (\<lambda>txid rgb_vout s. sweep_record w txid rgb_vout s)) = Continue x"
    "t = emit UnlockWallet x"
    by (auto simp: with_wallet_def)
  from x(1) have "sweep_build w outp rgb (emit NewAddress (emit LockWallet u)) (\<lambda>txid rgb_vout s.
      sweep_record w txid rgb_vout s) = Continue x"
    by (simp add: new_address_def split: expect_split_asm)
  from sweep_build_Continue [OF this] obtain txid y tr where
    y: "sweep_record w txid (map_option (\<lambda>_. seal_vout_of (psbt_op_returns w tr)) rgb) y = Continue x"
      "rgb_utxos y = rgb_utxos s" "transitions (trace y) = transitions (trace s) @
      (case rgb of None \<Rightarrow> [] | Some (cid, amt) \<Rightarrow> [(cid, [(AtVout (seal_vout_of (psbt_op_returns w tr)), amt)])])"
    using go(2,3) by auto
  note r = sweep_record_Continue [OF y(1)]
  show ?thesis
  proof (cases rgb)
    case None
    with r y(2,3) x(2) show ?thesis by simp
  next
    case (Some ca)
    with go(4) obtain cid v amt assignments tr' where g: "ca = (cid, amt)"
      "transfer_info w (trace s) (so_txid outp) = Some (cid, v)"
      "bundle_assignments w tr' (so_txid outp) = Some assignments"
      "amount_at (w_build w) (so_index outp) assignments = Some amt" by auto
    show ?thesis
      by (rule disjI2, rule exI [of _ cid], rule exI [of _ v], rule exI [of _ amt], rule exI [of _ assignments],
          rule exI [of _ tr'], rule exI [of _ "seal_vout_of (psbt_op_returns w tr)"], rule exI [of _ txid])
         (use r y(2,3) x(2) g Some in simp)
  qed
qed

definition asset_node :: node where
  "asset_node = sample_node\<lparr>rgb_utxos := [\<lparr>utxo_outpoint = OutPoint [2] 0, utxo_colored = False\<rparr>]\<rparr>"

definition sent_node :: node where
  "sent_node = flow_state (sendasset sample_world [''a'', ''60'', ''b''] asset_node)"

lemma owned_sample [simp]:
  "get_asset_owned_values [OutPoint [1] 0] (Some [\<lparr>fo_opout = [1], fo_seal = OutPoint [1] 0, fo_value = 100\<rparr>]) =
     Inr [([1], OutPoint [1] 0, 100)]"
  by (simp add: get_asset_owned_values_def owned_step_def)

lemma sample_run:
  "w_build sample_world = Debug" "contract_from_str sample_world x = Some (map byte_of x)"
  "seal_from_str sample_world x = Some (map byte_of x)"
  "wallet_sync_ok sample_world tr" "wallet_unspents sample_world tr = Some [(OutPoint [1] 0, 50000)]"
  "rgb_history sample_world tr c = Some [\<lparr>fo_opout = [1], fo_seal = OutPoint [1] 0, fo_value = 100\<rparr>]"
  "transition_ok sample_world tr c" "wallet_address sample_world tr = Some [3]" "send_rgb_ok sample_world tr c"
  "wallet_signed_txid sample_world tr = Some [8]" "broadcast_ok sample_world tr"
  "accept_transfer sample_world tr = Some True" "post_consignment_ok sample_world tr y" "validate_ok sample_world tr"
  by (simp_all add: sample_world_def post_consignment_ok_def)

lemma sent_node:
  "sendasset sample_world [''a'', ''60'', ''b''] asset_node = Continue sent_node"
  by (simp add: sent_node_def sendasset_def need_def sample_run parse_word_def digit_val_def rgb_total_amount_def
      sync_wallet_def call_def expect_def get_rgb_total_amount_def add_w_def asset_owned_values_def send_owned_def
      select_with_change_def sub_w_def take_utxo_def take_uncolored_def check_uncolored_utxos_def get_utxo_def
      asset_node_def complete_send_def with_wallet_def new_address_def finish_tx_def sign_tx_def broadcast_tx_def
      Let_def post_consignment_ok_def sample_world_def recipients_total_def)


definition funded_node :: node where
  "funded_node = flow_state (funding_generation_ready sample_world [1] [9] 30000 (Some [5]) asset_node)"

lemma funded_node: "funding_generation_ready sample_world [1] [9] 30000 (Some [5]) asset_node = Continue funded_node"
  by (simp add: funded_node_def funding_generation_ready_def sample_run sync_wallet_def call_def expect_def
      add_w_def asset_owned_values_def select_with_change_def sub_w_def asset_node_def sample_node_def fund_channel_def
      new_address_def finish_tx_def sign_tx_def Let_def post_consignment_ok_def sample_world_def recipients_total_def unspendable_for_def
      funding_task_def) auto


definition no_proxy_world :: world where
  "no_proxy_world = sample_world\<lparr>proxy_post := \<lambda>_ _. None\<rparr>"

definition stuck_node :: node where
  "stuck_node = flow_state (sendasset no_proxy_world [''a'', ''60'', ''b''] asset_node)"

lemma stuck_node:
  "sendasset no_proxy_world [''a'', ''60'', ''b''] asset_node = Continue stuck_node"
  "\<exists>tr. trace stuck_node = tr @ [Print (MError ''unable to post consignment''), UnlockWallet]"
  by (simp_all add: stuck_node_def sendasset_def need_def parse_word_def digit_val_def rgb_total_amount_def
      sync_wallet_def call_def expect_def get_rgb_total_amount_def add_w_def asset_owned_values_def send_owned_def
      select_with_change_def sub_w_def take_utxo_def take_uncolored_def check_uncolored_utxos_def get_utxo_def
      asset_node_def complete_send_def with_wallet_def new_address_def finish_tx_def
      Let_def no_proxy_world_def post_consignment_ok_def sample_world_def recipients_total_def sample_node_def error_def)

theorem sendasset_failed_post_keeps_lock_witness:
  "runtime_held (trace stuck_node) \<and> (\<forall>txid. BroadcastTx txid \<notin> set (new_effects asset_node (Continue stuck_node)))"
proof -
  obtain tr where "trace stuck_node = tr @ [Print (MError ''unable to post consignment''), UnlockWallet]"
    using stuck_node(2) by blast
  from sendasset_failed_post_keeps_lock [OF stuck_node(1) _ this] show ?thesis
    by (simp add: asset_node_def sample_node_def)
qed

definition sweep_world :: world where
  "sweep_world = sample_world\<lparr>transfer_info := \<lambda>_ _. Some ([42], 0),
     bundle_assignments := \<lambda>_ _. Some [Some (1, 5), None, Some (1, 6), Some (0, 9)]\<rparr>"

definition swept_node :: node where
  "swept_node = flow_state (sweep_output sweep_world \<lparr>so_kind = StaticOutput, so_txid = [6], so_index = 1,
     so_channel_keys_id = [7], so_script = [1]\<rparr> sample_node)"

lemma swept_node:
  "sweep_output sweep_world \<lparr>so_kind = StaticOutput, so_txid = [6], so_index = 1,
     so_channel_keys_id = [7], so_script = [1]\<rparr> sample_node = Continue swept_node"
  "rgb_utxos swept_node \<noteq> rgb_utxos sample_node"
  by (simp_all add: swept_node_def sweep_output_def sweep_transfer_def sweep_world_def sample_world_def amount_at_def
      add_w_def call_def expect_def with_wallet_def new_address_def sweep_build_def
      get_bdk_wallet_seckey_def sweep_key_def sync_wallet_def finish_tx_def
      recipients_total_def update_transition_assigns sign_tx_def sweep_record_def broadcast_tx_def Let_def
      push_colored_def sample_node_def)

theorem sweep_records_the_assets_witness:
  "\<exists>amt vout txid. transitions (trace swept_node) = transitions (trace sample_node) @ [([42], [(AtVout vout, amt)])] \<and>
     rgb_utxos swept_node = push_colored (OutPoint txid vout) (rgb_utxos sample_node)"
proof -
  have t: "transfer_info sweep_world tr x = Some ([42], 0)" for tr x by (simp add: sweep_world_def)
  from sweep_records_the_assets [OF swept_node(1)] show ?thesis
  proof (elim disjE exE conjE)
    fix cid v amt assignments tr vout txid
    assume "transfer_info sweep_world (trace sample_node)
        (so_txid \<lparr>so_kind = StaticOutput, so_txid = [6], so_index = 1,
     so_channel_keys_id = [7], so_script = [1]\<rparr>) = Some (cid, v)"
      "transitions (trace swept_node) = transitions (trace sample_node) @ [(cid, [(AtVout vout, amt)])]"
      "rgb_utxos swept_node = push_colored (OutPoint txid vout) (rgb_utxos sample_node)"
    then show ?thesis unfolding t by (intro exI conjI) simp_all
  qed (use swept_node(2) in simp)
qed

text \<open>
  The wallets of swept keys share one database: if opening a database with another key than the one it was
  made for fails (bdk compares the descriptor's checksum with the stored one), then once an output of one
  key has been swept, sweeping an output of another key aborts the node.
\<close>

theorem second_key_sweep_aborts:
  assumes "\<And>db net key db' key'. wallet_new w db net key = Some db' \<Longrightarrow> key' \<noteq> key \<Longrightarrow> wallet_new w (Some db') net key' = None"
    and "so_kind a \<noteq> DelayedPaymentOutput" "so_kind b \<noteq> DelayedPaymentOutput" "sweep_key w b \<noteq> sweep_key w a"
    and "\<And>tr. transfer_info w tr (so_txid a) = None" "\<And>tr. transfer_info w tr (so_txid b) = None"
    and "sweep_output w a s = Continue t"
  shows "\<exists>u. sweep_outputs w (b # rest) t = Abort u \<and> rgb_utxos u = rgb_utxos t \<and>
    (\<forall>txid. BroadcastTx txid \<notin> set (new_effects t (Abort u)))"
proof -
  have "\<exists>db db'. wallet_new w db (w_network w) (sweep_key w a) = Some db' \<and> intermediate_db t = Some db'"
    using assms(2,5,7)
    by (auto simp: sweep_output_def sweep_transfer_def with_wallet_def new_address_def sweep_build_def
        get_bdk_wallet_seckey_def sync_wallet_def finish_tx_def sign_tx_def sweep_record_def broadcast_tx_def
        Let_def split: flow_splits)
  then have none: "wallet_new w (intermediate_db t) (w_network w) (sweep_key w b) = None"
    using assms(1) [OF _ assms(4)] by metis
  have "\<exists>u. sweep_output w b t = Abort u \<and> rgb_utxos u = rgb_utxos t \<and> (\<exists>es. trace u = trace t @ es \<and>
      set es \<subseteq> {LockWallet, NewAddress})"
    using assms(3) none
    by (auto simp: sweep_output_def sweep_transfer_def assms(6) with_wallet_def new_address_def sweep_build_def
        get_bdk_wallet_seckey_def expect_def Let_def split: option.splits)
  then show ?thesis by (auto simp: new_effects_def)
qed

definition static_output :: "bytes \<Rightarrow> spendable_output" where
  "static_output key = \<lparr>so_kind = StaticPaymentOutput, so_txid = key, so_index = 0, so_channel_keys_id = key,
     so_script = []\<rparr>"

definition swept_once :: node where
  "swept_once = flow_state (sweep_output sample_world (static_output [1]) sample_node)"

lemma swept_once: "sweep_output sample_world (static_output [1]) sample_node = Continue swept_once"
  by (simp add: swept_once_def static_output_def sweep_output_def sweep_transfer_def sample_world_def
      call_def expect_def with_wallet_def new_address_def sweep_build_def get_bdk_wallet_seckey_def sweep_key_def
      sync_wallet_def finish_tx_def recipients_total_def sign_tx_def sweep_record_def broadcast_tx_def Let_def
      sample_node_def)

theorem second_key_sweep_aborts_witness:
  "\<exists>u. sweep_outputs sample_world [static_output [2]] swept_once = Abort u"
proof -
  have w: "wallet_new sample_world db net key = (if db = None \<or> db = Some key then Some key else None)"
    "transfer_info sample_world tr x = None" "channel_payment_key sample_world = id" for db net key tr x
    by (simp_all add: sample_world_def)
  have k: "sweep_key sample_world (static_output [2]) \<noteq> sweep_key sample_world (static_output [1])"
    by (simp add: sweep_key_def static_output_def w(3))
  have law: "wallet_new sample_world (Some db') net key' = None"
    if "wallet_new sample_world db net key = Some db'" "key' \<noteq> key" for db net key db' key'
    using that by (auto simp: w(1) split: if_splits)
  have s: "so_kind (static_output key) \<noteq> DelayedPaymentOutput" for key by (simp add: static_output_def)
  have "\<exists>u. sweep_outputs sample_world [static_output [2]] swept_once = Abort u \<and>
      rgb_utxos u = rgb_utxos swept_once \<and> (\<forall>txid. BroadcastTx txid \<notin> set (new_effects swept_once (Abort u)))"
    by (rule second_key_sweep_aborts [OF _ s s k w(2) w(2) swept_once]) (rule law)
  then show ?thesis by blast
qed

end
