(* ===== verification/Trades.thy ===== *)
theory Trades
  imports World
begin

text \<open>
  Swaps from the command line (\<open>src/cli.rs\<close>): the maker's offer (\<open>makerinit\<close>, \<open>maker_init\<close>,
  \<open>fetch_price\<close>), the taker's acceptance (\<open>taker\<close>) and the maker's circular payment (\<open>makerexecute\<close>,
  \<open>get_route\<close>, \<open>maker_execute\<close>). The flag \<open>IS_SWAP_SCID\<close> is LDK's, a field of the world.
\<close>

subsection \<open>The offer\<close>

text \<open>
  The cast \<open>as u64\<close> truncates towards zero and saturates. The price in millisatoshi per unit comes
  from bitfinex's last price of a bitcoin in dollars.
\<close>

definition as_u64 :: "rat \<Rightarrow> u64" where
  "as_u64 x = (if x < 1 then 0 else if 2 ^ 64 \<le> \<lfloor>x\<rfloor> then 2 ^ 64 - 1 else of_int \<lfloor>x\<rfloor>)"

definition fetch_price :: "world \<Rightarrow> effect list \<Rightarrow> u64 option" where
  "fetch_price w tr =
     (case bitfinex_last_price w tr of
        None \<Rightarrow> None
      | Some last_price \<Rightarrow>
          if last_price = 0 then None
          else Some (as_u64 (round_to_f64 w (round_to_f64 w (1 / last_price) * 100000000000))))"

definition maker_init ::
  "world \<Rightarrow> swap_type \<Rightarrow> u32 \<Rightarrow> contract_id \<Rightarrow> node \<Rightarrow> (bytes \<Rightarrow> bytes \<Rightarrow> node \<Rightarrow> flow) \<Rightarrow> flow" where
  "maker_init w swaptype timeout_secs contract_id s k =
     (let e = CreateInboundPayment (amount_msats swaptype) timeout_secs in
      expect (create_inbound_payment (w_ldk w) (trace s) (amount_msats swaptype) timeout_secs) (emit e s)
        (\<lambda>(payment_hash, payment_secret).
      let s = emit e s;
          s = s\<lparr>maker_trades := (maker_trades s)(payment_hash \<mapsto> (contract_id, swaptype))\<rparr>
      in k payment_hash payment_secret s))"

text \<open>\<^term>\<open>None\<close>: the word is neither \<open>buy\<close> nor \<open>sell\<close>; \<^term>\<open>Some None\<close>: the product overflows.\<close>

definition offer_type :: "build \<Rightarrow> string \<Rightarrow> u64 \<Rightarrow> u64 \<Rightarrow> swap_type option option" where
  "offer_type b swaptype amt_asset price =
     (if swaptype = ''buy'' then Some (map_option (BuyAsset amt_asset) (mul_w b amt_asset price))
      else if swaptype = ''sell'' then Some (map_option (SellAsset amt_asset) (mul_w b amt_asset price))
      else None)"

definition nonzero :: "'a::zero option \<Rightarrow> 'a option" where
  "nonzero x = (case x of None \<Rightarrow> None | Some v \<Rightarrow> if v = 0 then None else Some v)"

text \<open>The rest of \<open>makerinit\<close>, once its words are read.\<close>

definition make_offer ::
  "world \<Rightarrow> u64 \<Rightarrow> contract_id \<Rightarrow> swap_type \<Rightarrow> u32 \<Rightarrow> u64 \<Rightarrow> node \<Rightarrow> flow" where
  "make_offer w amt_asset asset_id swaptype timeout price s =
     (let offer = (\<lambda>s.
        maker_init w swaptype timeout asset_id s (\<lambda>payment_hash payment_secret s.
        expect (add_w (w_build w) (now w (trace s)) (of_nat (unat timeout))) s (\<lambda>expiry.
        let swapstring = format_swapstring (show_contract w) amt_asset asset_id (side swaptype) price
              expiry payment_hash
        in Continue (println (MPaymentSecret payment_secret) (println (MSwapString swapstring) s)))))
      in if is_buy swaptype then check_rgb_funds w asset_id amt_asset s offer else offer s)"

definition makerinit :: "world \<Rightarrow> string list \<Rightarrow> node \<Rightarrow> flow" where
  "makerinit w ws s =
     (let usage = error ''makerinit requires at least 4 args'' s in
      need (word 3 ws) usage (\<lambda>timeout. need (word 2 ws) usage (\<lambda>swaptype.
      need (word 1 ws) usage (\<lambda>asset_id. need (word 0 ws) usage (\<lambda>amt_asset.
      need (contract_from_str w asset_id) (error ''invalid contract ID'' s) (\<lambda>asset_id.
      need (nonzero (parse_word timeout)) (error ''Invalid expiry_secs value'' s) (\<lambda>timeout.
      need (case word 4 ws of Some x \<Rightarrow> parse_word x | None \<Rightarrow> fetch_price w (trace s))
        (error ''invalid price_msats_per_asset'' s) (\<lambda>price.
      if price = 0 then error ''invalid price_msats_per_asset'' s
      else
      need (nonzero (parse_word amt_asset)) (error ''invalid amt_asset'' s) (\<lambda>amt_asset.
      need (offer_type (w_build w) swaptype amt_asset price) (error ''invalid swap type'' s) (\<lambda>swaptype.
      expect swaptype s (\<lambda>swaptype.
      make_offer w amt_asset asset_id swaptype timeout price s)))))))))))"

subsection \<open>The acceptance\<close>

definition whitelist_trade :: "world \<Rightarrow> contract_id swap_string \<Rightarrow> node \<Rightarrow> flow" where
  "whitelist_trade w swapstring s =
     (let s = s\<lparr>whitelisted_trades := (whitelisted_trades s)
               (ss_payment_hash swapstring \<mapsto> (ss_asset_id swapstring, ss_swap_type swapstring))\<rparr>
      in Continue (println (MOurPk (our_node_id (w_ldk w))) (println MTradeWhitelisted s)))"

definition taker :: "world \<Rightarrow> string list \<Rightarrow> node \<Rightarrow> flow" where
  "taker w ws s =
     need (word 0 ws) (error ''taker requires 1 arg'' s) (\<lambda>swapstring.
     expect (swap_from_str (w_build w) (contract_from_str w) swapstring) s (\<lambda>r.
     case r of
       Inl e \<Rightarrow> error ''Parsing swap string'' s
     | Inr swapstring \<Rightarrow>
         if ss_expiry swapstring < now w (trace s) then error ''the swap offer has already expired'' s
         else if \<not> is_buy (ss_swap_type swapstring) then
           check_rgb_funds w (ss_asset_id swapstring) (amount_rgb (ss_swap_type swapstring)) s
             (whitelist_trade w swapstring)
         else whitelist_trade w swapstring s))"

subsection \<open>The circular payment\<close>

definition get_route ::
  "world \<Rightarrow> pubkey \<Rightarrow> pubkey \<Rightarrow> contract_id option \<Rightarrow> u64 option \<Rightarrow> hint_hop list \<Rightarrow> node \<Rightarrow>
   route option \<times> node" where
  "get_route w start dest asset_id final_value_msat hints s =
     (let req = \<lparr>rr_start = start, rr_dest = dest, rr_asset_id = asset_id,
                 rr_final_value_msat = (case final_value_msat of None \<Rightarrow> HTLC_MIN_MSAT | Some v \<Rightarrow> v),
                 rr_hints = hints\<rparr>
      in (find_route (w_ldk w) (trace s) req, emit (FindRoute req) s))"

text \<open>The hop hint of a usable channel; its two \<open>unwrap\<close>s panic.\<close>

definition hint_of :: "channel_details \<Rightarrow> hint_hop option" where
  "hint_of details =
     (case (cd_forwarding_info details, cd_short_channel_id details) of
        (Some config, Some scid) \<Rightarrow>
          Some \<lparr>hh_src_node_id = cd_counterparty details, hh_short_channel_id = scid,
                hh_cltv_expiry_delta = fi_cltv_expiry_delta config,
                hh_base_msat = fi_fee_base_msat config,
                hh_proportional_millionths = fi_fee_proportional_millionths config\<rparr>
      | _ \<Rightarrow> None)"

text \<open>
  The one path out of the first paths of the two legs: the swap flag on the first hop back, the fee
  of the first leg's last hop, and the assets on the leg that carries them. \<^term>\<open>None\<close> where an
  index or an \<open>expect\<close> panics.
\<close>

definition carry :: "u64 \<Rightarrow> hop \<Rightarrow> hop" where
  "carry amt hop = hop\<lparr>hop_rgb_amount := Some amt, hop_payment_amount := HTLC_MIN_MSAT\<rparr>"

definition join_legs :: "u64 \<Rightarrow> swap_type \<Rightarrow> route \<Rightarrow> route \<Rightarrow> path option" where
  "join_legs swap_flag swaptype first_leg second_leg =
     (case (first_leg, second_leg) of
        ((f # fs) # _, (h # hs) # _) \<Rightarrow>
          (let second = h\<lparr>hop_scid := hop_scid h OR swap_flag\<rparr> # hs;
               hops = f # fs;
               first = butlast hops @ [last hops\<lparr>hop_fee_msat := (if is_buy swaptype then HTLC_MIN_MSAT else 0)\<rparr>]
           in Some (map (if is_buy swaptype then id else carry (amount_rgb swaptype)) first @
                    map (if is_buy swaptype then carry (amount_rgb swaptype) else id) second))
      | _ \<Rightarrow> None)"

definition maker_execute ::
  "world \<Rightarrow> pubkey \<Rightarrow> swap_type \<Rightarrow> contract_id \<Rightarrow> bytes \<Rightarrow> bytes \<Rightarrow> node \<Rightarrow> flow" where
  "maker_execute w taker_pk swaptype asset_id payment_hash payment_secret s =
     need (get_payment_preimage (w_ldk w) (trace s) payment_hash payment_secret)
       (Continue (println MNoPreimage s)) (\<lambda>payment_preimage.
     let swaptype = opposite swaptype; us = our_node_id (w_ldk w) in
     expect (those (map hint_of (list_usable_channels (w_ldk w) (trace s)))) s (\<lambda>receive_hints.
     let (first_leg, s) = get_route w us taker_pk (if is_buy swaptype then None else Some asset_id)
           (if is_buy swaptype then Some (amount_msats swaptype) else None) [] s;
         (second_leg, s) = get_route w taker_pk us (if is_buy swaptype then Some asset_id else None)
           (if is_buy swaptype then Some HTLC_MIN_MSAT else Some (amount_msats swaptype)) receive_hints s
     in case (first_leg, second_leg) of
          (Some first_leg, Some second_leg) \<Rightarrow>
            expect (join_legs (is_swap_scid w) swaptype first_leg second_leg) s (\<lambda>fullpaths.
            let s = (if is_buy swaptype then s
                     else emit (WriteRgbPaymentInfo payment_hash asset_id (amount_rgb swaptype) None) s);
                ok = send_spontaneous_ok (w_ldk w) (trace s) [fullpaths] payment_hash;
                s = emit (SendSpontaneous [fullpaths] payment_preimage payment_hash) s;
                s = println (if ok then MInitiatedSwap else MSendFailed) s
            in Continue (s\<lparr>outbound_payments := (outbound_payments s)(payment_hash \<mapsto>
                 \<lparr>pi_preimage = None, pi_secret = None, pi_status = (if ok then Pending else Failed),
                  pi_amt_msat = Some (amount_msats swaptype)\<rparr>)\<rparr>))
        | (Some _, None) \<Rightarrow> Continue (println MNoPathTakerToUs s)
        | (None, Some _) \<Rightarrow> Continue (println MNoPathToTaker s)
        | (None, None) \<Rightarrow> Continue (println MNoPath s)))"

definition makerexecute :: "world \<Rightarrow> string list \<Rightarrow> node \<Rightarrow> flow" where
  "makerexecute w ws s =
     (let usage = error ''makerexecute requires 3 args'' s in
      need (word 2 ws) usage (\<lambda>peer_pubkey. need (word 1 ws) usage (\<lambda>payment_secret.
      need (word 0 ws) usage (\<lambda>swapstring.
      expect (swap_from_str (w_build w) (contract_from_str w) swapstring) s (\<lambda>r.
      case r of
        Inl e \<Rightarrow> error ''Parsing swap string'' s
      | Inr swapstring \<Rightarrow>
          if ss_expiry swapstring < now w (trace s) then error ''the swap offer has already expired'' s
          else
            need (Option.bind (to_vec payment_secret) try_into_32) (error ''invalid payment hash'' s)
              (\<lambda>payment_secret.
            need (pk_from_str w peer_pubkey) (error ''malformed public key'' s) (\<lambda>peer_pubkey.
            maker_execute w peer_pubkey (ss_swap_type swapstring) (ss_asset_id swapstring)
              (ss_payment_hash swapstring) payment_secret s)))))))"

lemmas trades_defs = maker_init_def make_offer_def makerinit_def whitelist_trade_def taker_def
  get_route_def maker_execute_def makerexecute_def

declare trades_defs [step_defs]

subsection \<open>Lemmas\<close>

lemma check_rgb_funds_Continue:
  assumes "check_rgb_funds w cid amt s k = Continue t"
  shows "t = println (MError ''unknown contract'') (emit UnlockWallet (emit SyncWallet (emit LockWallet (emit GetRuntime s)))) \<or>
    (\<exists>total us. wallet_unspents w (trace s @ [GetRuntime, LockWallet, SyncWallet]) = Some us \<and>
       get_rgb_total_amount (w_build w) (map fst us)
         (rgb_history w (trace s @ [GetRuntime, LockWallet, SyncWallet]) cid) = Some (Inr total) \<and>
       (let u = emit DropRuntime (emit UnlockWallet (emit SyncWallet (emit LockWallet (emit GetRuntime s)))) in
        (total < amt \<and> t = println (MError ''do not have enough RGB assets'') u) \<or>
        (amt \<le> total \<and> k u = Continue t)))"
  using assms
  by (auto simp: check_rgb_funds_def rgb_total_amount_def sync_wallet_def error_def Let_def split: all_splits)

lemma nonzero_Some: "nonzero x = Some v \<longleftrightarrow> x = Some v \<and> v \<noteq> 0"
  by (auto simp: nonzero_def split: option.splits)

lemma offer_type_Some:
  "offer_type b sd amt price = Some (Some st) \<Longrightarrow>
     mul_w b amt price = Some (amount_msats st) \<and> amount_rgb st = amt \<and> side st = sd"
  by (auto simp: offer_type_def split: if_splits)

lemma offer_type_ok:
  "offer_type b sd amt price = Some y \<Longrightarrow> y = Some st \<Longrightarrow> nonzero x = Some amt \<Longrightarrow> price \<noteq> 0 \<Longrightarrow> trade_ok b st"
  by (auto simp: trade_ok_def nonzero_Some dest: offer_type_Some)

text \<open>The swap strings a trace prints, and what a printed offer says.\<close>

definition swap_strings :: "effect list \<Rightarrow> string list" where
  "swap_strings tr = concat (map (\<lambda>e. case e of Print (MSwapString str) \<Rightarrow> [str] | _ \<Rightarrow> []) tr)"

lemma swap_strings_simps [simp]:
  "swap_strings [] = []" "swap_strings (tr @ tr') = swap_strings tr @ swap_strings tr'"
  "swap_strings (Print (MSwapString str) # tr) = str # swap_strings tr"
  "(\<And>str. e \<noteq> Print (MSwapString str)) \<Longrightarrow> swap_strings (e # tr) = swap_strings tr"
  by (auto simp: swap_strings_def split: effect.splits msg.splits)

definition offers ::
  "world \<Rightarrow> u32 \<Rightarrow> node \<Rightarrow> node \<Rightarrow> string \<Rightarrow> bytes \<Rightarrow> contract_id \<Rightarrow> swap_type \<Rightarrow> u64 \<Rightarrow> u64 \<Rightarrow> bool" where
  "offers w timeout s t str h cid st price expiry \<longleftrightarrow>
     str = format_swapstring (show_contract w) (amount_rgb st) cid (side st) price expiry h \<and>
     maker_trades t = (maker_trades s)(h \<mapsto> (cid, st)) \<and>
     swap_strings (trace t) = swap_strings (trace s) @ [str] \<and>
     (\<exists>tr. add_w (w_build w) (now w tr) (of_nat (unat timeout)) = Some expiry) \<and>
     (\<exists>tr sec. create_inbound_payment (w_ldk w) tr (amount_msats st) timeout = Some (h, sec))"

lemma maker_init_Continue:
  assumes "maker_init w st timeout cid s k = Continue t"
  shows "\<exists>h sec. create_inbound_payment (w_ldk w) (trace s) (amount_msats st) timeout = Some (h, sec) \<and>
    k h sec (emit (CreateInboundPayment (amount_msats st) timeout) s
      \<lparr>maker_trades := (maker_trades s)(h \<mapsto> (cid, st))\<rparr>) = Continue t"
  using assms by (auto simp: maker_init_def Let_def split: all_splits)

definition print_offer :: "world \<Rightarrow> swap_type \<Rightarrow> contract_id \<Rightarrow> u32 \<Rightarrow> u64 \<Rightarrow> bytes \<Rightarrow> bytes \<Rightarrow> node \<Rightarrow> flow" where
  "print_offer w st cid timeout price h sec s =
     expect (add_w (w_build w) (now w (trace s)) (of_nat (unat timeout))) s (\<lambda>expiry.
     Continue (println (MPaymentSecret sec) (println (MSwapString
       (format_swapstring (show_contract w) (amount_rgb st) cid (side st) price expiry h)) s)))"

lemma make_offer_eq:
  "make_offer w (amount_rgb st) cid st timeout price s =
     (let offer = (\<lambda>s. maker_init w st timeout cid s (print_offer w st cid timeout price))
      in if is_buy st then check_rgb_funds w cid (amount_rgb st) s offer else offer s)"
  by (simp add: make_offer_def print_offer_def [abs_def] Let_def)

lemma maker_init_offers:
  assumes "maker_init w st timeout cid s (print_offer w st cid timeout price) = Continue t"
  shows "\<exists>str h expiry. offers w timeout s t str h cid st price expiry"
proof -
  from maker_init_Continue [OF assms] obtain h sec where
    h: "create_inbound_payment (w_ldk w) (trace s) (amount_msats st) timeout = Some (h, sec)" and
    p: "print_offer w st cid timeout price h sec (emit (CreateInboundPayment (amount_msats st) timeout) s
      \<lparr>maker_trades := (maker_trades s)(h \<mapsto> (cid, st))\<rparr>) = Continue t" by blast
  from p obtain expiry where x: "add_w (w_build w) (now w (trace s @ [CreateInboundPayment (amount_msats st) timeout]))
      (of_nat (unat timeout)) = Some expiry"
    and t: "t = println (MPaymentSecret sec) (println (MSwapString
       (format_swapstring (show_contract w) (amount_rgb st) cid (side st) price expiry h))
         (emit (CreateInboundPayment (amount_msats st) timeout) s
      \<lparr>maker_trades := (maker_trades s)(h \<mapsto> (cid, st))\<rparr>))"
    by (auto simp: print_offer_def split: expect_split_asm)
  show ?thesis
    by (intro exI [of _ h] exI [of _ expiry] exI)
       (use h x in \<open>auto simp: offers_def t\<close>)
qed

lemma make_offer_Continue:
  assumes "make_offer w (amount_rgb st) cid st timeout price s = Continue t"
  shows "maker_trades t = maker_trades s \<and> swap_strings (trace t) = swap_strings (trace s) \<or>
    (\<exists>str h expiry. offers w timeout s t str h cid st price expiry)"
proof (cases "is_buy st")
  case True
  let ?u = "emit DropRuntime (emit UnlockWallet (emit SyncWallet (emit LockWallet (emit GetRuntime s))))"
  from assms True have "check_rgb_funds w cid (amount_rgb st) s
      (\<lambda>s. maker_init w st timeout cid s (print_offer w st cid timeout price)) = Continue t"
    by (simp add: make_offer_eq Let_def)
  from check_rgb_funds_Continue [OF this]
  consider "maker_trades t = maker_trades s \<and> swap_strings (trace t) = swap_strings (trace s)"
    | "maker_init w st timeout cid ?u (print_offer w st cid timeout price) = Continue t"
    by (auto simp: Let_def)
  then show ?thesis
  proof cases
    case 2
    from maker_init_offers [OF this] show ?thesis by (simp add: offers_def)
  qed simp
next
  case False
  with assms maker_init_offers show ?thesis by (auto simp: make_offer_eq Let_def)
qed

lemma makerinit_Continue:
  assumes "makerinit w ws s = Continue t"
  shows "maker_trades t = maker_trades s \<and> swap_strings (trace t) = swap_strings (trace s) \<or>
    (\<exists>timeout str h cid st price expiry. offers w timeout s t str h cid st price expiry \<and>
       amount_rgb st \<noteq> 0 \<and> price \<noteq> 0 \<and> timeout \<noteq> 0 \<and> mul_w (w_build w) (amount_rgb st) price = Some (amount_msats st))"
proof -
  from assms consider "maker_trades t = maker_trades s \<and> swap_strings (trace t) = swap_strings (trace s)"
    | amt cid st timeout price where "make_offer w amt cid st timeout price s = Continue t" "amt \<noteq> 0" "price \<noteq> 0"
        "timeout \<noteq> 0" "mul_w (w_build w) amt price = Some (amount_msats st)" "amount_rgb st = amt"
    by (auto simp: makerinit_def Let_def error_def nonzero_Some
        dest!: offer_type_Some split: need_split_asm expect_split_asm if_splits)
  then show ?thesis
  proof cases
    case 2
    with make_offer_Continue [of w st cid timeout price s t] show ?thesis by blast
  qed simp
qed

text \<open>The funds the node found when it checked them.\<close>

definition owns_at_least :: "world \<Rightarrow> contract_id \<Rightarrow> u64 \<Rightarrow> effect list \<Rightarrow> bool" where
  "owns_at_least w cid amt tr =
     (case wallet_unspents w tr of
        None \<Rightarrow> False
      | Some us \<Rightarrow>
          (case get_rgb_total_amount (w_build w) (map fst us) (rgb_history w tr cid) of
             Some (Inr owned) \<Rightarrow> amt \<le> owned
           | _ \<Rightarrow> False))"

lemma taker_Continue:
  assumes "taker w [str] s = Continue t"
  shows "whitelisted_trades t = whitelisted_trades s \<and>
      (\<exists>es. trace t = trace s @ es \<and> Print MTradeWhitelisted \<notin> set es) \<or>
    (\<exists>ss. swap_from_str (w_build w) (contract_from_str w) str = Some (Inr ss) \<and>
       now w (trace s) \<le> ss_expiry ss \<and>
       (is_buy (ss_swap_type ss) \<or>
        owns_at_least w (ss_asset_id ss) (amount_rgb (ss_swap_type ss)) (trace s @ [GetRuntime, LockWallet, SyncWallet])) \<and>
       whitelisted_trades t = (whitelisted_trades s)(ss_payment_hash ss \<mapsto> (ss_asset_id ss, ss_swap_type ss)))"
proof -
  have wl: "whitelisted_trades t = (whitelisted_trades u)(ss_payment_hash ss \<mapsto> (ss_asset_id ss, ss_swap_type ss))"
    if "whitelist_trade w ss u = Continue t" for u ss
    using that by (auto simp: whitelist_trade_def Let_def)
  from assms obtain r where r: "swap_from_str (w_build w) (contract_from_str w) str = Some r"
    by (auto simp: taker_def need_def split: expect_split_asm)
  show ?thesis
  proof (cases r)
    case (Inl e)
    with assms r show ?thesis by (auto simp: taker_def need_def expect_def error_def)
  next
    case (Inr ss)
    consider (expired) "ss_expiry ss < now w (trace s)" | (buy) "\<not> ss_expiry ss < now w (trace s)" "is_buy (ss_swap_type ss)"
      | (sell) "\<not> ss_expiry ss < now w (trace s)" "\<not> is_buy (ss_swap_type ss)" by blast
    then show ?thesis
    proof cases
      case expired
      with assms r Inr show ?thesis by (auto simp: taker_def need_def expect_def error_def)
    next
      case buy
      with assms r Inr have "whitelist_trade w ss s = Continue t" by (simp add: taker_def need_def expect_def)
      from wl [OF this] buy r Inr show ?thesis by (auto simp: not_less)
    next
      case sell
      with assms r Inr have "check_rgb_funds w (ss_asset_id ss) (amount_rgb (ss_swap_type ss)) s (whitelist_trade w ss) = Continue t"
        by (simp add: taker_def need_def expect_def)
      from check_rgb_funds_Continue [OF this] show ?thesis
      proof (elim disjE exE conjE)
        fix total us
        assume f: "wallet_unspents w (trace s @ [GetRuntime, LockWallet, SyncWallet]) = Some us"
          "get_rgb_total_amount (w_build w) (map fst us)
             (rgb_history w (trace s @ [GetRuntime, LockWallet, SyncWallet]) (ss_asset_id ss)) = Some (Inr total)"
          and l: "let u = emit DropRuntime (emit UnlockWallet (emit SyncWallet (emit LockWallet (emit GetRuntime s)))) in
            (total < amount_rgb (ss_swap_type ss) \<and> t = println (MError ''do not have enough RGB assets'') u) \<or>
            (amount_rgb (ss_swap_type ss) \<le> total \<and> whitelist_trade w ss u = Continue t)"
        from l show ?thesis
          unfolding Let_def
        proof (elim disjE conjE)
          assume "amount_rgb (ss_swap_type ss) \<le> total" "whitelist_trade w ss
            (emit DropRuntime (emit UnlockWallet (emit SyncWallet (emit LockWallet (emit GetRuntime s))))) = Continue t"
          with wl f sell r Inr show ?thesis by (auto simp: owns_at_least_def not_less)
        qed simp
      qed simp
    qed
  qed
qed

fun is_spontaneous :: "effect \<Rightarrow> bool" where
  "is_spontaneous (SendSpontaneous _ _ _) = True"
| "is_spontaneous _ = False"

subsection \<open>Properties\<close>

text \<open>
  C9. Maker and taker agree: when a taker accepts the swap string \<open>makerinit\<close> printed, the trade on the
  taker's whitelist and the maker's own record have the same payment hash, contract, direction and
  amounts. The library's contract identifiers are assumed to be read back as printed and free of
  colons, payment hashes to have 32 bytes, and the maker's clock to be below \<open>2\<^sup>6\<^sup>3\<close> seconds.
\<close>

theorem maker_and_taker_agree:
  assumes codec: "field_codec (show_contract wm) (contract_from_str wt) (CHR '':'')"
    and build: "w_build wt = w_build wm"
    and hash: "\<And>tr a e h sec. create_inbound_payment (w_ldk wm) tr a e = Some (h, sec) \<Longrightarrow> length h = 32"
    and clock: "\<And>tr. unat (now wm tr) < 2 ^ 63"
    and maker: "makerinit wm ws s = Continue s'" "swap_strings (trace s') = swap_strings (trace s) @ [str]"
    and taker: "taker wt [str] u = Continue u'"
      "Print MTradeWhitelisted \<in> set (new_effects u (Continue u'))"
  shows "\<exists>h trade. maker_trades s' = (maker_trades s)(h \<mapsto> trade) \<and>
    whitelisted_trades u' = (whitelisted_trades u)(h \<mapsto> trade)"
proof -
  from makerinit_Continue [OF maker(1)] maker(2) obtain timeout str' h cid st price expiry where
    o: "offers wm timeout s s' str' h cid st price expiry" and
    nz: "amount_rgb st \<noteq> 0" "price \<noteq> 0" "timeout \<noteq> 0" and
    m: "mul_w (w_build wm) (amount_rgb st) price = Some (amount_msats st)"
    by auto
  from o maker(2) have str: "str = format_swapstring (show_contract wm) (amount_rgb st) cid (side st) price expiry h"
    by (simp add: offers_def)
  from o hash have h: "length h = 32" by (auto simp: offers_def)
  have "expiry \<noteq> 0"
  proof -
    from o obtain tr where "add_w (w_build wm) (now wm tr) (of_nat (unat timeout)) = Some expiry"
      by (auto simp: offers_def)
    then have e: "expiry = now wm tr + of_nat (unat timeout)" by (auto simp: add_w_def split: if_splits)
    have t: "unat timeout < 2 ^ 32" using unsigned_less [of timeout] by simp
    then have u: "unat (of_nat (unat timeout) :: u64) = unat timeout" 
      unfolding unsigned_of_nat by (simp add: take_bit_nat_eq_self)
    have "unat expiry = unat (now wm tr) + unat timeout"
      unfolding e using clock [of tr] t u by (subst unat_add_exact) simp_all
    moreover have "unat timeout \<noteq> 0" using nz(3) by (simp add: unat_eq_zero)
    ultimately show ?thesis by auto
  qed
  then have p: "swap_from_str (w_build wt) (contract_from_str wt) str =
      Some (Inr \<lparr>ss_asset_id = cid, ss_swap_type = st, ss_expiry = expiry, ss_payment_hash = h\<rparr>)"
    unfolding str build by (rule swapstring_roundtrip_lemma [OF codec nz(1,2) _ h m])
  from taker_Continue [OF taker(1)] taker(2) p
  have "whitelisted_trades u' = (whitelisted_trades u)(h \<mapsto> (cid, st))"
    by (auto simp: new_effects_def)
  with o show ?thesis by (auto simp: offers_def)
qed

definition swap_world :: world where
  "swap_world = sample_world\<lparr>contract_from_str := to_vec,
     w_ldk := sample_ldk\<lparr>create_inbound_payment := \<lambda>_ _ _. Some (replicate 32 7, [6])\<rparr>\<rparr>"

definition swap_words :: "string list" where
  "swap_words = [''10'', hex_str [42], ''buy'', ''3600'', ''200'']"

definition sample_offer :: string where
  "sample_offer = format_swapstring hex_str 10 [42] ''buy'' 200 4600 (replicate 32 7)"

lemma swap_world_simps [simp]:
  "w_build swap_world = Debug" "contract_from_str swap_world = to_vec" "show_contract swap_world = hex_str"
  "now swap_world tr = 1000" "w_ldk swap_world = sample_ldk\<lparr>create_inbound_payment := \<lambda>_ _ _. Some (replicate 32 7, [6])\<rparr>"
  "wallet_sync_ok swap_world tr" "wallet_unspents swap_world tr = Some [(OutPoint [1] 0, 50000)]"
  "rgb_history swap_world tr c = Some [\<lparr>fo_opout = [1], fo_seal = OutPoint [1] 0, fo_value = 100\<rparr>]"
  by (simp_all add: swap_world_def sample_world_def)

lemma swap_world_total:
  "get_rgb_total_amount Debug [OutPoint [1] 0] (Some [\<lparr>fo_opout = [1], fo_seal = OutPoint [1] 0, fo_value = 100\<rparr>]) =
     Some (Inr 100)"
  by (simp add: get_rgb_total_amount_def get_asset_owned_values_def owned_step_def add_w_def)

lemma sample_offer_made:
  "\<exists>t. makerinit swap_world swap_words sample_node = Continue t \<and>
     swap_strings (trace t) = swap_strings (trace sample_node) @ [sample_offer]"
  by (simp add: makerinit_def swap_words_def need_def Let_def hex.dec_enc nonzero_def parse_word_def digit_val_def
      offer_type_def mul_w_def expect_def make_offer_def check_rgb_funds_def rgb_total_amount_def sync_wallet_def
      call_def swap_world_total maker_init_def add_w_def sample_node_def sample_offer_def)

lemma sample_offer_read:
  "swap_from_str Debug to_vec sample_offer = Some (Inr \<lparr>ss_asset_id = [42], ss_swap_type = BuyAsset 10 2000,
     ss_expiry = 4600, ss_payment_hash = replicate 32 7\<rparr>)"
  using swapstring_roundtrip_lemma [OF hex.field_codec_axioms, of "BuyAsset 10 2000" 200 4600 "replicate 32 7" Debug "[42]"]
  by (simp add: sample_offer_def mul_w_def)

lemma sample_offer_taken:
  "\<exists>u. taker swap_world [sample_offer] sample_node = Continue u \<and>
     Print MTradeWhitelisted \<in> set (new_effects sample_node (Continue u))"
  by (simp add: taker_def need_def sample_offer_read expect_def whitelist_trade_def sample_node_def new_effects_def)

theorem maker_and_taker_agree_witness:
  "\<exists>s' u' h trade. makerinit swap_world swap_words sample_node = Continue s' \<and>
     taker swap_world [sample_offer] sample_node = Continue u' \<and>
     maker_trades s' h = Some trade \<and> whitelisted_trades u' h = Some trade"
proof -
  obtain s' where m: "makerinit swap_world swap_words sample_node = Continue s'"
      "swap_strings (trace s') = swap_strings (trace sample_node) @ [sample_offer]"
    using sample_offer_made by blast
  obtain u' where t: "taker swap_world [sample_offer] sample_node = Continue u'"
      "Print MTradeWhitelisted \<in> set (new_effects sample_node (Continue u'))"
    using sample_offer_taken by blast
  have c: "field_codec (show_contract swap_world) (contract_from_str swap_world) (CHR '':'')"
    using hex.field_codec_axioms by simp
  have hash: "length h = 32"
    if "create_inbound_payment (w_ldk swap_world) tr a e = Some (h, sec)" for tr a e h sec
    using that by auto
  have "\<exists>h trade. maker_trades s' = (maker_trades sample_node)(h \<mapsto> trade) \<and>
      whitelisted_trades u' = (whitelisted_trades sample_node)(h \<mapsto> trade)"
    by (rule maker_and_taker_agree [OF c refl hash _ m t]) simp_all
  then obtain h trade where ht: "maker_trades s' = (maker_trades sample_node)(h \<mapsto> trade)"
      "whitelisted_trades u' = (whitelisted_trades sample_node)(h \<mapsto> trade)" by blast
  show ?thesis
    by (rule exI [of _ s'], rule exI [of _ u'], rule exI [of _ h], rule exI [of _ trade])
       (simp only: ht fun_upd_same m(1) t(1) simp_thms)
qed

text \<open>
  C17. A trade gets onto the whitelist only from an offer that parses and has not expired, and, where
  the taker sells, only after the node found at least the amount of the asset in its wallet.
\<close>

theorem whitelisting_is_guarded:
  assumes "taker w [str] s = Continue t"
  shows "whitelisted_trades t = whitelisted_trades s \<or>
    (\<exists>ss. swap_from_str (w_build w) (contract_from_str w) str = Some (Inr ss) \<and>
       now w (trace s) \<le> ss_expiry ss \<and>
       (is_buy (ss_swap_type ss) \<or>
        owns_at_least w (ss_asset_id ss) (amount_rgb (ss_swap_type ss)) (trace s @ [GetRuntime, LockWallet, SyncWallet])) \<and>
       whitelisted_trades t = (whitelisted_trades s)(ss_payment_hash ss \<mapsto> (ss_asset_id ss, ss_swap_type ss)))"
  using taker_Continue [OF assms] by (rule disj_forward) (erule conjunct1, assumption)

theorem whitelisting_is_guarded_witness:
  "\<exists>u. taker swap_world [sample_offer] sample_node = Continue u \<and>
    (whitelisted_trades u = whitelisted_trades sample_node \<or>
    (\<exists>ss. swap_from_str (w_build swap_world) (contract_from_str swap_world) sample_offer = Some (Inr ss) \<and>
       now swap_world (trace sample_node) \<le> ss_expiry ss \<and>
       (is_buy (ss_swap_type ss) \<or>
        owns_at_least swap_world (ss_asset_id ss) (amount_rgb (ss_swap_type ss))
          (trace sample_node @ [GetRuntime, LockWallet, SyncWallet])) \<and>
       whitelisted_trades u = (whitelisted_trades sample_node)
         (ss_payment_hash ss \<mapsto> (ss_asset_id ss, ss_swap_type ss))))"
proof -
  obtain u where t: "taker swap_world [sample_offer] sample_node = Continue u"
    using sample_offer_taken by blast
  show ?thesis by (rule exI [of _ u], rule conjI [OF t], rule whitelisting_is_guarded [OF t])
qed


definition route_hop :: "pubkey \<Rightarrow> u64 \<Rightarrow> hop" where
  "route_hop pk scid = \<lparr>hop_pubkey = pk, hop_scid = scid, hop_fee_msat = 1, hop_rgb_amount = None, hop_payment_amount = 0\<rparr>"

definition route_world :: world where
  "route_world = sample_world\<lparr>w_ldk := sample_ldk\<lparr>find_route := \<lambda>tr req.
     Some (if rr_start req = [1] then [[route_hop [2] 5, route_hop [9] 6]] else [[route_hop [2] 6, route_hop [1] 5]])\<rparr>\<rparr>"


end
