(* ===== verification/Channels.thy ===== *)
theory Channels
  imports World
begin

text \<open>
  The commands on peers and channels (\<open>src/cli.rs\<close>): \<open>openchannel\<close> and \<open>opencoloredchannel\<close>,
  \<open>closechannel\<close>, \<open>forceclosechannel\<close>, \<open>connectpeer\<close>, \<open>disconnectpeer\<close>, \<open>sendonionmessage\<close>,
  \<open>signmessage\<close> and the balance of \<open>nodeinfo\<close>.
\<close>

definition OPENCHANNEL_MIN_SAT :: u64 where
  "OPENCHANNEL_MIN_SAT = 5506"

definition OPENCHANNEL_MAX_SAT :: u64 where
  "OPENCHANNEL_MAX_SAT = 16777215"

definition DUST_LIMIT_MSAT :: u64 where
  "DUST_LIMIT_MSAT = 546000"

subsection \<open>Opening\<close>

definition peer_info :: "world \<Rightarrow> string \<Rightarrow> peer_error + pubkey \<times> sockaddr" where
  "peer_info w = parse_peer_info (resolve_addr w) (pk_from_slice w)"

text \<open>The \<open>--public\<close> flag; \<^term>\<open>None\<close> for an invalid one.\<close>

definition public_flag :: "string option \<Rightarrow> bool option" where
  "public_flag x =
     (case x of
        None \<Rightarrow> Some False
      | Some v \<Rightarrow>
          if v = ''--public'' \<or> v = ''--public=true'' then Some True
          else if v = ''--public=false'' then Some False
          else None)"

definition open_channel ::
  "world \<Rightarrow> pubkey \<Rightarrow> u64 \<Rightarrow> u64 \<Rightarrow> bool \<Rightarrow> bool \<Rightarrow> node \<Rightarrow> (channel_id \<Rightarrow> node \<Rightarrow> flow) \<Rightarrow> flow" where
  "open_channel w peer_pubkey channel_amt_sat push_amt_msat announced_channel is_colored s k =
     sync_wallet w (emit LockWallet s) (\<lambda>s.
     let s = emit UnlockWallet s;
         r = create_channel (w_ldk w) (trace s) peer_pubkey channel_amt_sat push_amt_msat;
         s = emit (CreateChannel peer_pubkey channel_amt_sat push_amt_msat announced_channel is_colored) s
     in need r (error ''failed to open channel'' s) (\<lambda>temporary_channel_id.
        k temporary_channel_id (println (MInfo ''initiated channel with peer'') s)))"

text \<open>
  The command after its words are read: the peer is connected, the channel is created, the peer goes
  to the file of channel peers, and the amounts of a coloured channel to the channel's file.
\<close>

definition open_with ::
  "world \<Rightarrow> string \<Rightarrow> pubkey \<Rightarrow> sockaddr \<Rightarrow> u64 \<Rightarrow> u64 \<Rightarrow> bool \<Rightarrow> rgb_info option \<Rightarrow> node \<Rightarrow> flow" where
  "open_with w peer_str pubkey peer_addr chan_amt_sat push_amt_msat announce rgb_info s =
     (case connect_peer_if_necessary (w_ldk w) pubkey peer_addr s of
        (None, s) \<Rightarrow> Hang s
      | (Some False, s) \<Rightarrow> Continue s
      | (Some True, s) \<Rightarrow>
          open_channel w pubkey chan_amt_sat push_amt_msat announce (rgb_info \<noteq> None) s
            (\<lambda>temporary_channel_id s.
          let s = s\<lparr>channel_peer_data := persist_channel_peer peer_str (channel_peer_data s)\<rparr> in
          Continue (case rgb_info of
              None \<Rightarrow> s
            | Some info \<Rightarrow> s\<lparr>rgb_channel_files := (rgb_channel_files s)(temporary_channel_id \<mapsto> info)\<rparr>)))"

definition openchannel :: "world \<Rightarrow> bool \<Rightarrow> string list \<Rightarrow> node \<Rightarrow> flow" where
  "openchannel w is_colored ws s =
     need (public_flag (word (if is_colored then 5 else 3) ws)) (error ''invalid --public command format'' s)
       (\<lambda>announce_channel.
     if is_colored \<and> word 4 ws = None then error ''opencoloredchannel has 5 required arguments'' s
     else
       let usage = error ''openchannel has 3 required arguments'' s in
       need (word 2 ws) usage (\<lambda>push_value_msat. need (word 1 ws) usage (\<lambda>channel_value_sat.
       need (word 0 ws) usage (\<lambda>peer_str.
       case peer_info w peer_str of
         Inl e \<Rightarrow> error ''peer info'' s
       | Inr (pubkey, peer_addr) \<Rightarrow>
           need (parse_word channel_value_sat) (error ''channel amount must be a number'' s) (\<lambda>chan_amt_sat.
           if chan_amt_sat < OPENCHANNEL_MIN_SAT then error ''channel amount too low'' s
           else if OPENCHANNEL_MAX_SAT < chan_amt_sat then error ''channel amount too high'' s
           else
           need (parse_word push_value_msat) (error ''push amount must be a number'' s) (\<lambda>push_amt_msat.
           if is_colored \<and> push_amt_msat < DUST_LIMIT_MSAT then error ''push amount below the dust limit'' s
           else if \<not> is_colored then
             open_with w peer_str pubkey peer_addr chan_amt_sat push_amt_msat announce_channel None s
           else
             need (Option.bind (word 3 ws) (contract_from_str w)) (error ''contract_id must be a valid RGB asset ID'' s)
               (\<lambda>contract_id.
             need (Option.bind (word 4 ws) parse_word) (error ''channel RGB amount must be a number'' s)
               (\<lambda>chan_amt_rgb.
             check_rgb_funds w contract_id chan_amt_rgb s (\<lambda>s.
             open_with w peer_str pubkey peer_addr chan_amt_sat push_amt_msat announce_channel
               (Some \<lparr>ri_contract_id = contract_id, ri_local_rgb_amount = chan_amt_rgb,
                      ri_remote_rgb_amount = 0\<rparr>) s)))))))))"

subsection \<open>Closing\<close>

text \<open>The two arguments both commands read: a channel id of 32 bytes in hex and a public key in hex.\<close>

definition channel_and_peer ::
  "world \<Rightarrow> string list \<Rightarrow> node \<Rightarrow> (channel_id \<Rightarrow> pubkey \<Rightarrow> flow) \<Rightarrow> flow" where
  "channel_and_peer w ws s k =
     need (word 0 ws) (error ''requires a channel ID'' s) (\<lambda>channel_id_str.
     need (Option.bind (to_vec channel_id_str) try_into_32) (error ''could not parse channel_id'' s) (\<lambda>channel_id.
     need (word 1 ws) (error ''requires a peer pubkey'' s) (\<lambda>peer_pubkey_str.
     need (Option.bind (to_vec peer_pubkey_str) (pk_from_slice w)) (error ''could not parse peer_pubkey'' s)
       (\<lambda>peer_pubkey. k channel_id peer_pubkey))))"

definition close_channel :: "world \<Rightarrow> channel_id \<Rightarrow> pubkey \<Rightarrow> node \<Rightarrow> flow" where
  "close_channel w channel_id counterparty s =
     (let ok = close_channel_ok (w_ldk w) (trace s) channel_id counterparty;
          s = emit (CloseChannel channel_id counterparty) s
      in if ok then Continue (println (MInfo ''initiating channel close'') s)
         else error ''failed to close channel'' s)"

definition force_close_channel :: "world \<Rightarrow> channel_id \<Rightarrow> pubkey \<Rightarrow> node \<Rightarrow> flow" where
  "force_close_channel w channel_id counterparty s =
     (let ok = force_close_channel_ok (w_ldk w) (trace s) channel_id counterparty;
          s = emit (ForceCloseChannel channel_id counterparty) s
      in if ok then Continue (println (MInfo ''initiating channel force-close'') s)
         else error ''failed to force-close channel'' s)"

definition closechannel :: "world \<Rightarrow> string list \<Rightarrow> node \<Rightarrow> flow" where
  "closechannel w ws s =
     channel_and_peer w ws s (\<lambda>channel_id peer_pubkey. close_channel w channel_id peer_pubkey s)"

definition forceclosechannel :: "world \<Rightarrow> string list \<Rightarrow> node \<Rightarrow> flow" where
  "forceclosechannel w ws s =
     channel_and_peer w ws s (\<lambda>channel_id peer_pubkey. force_close_channel w channel_id peer_pubkey s)"

subsection \<open>Peers and messages\<close>

definition connectpeer :: "world \<Rightarrow> string list \<Rightarrow> node \<Rightarrow> flow" where
  "connectpeer w ws s =
     need (word 0 ws) (error ''connectpeer requires peer connection info'' s) (\<lambda>peer_str.
     case peer_info w peer_str of
       Inl e \<Rightarrow> error ''peer info'' s
     | Inr (pubkey, peer_addr) \<Rightarrow>
         (case connect_peer_if_necessary (w_ldk w) pubkey peer_addr s of
            (None, s) \<Rightarrow> Hang s
          | (Some ok, s) \<Rightarrow> Continue (if ok then println (MInfo ''connected to peer'') s else s)))"

definition disconnectpeer :: "world \<Rightarrow> string list \<Rightarrow> node \<Rightarrow> flow" where
  "disconnectpeer w ws s =
     need (word 0 ws) (error ''disconnectpeer requires peer public key'' s) (\<lambda>peer_pubkey.
     need (pk_from_str w peer_pubkey) (error ''malformed public key'' s) (\<lambda>peer_pubkey.
     case do_disconnect_peer (w_ldk w) peer_pubkey s of
       (ok, s) \<Rightarrow> Continue (if ok then println (MInfo ''disconnected from peer'') s else s)))"

text \<open>The node ids of the onion path: each in hex, up to the first that cannot be read.\<close>

fun node_pks :: "(bytes \<Rightarrow> pubkey option) \<Rightarrow> string list \<Rightarrow> pubkey list option" where
  "node_pks from_slice [] = Some []"
| "node_pks from_slice (pk_str # rest) =
     (case Option.bind (to_vec pk_str) from_slice of
        None \<Rightarrow> None
      | Some pk \<Rightarrow> map_option ((#) pk) (node_pks from_slice rest))"

definition sendonionmessage :: "world \<Rightarrow> string list \<Rightarrow> node \<Rightarrow> flow" where
  "sendonionmessage w ws s =
     need (word 0 ws) (error ''sendonionmessage requires at least one node id for the path'' s) (\<lambda>path_pks_str.
     need (node_pks (pk_from_slice w) (split_on (CHR '','') path_pks_str)) (error ''could not parse peer_pubkey'' s)
       (\<lambda>node_pks.
     need (Option.bind (word 1 ws) parse_word) (error ''Need an integral message type above 64'' s) (\<lambda>tlv_type.
     if tlv_type < (64 :: u64) then error ''Need an integral message type above 64'' s
     else
     need (Option.bind (word 2 ws) to_vec) (error ''Need a hex data string'' s) (\<lambda>data.
     if node_pks = [] then Abort s
     else
       (let ok = send_onion_ok w (trace s) (butlast node_pks) (last node_pks);
            s = emit (SendOnionMessage (butlast node_pks) (last node_pks) tlv_type data) s
        in if ok then Continue (println (MInfo ''forwarded onion message to first hop'') s)
           else error ''failed to send onion message'' s)))))"

text \<open>\<open>signmessage\<close> signs the bytes of the line after a fixed offset, the line feed included.\<close>

definition signmessage :: "string \<Rightarrow> node \<Rightarrow> flow" where
  "signmessage line s =
     (let MSG_STARTPOS = length ''signmessage'' + 1 in
      if length line \<le> MSG_STARTPOS then error ''signmsg requires a message'' s
      else Continue (println (MInfo ''signature'') (emit (SignMessage (map byte_of (drop MSG_STARTPOS line))) s)))"

text \<open>\<open>nodeinfo\<close>'s sum of the channel balances (\<^term>\<open>None\<close>: the sum overflows and panics).\<close>

definition local_balance_msat :: "world \<Rightarrow> channel_details list \<Rightarrow> u64 option" where
  "local_balance_msat w chans = sum_w (w_build w) 0 (map cd_balance_msat chans)"

definition node_info :: "world \<Rightarrow> node \<Rightarrow> flow" where
  "node_info w s =
     (let s = println (MOurPk (our_node_id (w_ldk w))) s in
      expect (local_balance_msat w (list_channels (w_ldk w) (trace s))) s (\<lambda>balance.
      Continue (println (MInfo ''local_balance_msat'') s)))"

subsection \<open>Lemmas\<close>

text \<open>The channels a trace asks LDK to open.\<close>

definition asked :: "effect list \<Rightarrow> (pubkey \<times> u64 \<times> u64 \<times> bool) list" where
  "asked tr = concat (map (\<lambda>e. case e of CreateChannel pk sat msat _ col \<Rightarrow> [(pk, sat, msat, col)] | _ \<Rightarrow> []) tr)"

lemma asked_simps [simp]:
  "asked [] = []" "asked (tr @ tr') = asked tr @ asked tr'"
  "asked (CreateChannel pk sat msat ann col # tr) = (pk, sat, msat, col) # asked tr"
  "(\<And>pk sat msat ann col. e \<noteq> CreateChannel pk sat msat ann col) \<Longrightarrow> asked (e # tr) = asked tr"
  by (auto simp: asked_def split: effect.splits)

lemma channel_bounds:
  "\<not> sat < OPENCHANNEL_MIN_SAT \<longleftrightarrow> 5506 \<le> sat" "\<not> OPENCHANNEL_MAX_SAT < sat \<longleftrightarrow> sat \<le> 16777215"
  "\<not> msat < DUST_LIMIT_MSAT \<longleftrightarrow> 546000 \<le> msat"
  by (auto simp: OPENCHANNEL_MIN_SAT_def OPENCHANNEL_MAX_SAT_def DUST_LIMIT_MSAT_def not_less)

lemma connect_asked:
  "asked (trace (snd (connect_peer_if_necessary env pk addr s))) = asked (trace s)"
  "channel_peer_data (snd (connect_peer_if_necessary env pk addr s)) = channel_peer_data s"
  "rgb_channel_files (snd (connect_peer_if_necessary env pk addr s)) = rgb_channel_files s"
  by (auto simp: connect_peer_if_necessary_def do_connect_peer_def Let_def split: option.splits bool.splits)

text \<open>
  What asking for one channel leaves behind: when LDK accepts, its peer and the amounts of a coloured one
  are on disk; when it refuses, the files are as before.
\<close>

definition left_open ::
  "string \<Rightarrow> pubkey \<Rightarrow> u64 \<Rightarrow> u64 \<Rightarrow> rgb_info option \<Rightarrow> node \<Rightarrow> node \<Rightarrow> bool" where
  "left_open str pk sat msat info s t \<longleftrightarrow>
     asked (trace t) = asked (trace s) @ [(pk, sat, msat, info \<noteq> None)] \<and>
     (channel_peer_data t = channel_peer_data s \<and> rgb_channel_files t = rgb_channel_files s \<or>
      channel_peer_data t = persist_channel_peer str (channel_peer_data s) \<and>
      (case info of None \<Rightarrow> rgb_channel_files t = rgb_channel_files s
       | Some i \<Rightarrow> \<exists>tcid. rgb_channel_files t = (rgb_channel_files s)(tcid \<mapsto> i)))"

definition not_asked :: "node \<Rightarrow> node \<Rightarrow> bool" where
  "not_asked s t \<longleftrightarrow> asked (trace t) = asked (trace s) \<and> channel_peer_data t = channel_peer_data s \<and>
     rgb_channel_files t = rgb_channel_files s"

lemma open_with_outcome:
  "ends (\<lambda>t. not_asked s t \<or> left_open str pk sat msat info s t) (open_with w str pk addr sat msat ann info s)"
proof -
  obtain r u where c: "connect_peer_if_necessary (w_ldk w) pk addr s = (r, u)" by force
  with connect_asked [of "w_ldk w" pk addr s] have "not_asked s u" by (simp add: not_asked_def)
  then show ?thesis unfolding open_with_def c
    by (auto simp: open_channel_def sync_wallet_def error_def ends_def left_open_def not_asked_def Let_def
        split: option.splits bool.splits flow_splits)
qed

text \<open>The wallet held at least this amount of the asset at some moment of the run.\<close>

definition seen_funds :: "world \<Rightarrow> contract_id \<Rightarrow> u64 \<Rightarrow> bool" where
  "seen_funds w cid amt \<longleftrightarrow>
     (\<exists>tr us owned. wallet_unspents w tr = Some us \<and>
        get_rgb_total_amount (w_build w) (map fst us) (rgb_history w tr cid) = Some (Inr owned) \<and> amt \<le> owned)"

lemma check_rgb_funds_ends:
  assumes "\<And>m u. not_asked s u \<Longrightarrow> ends Q (error m u)"
    and "\<And>u. not_asked s u \<Longrightarrow> seen_funds w cid amt \<Longrightarrow> ends Q (k u)"
  shows "ends Q (check_rgb_funds w cid amt s k)"
proof -
  have "seen_funds w cid amt" if "wallet_unspents w tr = Some us"
    "get_rgb_total_amount (w_build w) (map fst us) (rgb_history w tr cid) = Some (Inr owned)" "\<not> owned < amt"
    for tr us owned using that by (auto simp: seen_funds_def not_less)
  then show ?thesis unfolding check_rgb_funds_def rgb_total_amount_def sync_wallet_def call_def Let_def
    by (intro ends_if ends_expect ends_sum ends_leaf assms; (simp add: not_asked_def; fail)?)
qed

lemma left_open_from: "not_asked s u \<Longrightarrow> left_open str pk sat msat info u t = left_open str pk sat msat info s t"
  "not_asked s u \<Longrightarrow> not_asked u t = not_asked s t"
  by (cases info; simp_all add: left_open_def not_asked_def)+

lemma openchannel_outcome:
  "ends (\<lambda>t. not_asked s t \<or>
     (\<exists>str pk addr sat msat info. word 0 ws = Some str \<and> peer_info w str = Inr (pk, addr) \<and>
        5506 \<le> sat \<and> sat \<le> 16777215 \<and> (is_colored \<longleftrightarrow> info \<noteq> None) \<and>
        (\<forall>i. info = Some i \<longrightarrow> 546000 \<le> msat \<and> ri_remote_rgb_amount i = 0 \<and>
           seen_funds w (ri_contract_id i) (ri_local_rgb_amount i)) \<and> left_open str pk sat msat info s t))
   (openchannel w is_colored ws s)" (is "ends ?Q _")
proof -
  have e: "ends ?Q (error m u)" if "not_asked s u" for m u
    using that by (simp add: error_def ends_def not_asked_def)
  have op: "ends ?Q (open_with w str pk addr sat msat ann info u)"
    if "word 0 ws = Some str" "peer_info w str = Inr (pk, addr)"
      "\<not> sat < OPENCHANNEL_MIN_SAT" "\<not> OPENCHANNEL_MAX_SAT < sat" "is_colored \<longleftrightarrow> info \<noteq> None"
      "\<And>i. info = Some i \<Longrightarrow> 546000 \<le> msat \<and> ri_remote_rgb_amount i = 0 \<and>
         seen_funds w (ri_contract_id i) (ri_local_rgb_amount i)" and u: "not_asked s u"
    for str pk addr sat msat ann info u
    unfolding ends_def
  proof (intro allI impI)
    fix t
    assume "open_with w str pk addr sat msat ann info u = Continue t \<or>
      open_with w str pk addr sat msat ann info u = Break t"
    then have "not_asked s t \<or> left_open str pk sat msat info s t"
      using open_with_outcome [of u str pk sat msat info] by (auto simp: ends_def left_open_from [OF u])
    then show "?Q t"
      using that(1-6) unfolding channel_bounds by blast
  qed
  have refl: "not_asked s s" by (simp add: not_asked_def)
  have coloured: "ends ?Q (check_rgb_funds w cid amt s (open_with w str pk addr sat msat ann
      (Some \<lparr>ri_contract_id = cid, ri_local_rgb_amount = amt, ri_remote_rgb_amount = 0\<rparr>)))"
    if "word 0 ws = Some str" "peer_info w str = Inr (pk, addr)"
      "\<not> sat < OPENCHANNEL_MIN_SAT" "\<not> OPENCHANNEL_MAX_SAT < sat" "is_colored" "\<not> msat < DUST_LIMIT_MSAT"
    for str pk addr sat msat ann cid amt
    by (rule check_rgb_funds_ends [OF e], assumption, rule op [OF that(1-4)])
      (use that in \<open>auto simp: channel_bounds\<close>)
  show ?thesis
    unfolding openchannel_def Let_def
    by (intro ends_need ends_if ends_sum ends_prod e [OF refl] op coloured) (auto simp: refl)
qed

subsection \<open>Properties\<close>


definition sample_open :: "string list" where
  "sample_open = [hex_str (replicate 33 2) @ ''@h'', ''20000'', ''600000'', ''a'', ''70'']"

lemma sample_peer: "peer_info sample_world (hex_str (replicate 33 2) @ ''@h'') = Inr (replicate 33 2, ''h'')"
  by (simp add: peer_info_def parse_peer_info_def hex_at.split_field split_on_free to_compressed_pubkey_def
      sample_world_def)

lemma sample_words:
  "parse_word ''20000'' = Some (20000 :: u64)" "parse_word ''600000'' = Some (600000 :: u64)"
  "parse_word ''70'' = Some (70 :: u64)"
  by (simp_all add: parse_word_def digit_val_def)

lemma sample_funds:
  "get_rgb_total_amount Debug [OutPoint [1] 0] (Some [\<lparr>fo_opout = [1], fo_seal = OutPoint [1] 0, fo_value = 100\<rparr>]) =
     Some (Inr 100)"
  by (simp add: get_rgb_total_amount_def get_asset_owned_values_def owned_step_def add_w_def)

lemma sample_fields:
  "w_ldk sample_world = sample_ldk" "w_build sample_world = Debug" "wallet_sync_ok sample_world tr"
  "contract_from_str sample_world x = Some (map byte_of x)"
  "wallet_unspents sample_world tr = Some [(OutPoint [1] 0, 50000)]"
  "rgb_history sample_world tr c = Some [\<lparr>fo_opout = [1], fo_seal = OutPoint [1] 0, fo_value = 100\<rparr>]"
  by (simp_all add: sample_world_def)

lemma sample_opened:
  "\<exists>t. openchannel sample_world True sample_open sample_node = Continue t \<and>
     asked (trace t) = [(replicate 33 2, 20000, 600000, True)] \<and>
     channel_peer_data t = Some (hex_str (replicate 33 2) @ ''@h'' @ [newline])"
proof -
  have c: "connect_peer_if_necessary sample_ldk pk addr s = (Some True, emit (ConnectOutbound pk addr) s)"
    "create_channel sample_ldk tr pk sat msat = Some [4]" for pk addr s tr sat msat
    by (simp_all add: connect_peer_if_necessary_def do_connect_peer_def sample_ldk_def)
  show ?thesis
    by (simp add: sample_open_def openchannel_def sample_words public_flag_def need_def sample_fields
        OPENCHANNEL_MIN_SAT_def OPENCHANNEL_MAX_SAT_def DUST_LIMIT_MSAT_def check_rgb_funds_def rgb_total_amount_def sync_wallet_def call_def expect_def Let_def sample_funds sample_peer
        open_with_def open_channel_def c persist_channel_peer_def)
      (simp add: sample_node_def)
qed



lemma split_words:
  "\<forall>w\<in>set ws. w \<noteq> [] \<and> (\<forall>c\<in>set w. \<not> is_ws c) \<Longrightarrow> split_whitespace (concat (map (\<lambda>w. w @ '' '') ws)) = ws"
  by (induction ws) (simp_all add: str_simps is_ws_def)

definition sample_line :: string where
  "sample_line = concat (map (\<lambda>w. w @ '' '') (''opencoloredchannel'' # sample_open))"


end
