(* ===== verification/Invoices.thy ===== *)
theory Invoices
  imports World
begin

text \<open>
  The payment commands of the command line (\<open>src/cli.rs\<close>): \<open>sendpayment\<close>, \<open>keysend\<close> and
  \<open>coloredkeysend\<close>, \<open>getinvoice\<close> and \<open>getcoloredinvoice\<close>, \<open>invoicestatus\<close>: their words, their bounds, and
  the operations of the payment storages they end in.
\<close>

definition INVOICE_MIN_MSAT :: u64 where
  "INVOICE_MIN_MSAT = HTLC_MIN_MSAT"

definition sendpayment :: "world \<Rightarrow> string list \<Rightarrow> node \<Rightarrow> flow" where
  "sendpayment w ws s =
     need (word 0 ws) (error ''sendpayment requires an invoice'' s) (\<lambda>invoice_str.
     need (invoice_from_str w invoice_str) (error ''invalid invoice'' s) (\<lambda>invoice.
     need (inv_amount_msat invoice) (error ''msat amount missing in invoice'' s) (\<lambda>amt_msat.
     if amt_msat < INVOICE_MIN_MSAT then error ''msat amount in invoice too low'' s
     else send_payment (w_ldk w) invoice s)))"

definition keysend_cmd :: "world \<Rightarrow> bool \<Rightarrow> string list \<Rightarrow> node \<Rightarrow> flow" where
  "keysend_cmd w is_colored ws s =
     need (word 0 ws) (error ''keysend requires a destination pubkey'' s) (\<lambda>dest.
     need (to_compressed_pubkey (pk_from_slice w) dest) (error ''could not parse destination pubkey'' s)
       (\<lambda>dest_pubkey.
     need (word 1 ws) (error ''keysend requires an amount in millisatoshis'' s) (\<lambda>amt_msat_str.
     need (parse_word amt_msat_str) (error ''could not parse amount_msat'' s) (\<lambda>amt_msat.
     let pay = (\<lambda>rgb_payment. keysend (w_ldk w) (sha256 w) (entropy w (trace s)) dest_pubkey amt_msat rgb_payment s)
     in if \<not> is_colored then pay None
        else if amt_msat < HTLC_MIN_MSAT then error ''amount_msat too low'' s
        else
          need (word 2 ws) (error ''keysend requires a contract ID'' s) (\<lambda>contract_id_str.
          need (contract_from_str w contract_id_str) (error ''invalid contract ID'' s) (\<lambda>contract_id.
          need (word 3 ws) (error ''keysend requires an RGB amount'' s) (\<lambda>amt_rgb_str.
          need (parse_word amt_rgb_str) (error ''could not parse amt_rgb'' s) (\<lambda>amt_rgb.
          pay (Some (contract_id, amt_rgb))))))))))"

definition getinvoice :: "world \<Rightarrow> bool \<Rightarrow> string list \<Rightarrow> node \<Rightarrow> flow" where
  "getinvoice w is_colored ws s =
     (if is_colored \<and> word 3 ws = None then error ''getcoloredinvoice has 4 required arguments'' s
      else
        let usage = error ''getinvoice has 2 required arguments'' s in
        need (word 1 ws) usage (\<lambda>expiry_secs_str. need (word 0 ws) usage (\<lambda>amt_str.
        need (parse_word amt_str) (error ''getinvoice provided payment amount was not a number'' s) (\<lambda>amt_msat.
        if amt_msat < INVOICE_MIN_MSAT then error ''amt_msat too low'' s
        else
        need (parse_word expiry_secs_str) (error ''getinvoice provided expiry was not a number'' s) (\<lambda>expiry_secs.
        if \<not> is_colored then get_invoice (w_ldk w) amt_msat expiry_secs None None s
        else
          need (Option.bind (word 2 ws) (contract_from_str w)) (error ''invalid contract ID'' s) (\<lambda>contract_id.
          need (Option.bind (word 3 ws) parse_word) (error ''could not parse amt_rgb'' s) (\<lambda>amt_rgb.
          get_invoice (w_ldk w) amt_msat expiry_secs (Some contract_id) (Some amt_rgb) s)))))))"

definition invoicestatus :: "world \<Rightarrow> string list \<Rightarrow> node \<Rightarrow> flow" where
  "invoicestatus w ws s =
     need (word 0 ws) (error ''invoicestatus requires an invoice'' s) (\<lambda>invoice_str.
     need (invoice_from_str w invoice_str) (error ''invalid invoice'' s) (\<lambda>invoice.
     invoice_status invoice s))"

lemmas invoices_defs = sendpayment_def keysend_cmd_def getinvoice_def invoicestatus_def

subsection \<open>Properties\<close>

lemma min_msat: "INVOICE_MIN_MSAT = 3000000" "HTLC_MIN_MSAT = 3000000"
  by (simp_all add: INVOICE_MIN_MSAT_def HTLC_MIN_MSAT_def)

definition sample_invoice :: invoice where
  "sample_invoice = \<lparr>inv_payment_hash = [5], inv_payment_secret = [6], inv_amount_msat = Some 3000000,
     inv_rgb_contract_id = None, inv_rgb_amount = None, inv_payee = [9], inv_is_expired = False\<rparr>"

definition invoice_world :: world where
  "invoice_world = sample_world\<lparr>invoice_from_str := (\<lambda>_. Some sample_invoice),
     w_ldk := sample_ldk\<lparr>create_invoice := \<lambda>_ _ _ _ _. Some sample_invoice\<rparr>\<rparr>"



lemma new_effects_leaves [simp]:
  "new_effects s (Continue s) = []" "new_effects s (Continue (emit e s)) = [e]"
  "new_effects s (error m s) = [Print (MError m)]"
  by (simp_all add: new_effects_def error_def)

lemma sendpayment_pays:
  "PayInvoice h \<in> set (new_effects s (sendpayment w ws s)) \<Longrightarrow>
     \<exists>str i amt. word 0 ws = Some str \<and> invoice_from_str w str = Some i \<and> inv_payment_hash i = h \<and>
       inv_amount_msat i = Some amt \<and> 3000000 \<le> amt"
proof -
  have "PayInvoice h \<in> set (new_effects s (send_payment env i s)) \<Longrightarrow> inv_payment_hash i = h" for env i
    by (auto simp: send_payment_def new_effects_def Let_def split: option.splits if_splits)
  then show "PayInvoice h \<in> set (new_effects s (sendpayment w ws s)) \<Longrightarrow> ?thesis"
    unfolding sendpayment_def min_msat by (auto simp: not_less split: flow_splits if_splits)
qed

lemma getinvoice_asks:
  "CreateInvoice amt expiry cid rgb \<in> set (new_effects s (getinvoice w col ws s)) \<Longrightarrow>
     3000000 \<le> amt \<and> (col \<longleftrightarrow> cid \<noteq> None) \<and> (col \<longleftrightarrow> rgb \<noteq> None)"
proof -
  have "CreateInvoice amt expiry cid rgb \<in> set (new_effects s (get_invoice env amt' ex' cid' rgb' s)) \<Longrightarrow>
    amt = amt' \<and> cid = cid' \<and> rgb = rgb'" for env amt' ex' cid' rgb'
    by (auto simp: get_invoice_def new_effects_def Let_def split: option.splits)
  note asks = this
  show "CreateInvoice amt expiry cid rgb \<in> set (new_effects s (getinvoice w col ws s)) \<Longrightarrow> ?thesis"
    unfolding getinvoice_def min_msat Let_def by (auto simp: not_less dest!: asks split: flow_splits if_splits)
qed

lemma coloredkeysend_pays:
  "SendSpontaneousWithRetry p h pk amt \<in> set (new_effects s (keysend_cmd w True ws s)) \<Longrightarrow> 3000000 \<le> amt"
proof -
  have "SendSpontaneousWithRetry p h pk amt \<in> set (new_effects s (keysend env sha pre pk' amt' rgb s)) \<Longrightarrow>
    amt = amt'" for env sha pre pk' amt' rgb
    by (auto simp: keysend_def new_effects_def Let_def split: option.splits if_splits)
  note pays = this
  show "SendSpontaneousWithRetry p h pk amt \<in> set (new_effects s (keysend_cmd w True ws s)) \<Longrightarrow> ?thesis"
    unfolding keysend_cmd_def min_msat Let_def by (auto simp: not_less dest!: pays split: flow_splits if_splits)
qed

text \<open>
  The minimum of a payment: an invoice is paid only when it carries an amount of at least 3000000 msat, an
  invoice is asked of LDK only for at least that, and a keysend payment that moves an asset sends at
  least that.
\<close>

theorem payments_above_minimum:
  "(PayInvoice h \<in> set (new_effects s (sendpayment w ws s)) \<longrightarrow>
     (\<exists>str i amt. word 0 ws = Some str \<and> invoice_from_str w str = Some i \<and> inv_payment_hash i = h \<and>
        inv_amount_msat i = Some amt \<and> 3000000 \<le> amt)) \<and>
   (CreateInvoice amt expiry cid rgb \<in> set (new_effects s (getinvoice w col ws s)) \<longrightarrow>
     3000000 \<le> amt \<and> (col \<longleftrightarrow> cid \<noteq> None) \<and> (col \<longleftrightarrow> rgb \<noteq> None)) \<and>
   (SendSpontaneousWithRetry p h' pk amt' \<in> set (new_effects s (keysend_cmd w True ws s)) \<longrightarrow>
     3000000 \<le> amt')"
  using sendpayment_pays getinvoice_asks coloredkeysend_pays by blast

theorem payments_above_minimum_witness:
  "\<not> PayInvoice [5] \<in> set (new_effects sample_node (sendpayment
     (invoice_world\<lparr>invoice_from_str := \<lambda>_. Some (sample_invoice\<lparr>inv_amount_msat := Some 2999999\<rparr>)\<rparr>) [''i''] sample_node)) \<and>
   PayInvoice [5] \<in> set (new_effects sample_node (sendpayment invoice_world [''i''] sample_node)) \<and>
   (\<exists>amt. inv_amount_msat sample_invoice = Some amt \<and> 3000000 \<le> amt)"
proof -
  have "PayInvoice [5] \<in> set (new_effects sample_node (sendpayment invoice_world [''i''] sample_node))"
    by (simp add: new_effects_def sendpayment_def send_payment_def need_def min_msat invoice_world_def
        sample_invoice_def sample_world_def sample_ldk_def Let_def)
  with payments_above_minimum [of "[5]" sample_node invoice_world "[''i'']" 0 0 None None False "[]" "[]" "[]" 0]
    payments_above_minimum [of "[5]" sample_node
      "invoice_world\<lparr>invoice_from_str := \<lambda>_. Some (sample_invoice\<lparr>inv_amount_msat := Some 2999999\<rparr>)\<rparr>"
      "[''i'']" 0 0 None None False "[]" "[]" "[]" 0]
  show ?thesis by (simp add: invoice_world_def)
qed

end
