(* ===== verification/Listings.thy ===== *)
theory Listings
  imports World "HOL-Library.Sublist"
begin

text \<open>
  What only reads the state and prints: \<open>tradeslist\<close>, \<open>listpayments\<close>, \<open>listpeers\<close>, \<open>listchannels\<close>
  (\<open>src/cli.rs\<close>) and the handlers of \<open>PaymentForwarded\<close> and \<open>PendingHTLCsForwardable\<close> (\<open>src/main.rs\<close>).
  Every call of \<open>print!\<close> or \<open>println!\<close> is one \<open>MLine\<close> with its text. A \<open>HashMap\<close> is iterated in an order that
  is a parameter (\<open>payment_order\<close>, \<open>trade_order\<close>).
\<close>

subsection \<open>Lines\<close>

fun print_lines :: "string list \<Rightarrow> node \<Rightarrow> node" where
  "print_lines [] s = s"
| "print_lines (l # ls) s = print_lines ls (println (MLine l) s)"

definition tabs :: "nat \<Rightarrow> string" where
  "tabs n = replicate n (CHR 0x09)"

definition field :: "string \<Rightarrow> string \<Rightarrow> string" where
  "field name v = tabs 2 @ name @ '': '' @ v @ '',''"

fun show_bool :: "bool \<Rightarrow> string" where
  "show_bool True = ''true''"
| "show_bool False = ''false''"

subsection \<open>Trades and payments\<close>

fun trade_lines :: "(contract_id \<Rightarrow> string) \<Rightarrow> bytes \<times> contract_id \<times> swap_type \<Rightarrow> string list" where
  "trade_lines show (h, c, st) =
     [tabs 2 @ ''{'',
      tabs 3 @ ''payment_hash: '' @ hex_str h,
      tabs 3 @ ''contract_id: '' @ show c,
      tabs 3 @ ''side: '' @ side st,
      tabs 3 @ ''amount_msats: '' @ show_word (amount_msats st),
      tabs 3 @ ''amount_rgb: '' @ show_word (amount_rgb st),
      tabs 2 @ ''},'']"

definition trade_part :: "world \<Rightarrow> string option \<Rightarrow> string \<Rightarrow> trades \<Rightarrow> string list" where
  "trade_part w sel role trades =
     (if sel = None \<or> sel = Some role
      then [tabs 1 @ role @ '': [''] @ concat (map (trade_lines (show_contract w)) (trade_order w trades)) @
           [tabs 1 @ ''],'']
      else [])"

definition tradeslist :: "world \<Rightarrow> string list \<Rightarrow> node \<Rightarrow> flow" where
  "tradeslist w ws s =
     (let filter = word 0 ws in
      Continue (print_lines ([''{''] @ trade_part w filter ''taker'' (whitelisted_trades s) @
        trade_part w filter ''maker'' (maker_trades s) @ [''}'']) s))"

fun show_status :: "htlc_status \<Rightarrow> string" where
  "show_status Pending = ''pending''"
| "show_status Succeeded = ''succeeded''"
| "show_status Failed = ''failed''"

definition show_amount :: "u64 option \<Rightarrow> string" where
  "show_amount a = (case a of Some amt \<Rightarrow> show_word amt | None \<Rightarrow> ''unknown'')"

fun payment_lines :: "string \<Rightarrow> bytes \<times> payment_info \<Rightarrow> string list" where
  "payment_lines direction (h, p) =
     ['''', tabs 1 @ ''{'',
      field ''amount_millisatoshis'' (show_amount (pi_amt_msat p)),
      field ''payment_hash'' (hex_str h),
      field ''htlc_direction'' direction,
      field ''htlc_status'' (show_status (pi_status p)),
      tabs 1 @ ''},'']"

definition list_payments :: "world \<Rightarrow> node \<Rightarrow> flow" where
  "list_payments w s =
     Continue (print_lines ([''[''] @
       concat (map (payment_lines ''inbound'') (payment_order w (inbound_payments s))) @
       concat (map (payment_lines ''outbound'') (payment_order w (outbound_payments s))) @ ['']'']) s)"

subsection \<open>Peers and channels\<close>

definition list_peers :: "world \<Rightarrow> node \<Rightarrow> flow" where
  "list_peers w s =
     Continue (print_lines ([tabs 1 @ ''{''] @
       map (\<lambda>pk. tabs 2 @ '' pubkey: '' @ hex_str pk) (peer_node_ids (w_ldk w) (trace s)) @ [tabs 1 @ ''},'']) s)"

definition channel_lines :: "world \<Rightarrow> node \<Rightarrow> channel_details \<Rightarrow> string list" where
  "channel_lines w s c =
     ['''', tabs 1 @ ''{'', field ''channel_id'' (hex_str (cd_channel_id c))] @
     (case cd_funding_txid c of Some txid \<Rightarrow> [field ''funding_txid'' (show_txid w txid)] | None \<Rightarrow> []) @
     [field ''peer_pubkey'' (hex_str (cd_counterparty c))] @
     (case node_alias w (trace s) (cd_counterparty c) of
        Some (Some a) \<Rightarrow> [tabs 2 @ ''peer_alias: '' @ a] | _ \<Rightarrow> []) @
     (case cd_short_channel_id c of Some i \<Rightarrow> [field ''short_channel_id'' (show_word i)] | None \<Rightarrow> []) @
     [field ''is_channel_ready'' (show_bool (cd_is_channel_ready c)),
      field ''channel_value_satoshis'' (show_word (cd_channel_value_satoshis c)),
      field ''local_balance_msat'' (show_word (cd_balance_msat c))] @
     (if cd_is_usable c
      then [field ''available_balance_for_send_msat'' (show_word (cd_outbound_capacity_msat c)),
            field ''available_balance_for_recv_msat'' (show_word (cd_inbound_capacity_msat c))] else []) @
     [field ''channel_can_send_payments'' (show_bool (cd_is_usable c)),
      field ''public'' (show_bool (cd_is_public c))] @
     (let (contract_id, local_rgb_amount, remote_rgb_amount) =
        (case rgb_channel_files s (cd_channel_id c) of
           Some i \<Rightarrow> (show_contract w (ri_contract_id i), show_word (ri_local_rgb_amount i), show_word (ri_remote_rgb_amount i))
         | None \<Rightarrow> (''N/A'', ''N/A'', ''N/A''))
      in [field ''rgb_contract_id'' contract_id, field ''rgb_local_amount'' local_rgb_amount,
          field ''rgb_remote_amount'' remote_rgb_amount]) @
     [tabs 1 @ ''},'']"

definition list_channels_cmd :: "world \<Rightarrow> node \<Rightarrow> flow" where
  "list_channels_cmd w s =
     Continue (print_lines ([''[''] @
       concat (map (channel_lines w s) (list_channels (w_ldk w) (trace s))) @ ['']'']) s)"

subsection \<open>Forwarding events\<close>

definition node_str :: "world \<Rightarrow> node \<Rightarrow> channel_id option \<Rightarrow> string" where
  "node_str w s cid =
     (case Option.bind cid (\<lambda>i. find (\<lambda>c. cd_channel_id c = i) (list_channels (w_ldk w) (trace s))) of
        None \<Rightarrow> ''''
      | Some c \<Rightarrow>
          (case node_alias w (trace s) (cd_counterparty c) of
             None \<Rightarrow> ''private node'' | Some None \<Rightarrow> ''unnamed node'' | Some (Some a) \<Rightarrow> ''node '' @ a))"

definition channel_str :: "channel_id option \<Rightarrow> string" where
  "channel_str cid = (case cid of None \<Rightarrow> '''' | Some i \<Rightarrow> '' with channel '' @ hex_str i)"

definition payment_forwarded ::
  "world \<Rightarrow> channel_id option \<Rightarrow> channel_id option \<Rightarrow> u64 option \<Rightarrow> bool \<Rightarrow> u64 option \<Rightarrow> node \<Rightarrow> flow" where
  "payment_forwarded w prev_channel_id next_channel_id fee_earned_msat claim_from_onchain_tx
       outbound_amount_forwarded_msat s =
     (let from_prev_str = '' from '' @ node_str w s prev_channel_id @ channel_str prev_channel_id;
          to_next_str = '' to '' @ node_str w s next_channel_id @ channel_str next_channel_id;
          from_onchain_str = (if claim_from_onchain_tx then ''from onchain downstream claim''
                              else ''from HTLC fulfill message'');
          amt_args = (case outbound_amount_forwarded_msat of Some v \<Rightarrow> show_word v | None \<Rightarrow> ''?'');
          text = newline # ''EVENT: Forwarded payment for '' @ amt_args @ '' msat'' @ from_prev_str @ to_next_str @
            (case fee_earned_msat of
               Some fee_earned \<Rightarrow> '', earning '' @ show_word fee_earned @ '' msat '' @ from_onchain_str
             | None \<Rightarrow> '', claiming onchain '' @ from_onchain_str)
      in Continue (print_lines [text, ''> ''] s))"

text \<open>
  The spawned task sleeps a random time below five times the one asked for; \<open>gen_range\<close> panics on an empty
  range, \<open>min * 5\<close> on an overflow of the dev profile.
\<close>

definition pending_htlcs_forwardable :: "world \<Rightarrow> u64 \<Rightarrow> node \<Rightarrow> flow" where
  "pending_htlcs_forwardable w millis s =
     expect (mul_w (w_build w) millis 5) s (\<lambda>high.
     if \<not> millis < high then Abort s else Continue (emit ProcessPendingHtlcForwards s))"

lemmas listing_defs = tradeslist_def list_payments_def list_peers_def list_channels_cmd_def payment_forwarded_def
  pending_htlcs_forwardable_def

subsection \<open>Lemmas\<close>

lemma print_lines_state:
  "print_lines ls s = s\<lparr>trace := trace s @ map (Print \<circ> MLine) ls\<rparr>"
  by (induction ls arbitrary: s) (simp_all add: emit_def)

lemma print_lines_new: "new_effects s (Continue (print_lines ls s)) = map (Print \<circ> MLine) ls"
  by (simp add: print_lines_state new_effects_def)

text \<open>Iterating over a map: its entries, each once.\<close>

definition iterates :: "('k \<rightharpoonup> 'v) \<Rightarrow> ('k \<times> 'v) list \<Rightarrow> bool" where
  "iterates m es \<longleftrightarrow> distinct (map fst es) \<and> map_of es = m"

lemma iterates_mem: "iterates m es \<Longrightarrow> m k = Some v \<Longrightarrow> (k, v) \<in> set es"
  by (auto simp: iterates_def dest: map_of_SomeD)

lemma iterates_length: "iterates m es \<Longrightarrow> length es = card (dom m)"
  by (metis distinct_card dom_map_of_conv_image_fst iterates_def length_map list.set_map)

lemma length_concat_map: "(\<And>x. x \<in> set xs \<Longrightarrow> length (f x) = n) \<Longrightarrow> length (concat (map f xs)) = n * length xs"
  by (induction xs) auto

lemma sublist_concat: "x \<in> set xs \<Longrightarrow> sublist (f x) (concat (map f xs))"
  by (metis concat.simps(2) concat_append list.map(2) map_append split_list sublist_appendI)

lemma sublist_in_listing: "sublist xs ys \<Longrightarrow> sublist xs (as @ ys @ bs)"
  by (auto simp: sublist_def) (metis append_assoc)

lemma length_payment_lines: "length (concat (map (payment_lines dir) es)) = 7 * length es"
  by (rule length_concat_map) auto

lemma length_trade_lines: "length (concat (map (trade_lines show) es)) = 7 * length es"
  by (rule length_concat_map) auto

subsection \<open>Properties\<close>

text \<open>
  \<open>listpayments\<close> lists every stored payment, the incoming and the outgoing ones, each once with its
  amount, hash, direction and status, and changes nothing.
\<close>

theorem payments_listed:
  assumes "list_payments w s = Continue t"
    and "iterates (inbound_payments s) (payment_order w (inbound_payments s))"
    and "iterates (outbound_payments s) (payment_order w (outbound_payments s))"
  shows "(inbound_payments s h = Some p \<longrightarrow>
      sublist (map (Print \<circ> MLine) (payment_lines ''inbound'' (h, p))) (new_effects s (Continue t))) \<and>
    (outbound_payments s h = Some p \<longrightarrow>
      sublist (map (Print \<circ> MLine) (payment_lines ''outbound'' (h, p))) (new_effects s (Continue t))) \<and>
    length (new_effects s (Continue t)) =
      2 + 7 * (card (dom (inbound_payments s)) + card (dom (outbound_payments s))) \<and>
    t\<lparr>trace := trace s\<rparr> = s"
proof -
  let ?i = "payment_order w (inbound_payments s)" and ?o = "payment_order w (outbound_payments s)"
  let ?ls = "[''[''] @ concat (map (payment_lines ''inbound'') ?i) @ concat (map (payment_lines ''outbound'') ?o) @ ['']'']"
  from assms(1) have t: "t = print_lines ?ls s" by (simp add: list_payments_def)
  have i: "sublist (payment_lines ''inbound'' (h, p)) ?ls" if "inbound_payments s h = Some p"
    using sublist_in_listing [OF sublist_concat [OF iterates_mem [OF assms(2) that]], of "payment_lines ''inbound''" "[''['']"]
    by blast
  have o: "sublist (payment_lines ''outbound'' (h, p)) ?ls" if "outbound_payments s h = Some p"
    using sublist_in_listing [OF sublist_concat [OF iterates_mem [OF assms(3) that]], of "payment_lines ''outbound''"
        "[''[''] @ concat (map (payment_lines ''inbound'') ?i)"] by simp
  have l: "length ?ls = 2 + 7 * (card (dom (inbound_payments s)) + card (dom (outbound_payments s)))"
    by (simp add: length_payment_lines iterates_length [OF assms(2)] iterates_length [OF assms(3)])
  show ?thesis
    unfolding t print_lines_new length_map l
    by (intro conjI impI map_mono_sublist i o; (assumption | simp add: print_lines_state))
qed

lemma trade_part:
  assumes "iterates trades (trade_order w trades)"
  shows "sel \<in> {None, Some role} \<Longrightarrow> trades h = Some v \<Longrightarrow>
      sublist (trade_lines (show_contract w) (h, v)) (trade_part w sel role trades)"
    and "length (trade_part w sel role trades) =
      (if sel \<in> {None, Some role} then 2 + 7 * card (dom trades) else 0)"
proof -
  assume f: "sel \<in> {None, Some role}" and v: "trades h = Some v"
  from f show "sublist (trade_lines (show_contract w) (h, v)) (trade_part w sel role trades)"
    using sublist_in_listing [OF sublist_concat [OF iterates_mem [OF assms v]], of "trade_lines (show_contract w)"]
    by (auto simp only: trade_part_def if_True simp_thms insert_iff empty_iff)
qed (auto simp: trade_part_def length_trade_lines iterates_length [OF assms])

text \<open>
  \<open>tradeslist\<close> lists the whitelisted trades and the maker's own, each once, or only those of the role the
  word names; any other word lists none.
\<close>

theorem trades_listed:
  assumes "tradeslist w ws s = Continue t"
    and "iterates (whitelisted_trades s) (trade_order w (whitelisted_trades s))"
    and "iterates (maker_trades s) (trade_order w (maker_trades s))"
  shows "(whitelisted_trades s h = Some v \<and> word 0 ws \<in> {None, Some ''taker''} \<longrightarrow>
      sublist (map (Print \<circ> MLine) (trade_lines (show_contract w) (h, v))) (new_effects s (Continue t))) \<and>
    (maker_trades s h = Some v \<and> word 0 ws \<in> {None, Some ''maker''} \<longrightarrow>
      sublist (map (Print \<circ> MLine) (trade_lines (show_contract w) (h, v))) (new_effects s (Continue t))) \<and>
    length (new_effects s (Continue t)) = 2 +
      (if word 0 ws \<in> {None, Some ''taker''} then 2 + 7 * card (dom (whitelisted_trades s)) else 0) +
      (if word 0 ws \<in> {None, Some ''maker''} then 2 + 7 * card (dom (maker_trades s)) else 0) \<and>
    t\<lparr>trace := trace s\<rparr> = s"
proof -
  let ?t = "trade_part w (word 0 ws) ''taker'' (whitelisted_trades s)"
  let ?m = "trade_part w (word 0 ws) ''maker'' (maker_trades s)"
  let ?ls = "[''{''] @ ?t @ ?m @ [''}'']"
  from assms(1) have t: "t = print_lines ?ls s" by (simp only: tradeslist_def Let_def flow.inject)
  have whole: "sublist xs ?ls" if "sublist xs ?t \<or> sublist xs ?m" for xs
    using that sublist_in_listing [of xs ?t "[''{'']" "?m @ [''}'']"] sublist_in_listing [of xs ?m "[''{''] @ ?t" "[''}'']"]
    by (simp only: append_assoc) blast
  have "length ?ls = 2 + length ?t + length ?m" by simp
  note l = this [unfolded trade_part(2) [OF assms(2)] trade_part(2) [OF assms(3)]]
  have x: "sublist (trade_lines (show_contract w) (h, v)) ?ls"
    if "whitelisted_trades s h = Some v \<and> word 0 ws \<in> {None, Some ''taker''}"
    using that trade_part(1) [OF assms(2)] by (intro whole disjI1) blast
  have y: "sublist (trade_lines (show_contract w) (h, v)) ?ls"
    if "maker_trades s h = Some v \<and> word 0 ws \<in> {None, Some ''maker''}"
    using that trade_part(1) [OF assms(3)] by (intro whole disjI2) blast
  have z: "print_lines ?ls s\<lparr>trace := trace s\<rparr> = s" by (simp add: print_lines_state)
  show ?thesis
    unfolding t print_lines_new length_map l
    by (intro conjI impI map_mono_sublist x y z HOL.refl; (assumption | simp only: add.assoc))
qed

definition listing_world :: world where
  "listing_world = sample_world\<lparr>
     payment_order := (\<lambda>m. if m [5] = None then [] else [([5], \<lparr>pi_preimage = None, pi_secret = Some [6],
       pi_status = Pending, pi_amt_msat = Some 7\<rparr>)]),
     trade_order := (\<lambda>m. if m [5] = None then [] else [([5], [42], BuyAsset 10 2000)])\<rparr>"

definition listed_node :: node where
  "listed_node = sample_node\<lparr>
     inbound_payments := [[5] \<mapsto> \<lparr>pi_preimage = None, pi_secret = Some [6], pi_status = Pending, pi_amt_msat = Some 7\<rparr>],
     maker_trades := [[5] \<mapsto> ([42], BuyAsset 10 2000)]\<rparr>"

lemma listing_orders:
  "iterates (inbound_payments listed_node) (payment_order listing_world (inbound_payments listed_node))"
  "iterates (outbound_payments listed_node) (payment_order listing_world (outbound_payments listed_node))"
  "iterates (maker_trades listed_node) (trade_order listing_world (maker_trades listed_node))"
  "iterates (whitelisted_trades listed_node) (trade_order listing_world (whitelisted_trades listed_node))"
  by (simp_all add: iterates_def listing_world_def listed_node_def sample_node_def)

theorem payments_listed_witness:
  "\<exists>t. list_payments listing_world listed_node = Continue t \<and> length (new_effects listed_node (Continue t)) = 9"
proof -
  obtain t where t: "list_payments listing_world listed_node = Continue t" by (simp add: list_payments_def)
  have "card (dom (inbound_payments listed_node)) = 1" "card (dom (outbound_payments listed_node)) = 0"
    by (simp_all add: listed_node_def sample_node_def)
  with payments_listed [OF t listing_orders(1,2)] t show ?thesis by simp
qed

theorem trades_listed_witness:
  "\<exists>t. tradeslist listing_world [''maker''] listed_node = Continue t \<and>
     length (new_effects listed_node (Continue t)) = 11"
proof -
  obtain t where t: "tradeslist listing_world [''maker''] listed_node = Continue t" by (simp add: tradeslist_def Let_def)
  have "card (dom (maker_trades listed_node)) = 1" by (simp add: listed_node_def)
  with trades_listed [OF t listing_orders(4,3)] t show ?thesis by simp
qed

end
