(* ===== verification/Help.thy ===== *)
theory Help
  imports Listings
begin

text \<open>
  The fixed texts of the node: the banner and the help of the command line (\<open>src/cli.rs\<close>) and the reports of
  the events \<open>ChannelPending\<close> and \<open>ChannelClosed\<close> (\<open>src/main.rs\<close>).
\<close>

subsection \<open>The banner and the help\<close>

definition banner_lines :: "bytes \<Rightarrow> string list" where
  "banner_lines node_id =
     [''LDK startup successful. Enter \"help\" to view available commands. Press Ctrl-D to quit.'',
      ''LDK logs are available at <your-supplied-ldk-data-dir-path>/.ldk/logs'',
      ''Local Node ID is '' @ hex_str node_id]"

text \<open>\<open>env!(CARGO_PKG_NAME)\<close> and \<open>env!(CARGO_PKG_VERSION)\<close>, from \<open>Cargo.toml\<close>.\<close>

definition CARGO_PKG_NAME :: string where
  "CARGO_PKG_NAME = ''ldk-sample''"

definition CARGO_PKG_VERSION :: string where
  "CARGO_PKG_VERSION = ''0.1.0''"

definition help_lines :: "string list" where
  "help_lines =
     [[newline] @ ''VERSION:'',
      ''  '' @ CARGO_PKG_NAME @ '' v'' @ CARGO_PKG_VERSION,
      [newline] @ ''USAGE:'',
      ''  Command [arguments]'',
      [newline] @ ''COMMANDS:'',
      ''  help'' @ tabs 1 @ ''Shows a list of commands.'',
      ''  quit'' @ tabs 1 @ ''Close the application.'',
      [newline] @ ''  Channels:'',
      ''      opencoloredchannel pubkey@host:port <chan_amt_satoshis> <push_amt_msatoshis> <rgb_contract_id> <chan_amt_rgb> [--public]'',
      ''      openchannel pubkey@host:port <chan_amt_satoshis> <push_amt_msatoshis> [--public]'',
      ''      closechannel <channel_id> <peer_pubkey>'',
      ''      forceclosechannel <channel_id> <peer_pubkey>'',
      ''      listchannels'',
      [newline] @ ''  Routing:'',
      ''      getroute <dest_pubkey> <amt> [<asset_id>]'',
      [newline] @ ''  Swaps:'',
      ''      makerinit <amount> <asset_id> <buy|sell> <expiry_secs> [<price_msats_per_asset>]'',
      ''      taker <swap_string>'',
      ''      tradeslist [<taker|maker>]'',
      ''      makerexecute <payment_hash> <payment_secret> <peer_pubkey>'',
      [newline] @ ''  Peers:'',
      ''      connectpeer pubkey@host:port'',
      ''      disconnectpeer <peer_pubkey>'',
      ''      listpeers'',
      [newline] @ ''  Payments:'',
      ''      sendpayment <invoice>'',
      ''      coloredkeysend <dest_pubkey> <amt_msats> <rgb_contract_id> <amt_rgb>'',
      ''      keysend <dest_pubkey> <amt_msats>'',
      ''      listpayments'',
      [newline] @ ''  Invoices:'',
      ''      getcoloredinvoice <amt_msats> <expiry_secs> <rgb_contract_id> <amt_rgb>'',
      ''      getinvoice <amt_msats> <expiry_secs>'',
      ''      invoicestatus <invoice>'',
      [newline] @ ''  Onchain:'',
      ''      getaddress'',
      ''      listunspent'',
      [newline] @ ''  RGB:'',
      ''      createutxos'',
      ''      issueasset <supply> <ticker> <name> <precision>'',
      ''      assetbalance <contract_id>'',
      ''      sendasset <rgb_contract_id> <amt_rgb>'',
      ''      receiveasset'',
      ''      refresh'',
      [newline] @ ''  Other:'',
      ''      mine <num_blocks>'',
      ''      signmessage <message>'',
      ''      sendonionmessage <node_id_1,node_id_2,..,destination_node_id> <type> <hex_bytes>'',
      ''      nodeinfo'']"

definition help_cmd :: "node \<Rightarrow> flow" where
  "help_cmd s = Continue (print_lines help_lines s)"

subsection \<open>Events that are only reported\<close>

definition channel_pending :: "channel_id \<Rightarrow> pubkey \<Rightarrow> node \<Rightarrow> flow" where
  "channel_pending cid counterparty_node_id s =
     Continue (print_lines
       [newline # ''EVENT: Channel '' @ hex_str cid @ '' with peer '' @ hex_str counterparty_node_id @
          '' is pending awaiting funding lock-in!'', ''> ''] s)"

text \<open>The reason of a closing is the text LDK's \<open>Debug\<close> gives it.\<close>

definition channel_closed :: "channel_id \<Rightarrow> string \<Rightarrow> node \<Rightarrow> flow" where
  "channel_closed cid reason s =
     Continue (print_lines
       [newline # ''EVENT: Channel '' @ hex_str cid @ '' closed due to: '' @ reason, ''> ''] s)"

lemmas text_defs = help_cmd_def channel_pending_def channel_closed_def

subsection \<open>The commands the help lists\<close>

text \<open>The lines of the help after its head that are not the title of a section, and their first words.\<close>

definition help_entries :: "string list \<Rightarrow> string list" where
  "help_entries ls =
     filter (\<lambda>l. take 2 l = ''  '') (tl (dropWhile (\<lambda>l. l \<noteq> newline # ''COMMANDS:'') ls))"

definition listed_commands :: "string list \<Rightarrow> string list" where
  "listed_commands ls = concat (map (\<lambda>l. take 1 (split_whitespace l)) (help_entries ls))"

text \<open>The words of a line one by one, for evaluation.\<close>

lemma split_whitespace_skip: "split_whitespace (dropWhile is_ws s) = split_whitespace s"
  by (induction s) (simp_all add: split_whitespace_ws)

lemma next_words:
  "split_whitespace s =
     (let t = dropWhile is_ws s in
      if t = [] then []
      else takeWhile (\<lambda>c. \<not> is_ws c) t # split_whitespace (dropWhile (\<lambda>c. \<not> is_ws c) t))"
proof (cases "dropWhile is_ws s")
  case Nil
  have "split_whitespace s = []" using split_whitespace_skip [of s] unfolding Nil by (simp add: split_whitespace_Nil)
  with Nil show ?thesis by simp
next
  case (Cons c t)
  then have c: "\<not> is_ws c" using hd_dropWhile [of is_ws s] by simp
  obtain u v where uv: "c # t = u @ v" "u = takeWhile (\<lambda>c. \<not> is_ws c) (c # t)" "v = dropWhile (\<lambda>c. \<not> is_ws c) (c # t)"
    by simp
  have u: "\<forall>c\<in>set u. \<not> is_ws c" "u \<noteq> []" using c uv(2) by (auto dest: set_takeWhileD)
  have "split_whitespace (u @ v) = u # split_whitespace v"
  proof (cases v)
    case Nil
    with u show ?thesis by (simp add: split_whitespace_def split_ws_free)
  next
    case (Cons b w)
    then have "is_ws b" using uv(3) hd_dropWhile [of "\<lambda>c. \<not> is_ws c" "c # t"] by simp
    with Cons u show ?thesis by (simp add: split_whitespace_word split_whitespace_ws)
  qed
  moreover have "split_whitespace s = split_whitespace (u @ v)"
    using split_whitespace_skip [of s] unfolding Cons uv(1) by (rule sym)
  ultimately show ?thesis unfolding Cons Let_def by (simp only: uv(2,3) list.distinct if_False)
qed

lemma first_word:
  "take 1 (split_whitespace s) =
     (let t = dropWhile is_ws s in if t = [] then [] else [takeWhile (\<lambda>c. \<not> is_ws c) t])"
  by (subst next_words) (simp add: Let_def)

lemma is_ws_iff: "is_ws c \<longleftrightarrow> c = CHR '' '' \<or> c \<in> {CHR 0x09, CHR 0x0A, CHR 0x0B, CHR 0x0C, CHR 0x0D}"
proof -
  have "9 \<le> n \<and> n \<le> 13 \<longleftrightarrow> n = 9 \<or> n = 10 \<or> n = 11 \<or> n = 12 \<or> n = (13::nat)" for n by auto
  moreover have "(of_char c :: nat) = n \<longleftrightarrow> c = char_of n" if "n < 256" for n
    using that by (metis char_of_char of_char_of mod_less)
  ultimately show ?thesis by (auto simp: is_ws_def char_of_def bit_simps)
qed

lemma listed: "listed_commands help_lines =
   [''help'', ''quit'', ''opencoloredchannel'', ''openchannel'', ''closechannel'', ''forceclosechannel'',
    ''listchannels'', ''getroute'', ''makerinit'', ''taker'', ''tradeslist'', ''makerexecute'', ''connectpeer'',
    ''disconnectpeer'', ''listpeers'', ''sendpayment'', ''coloredkeysend'', ''keysend'', ''listpayments'',
    ''getcoloredinvoice'', ''getinvoice'', ''invoicestatus'', ''getaddress'', ''listunspent'', ''createutxos'',
    ''issueasset'', ''assetbalance'', ''sendasset'', ''receiveasset'', ''refresh'', ''mine'', ''signmessage'',
    ''sendonionmessage'', ''nodeinfo'']"
  unfolding listed_commands_def help_entries_def help_lines_def first_word
  by (simp add: newline_def is_ws_iff tabs_def)

end
