(* ===== verification/Commands.thy ===== *)
theory Commands
  imports OnChain Transfers Trades Channels Invoices Help
begin

text \<open>
  The command loop \<open>poll_for_user_input\<close> (\<open>src/cli.rs\<close>), the dispatcher of LDK's events
  \<open>handle_ldk_events\<close> (\<open>src/main.rs\<close>), and the node as a transition system of both and of the
  reconnecting task.
\<close>

subsection \<open>The command loop\<close>

text \<open>The body of the loop for a line that was read.\<close>

definition run_command :: "world \<Rightarrow> string \<Rightarrow> node \<Rightarrow> flow" where
  "run_command w line s =
     (case split_whitespace line of
        [] \<Rightarrow> Continue s
      | name # ws \<Rightarrow>
          if name = ''help'' then help_cmd s
          else if name = ''mine'' then mine_cmd w ws s
          else if name = ''listunspent'' then listunspent w s
          else if name = ''getaddress'' then getaddress w s
          else if name = ''createutxos'' then createutxos w s
          else if name = ''issueasset'' then issueasset w ws s
          else if name = ''assetbalance'' then assetbalance w ws s
          else if name = ''sendasset'' then sendasset w ws s
          else if name = ''receiveasset'' then receiveasset w s
          else if name = ''refresh'' then refresh w s
          else if name = ''openchannel'' then openchannel w False ws s
          else if name = ''opencoloredchannel'' then openchannel w True ws s
          else if name = ''sendpayment'' then sendpayment w ws s
          else if name = ''keysend'' then keysend_cmd w False ws s
          else if name = ''coloredkeysend'' then keysend_cmd w True ws s
          else if name = ''getinvoice'' then getinvoice w False ws s
          else if name = ''getcoloredinvoice'' then getinvoice w True ws s
          else if name = ''connectpeer'' then connectpeer w ws s
          else if name = ''disconnectpeer'' then disconnectpeer w ws s
          else if name = ''listchannels'' then list_channels_cmd w s
          else if name = ''makerinit'' then makerinit w ws s
          else if name = ''taker'' then taker w ws s
          else if name = ''tradeslist'' then tradeslist w ws s
          else if name = ''makerexecute'' then makerexecute w ws s
          else if name = ''listpayments'' then list_payments w s
          else if name = ''invoicestatus'' then invoicestatus w ws s
          else if name = ''closechannel'' then closechannel w ws s
          else if name = ''forceclosechannel'' then forceclosechannel w ws s
          else if name = ''nodeinfo'' then node_info w s
          else if name = ''listpeers'' then list_peers w s
          else if name = ''signmessage'' then signmessage line s
          else if name = ''sendonionmessage'' then sendonionmessage w ws s
          else if name = ''quit'' \<or> name = ''exit'' then Break (println (MInfo ''Exiting node...'') s)
          else error ''Unknown command'' s)"

text \<open>
  The loop over the reads of the standard input: \<^term>\<open>None\<close> is a read error, the empty line the end of
  the input.
\<close>

fun poll_for_user_input :: "world \<Rightarrow> string option list \<Rightarrow> node \<Rightarrow> flow" where
  "poll_for_user_input w [] s = Continue s"
| "poll_for_user_input w (None # _) s = Break (println (MError ''read'') s)"
| "poll_for_user_input w (Some line # rest) s =
     (if line = [] then Break s
      else case run_command w line s of Continue s \<Rightarrow> poll_for_user_input w rest s | f \<Rightarrow> f)"

definition start_cli :: "world \<Rightarrow> string option list \<Rightarrow> node \<Rightarrow> flow" where
  "start_cli w input s = poll_for_user_input w input (print_lines (banner_lines (our_node_id (w_ldk w))) s)"

subsection \<open>The event handler\<close>

datatype ldk_event =
    FundingGenerationReady channel_id pubkey u64 "bytes option"
  | PaymentClaimable bytes payment_purpose u64
  | PaymentClaimed bytes payment_purpose u64
  | PaymentSent bytes bytes "u64 option"
  | PaymentFailed bytes
  | PaymentForwarded "channel_id option" "channel_id option" "u64 option" bool "u64 option"
  | PendingHTLCsForwardable u64
  | SpendableOutputs "spendable_output list"
  | ChannelPending channel_id pubkey
  | ChannelReady channel_id
  | ChannelClosed channel_id string
  | HTLCIntercepted intercepted_htlc
  | OtherEvent

definition handle_ldk_events :: "world \<Rightarrow> ldk_event \<Rightarrow> node \<Rightarrow> flow" where
  "handle_ldk_events w e s =
     (case e of
        FundingGenerationReady tmp cp sats script \<Rightarrow> funding_generation_ready w tmp cp sats script s
      | PaymentClaimable h purpose amount_msat \<Rightarrow> payment_claimable h purpose amount_msat s
      | PaymentClaimed h purpose amount_msat \<Rightarrow> payment_claimed h purpose amount_msat s
      | PaymentSent preimage h fee_paid_msat \<Rightarrow> payment_sent preimage h fee_paid_msat s
      | PaymentFailed h \<Rightarrow> payment_failed h s
      | PaymentForwarded prev next fee onchain amt \<Rightarrow> payment_forwarded w prev next fee onchain amt s
      | PendingHTLCsForwardable millis \<Rightarrow> pending_htlcs_forwardable w millis s
      | SpendableOutputs outputs \<Rightarrow> spendable_outputs w outputs s
      | ChannelPending cid pk \<Rightarrow> channel_pending cid pk s
      | ChannelReady cid \<Rightarrow> channel_ready w cid s
      | ChannelClosed cid reason \<Rightarrow> channel_closed cid reason s
      | HTLCIntercepted ih \<Rightarrow> htlc_intercepted (w_ldk w) ih s
      | OtherEvent \<Rightarrow> Continue s)"

subsection \<open>The node as a transition system\<close>

text \<open>
  One step: a command line, an event, or a tick of the reconnecting task, run to its end. (The three
  run concurrently in the program, under the locks of the state they share: \<open>NodeLocks\<close> treats the order in which
  they take them, \<open>RgbUtxos\<close> the one shared file that has no lock.)
\<close>

inductive node_step :: "world \<Rightarrow> node \<Rightarrow> node \<Rightarrow> bool" for w where
  command: "run_command w line s = Continue t \<Longrightarrow> node_step w s t"
| event: "handle_ldk_events w e s = Continue t \<Longrightarrow> node_step w s t"
| reconnect: "reconnect_tick (w_ldk w) stop parse s = Continue t \<Longrightarrow> node_step w s t"

inductive node_reaches :: "world \<Rightarrow> node \<Rightarrow> node \<Rightarrow> bool" for w s where
  refl: "node_reaches w s s"
| step: "node_reaches w s t \<Longrightarrow> node_step w t u \<Longrightarrow> node_reaches w s u"

inductive_cases node_step_cases: "node_step w s t"

subsection \<open>Properties\<close>

text \<open>
  The help is complete: a line whose first word is neither a command the help lists nor \<open>exit\<close> is answered
  as an unknown command and changes nothing, and so is \<open>getroute\<close>, which the help does list.
\<close>

theorem help_is_complete:
  assumes "split_whitespace line = name # ws" and "name \<notin> set (listed_commands help_lines) - {''getroute''}"
    and "name \<noteq> ''exit''"
  shows "run_command w line s = Continue (println (MError ''Unknown command'') s) \<and>
    poll_for_user_input w (Some line # rest) s =
      poll_for_user_input w rest (println (MError ''Unknown command'') s)"
proof -
  have "line \<noteq> []" using assms(1) by (auto simp: split_whitespace_def)
  moreover have "run_command w line s = Continue (println (MError ''Unknown command'') s)"
    using assms(2,3) unfolding listed run_command_def assms(1)
    by (cases "name = ''getroute''") (simp_all add: error_def)
  ultimately show ?thesis by simp
qed

theorem help_is_complete_witness:
  "''getroute'' \<in> set (listed_commands help_lines) \<and>
   run_command sample_world ''getroute 02ab 1000'' sample_node =
     Continue (println (MError ''Unknown command'') sample_node)"
proof -
  have "split_whitespace ''getroute 02ab 1000'' = [''getroute'', ''02ab'', ''1000'']"
    by (simp add: next_words is_ws_iff)
  from help_is_complete [OF this, of sample_world sample_node] show ?thesis by (simp add: listed)
qed

end
