(* ===== verification/Invariants.thy ===== *)
theory Invariants
  imports Commands
begin

text \<open>
  Invariants of the whole node. The locale names every way an operation changes the state, as the
  closure an invariant has to have; inside it, once for all invariants, every command, event handler and
  background tick is shown to keep the invariant, and so every reachable state has it. The
  interpretations are the invariants of the payment storage and of the file of RGB outputs.
\<close>

subsection \<open>The contract of an invariant\<close>

locale node_invariant =
  fixes P :: "build \<Rightarrow> node \<Rightarrow> bool"
  assumes emits: "P bd s \<Longrightarrow> P bd (emit e s)"
    and takes: "P bd s \<Longrightarrow> take_uncolored (rgb_utxos s) = Some (Inr (outpoint, utxos)) \<Longrightarrow> P bd (s\<lparr>rgb_utxos := utxos\<rparr>)"
    and creates: "P bd s \<Longrightarrow> P bd (s\<lparr>rgb_utxos := push_created txid (rgb_utxos s)\<rparr>)"
    and colors: "P bd s \<Longrightarrow> P bd (s\<lparr>rgb_utxos := push_colored outpoint (rgb_utxos s)\<rparr>)"
    and files: "P bd s \<Longrightarrow> P bd (s\<lparr>blinded_utxos := blinded\<rparr>)" "P bd s \<Longrightarrow> P bd (s\<lparr>channel_peer_data := peers\<rparr>)"
      "P bd s \<Longrightarrow> P bd (s\<lparr>intermediate_db := db\<rparr>)"
      "P bd s \<Longrightarrow> P bd (s\<lparr>rgb_channel_files := chans\<rparr>)"
    and offers: "P bd s \<Longrightarrow> trade_ok bd st \<Longrightarrow> P bd (s\<lparr>maker_trades := (maker_trades s)(h \<mapsto> (cid, st))\<rparr>)"
    and whitelists: "P bd s \<Longrightarrow> trade_ok bd st \<Longrightarrow> length h = 32 \<Longrightarrow>
      P bd (s\<lparr>whitelisted_trades := (whitelisted_trades s)(h \<mapsto> (cid, st))\<rparr>)"
    and untrades: "P bd s \<Longrightarrow> P bd (s\<lparr>maker_trades := (maker_trades s)(h := None)\<rparr>)"
      "P bd s \<Longrightarrow> P bd (s\<lparr>whitelisted_trades := (whitelisted_trades s)(h := None)\<rparr>)"
    and inbound: "P bd s \<Longrightarrow> P bd (s\<lparr>inbound_payments := payments\<rparr>)"
    and starts: "P bd s \<Longrightarrow> pi_status p \<noteq> Succeeded \<Longrightarrow> P bd (s\<lparr>outbound_payments := (outbound_payments s)(h \<mapsto> p)\<rparr>)"
    and sent: "P bd s \<Longrightarrow> P bd (flow_state (payment_sent preimage h fee s))"
    and failed: "P bd s \<Longrightarrow> P bd (flow_state (payment_failed h s))"
begin

lemmas changes = emits takes creates colors files untrades inbound starts

lemma starts': "P bd u \<Longrightarrow> m = outbound_payments u \<Longrightarrow> pi_status p \<noteq> Succeeded \<Longrightarrow> P bd (u\<lparr>outbound_payments := m(h \<mapsto> p)\<rparr>)"
  using starts by simp

lemma colors': "P bd u \<Longrightarrow> l = rgb_utxos u \<Longrightarrow> P bd (u\<lparr>rgb_utxos := push_colored outpoint l\<rparr>)"
  using colors by simp

lemma untrades': "P bd u \<Longrightarrow> m = maker_trades u \<Longrightarrow> P bd (u\<lparr>maker_trades := m(h := None)\<rparr>)"
  "P bd u \<Longrightarrow> m = whitelisted_trades u \<Longrightarrow> P bd (u\<lparr>whitelisted_trades := m(h := None)\<rparr>)"
  using untrades by simp_all

lemma error_ends [ends_rules]: "P bd s \<Longrightarrow> ends (P bd) (error m s)"
  by (simp add: error_def ends_leaf emits)

lemma call_ends [ends_rules]: "P bd s \<Longrightarrow> (\<And>u. P bd u \<Longrightarrow> ends (P bd) (k u)) \<Longrightarrow> ends (P bd) (call e ok s k)"
  by (simp add: call_def ends_leaf emits)

lemma with_wallet_ends [ends_rules]: "P bd s \<Longrightarrow> (\<And>u. P bd u \<Longrightarrow> ends (P bd) (body u)) \<Longrightarrow> ends (P bd) (with_wallet s body)"
proof -
  assume P: "P bd s" and b: "\<And>u. P bd u \<Longrightarrow> ends (P bd) (body u)"
  from b [OF emits [OF P]] show ?thesis
    by (auto simp: with_wallet_def ends_def intro!: emits)
qed

lemma shared_ends [ends_rules]:
  "P bd s \<Longrightarrow> (\<And>u. P bd u \<Longrightarrow> ends (P bd) (k u)) \<Longrightarrow> ends (P bd) (sync_wallet w s k)"
  "P bd s \<Longrightarrow> (\<And>u. P bd u \<Longrightarrow> ends (P bd) (k u)) \<Longrightarrow> ends (P bd) (broadcast_tx w txid s k)"
  "P bd s \<Longrightarrow> (\<And>u. P bd u \<Longrightarrow> ends (P bd) (k u)) \<Longrightarrow> ends (P bd) (finish_tx w req s k)"
  "P bd s \<Longrightarrow> (\<And>x u. P bd u \<Longrightarrow> ends (P bd) (k' x u)) \<Longrightarrow> ends (P bd) (sign_tx w s k')"
  "P bd s \<Longrightarrow> (\<And>x u. P bd u \<Longrightarrow> ends (P bd) (k'' x u)) \<Longrightarrow> ends (P bd) (new_address w s k'')"
  "P bd s \<Longrightarrow> (\<And>x u. P bd u \<Longrightarrow> ends (P bd) (r x u)) \<Longrightarrow> ends (P bd) (asset_owned_values w c s r)"
  "P bd s \<Longrightarrow> (\<And>x u. P bd u \<Longrightarrow> ends (P bd) (r' x u)) \<Longrightarrow> ends (P bd) (rgb_total_amount w c s r')"
  "P bd s \<Longrightarrow> (\<And>u. P bd u \<Longrightarrow> ends (P bd) (k u)) \<Longrightarrow> ends (P bd) (check_rgb_funds w c amt s k)"
  "P bd s \<Longrightarrow> (\<And>x u. P bd u \<Longrightarrow> ends (P bd) (t x u)) \<Longrightarrow> ends (P bd) (take_utxo s t)"
  by (auto simp: shared_defs call_def Let_def error_def changes ends_leaf split: option.splits sum.splits
      intro!: ends_rules)

lemma onchain_ends:
  "P bd s \<Longrightarrow> ends (P bd) (mine_cmd w ws s)" "P bd s \<Longrightarrow> ends (P bd) (listunspent w s)" "P bd s \<Longrightarrow> ends (P bd) (getaddress w s)"
  "P bd s \<Longrightarrow> ends (P bd) (issueasset w ws s)" "P bd s \<Longrightarrow> ends (P bd) (assetbalance w ws s)" "P bd s \<Longrightarrow> ends (P bd) (receiveasset w s)"
  "P bd s \<Longrightarrow> ends (P bd) (refresh_file w bf s)"
  by (auto simp: onchain_defs Let_def intro!: ends_rules changes)

lemma add_recipients_ends:
  "P bd s \<Longrightarrow> (\<And>rs u. P bd u \<Longrightarrow> ends (P bd) (k rs u)) \<Longrightarrow> ends (P bd) (add_recipients w n rs s k)"
  by (induction n arbitrary: rs s) (auto intro!: ends_rules)

lemma createutxos_ends: "P bd s \<Longrightarrow> ends (P bd) (createutxos w s)"
  unfolding createutxos_def create_tx_def Let_def
  by (intro ends_rules add_recipients_ends changes; assumption)

lemma refresh_ends: "P bd s \<Longrightarrow> ends (P bd) (refresh_loop w bfs s)"
  by (induction bfs arbitrary: s) (auto intro!: ends_rules onchain_ends changes)

lemma complete_send_ends': "P bd s \<Longrightarrow> ends (P bd) (complete_send w c amt b seal inputs change s)"
  unfolding complete_send_def Let_def
  by (intro ends_rules changes; assumption)

lemma sendasset_ends: "P bd s \<Longrightarrow> ends (P bd) (sendasset w ws s)"
  unfolding sendasset_def send_owned_def Let_def
  by (intro ends_rules changes complete_send_ends'; assumption)

lemma funding_task_ends: "P bd s \<Longrightarrow> ends (P bd) (funding_task w tmp cp txid col s)"
  unfolding funding_task_def Let_def by (intro ends_rules changes; assumption)

lemma channel_ready_ends: "P bd s \<Longrightarrow> ends (P bd) (channel_ready w cid s)"
  unfolding channel_ready_def Let_def by (intro ends_rules changes; assumption)

lemma sweep_output_ends: "P bd s \<Longrightarrow> ends (P bd) (sweep_output w outp s)"
  unfolding sweep_output_def sweep_transfer_def sweep_build_def get_bdk_wallet_seckey_def sweep_record_def Let_def
  by (intro ends_rules changes; assumption)

lemma sweep_outputs_ends: "P bd s \<Longrightarrow> ends (P bd) (sweep_outputs w outs s)"
  by (induction outs arbitrary: s) (auto intro!: ends_rules sweep_output_ends)

lemma spendable_outputs_ends: "P bd s \<Longrightarrow> ends (P bd) (spendable_outputs w outs s)"
  unfolding spendable_outputs_def
  by (rule ends_flow [OF sweep_outputs_ends]) (auto intro!: ends_rules changes)

lemma fund_channel_ends: "P bd s \<Longrightarrow> ends (P bd) (fund_channel w tmp cp sats script rgb s)"
  by (cases rgb)
     (auto simp: fund_channel_def Let_def new_address_def finish_tx_def sign_tx_def ends_leaf call_def
       intro!: funding_task_ends changes colors' split: option.splits prod.splits expect_split)

lemma funding_ends: "P bd s \<Longrightarrow> ends (P bd) (funding_generation_ready w tmp cp sats script s)"
  unfolding funding_generation_ready_def
  by (intro ends_rules changes fund_channel_ends; assumption)

lemma maker_init_ends:
  "P bd s \<Longrightarrow> trade_ok bd st \<Longrightarrow> (\<And>h sec u. P bd u \<Longrightarrow> ends (P bd) (k h sec u)) \<Longrightarrow>
   ends (P bd) (maker_init w st timeout cid s k)"
proof -
  assume P: "P bd s" and st: "trade_ok bd st" and k: "\<And>h sec u. P bd u \<Longrightarrow> ends (P bd) (k h sec u)"
  have "P bd (emit e s\<lparr>maker_trades := (maker_trades s)(h \<mapsto> (cid, st))\<rparr>)" for e h
    using offers [OF emits [OF P] st, of e h cid] by simp
  then show ?thesis by (auto simp: maker_init_def Let_def intro!: ends_rules k)
qed

lemma make_offer_ends: "P bd s \<Longrightarrow> trade_ok bd st \<Longrightarrow> ends (P bd) (make_offer w amt cid st timeout price s)"
  unfolding make_offer_def Let_def by (intro ends_rules changes maker_init_ends; assumption)

lemma makerinit_ends: "P (w_build w) s \<Longrightarrow> ends (P (w_build w)) (makerinit w ws s)"
  unfolding makerinit_def Let_def
  by (intro ends_rules changes make_offer_ends; (assumption | erule (3) offer_type_ok))

lemma whitelist_trade_ends:
  "P (w_build w) s \<Longrightarrow> swap_from_str (w_build w) p str = Some (Inr ss) \<Longrightarrow>
   ends (P (w_build w)) (whitelist_trade w ss s)"
  unfolding whitelist_trade_def Let_def
  by (intro ends_rules changes whitelists; (assumption | erule swap_from_str_trade))

lemma taker_ends: "P (w_build w) s \<Longrightarrow> ends (P (w_build w)) (taker w ws s)"
  unfolding taker_def
  by (intro ends_rules changes; (assumption | erule whitelist_trade_ends, force))

lemma maker_execute_ends: "P bd s \<Longrightarrow> ends (P bd) (maker_execute w pk st cid h sec s)"
  by (auto simp: maker_execute_def get_route_def Let_def intro!: ends_rules emits starts'
      split: option.splits)

lemma makerexecute_ends: "P bd s \<Longrightarrow> ends (P bd) (makerexecute w ws s)"
  unfolding makerexecute_def Let_def
  by (intro ends_rules changes maker_execute_ends; assumption)

lemma connect_keeps: "P bd s \<Longrightarrow> P bd (snd (connect_peer_if_necessary env pk addr s))" 
  "P bd s \<Longrightarrow> P bd (snd (do_connect_peer env pk addr s))" "P bd s \<Longrightarrow> P bd (snd (do_disconnect_peer env pk s))"
  by (auto simp: connect_peer_if_necessary_def do_connect_peer_def do_disconnect_peer_def Let_def
      intro!: changes split: option.splits bool.splits)

lemma open_with_ends: "P bd s \<Longrightarrow> ends (P bd) (open_with w str pk addr sat push ann info s)"
proof -
  assume P: "P bd s"
  obtain r u where c: "connect_peer_if_necessary (w_ldk w) pk addr s = (r, u)" by force
  with connect_keeps(1) [OF P, of "w_ldk w" pk addr] have u: "P bd u" by simp
  show ?thesis
    unfolding open_with_def c open_channel_def Let_def
    by (auto intro!: ends_rules changes u split: option.splits bool.splits)
qed

lemma openchannel_ends: "P bd s \<Longrightarrow> ends (P bd) (openchannel w col ws s)"
  unfolding openchannel_def Let_def
  by (intro ends_rules changes open_with_ends; assumption)

lemma closing_ends: "P bd s \<Longrightarrow> ends (P bd) (closechannel w ws s)" "P bd s \<Longrightarrow> ends (P bd) (forceclosechannel w ws s)"
  unfolding closechannel_def forceclosechannel_def channel_and_peer_def close_channel_def force_close_channel_def Let_def
  by (intro ends_rules changes; assumption)+

lemma peers_ends: "P bd s \<Longrightarrow> ends (P bd) (connectpeer w ws s)" "P bd s \<Longrightarrow> ends (P bd) (disconnectpeer w ws s)"
proof -
  assume P: "P bd s"
  show "ends (P bd) (connectpeer w ws s)"
    using connect_keeps(1) [OF P]
    by (auto simp: connectpeer_def intro!: ends_rules changes P split: option.splits) (metis snd_conv)+
  show "ends (P bd) (disconnectpeer w ws s)"
    using connect_keeps(3) [OF P]
    by (auto simp: disconnectpeer_def intro!: ends_rules changes P) (metis snd_conv)+
qed

lemma messages_ends: "P bd s \<Longrightarrow> ends (P bd) (sendonionmessage w ws s)" "P bd s \<Longrightarrow> ends (P bd) (signmessage line s)"
    "P bd s \<Longrightarrow> ends (P bd) (node_info w s)"
  unfolding sendonionmessage_def signmessage_def node_info_def Let_def
  by (intro ends_rules changes; assumption)+

lemma payments_ends:
  "P bd s \<Longrightarrow> ends (P bd) (send_payment env i s)" "P bd s \<Longrightarrow> ends (P bd) (keysend env sha pre pk amt rgb s)"
  "P bd s \<Longrightarrow> ends (P bd) (get_invoice env amt ex c r s)" "P bd s \<Longrightarrow> ends (P bd) (invoice_status i s)"
  "P bd s \<Longrightarrow> ends (P bd) (payment_claimable h pur amt s)" "P bd s \<Longrightarrow> ends (P bd) (payment_claimed h pur amt s)"
  by (auto simp: send_payment_def keysend_def get_invoice_def invoice_status_def payment_claimable_def
      payment_claimed_def Let_def intro!: ends_rules emits inbound untrades' starts' split: option.splits)

lemma invoices_ends:
  "P bd s \<Longrightarrow> ends (P bd) (sendpayment w ws s)" "P bd s \<Longrightarrow> ends (P bd) (keysend_cmd w col ws s)"
  "P bd s \<Longrightarrow> ends (P bd) (getinvoice w col ws s)" "P bd s \<Longrightarrow> ends (P bd) (invoicestatus w ws s)"
  by (auto simp: invoices_defs Let_def intro!: ends_rules payments_ends)

lemma intercept_ends: "P bd s \<Longrightarrow> ends (P bd) (htlc_intercepted env ih s)"
  by (auto simp: htlc_intercepted_def htlc_intercepted_swap_def fail_intercepted_def Let_def
      intro!: ends_rules emits files untrades' split: option.splits bool.splits)

lemma reconnect_channels_ends: "P bd s \<Longrightarrow> ends (P bd) (reconnect_channels env stop info ids s)"
proof (induction ids arbitrary: s)
  case (Cons i ids)
  have "P bd (snd (do_connect_peer env i a s))" for a using connect_keeps(2) [OF Cons.prems] .
  then show ?case
    by (auto intro!: ends_rules Cons split: option.splits) (metis snd_conv)
qed (simp add: ends_leaf)

lemma reconnect_tick_ends: "P bd s \<Longrightarrow> ends (P bd) (reconnect_tick env stop parse s)"
  by (auto simp: reconnect_tick_def Let_def intro!: ends_rules changes reconnect_channels_ends)

lemma print_lines_keeps: "P bd s \<Longrightarrow> P bd (print_lines ls s)"
  by (induction ls arbitrary: s) (auto intro: emits)

lemma listings_ends: "P bd s \<Longrightarrow> ends (P bd) (tradeslist w ws s)" "P bd s \<Longrightarrow> ends (P bd) (list_payments w s)"
    "P bd s \<Longrightarrow> ends (P bd) (list_peers w s)" "P bd s \<Longrightarrow> ends (P bd) (list_channels_cmd w s)"
    "P bd s \<Longrightarrow> ends (P bd) (payment_forwarded w prev nxt fee onchain amt s)"
    "P bd s \<Longrightarrow> ends (P bd) (pending_htlcs_forwardable w millis s)"
  unfolding listing_defs Let_def by (intro ends_rules emits print_lines_keeps; assumption)+

lemma texts_ends: "P bd s \<Longrightarrow> ends (P bd) (help_cmd s)" "P bd s \<Longrightarrow> ends (P bd) (channel_pending cid pk s)"
    "P bd s \<Longrightarrow> ends (P bd) (channel_closed cid reason s)"
  unfolding text_defs by (intro ends_rules print_lines_keeps; assumption)+

lemma run_command_ends: "P (w_build w) s \<Longrightarrow> ends (P (w_build w)) (run_command w line s)"
  unfolding run_command_def refresh_def
  by (cases "split_whitespace line"; simp only: list.case;
      intro ends_rules changes onchain_ends createutxos_ends refresh_ends sendasset_ends makerinit_ends taker_ends
        makerexecute_ends openchannel_ends closing_ends peers_ends messages_ends invoices_ends listings_ends texts_ends;
      assumption)

lemma poll_ends: "P (w_build w) s \<Longrightarrow> ends (P (w_build w)) (poll_for_user_input w ls s)"
proof (induction w ls s rule: poll_for_user_input.induct)
  case (2 w rest s)
  then show ?case by (simp add: ends_leaf emits)
next
  case (3 w line rest s)
  have "ends (P (w_build w)) (run_command w line s)" by (rule run_command_ends [OF "3.prems"])
  with "3.IH" "3.prems" show ?case
    by (cases "run_command w line s") (auto intro: ends_leaf dest: ends_Continue ends_Break)
qed (simp add: ends_leaf)

lemma cli_ends: "P (w_build w) s \<Longrightarrow> ends (P (w_build w)) (start_cli w ls s)"
  unfolding start_cli_def by (intro poll_ends print_lines_keeps)

lemma ends_flow_state: "P bd (flow_state f) \<Longrightarrow> ends (P bd) f"
  by (cases f) (simp_all add: ends_def)

lemma handler_ends: "P bd s \<Longrightarrow> ends (P bd) (handle_ldk_events w e s)"
  by (cases e)
     (simp_all add: handle_ldk_events_def ends_leaf emits funding_ends payments_ends
       ends_flow_state [OF sent] ends_flow_state [OF failed] spendable_outputs_ends channel_ready_ends intercept_ends listings_ends texts_ends)

lemma step_keeps: "node_step w s t \<Longrightarrow> P (w_build w) s \<Longrightarrow> P (w_build w) t"
proof (induction rule: node_step.induct)
  case (command line s t)
  then show ?case using run_command_ends [of w s line] by (auto simp only: ends_def)
next
  case (event e s t)
  then show ?case using handler_ends [of "w_build w" s w e] by (auto simp only: ends_def)
next
  case (reconnect stop parse s t)
  then show ?case using reconnect_tick_ends [of "w_build w" s "w_ldk w" stop parse] by (auto simp only: ends_def)
qed

lemma reachable_keeps: "node_reaches w s t \<Longrightarrow> P (w_build w) s \<Longrightarrow> P (w_build w) t"
  by (induction rule: node_reaches.induct) (auto intro: step_keeps)

end

subsection \<open>The invariants\<close>

interpretation success: node_invariant "\<lambda>_. success_has_preimage"
  by unfold_locales
     (auto simp: success_has_preimage_def payment_sent_def payment_failed_def Let_def split: option.splits if_splits)

text \<open>How the file of RGB outputs develops: entries are appended, and what is coloured stays coloured.\<close>

definition utxos_grow :: "rgb_utxo list \<Rightarrow> rgb_utxo list \<Rightarrow> bool" where
  "utxos_grow us vs \<longleftrightarrow>
     take (length us) (map utxo_outpoint vs) = map utxo_outpoint us \<and> colored us \<subseteq> colored vs"

lemma mark_colored_grow:
  "mark_colored o' us = Some vs \<Longrightarrow> map utxo_outpoint vs = map utxo_outpoint us \<and> colored us \<subseteq> colored vs"
  by (induction us arbitrary: vs) (auto simp: colored_Cons split: if_splits)

lemma take_uncolored_grow:
  assumes "take_uncolored us = Some (Inr (o', vs))"
  shows "map utxo_outpoint vs = map utxo_outpoint us \<and> colored us \<subseteq> colored vs"
  using assms mark_colored_grow
  by (fastforce simp: take_uncolored_def split: sum.splits option.splits)

lemma utxos_grow_append:
  assumes "utxos_grow us vs"
  shows "utxos_grow us (vs @ ws)"
proof -
  have "length us \<le> length vs" using arg_cong [OF assms [unfolded utxos_grow_def, THEN conjunct1], of length] by simp
  with assms show ?thesis by (auto simp: utxos_grow_def colored_append)
qed

interpretation growth: node_invariant "\<lambda>_ t. utxos_grow us (rgb_utxos t)" for us
proof (unfold_locales, goal_cases)
  case (2 s o' utxos)
  then show ?case using take_uncolored_grow [OF 2(2)] by (auto simp: utxos_grow_def)
qed (simp_all add: push_created_def push_colored_def utxos_grow_append payment_sent_def payment_failed_def Let_def
      split: option.splits)

interpretation known: node_invariant "\<lambda>_ t. hs \<subseteq> dom (outbound_payments t)" for hs
  by unfold_locales (auto simp: payment_sent_def payment_failed_def Let_def split: option.splits)

text \<open>What the two maps of trades hold, in the arithmetic of the build.\<close>

definition trades_ok :: "build \<Rightarrow> node \<Rightarrow> bool" where
  "trades_ok b t \<longleftrightarrow>
     (\<forall>h c st. whitelisted_trades t h = Some (c, st) \<longrightarrow> trade_ok b st \<and> length h = 32) \<and>
     (\<forall>h c st. maker_trades t h = Some (c, st) \<longrightarrow> trade_ok b st)"

interpretation swaps: node_invariant trades_ok
  by unfold_locales (auto simp: trades_ok_def payment_sent_def payment_failed_def Let_def split: option.splits)

subsection \<open>Properties\<close>

text \<open>
  C13. The trades a node holds are well formed in every state it can reach: a trade it accepted is stored under
  a 32-byte payment hash, every trade is over a non-zero amount of the asset, its total in millisatoshi is
  the amount times a non-zero price per unit, and in the dev profile this product is exact, so that the total is
  no smaller than the amount.
\<close>

theorem held_trades_well_formed:
  assumes "node_reaches w s t" and "whitelisted_trades s = Map.empty" and "maker_trades s = Map.empty"
    and "whitelisted_trades t h = Some (c, st) \<or> maker_trades t h = Some (c, st)"
  shows "amount_rgb st \<noteq> 0 \<and> (\<exists>price. price \<noteq> 0 \<and> amount_msats st = amount_rgb st * price) \<and>
    (whitelisted_trades t h = Some (c, st) \<longrightarrow> length h = 32) \<and>
    (w_build w = Debug \<longrightarrow>
       (\<exists>price > 0. unat (amount_msats st) = unat (amount_rgb st) * price) \<and> amount_rgb st \<le> amount_msats st)"
proof -
  have "trades_ok (w_build w) s" using assms(2,3) by (simp add: trades_ok_def)
  with swaps.reachable_keeps [OF assms(1)] have t: "trades_ok (w_build w) t" by blast
  with assms(4) have ok: "trade_ok (w_build w) st" by (auto simp: trades_ok_def)
  then have "amount_rgb st \<noteq> 0 \<and> (\<exists>price. price \<noteq> 0 \<and> amount_msats st = amount_rgb st * price)"
    by (auto simp: trade_ok_def mul_w_def split: if_splits)
  moreover have "(\<exists>price > 0. unat (amount_msats st) = unat (amount_rgb st) * price) \<and> amount_rgb st \<le> amount_msats st"
    if "w_build w = Debug"
    using trade_ok_Debug [OF ok [unfolded that]] by (simp add: word_le_nat_alt)
  ultimately show ?thesis using t by (auto simp: trades_ok_def)
qed

text \<open>
  C10. In every state the node can reach from empty storages, by any commands, events and background
  ticks, an outgoing payment marked as succeeded is stored with its preimage, the proof of payment.
\<close>

theorem succeeded_payments_have_preimage:
  assumes "node_reaches w s t" and "outbound_payments s = Map.empty"
    and "outbound_payments t h = Some p" and "pi_status p = Succeeded"
  shows "pi_preimage p \<noteq> None"
  using success.reachable_keeps [OF assms(1)] assms(2-) by (auto simp: success_has_preimage_def)


text \<open>
  No outgoing payment is ever forgotten: a payment hash in the storage stays there.
\<close>

theorem payments_not_forgotten:
  assumes "node_reaches w s t" and "h \<in> dom (outbound_payments s)"
  shows "h \<in> dom (outbound_payments t)"
  using known.reachable_keeps [OF assms(1), of "dom (outbound_payments s)"] assms(2) by auto

definition paying_world :: world where
  "paying_world = sample_world\<lparr>invoice_from_str := \<lambda>_. Some sample_invoice\<rparr>"

definition pay_line :: string where
  "pay_line = ''sendpayment'' @ CHR '' '' # ''lnbc'' @ newline # []"

definition receive_line :: string where
  "receive_line = ''receiveasset'' @ newline # []"

definition pending_node :: node where
  "pending_node = flow_state (run_command paying_world pay_line node_with_utxo)"

definition paid_node :: node where
  "paid_node = flow_state (handle_ldk_events paying_world (PaymentSent [4] [5] None) pending_node)"

definition colored_node :: node where
  "colored_node = flow_state (run_command paying_world receive_line paid_node)"

lemma run_words:
  "split_whitespace pay_line = [''sendpayment'', ''lnbc'']" "split_whitespace receive_line = [''receiveasset'']"
proof -
  have ws: "is_ws (CHR '' '')" "is_ws newline" by (simp_all add: is_ws_def newline_def)
  have "split_whitespace (''lnbc'' @ newline # []) = ''lnbc'' # split_whitespace []"
    by (rule split_whitespace_word) (simp_all add: ws, simp add: is_ws_def)
  moreover have "split_whitespace pay_line = ''sendpayment'' # split_whitespace (''lnbc'' @ newline # [])"
    unfolding pay_line_def by (rule split_whitespace_word) (simp_all add: ws, simp add: is_ws_def)
  ultimately show "split_whitespace pay_line = [''sendpayment'', ''lnbc'']" by (simp add: split_whitespace_Nil)
  have "split_whitespace receive_line = ''receiveasset'' # split_whitespace []"
    unfolding receive_line_def by (rule split_whitespace_word) (simp_all add: ws, simp add: is_ws_def)
  then show "split_whitespace receive_line = [''receiveasset'']" by (simp add: split_whitespace_Nil)
qed

lemma pending_node:
  "run_command paying_world pay_line node_with_utxo = Continue pending_node"
  "outbound_payments pending_node = [[5] \<mapsto> \<lparr>pi_preimage = None, pi_secret = Some [6], pi_status = Pending,
     pi_amt_msat = Some 3000000\<rparr>]"
  "rgb_utxos pending_node = [\<lparr>utxo_outpoint = OutPoint [1] 0, utxo_colored = False\<rparr>]"
  by (simp_all add: pending_node_def run_command_def run_words sendpayment_def need_def paying_world_def
      sample_world_def sample_ldk_def sample_invoice_def INVOICE_MIN_MSAT_def HTLC_MIN_MSAT_def send_payment_def
      Let_def node_with_utxo_def sample_node_def)

lemma paid_node:
  "handle_ldk_events paying_world (PaymentSent [4] [5] None) pending_node = Continue paid_node"
  "outbound_payments paid_node [5] = Some \<lparr>pi_preimage = Some [4], pi_secret = Some [6], pi_status = Succeeded,
     pi_amt_msat = Some 3000000\<rparr>"
  "rgb_utxos paid_node = [\<lparr>utxo_outpoint = OutPoint [1] 0, utxo_colored = False\<rparr>]"
  by (simp_all add: paid_node_def handle_ldk_events_def payment_sent_def pending_node Let_def)

lemma colored_node:
  "run_command paying_world receive_line paid_node = Continue colored_node"
  by (simp add: colored_node_def run_command_def run_words receiveasset_def take_utxo_def take_uncolored_def
      check_uncolored_utxos_def get_utxo_def paid_node call_def paying_world_def sample_world_def Let_def)

lemma paid_reachable:
  "node_reaches paying_world node_with_utxo paid_node"
  by (rule node_reaches.step [OF node_reaches.step [OF node_reaches.refl node_step.command [OF pending_node(1)]]
        node_step.event [OF paid_node(1)]])

definition offer_line :: string where
  "offer_line = ''makerinit 10 2a buy 3600 200'' @ [newline]"

lemma offer_words: "split_whitespace offer_line = ''makerinit'' # swap_words"
  by (simp add: offer_line_def swap_words_def next_words is_ws_iff newline_def hex_str_def hex_byte_def hex_char_def
      char_of_def bit_Suc_0_iff)

lemma offer_made:
  "\<exists>t. run_command swap_world offer_line sample_node = Continue t \<and>
     maker_trades t (replicate 32 7) = Some ([42], BuyAsset 10 2000)"
  by (simp add: run_command_def offer_words makerinit_def swap_words_def need_def Let_def hex.dec_enc nonzero_def
      parse_word_def digit_val_def offer_type_def mul_w_def expect_def make_offer_def check_rgb_funds_def
      rgb_total_amount_def sync_wallet_def call_def swap_world_total maker_init_def add_w_def sample_node_def)

theorem held_trades_well_formed_witness:
  "\<exists>t. node_reaches swap_world sample_node t \<and>
     (\<exists>price > 0. unat (amount_msats (BuyAsset 10 2000)) = unat (amount_rgb (BuyAsset 10 2000)) * price)"
proof -
  obtain t where t: "run_command swap_world offer_line sample_node = Continue t"
      "maker_trades t (replicate 32 7) = Some ([42], BuyAsset 10 2000)" using offer_made by blast
  have r: "node_reaches swap_world sample_node t"
    by (rule node_reaches.step [OF node_reaches.refl node_step.command [OF t(1)]])
  have "whitelisted_trades sample_node = Map.empty" "maker_trades sample_node = Map.empty"
    by (simp_all add: sample_node_def)
  from held_trades_well_formed [OF r this disjI2 [OF t(2)]] r show ?thesis by auto
qed

theorem succeeded_payments_have_preimage_witness:
  "pi_preimage \<lparr>pi_preimage = Some [4 :: u8], pi_secret = Some [6], pi_status = Succeeded,
     pi_amt_msat = Some 3000000\<rparr> \<noteq> None"
proof -
  have "outbound_payments node_with_utxo = Map.empty" by (simp add: node_with_utxo_def sample_node_def)
  from succeeded_payments_have_preimage [OF paid_reachable this paid_node(2)] show ?thesis by simp
qed


theorem payments_not_forgotten_witness: "[5] \<in> dom (outbound_payments colored_node)"
  by (rule payments_not_forgotten [OF node_reaches.step [OF node_reaches.refl node_step.command [OF colored_node]]])
     (simp add: paid_node dom_def)

end
