(* ===== verification/Startup.thy ===== *)
theory Startup
  imports Bitcoind Invariants
begin

text \<open>
  The life of the process: \<open>start_ldk\<close> (\<open>src/main.rs\<close>) from the arguments to the running node, the files
  of the data directory it reads and initialises, the wallet descriptors (\<open>src/bdk_utils.rs\<close>) and the
  readers of the library's files (\<open>src/disk.rs\<close>). A library object is the bytes it is read from; what a
  library makes of them is a parameter of \<open>host\<close>, and so is which directories and files can be made and written.
\<close>

subsection \<open>The data directory and the outside\<close>

datatype stash_item = Iface | Schema | IfaceImpl

datatype rgb_chain = ChainTestnet3 | ChainRegtest

record disk =
  d_keys_seed :: "bytes option"
  d_manager :: "bytes option"
  d_monitors :: "(bytes \<times> outpoint) list"
  d_network_graph :: "bytes option"
  d_scorer :: "bytes option"
  d_electrum_url :: "string option"
  d_rgb_network :: "string option"
  d_stash :: "stash_item list"
  d_rgb_utxos :: "rgb_utxo list option"
  d_rgb_channel_files :: "channel_id \<rightharpoonup> rgb_info"
  d_channel_peer_data :: "string option"
  d_blinded_utxos :: "string \<rightharpoonup> blinded_info"
  d_intermediate_db :: "bytes option"

record host =
  h_env :: process_env
  h_world :: world
  h_now :: u64
  dir_creatable :: "string \<Rightarrow> bool"
  file_writable :: "string \<Rightarrow> bool"
  \<comment> \<open>the RPC library, the first two calls of \<open>getblockchaininfo\<close>\<close>
  base64_encode :: "string \<Rightarrow> string"
  rpc_client_ok :: "rpc_client \<Rightarrow> bool"
  blockchain_info_call :: "nat \<Rightarrow> rpc_client \<Rightarrow> rpc_call \<Rightarrow> json rpc_result"
  block_hash_from_hex :: "string \<Rightarrow> bytes option"
  show_chain :: "rgb_chain \<Rightarrow> string"
  stash_import_ok :: "stash_item \<Rightarrow> bool"
  random_byte :: "nat \<Rightarrow> u8"
  \<comment> \<open>the HTTP client with its timeout in seconds\<close>
  rest_client_builds :: "u64 \<Rightarrow> bool"
  \<comment> \<open>whether the files of the seed and of the channel manager, when they are there, can be read\<close>
  seed_readable :: bool
  manager_opens :: bool
  seed_file_creatable :: bool
  \<comment> \<open>how many bytes of the seed are in the file when its writing fails, if it does\<close>
  seed_write_fails :: "nat option"
  ldk_seed_of :: "bytes \<Rightarrow> bytes option"
  master_key_of :: "bytes \<Rightarrow> string"
  wallet_opens :: "string \<Rightarrow> string \<Rightarrow> network \<Rightarrow> bool"
  first_sync_ok :: "string \<Rightarrow> bool"
  monitors_read_ok :: bool
  polled_tip :: "bytes option"
  graph_reads :: "bytes \<Rightarrow> bool"
  new_graph :: "network \<Rightarrow> bytes"
  scorer_reads :: "bytes \<Rightarrow> bytes \<Rightarrow> bool"
  new_scorer :: "bytes \<Rightarrow> bytes"
  read_manager :: "bytes \<Rightarrow> outpoint list \<Rightarrow> bytes option"
  synchronize :: "bytes list \<Rightarrow> bytes option"
  watch_completes :: "outpoint \<Rightarrow> bool"

datatype boot_msg = BArgs | BNoBitcoind | BChainMismatch | BUnsupportedNetwork | BNoSeedFile

datatype boot_end = Exits boot_msg | Crashes

record booted =
  b_user :: ldk_user_info
  b_bitcoind :: bitcoind_client
  b_ldk_seed :: bytes
  b_descriptors :: "string \<times> string"
  b_network_graph :: bytes
  b_scorer :: bytes
  b_chain_tip :: bytes
  b_listeners :: "bytes list"
  b_watched :: "outpoint list"
  b_proxy :: "string \<times> string"
  b_announcement :: "(bytes \<times> net_address list) option"
  b_node :: node

subsection \<open>bitcoind and the network\<close>

fun chain_of :: "network \<Rightarrow> string" where
  "chain_of Bitcoin = ''main''"
| "chain_of Testnet = ''test''"
| "chain_of Regtest = ''regtest''"
| "chain_of Signet = ''signet''"

text \<open>
  \<open>BitcoindClient::new\<close> asks once and reports a failed call; \<open>get_blockchain_info\<close> asks again and panics on
  one. Converting an answer without the expected fields panics in both.
\<close>

definition bitcoind_client_new :: "host \<Rightarrow> ldk_user_info \<Rightarrow> boot_end + bitcoind_client" where
  "bitcoind_client_new h args =
     (case client_new (base64_encode h) (rpc_client_ok h) (block_hash_from_hex h) (blockchain_info_call h 0)
             (bitcoind_rpc_host args) (bitcoind_rpc_port args) (bitcoind_rpc_username args) (bitcoind_rpc_password args) of
        Value client \<Rightarrow> Inr client
      | Failure e \<Rightarrow> Inl (Exits BNoBitcoind)
      | Panic \<Rightarrow> Inl Crashes)"

definition get_blockchain_info :: "host \<Rightarrow> bitcoind_client \<Rightarrow> boot_end + blockchain_info" where
  "get_blockchain_info h c =
     (case blockchain_info_call h 1 (bitcoind_rpc_client c) (RpcCall ''getblockchaininfo'' []) of
        RpcErr _ \<Rightarrow> Inl Crashes
      | RpcOk j \<Rightarrow>
          (case blockchain_info_of (block_hash_from_hex h) j of None \<Rightarrow> Inl Crashes | Some info \<Rightarrow> Inr info))"

definition connect_bitcoind :: "host \<Rightarrow> ldk_user_info \<Rightarrow> boot_end + bitcoind_client \<times> string" where
  "connect_bitcoind h args =
     (case bitcoind_client_new h args of
        Inl e \<Rightarrow> Inl e
      | Inr client \<Rightarrow> map_sum id (\<lambda>info. (client, chain_name info)) (get_blockchain_info h client))"

lemmas bitcoind_defs = connect_bitcoind_def bitcoind_client_new_def get_blockchain_info_def

definition check_chain :: "host \<Rightarrow> ldk_user_info \<Rightarrow> boot_end + bitcoind_client" where
  "check_chain h args =
     (case connect_bitcoind h args of
        Inl e \<Rightarrow> Inl e
      | Inr (client, bitcoind_chain) \<Rightarrow>
          if bitcoind_chain \<noteq> chain_of (user_network args) then Inl (Exits BChainMismatch) else Inr client)"

text \<open>The electrum server, the proxy's URL and endpoint, and the RGB chain of a supported network.\<close>

definition ELECTRUM_URL_REGTEST :: string where
  "ELECTRUM_URL_REGTEST = ''127.0.0.1:50001''"
definition ELECTRUM_URL_TESTNET :: string where
  "ELECTRUM_URL_TESTNET = ''ssl://electrum.iriswallet.com:50013''"
definition PROXY_ENDPOINT_REGTEST :: string where
  "PROXY_ENDPOINT_REGTEST = ''rpc://127.0.0.1:3000/json-rpc''"
definition PROXY_URL_REGTEST :: string where
  "PROXY_URL_REGTEST = ''http://127.0.0.1:3000/json-rpc''"
definition PROXY_ENDPOINT_TESTNET :: string where
  "PROXY_ENDPOINT_TESTNET = ''rpcs://proxy.iriswallet.com/json-rpc''"
definition PROXY_URL_TESTNET :: string where
  "PROXY_URL_TESTNET = ''https://proxy.iriswallet.com/json-rpc''"
definition PROXY_TIMEOUT :: u8 where
  "PROXY_TIMEOUT = 90"

fun endpoints :: "network \<Rightarrow> (string \<times> string \<times> string \<times> rgb_chain) option" where
  "endpoints Testnet = Some (ELECTRUM_URL_TESTNET, PROXY_URL_TESTNET, PROXY_ENDPOINT_TESTNET, ChainTestnet3)"
| "endpoints Regtest = Some (ELECTRUM_URL_REGTEST, PROXY_URL_REGTEST, PROXY_ENDPOINT_REGTEST, ChainRegtest)"
| "endpoints _ = None"

subsection \<open>The data directory, the RGB stash, the keys and the wallet\<close>

definition data_dir :: "ldk_user_info \<Rightarrow> string" where
  "data_dir args = ldk_storage_dir_path args @ ''/.ldk''"

text \<open>The directories; the result is the logger's.\<close>

definition setup_dirs :: "host \<Rightarrow> string \<Rightarrow> string option" where
  "setup_dirs h dir =
     (if dir_creatable h dir \<and> dir_creatable h (path_join dir ''blinded_utxos'') then logger_new (dir_creatable h) dir
      else None)"

text \<open>The two text files; the result is whether both could be written.\<close>

definition write_setup :: "host \<Rightarrow> string \<Rightarrow> string \<Rightarrow> rgb_chain \<Rightarrow> disk \<Rightarrow> disk \<times> bool" where
  "write_setup h dir electrum_url rgb_network d =
     (if \<not> file_writable h (dir @ ''/electrum_url'') then (d, False)
      else
        (let d = d\<lparr>d_electrum_url := Some electrum_url\<rparr> in
         if \<not> file_writable h (dir @ ''/rgb_network'') then (d, False)
         else (d\<lparr>d_rgb_network := Some (show_chain h rgb_network)\<rparr>, True)))"

text \<open>\<open>schema_ids().is_empty()\<close>: then the interface, the schema and its implementation are imported.\<close>

definition import_schemas :: "host \<Rightarrow> stash_item list \<Rightarrow> stash_item list option" where
  "import_schemas h stash =
     (if Schema \<in> set stash then Some stash
      else if stash_import_ok h Iface \<and> stash_import_ok h Schema \<and> stash_import_ok h IfaceImpl
      then Some (stash @ [Iface, Schema, IfaceImpl]) else None)"

text \<open>
  \<open>if let Ok(seed) = fs::read(..)\<close>: whatever keeps the file from being read counts as its absence, and a new seed is
  written over it.
\<close>

definition seed_file :: "host \<Rightarrow> disk \<Rightarrow> bytes option" where
  "seed_file h d = (if seed_readable h then d_keys_seed d else None)"

definition load_seed :: "host \<Rightarrow> disk \<Rightarrow> disk \<times> (boot_end + bytes)" where
  "load_seed h d =
     (case seed_file h d of
        Some seed \<Rightarrow> (d, if length seed = 32 then Inr seed else Inl Crashes)
      | None \<Rightarrow>
          (let key = map (random_byte h) [0..<32] in
           if \<not> seed_file_creatable h then (d, Inl (Exits BNoSeedFile))
           else case seed_write_fails h of
             None \<Rightarrow> (d\<lparr>d_keys_seed := Some key\<rparr>, Inr key)
           | Some n \<Rightarrow> (d\<lparr>d_keys_seed := Some (take n key)\<rparr>, Inl Crashes)))"

text \<open>\<open>PeerManager::new\<close> takes the time in seconds as a \<open>u32\<close>; the conversion is unwrapped.\<close>

definition peer_manager_time :: "u64 \<Rightarrow> u32 option" where
  "peer_manager_time current_time = (if unat current_time < 2 ^ 32 then Some (ucast current_time) else None)"

definition calculate_descriptor_from_xprv :: "string \<Rightarrow> network \<Rightarrow> bool \<Rightarrow> string" where
  "calculate_descriptor_from_xprv xprv net change =
     (let change_num = show_nat (if change then 1 else 0);
          coin_type = show_nat (if net \<noteq> Bitcoin then 1 else 0);
          hardened = [CHR 0x27];
          derivation_path = ''/84'' @ hardened @ ''/'' @ coin_type @ hardened @ ''/'' @ show_nat 0 @ hardened @
            ''/'' @ change_num @ ''/*''
      in ''wpkh('' @ xprv @ derivation_path @ '')'')"

definition get_bdk_wallet :: "host \<Rightarrow> string \<Rightarrow> network \<Rightarrow> (string \<times> string) option" where
  "get_bdk_wallet h xprv net =
     (let descriptor = calculate_descriptor_from_xprv xprv net False;
          change_descriptor = calculate_descriptor_from_xprv xprv net True
      in if wallet_opens h descriptor change_descriptor net then Some (descriptor, change_descriptor) else None)"

subsection \<open>The files of the library\<close>

text \<open>A file that is missing or cannot be read gives a new object.\<close>

definition read_network :: "host \<Rightarrow> disk \<Rightarrow> network \<Rightarrow> bytes" where
  "read_network h d net =
     (case d_network_graph d of
        Some file \<Rightarrow> if graph_reads h file then file else new_graph h net
      | None \<Rightarrow> new_graph h net)"

definition read_scorer :: "host \<Rightarrow> disk \<Rightarrow> bytes \<Rightarrow> bytes" where
  "read_scorer h d graph =
     (case d_scorer d of
        Some file \<Rightarrow> if scorer_reads h graph file then file else new_scorer h graph
      | None \<Rightarrow> new_scorer h graph)"

text \<open>
  The channel manager is restored when its file can be opened, else, whatever the reason, new; the result is whether the node
  restarts and the block it stands at.
\<close>

definition manager_file :: "host \<Rightarrow> disk \<Rightarrow> bytes option" where
  "manager_file h d = (if manager_opens h then d_manager d else None)"

definition load_manager :: "host \<Rightarrow> disk \<Rightarrow> bytes \<Rightarrow> (bool \<times> bytes) option" where
  "load_manager h d tip =
     (case manager_file h d of
        Some file \<Rightarrow> map_option (Pair True) (read_manager h file (map snd (d_monitors d)))
      | None \<Rightarrow> Some (False, tip))"

text \<open>
  The listeners synchronised to the tip, and the monitors given to the chain monitor: none of them unless
  the node restarts.
\<close>

definition sync_chain :: "host \<Rightarrow> disk \<Rightarrow> bool \<Rightarrow> bytes \<Rightarrow> bytes \<Rightarrow> (bytes \<times> bytes list \<times> outpoint list) option" where
  "sync_chain h d restarting_node manager_blockhash tip =
     (if restarting_node
      then
        (let listeners = manager_blockhash # map fst (d_monitors d);
             watched = map snd (d_monitors d)
         in case synchronize h listeners of
              None \<Rightarrow> None
            | Some chain_tip \<Rightarrow>
                if list_all (watch_completes h) watched then Some (chain_tip, listeners, watched) else None)
      else Some (tip, [], []))"

subsection \<open>Starting\<close>

text \<open>The state of the commands and events at the start: the files as they are, the maps in memory empty.\<close>

definition node_of_disk :: "disk \<Rightarrow> node" where
  "node_of_disk d =
     \<lparr>inbound_payments = Map.empty, outbound_payments = Map.empty, whitelisted_trades = Map.empty,
      maker_trades = Map.empty, rgb_channel_files = d_rgb_channel_files d,
      rgb_utxos = (case d_rgb_utxos d of Some us \<Rightarrow> us | None \<Rightarrow> []),
      channel_peer_data = d_channel_peer_data d, blinded_utxos = d_blinded_utxos d,
      intermediate_db = d_intermediate_db d, trace = []\<rparr>"

text \<open>From the seed to the running node (steps 6 to 18).\<close>

definition start_node ::
  "host \<Rightarrow> ldk_user_info \<Rightarrow> bitcoind_client \<Rightarrow> string \<Rightarrow> string \<times> string \<Rightarrow> disk \<Rightarrow> bytes \<Rightarrow>
   disk \<times> (boot_end + booted)" where
  "start_node h args client electrum_url proxy d seed =
     (case ldk_seed_of h seed of
        None \<Rightarrow> (d, Inl Crashes)
      | Some ldk_seed \<Rightarrow>
          (case get_bdk_wallet h (master_key_of h ldk_seed) (user_network args) of
             None \<Rightarrow> (d, Inl Crashes)
           | Some descriptors \<Rightarrow>
               if \<not> first_sync_ok h electrum_url \<or> \<not> monitors_read_ok h then (d, Inl Crashes)
               else
                 (case polled_tip h of
                    None \<Rightarrow> (d, Inl Crashes)
                  | Some tip \<Rightarrow>
                      (let graph = read_network h d (user_network args);
                           scorer = read_scorer h d graph
                       in case load_manager h d tip of
                            None \<Rightarrow> (d, Inl Crashes)
                          | Some (restarting_node, blockhash) \<Rightarrow>
                              if \<not> restarting_node \<and> \<not> file_writable h (data_dir args @ ''/rgb_utxos'') then (d, Inl Crashes)
                              else
                              (let d = (if restarting_node then d else d\<lparr>d_rgb_utxos := Some []\<rparr>) in
                               case sync_chain h d restarting_node blockhash tip of
                                 None \<Rightarrow> (d, Inl Crashes)
                               | Some (chain_tip, listeners, watched) \<Rightarrow>
                                   if peer_manager_time (h_now h) = None then (d, Inl Crashes)
                                   else
                                   (d, Inr \<lparr>b_user = args, b_bitcoind = client, b_ldk_seed = ldk_seed,
                                      b_descriptors = descriptors,
                                      b_network_graph = graph, b_scorer = scorer, b_chain_tip = chain_tip,
                                      b_listeners = listeners, b_watched = watched, b_proxy = proxy,
                                      b_announcement = (if ldk_announced_listen_addr args = [] then None
                                        else Some (ldk_announced_node_name args, ldk_announced_listen_addr args)),
                                      b_node = node_of_disk d\<rparr>))))))"

text \<open>From the arguments to the seed (steps 1 to 6).\<close>

definition start_ldk :: "host \<Rightarrow> disk \<Rightarrow> disk \<times> (boot_end + booted)" where
  "start_ldk h d =
     (case snd (parse_startup_args (h_env h)) of
        Refused \<Rightarrow> (d, Inl (Exits BArgs))
      | Panicked \<Rightarrow> (d, Inl Crashes)
      | Started args \<Rightarrow>
          if setup_dirs h (data_dir args) = None then (d, Inl Crashes)
          else
          (case check_chain h args of
             Inl e \<Rightarrow> (d, Inl e)
           | Inr client \<Rightarrow>
               (case endpoints (user_network args) of
                  None \<Rightarrow> (d, Inl (Exits BUnsupportedNetwork))
                | Some (electrum_url, proxy_url, proxy_endpoint, rgb_network) \<Rightarrow>
                    (case write_setup h (data_dir args) electrum_url rgb_network d of
                       (d, False) \<Rightarrow> (d, Inl Crashes)
                     | (d, True) \<Rightarrow>
                     (case import_schemas h (d_stash d) of
                       None \<Rightarrow> (d, Inl Crashes)
                     | Some stash \<Rightarrow>
                         if \<not> rest_client_builds h (ucast PROXY_TIMEOUT) then (d\<lparr>d_stash := stash\<rparr>, Inl Crashes)
                         else
                         (case load_seed h (d\<lparr>d_stash := stash\<rparr>) of
                            (d, Inl e) \<Rightarrow> (d, Inl e)
                          | (d, Inr seed) \<Rightarrow>
                              start_node h args client electrum_url (proxy_url, proxy_endpoint) d seed))))))"

subsection \<open>Lives of the node\<close>

text \<open>
  What a run leaves on disk: its own files as the run left them; LDK's background processor and persister
  have written the manager and the monitors at some moment, or not at all.
\<close>

definition leave :: "node \<Rightarrow> bytes option \<Rightarrow> (bytes \<times> outpoint) list \<Rightarrow> disk \<Rightarrow> disk" where
  "leave t persisted monitors d =
     d\<lparr>d_rgb_utxos := map_option (\<lambda>_. rgb_utxos t) (d_rgb_utxos d), d_rgb_channel_files := rgb_channel_files t,
       d_channel_peer_data := channel_peer_data t, d_blinded_utxos := blinded_utxos t,
       d_intermediate_db := intermediate_db t,
       d_manager := (case persisted of None \<Rightarrow> d_manager d | Some m \<Rightarrow> Some m), d_monitors := monitors\<rparr>"

text \<open>
  The disk over any number of starts, in any environment, each ended by a failure of the start or, after
  any commands, events and ticks, by the end of the process. The first argument restricts the environments.
\<close>

inductive lives :: "(host \<Rightarrow> bool) \<Rightarrow> disk \<Rightarrow> disk \<Rightarrow> bool" for P d where
  unborn: "lives P d d"
| failed: "lives P d d1 \<Longrightarrow> P h \<Longrightarrow> start_ldk h d1 = (d2, Inl e) \<Longrightarrow> lives P d d2"
| lived: "lives P d d1 \<Longrightarrow> P h \<Longrightarrow> start_ldk h d1 = (d2, Inr b) \<Longrightarrow> node_reaches (h_world h) (b_node b) t \<Longrightarrow>
    lives P d (leave t persisted monitors d2)"

inductive_cases lives_cases: "lives P d d'"

subsection \<open>Facts about a start\<close>

lemma load_seed_cases:
  "load_seed h d = (d', r) \<Longrightarrow> (d' = d \<and> (\<forall>seed. r = Inr seed \<longrightarrow> seed_file h d = Some seed \<and> length seed = 32)) \<or>
     (seed_file h d = None \<and> (\<exists>seed. d' = d\<lparr>d_keys_seed := Some seed\<rparr> \<and> (\<forall>k. r = Inr k \<longrightarrow> k = seed \<and> length seed = 32)))"
  by (auto simp: load_seed_def Let_def split: option.splits if_splits)

lemma load_seed_existing:
  "seed_file h d = Some seed \<Longrightarrow> load_seed h d = (d, if length seed = 32 then Inr seed else Inl Crashes)"
  by (simp add: load_seed_def)

lemma seed_file_Some: "seed_file h d = Some seed \<longleftrightarrow> seed_readable h \<and> d_keys_seed d = Some seed"
  by (simp add: seed_file_def)

lemma manager_file_Some: "manager_file h d = Some m \<longleftrightarrow> manager_opens h \<and> d_manager d = Some m"
  by (simp add: manager_file_def)

lemma files_cong:
  "d_keys_seed d' = d_keys_seed d \<Longrightarrow> seed_file h d' = seed_file h d"
  "d_manager d' = d_manager d \<Longrightarrow> manager_file h d' = manager_file h d"
  by (simp_all add: seed_file_def manager_file_def)

lemma write_setup_keeps:
  "write_setup h dir url net d = (d', ok) \<Longrightarrow>
     d_keys_seed d' = d_keys_seed d \<and> d_manager d' = d_manager d \<and> d_rgb_utxos d' = d_rgb_utxos d \<and>
     d_monitors d' = d_monitors d \<and> d_rgb_channel_files d' = d_rgb_channel_files d \<and>
     d_channel_peer_data d' = d_channel_peer_data d \<and> d_blinded_utxos d' = d_blinded_utxos d \<and> d_stash d' = d_stash d"
  by (auto simp: write_setup_def Let_def split: if_splits)

lemma import_schemas_Some: "import_schemas h st = Some st' \<Longrightarrow> st' = st \<and> Schema \<in> set st \<or>
    st' = st @ [Iface, Schema, IfaceImpl] \<and> Schema \<notin> set st"
  by (auto simp: import_schemas_def split: if_splits)

lemma start_node_disk:
  assumes "start_node h args client url proxy d seed = (d', r)"
  shows "d' = d \<or> manager_file h d = None \<and> d' = d\<lparr>d_rgb_utxos := Some []\<rparr>"
  using assms
  by (auto simp: start_node_def load_manager_def Let_def split: option.splits prod.splits if_splits)

lemma start_node_Inr:
  assumes "start_node h args client url proxy d seed = (d', Inr b)"
  shows "b_user b = args \<and> b_bitcoind b = client \<and> ldk_seed_of h seed = Some (b_ldk_seed b) \<and>
    get_bdk_wallet h (master_key_of h (b_ldk_seed b)) (user_network args) = Some (b_descriptors b) \<and>
    d' = (if manager_file h d = None then d\<lparr>d_rgb_utxos := Some []\<rparr> else d) \<and> b_node b = node_of_disk d' \<and>
    (case manager_file h d of
       None \<Rightarrow> b_watched b = [] \<and> b_listeners b = [] \<and> polled_tip h = Some (b_chain_tip b)
     | Some m \<Rightarrow> b_watched b = map snd (d_monitors d) \<and> list_all (watch_completes h) (b_watched b) \<and>
         (\<exists>blockhash. read_manager h m (map snd (d_monitors d)) = Some blockhash \<and>
            b_listeners b = blockhash # map fst (d_monitors d)) \<and>
         synchronize h (b_listeners b) = Some (b_chain_tip b))"
  using assms
  by (auto simp: start_node_def load_manager_def sync_chain_def Let_def split: option.splits prod.splits if_splits)

text \<open>What every start that gets as far as the seed has done before, and the disk it hands on.\<close>

lemma start_ldk_cases:
  assumes "start_ldk h d = (d', r)"
  obtains (early) e where "r = Inl e" "d_keys_seed d' = d_keys_seed d" "d_manager d' = d_manager d"
      "d_rgb_utxos d' = d_rgb_utxos d" "d_monitors d' = d_monitors d" "d_rgb_channel_files d' = d_rgb_channel_files d"
      "d_channel_peer_data d' = d_channel_peer_data d" "d_blinded_utxos d' = d_blinded_utxos d"
  | (seed) args client u p q c st d0 d1 r1 where "snd (parse_startup_args (h_env h)) = Started args"
      "check_chain h args = Inr client" "endpoints (user_network args) = Some (u, p, q, c)"
      "write_setup h (data_dir args) u c d = (d0, True)" "import_schemas h (d_stash d0) = Some st"
      "load_seed h (d0\<lparr>d_stash := st\<rparr>) = (d1, r1)"
      "(\<exists>e. r1 = Inl e \<and> r = Inl e \<and> d' = d1) \<or> (\<exists>s. r1 = Inr s \<and> start_node h args client u (p, q) d1 s = (d', r))"
  using assms
  by (auto simp: start_ldk_def Let_def dest!: write_setup_keeps
      split: startup.splits sum.splits option.splits prod.splits if_splits bool.splits)

lemma start_ldk_keeps:
  assumes "start_ldk h d = (d', r)"
  shows "d_manager d' = d_manager d" "d_monitors d' = d_monitors d"
    "seed_file h d \<noteq> None \<Longrightarrow> d_keys_seed d' = d_keys_seed d"
    "manager_file h d \<noteq> None \<Longrightarrow> d_rgb_utxos d' = d_rgb_utxos d"
proof -
  have "d_manager d' = d_manager d \<and> d_monitors d' = d_monitors d \<and>
    (seed_file h d \<noteq> None \<longrightarrow> d_keys_seed d' = d_keys_seed d) \<and>
    (manager_file h d \<noteq> None \<longrightarrow> d_rgb_utxos d' = d_rgb_utxos d)"
    using assms
  proof (cases rule: start_ldk_cases)
    case (seed args client u p q c st d0 d1 r1)
    from load_seed_cases [OF seed(6)] write_setup_keeps [OF seed(4)] have d1: "d_manager d1 = d_manager d \<and> d_monitors d1 = d_monitors d \<and>
      (seed_file h d \<noteq> None \<longrightarrow> d_keys_seed d1 = d_keys_seed d) \<and> d_rgb_utxos d1 = d_rgb_utxos d"
      by (auto simp: seed_file_def split: if_splits)
    from seed(7) show ?thesis
    proof (elim disjE exE conjE)
      fix s assume "start_node h args client u (p, q) d1 s = (d', r)"
      from start_node_disk [OF this] d1 show ?thesis by (auto simp: manager_file_def)
    qed (use d1 in simp)
  qed simp
  then show "d_manager d' = d_manager d" "d_monitors d' = d_monitors d"
    "seed_file h d \<noteq> None \<Longrightarrow> d_keys_seed d' = d_keys_seed d"
    "manager_file h d \<noteq> None \<Longrightarrow> d_rgb_utxos d' = d_rgb_utxos d" by auto
qed

text \<open>A start that succeeds: its guards, its seed, and what the rest of the start makes of them.\<close>

lemma start_ldk_Inr:
  assumes "start_ldk h d = (d', Inr b)"
  shows "\<exists>u p q c d1 seed. snd (parse_startup_args (h_env h)) = Started (b_user b) \<and>
    check_chain h (b_user b) = Inr (b_bitcoind b) \<and> endpoints (user_network (b_user b)) = Some (u, p, q, c) \<and>
    Schema \<in> set (d_stash d1) \<and> d_manager d1 = d_manager d \<and> d_monitors d1 = d_monitors d \<and>
    d_rgb_utxos d1 = d_rgb_utxos d \<and> d_keys_seed d1 = Some seed \<and> length seed = 32 \<and>
    d_rgb_channel_files d1 = d_rgb_channel_files d \<and> d_channel_peer_data d1 = d_channel_peer_data d \<and>
    d_blinded_utxos d1 = d_blinded_utxos d \<and> (seed_file h d = None \<or> d_keys_seed d = Some seed) \<and>
    start_node h (b_user b) (b_bitcoind b) u (p, q) d1 seed = (d', Inr b)"
  using assms
proof (cases rule: start_ldk_cases)
  case (seed args client u p q c st d0 d1 r1)
  then obtain s where s: "r1 = Inr s" "start_node h args client u (p, q) d1 s = (d', Inr b)" by auto
  with start_node_Inr [OF s(2)] have "b_user b = args" "b_bitcoind b = client" by simp_all
  moreover from import_schemas_Some [OF seed(5)] have "Schema \<in> set st" by auto
  ultimately show ?thesis using s seed(1-3) load_seed_cases [OF seed(6)] write_setup_keeps [OF seed(4)]
    by (intro exI [of _ u] exI [of _ p] exI [of _ q] exI [of _ c] exI [of _ d1] exI [of _ s])
      (auto simp: seed_file_def split: if_splits)
qed simp

lemma booted_disk:
  assumes "start_ldk h d = (d', Inr b)"
  shows "\<exists>seed. d_keys_seed d' = Some seed \<and> length seed = 32 \<and> ldk_seed_of h seed = Some (b_ldk_seed b) \<and>
    get_bdk_wallet h (master_key_of h (b_ldk_seed b)) (user_network (b_user b)) = Some (b_descriptors b) \<and>
    d_rgb_utxos d' = (if manager_file h d = None then Some [] else d_rgb_utxos d) \<and> b_node b = node_of_disk d' \<and>
    Schema \<in> set (d_stash d') \<and> d_rgb_channel_files d' = d_rgb_channel_files d \<and>
    d_channel_peer_data d' = d_channel_peer_data d \<and> d_blinded_utxos d' = d_blinded_utxos d"
proof -
  from start_ldk_Inr [OF assms] obtain u p q d1 seed where
    "Schema \<in> set (d_stash d1)" "d_manager d1 = d_manager d" "d_rgb_utxos d1 = d_rgb_utxos d"
    "d_keys_seed d1 = Some seed" "length seed = 32" "d_rgb_channel_files d1 = d_rgb_channel_files d"
    "d_channel_peer_data d1 = d_channel_peer_data d" "d_blinded_utxos d1 = d_blinded_utxos d"
    "start_node h (b_user b) (b_bitcoind b) u (p, q) d1 seed = (d', Inr b)" by blast
  with start_node_Inr [OF this(9)] show ?thesis by (auto simp: manager_file_def)
qed

lemma seed_survives: "start_ldk h d = (d', r) \<Longrightarrow> seed_readable h \<Longrightarrow> d_keys_seed d = Some seed \<Longrightarrow> d_keys_seed d' = Some seed"
  using start_ldk_keeps(3) [of h d d' r] by (simp add: seed_file_def)

lemma lives_seed: "lives seed_readable d d' \<Longrightarrow> d_keys_seed d = Some seed \<Longrightarrow> d_keys_seed d' = Some seed"
  by (induction rule: lives.induct) (auto simp: leave_def dest: seed_survives)

lemma utxos_survive:
  "start_ldk h d = (d', r) \<Longrightarrow> manager_opens h \<Longrightarrow> d_manager d \<noteq> None \<Longrightarrow> d_manager d' \<noteq> None \<and> d_rgb_utxos d' = d_rgb_utxos d"
  using start_ldk_keeps(1,4) [of h d d' r] by (simp add: manager_file_def)

lemma lives_utxos:
  assumes "lives manager_opens d d'" and "d_manager d \<noteq> None" and "d_rgb_utxos d = Some us"
  shows "d_manager d' \<noteq> None \<and> (\<exists>vs. d_rgb_utxos d' = Some vs \<and> utxos_grow us vs)"
  using assms
proof (induction rule: lives.induct)
  case unborn
  then show ?case by (auto simp: utxos_grow_def)
next
  case (failed d1 h d2 e)
  then show ?case using utxos_survive [OF failed(3)] by auto
next
  case (lived d1 h d2 b t persisted monitors)
  then obtain vs where vs: "d_manager d1 \<noteq> None" "d_rgb_utxos d1 = Some vs" "utxos_grow us vs" by auto
  then have d2: "d_manager d2 \<noteq> None" "d_rgb_utxos d2 = Some vs" "rgb_utxos (b_node b) = vs"
    using utxos_survive [OF lived(3)] lived(2) booted_disk [OF lived(3)]
    by (auto simp: node_of_disk_def)
  from growth.reachable_keeps [OF lived(4), of us] d2(3) vs(3) have "utxos_grow us (rgb_utxos t)" by simp
  with d2 show ?case by (auto simp: leave_def split: option.splits)
qed

subsection \<open>A concrete host\<close>

definition boot_env :: process_env where
  "boot_env = \<lparr>env_args = [''node'', ''u:p@h:8332'', ''dir'', ''9735'', ''regtest''],
     env_var = Map.empty, env_file = Map.empty, home_dir = None, parse_ip = (\<lambda>_. None)\<rparr>"

definition boot_user :: ldk_user_info where
  "boot_user = \<lparr>bitcoind_rpc_username = ''u'', bitcoind_rpc_password = ''p'', bitcoind_rpc_port = 8332,
     bitcoind_rpc_host = ''h'', ldk_storage_dir_path = ''dir'', ldk_peer_listening_port = 9735,
     ldk_announced_listen_addr = [], ldk_announced_node_name = replicate 32 0, user_network = Regtest\<rparr>"

definition sample_host :: host where
  "sample_host = \<lparr>h_env = boot_env, h_world = sample_world, h_now = 1700000000,
     dir_creatable = (\<lambda>_. True), file_writable = (\<lambda>_. True), base64_encode = rev, rpc_client_ok = (\<lambda>_. True),
     blockchain_info_call = (\<lambda>_. sample_client_call),
     block_hash_from_hex = to_vec, show_chain = (\<lambda>_. ''regtest''), stash_import_ok = (\<lambda>_. True),
     random_byte = of_nat, rest_client_builds = (\<lambda>_. True),
     seed_readable = True, manager_opens = True, seed_file_creatable = True, seed_write_fails = None, ldk_seed_of = Some, master_key_of = hex_str,
     wallet_opens = (\<lambda>_ _ _. True), first_sync_ok = (\<lambda>_. True), monitors_read_ok = True, polled_tip = Some [9],
     graph_reads = (\<lambda>_. True), new_graph = (\<lambda>_. []), scorer_reads = (\<lambda>_ _. True), new_scorer = (\<lambda>_. []),
     read_manager = (\<lambda>m _. Some m), synchronize = (\<lambda>_. Some [9]), watch_completes = (\<lambda>_. True)\<rparr>"

definition empty_disk :: disk where
  "empty_disk = \<lparr>d_keys_seed = None, d_manager = None, d_monitors = [], d_network_graph = None, d_scorer = None,
     d_electrum_url = None, d_rgb_network = None, d_stash = [], d_rgb_utxos = None,
     d_rgb_channel_files = Map.empty, d_channel_peer_data = None, d_blinded_utxos = Map.empty, d_intermediate_db = None\<rparr>"

definition used_disk :: disk where
  "used_disk = empty_disk\<lparr>d_keys_seed := Some (replicate 32 1), d_manager := Some [5], d_monitors := [([6], OutPoint [7] 0)],
     d_rgb_utxos := Some [\<lparr>utxo_outpoint = OutPoint [1] 0, utxo_colored = True\<rparr>]\<rparr>"

lemma boot_args: "parse_startup_args boot_env = ([], Started boot_user)"
  by (simp add: parse_startup_args_def boot_env_def boot_user_def rsplitn2_def splitn2_def Let_def parse_word_def
      digit_val_def arg_def network_arg_def parse_rpc_auth_def)

lemma sample_host_simps:
  "h_env sample_host = boot_env" "h_world sample_host = sample_world" "ldk_seed_of sample_host = Some"
  "stash_import_ok sample_host i" "rest_client_builds sample_host secs" "h_now sample_host = 1700000000"
  "dir_creatable sample_host p'" "file_writable sample_host p'"
  "seed_readable sample_host" "manager_opens sample_host"
  "seed_file_creatable sample_host" "seed_write_fails sample_host = None" "wallet_opens sample_host x y n"
  "first_sync_ok sample_host url" "monitors_read_ok sample_host" "polled_tip sample_host = Some [9]"
  "read_manager sample_host m ms = Some m" "synchronize sample_host ls = Some [9]" "watch_completes sample_host p"
  by (simp_all add: sample_host_def)

lemma sample_check: "\<exists>client. check_chain (sample_host\<lparr>seed_readable := seen\<rparr>) boot_user = Inr client"
  by (simp add: check_chain_def bitcoind_defs blockchain_info_of_def sample_host_def to_vec_def nibble_def
      byte_of_def client_new_def sample_client_call_def boot_user_def Let_def)

lemma boots_reading:
  fixes seen d
  defines "h \<equiv> sample_host\<lparr>seed_readable := seen\<rparr>"
  assumes "seen \<Longrightarrow> \<forall>s. d_keys_seed d = Some s \<longrightarrow> length s = 32"
  shows "\<exists>d' b. start_ldk h d = (d', Inr b) \<and> b_user b = boot_user"
proof -
  have n: "user_network boot_user = Regtest" by (simp add: boot_user_def)
  have hs: "h_env h = boot_env" "rest_client_builds h secs" for secs by (simp_all add: h_def sample_host_simps)
  have st: "import_schemas h s \<noteq> None" for s
    by (simp add: import_schemas_def h_def sample_host_simps)
  have ld: "\<exists>d1 s. load_seed h v = (d1, Inr s)" if "d_keys_seed v = d_keys_seed d" for v
    using assms that by (auto simp: load_seed_def seed_file_def h_def sample_host_simps Let_def split: option.splits)
  have sn: "\<exists>d' b. start_node h boot_user client u pr v s = (d', Inr b)" for client u pr v s
    by (auto simp: start_node_def h_def sample_host_simps get_bdk_wallet_def load_manager_def sync_chain_def Let_def
        peer_manager_time_def list_all_iff split: option.splits)
  obtain u p q c where e: "endpoints Regtest = Some (u, p, q, c)" by simp
  let ?d = "d\<lparr>d_electrum_url := Some u, d_rgb_network := Some (show_chain h c)\<rparr>"
  obtain client where client: "check_chain h boot_user = Inr client" using sample_check unfolding h_def by blast
  obtain stash where stash: "import_schemas h (d_stash ?d) = Some stash" using st by blast
  obtain d1 s where s: "load_seed h (?d\<lparr>d_stash := stash\<rparr>) = (d1, Inr s)" using ld [of "?d\<lparr>d_stash := stash\<rparr>"] by auto
  obtain d' b where b: "start_node h boot_user client u (p, q) d1 s = (d', Inr b)" using sn by blast
  have "setup_dirs h dir \<noteq> None" "write_setup h dir u c d = (?d, True)" for dir
    by (simp_all add: setup_dirs_def logger_new_def write_setup_def h_def sample_host_simps Let_def)
  then have "start_ldk h d = (d', Inr b)"
    using stash s b by (simp add: start_ldk_def hs boot_args n client e Let_def del: endpoints.simps)
  with start_node_Inr [OF b] show ?thesis by blast
qed

lemma boots:
  assumes "\<forall>s. d_keys_seed d = Some s \<longrightarrow> length s = 32"
  shows "\<exists>d' b. start_ldk sample_host d = (d', Inr b) \<and> b_user b = boot_user"
proof -
  have "sample_host\<lparr>seed_readable := True\<rparr> = sample_host" by (simp add: sample_host_def)
  with boots_reading [of True d] assms show ?thesis by simp
qed

subsection \<open>Properties\<close>

text \<open>
  C35. The node runs only where it is meant to: on the test or regtest network, with a bitcoind of that very network
  that it reaches with the credentials and the address of its arguments, with the RGB schema in the stash, and
  with a seed of 32 bytes that is on disk.
\<close>

theorem starts_only_where_supported:
  assumes "start_ldk h d = (d', Inr b)"
  shows "user_network (b_user b) \<in> {Testnet, Regtest} \<and>
    bitcoind_rpc_client (b_bitcoind b) = rpc_client_for (base64_encode h) (bitcoind_rpc_host (b_user b))
      (bitcoind_rpc_port (b_user b)) (bitcoind_rpc_username (b_user b)) (bitcoind_rpc_password (b_user b)) \<and>
    (\<exists>j. blockchain_info_call h 1 (bitcoind_rpc_client (b_bitcoind b)) (RpcCall ''getblockchaininfo'' []) = RpcOk j \<and>
       json_index ''chain'' j = JString (chain_of (user_network (b_user b)))) \<and>
    Schema \<in> set (d_stash d') \<and> (\<exists>seed. d_keys_seed d' = Some seed \<and> length seed = 32)"
proof -
  from start_ldk_Inr [OF assms] obtain e where
    g: "check_chain h (b_user b) = Inr (b_bitcoind b)" "endpoints (user_network (b_user b)) = Some e" by blast
  have "user_network (b_user b) \<in> {Testnet, Regtest}"
    using g(2) by (cases "user_network (b_user b)") simp_all
  moreover have "bitcoind_rpc_client (b_bitcoind b) = rpc_client_for (base64_encode h) (bitcoind_rpc_host (b_user b))
      (bitcoind_rpc_port (b_user b)) (bitcoind_rpc_username (b_user b)) (bitcoind_rpc_password (b_user b)) \<and>
    (\<exists>j. blockchain_info_call h 1 (bitcoind_rpc_client (b_bitcoind b)) (RpcCall ''getblockchaininfo'' []) = RpcOk j \<and>
       json_index ''chain'' j = JString (chain_of (user_network (b_user b))))"
    using g(1) by (auto simp: check_chain_def bitcoind_defs blockchain_info_of_def as_string_Some dest: client_new_Value
        split: if_splits option.splits sum.splits bind_splits rpc_result.splits outcome.splits)
  ultimately show ?thesis using booted_disk [OF assms] by auto
qed

theorem starts_only_where_supported_witness:
  "\<exists>d b. start_ldk sample_host empty_disk = (d, Inr b) \<and> user_network (b_user b) \<in> {Testnet, Regtest} \<and>
     Schema \<in> set (d_stash d)"
proof -
  have "\<forall>s. d_keys_seed empty_disk = Some s \<longrightarrow> length s = 32" by (simp add: empty_disk_def)
  then obtain d b where b: "start_ldk sample_host empty_disk = (d, Inr b)" using boots by blast
  from starts_only_where_supported [OF b] b show ?thesis by blast
qed

text \<open>
  C12. The node keeps its identity: after a run of any commands and events, and over any number of further starts and
  runs, failed ones included, a start on the same network derives the same LDK keys and the same wallet
  descriptors, as long as each of these starts can read the seed's file.
\<close>

theorem identity_survives_restarts:
  assumes "start_ldk h d = (d1, Inr b)" and "node_reaches (h_world h) (b_node b) t"
    and "lives seed_readable (leave t persisted monitors d1) d2"
    and "seed_readable h'" and "start_ldk h' d2 = (d3, Inr b')"
    and "ldk_seed_of h' = ldk_seed_of h" and "master_key_of h' = master_key_of h"
    and "user_network (b_user b') = user_network (b_user b)"
  shows "b_ldk_seed b' = b_ldk_seed b \<and> b_descriptors b' = b_descriptors b"
proof -
  from booted_disk [OF assms(1)] obtain seed where s: "d_keys_seed d1 = Some seed"
    "ldk_seed_of h seed = Some (b_ldk_seed b)"
    "get_bdk_wallet h (master_key_of h (b_ldk_seed b)) (user_network (b_user b)) = Some (b_descriptors b)" by blast
  have "d_keys_seed (leave t persisted monitors d1) = Some seed" using s(1) by (simp add: leave_def)
  from lives_seed [OF assms(3) this] have "d_keys_seed d2 = Some seed" .
  then have "d_keys_seed d3 = Some seed" using seed_survives [OF assms(5,4)] by simp
  with booted_disk [OF assms(5)] s assms(6-) show ?thesis
    by (auto simp: get_bdk_wallet_def Let_def split: if_splits)
qed

lemma boots_again:
  assumes "start_ldk h d = (d1, Inr b)"
  shows "\<exists>d2 b'. start_ldk sample_host (leave t persisted monitors d1) = (d2, Inr b') \<and> b_user b' = boot_user"
  using booted_disk [OF assms] by (intro boots) (auto simp: leave_def)

lemma empty_disk_boots: "\<exists>d b. start_ldk sample_host empty_disk = (d, Inr b) \<and> b_user b = boot_user"
  by (intro boots) (simp add: empty_disk_def)

theorem identity_survives_restarts_witness:
  "\<exists>d1 b d2 b'. start_ldk sample_host empty_disk = (d1, Inr b) \<and>
     start_ldk sample_host (leave (b_node b) (Some [5]) [] d1) = (d2, Inr b') \<and>
     b_ldk_seed b' = b_ldk_seed b \<and> b_descriptors b' = b_descriptors b"
proof -
  obtain d1 b where b: "start_ldk sample_host empty_disk = (d1, Inr b)" "b_user b = boot_user"
    using empty_disk_boots by blast
  obtain d2 b' where b': "start_ldk sample_host (leave (b_node b) (Some [5]) [] d1) = (d2, Inr b')" "b_user b' = boot_user"
    using boots_again [OF b(1)] by blast
  from identity_survives_restarts [OF b(1) node_reaches.refl lives.unborn _ b'(1) HOL.refl HOL.refl] b b'
  show ?thesis by (auto simp: sample_host_simps)
qed



text \<open>
  C36. What a start forgets: the payments and the trades are in memory only, so after it every invoice is unknown to
  \<open>invoicestatus\<close> and no swap HTLC is forwarded; and when the manager's file is missing or cannot be opened the start also
  empties the record of RGB outputs and leaves the channel monitors it finds unwatched, while a restart gives
  every one of them to the chain monitor, synchronised from its own block.
\<close>

theorem start_remembers:
  assumes "start_ldk h d = (d', Inr b)"
  shows "invoice_status i (b_node b) = Continue (println MUnknownInvoice (b_node b)) \<and>
    (ih_is_swap ih \<longrightarrow> filter is_forward (new_effects (b_node b) (htlc_intercepted env ih (b_node b))) = []) \<and>
    (if manager_file h d = None then rgb_utxos (b_node b) = [] \<and> b_watched b = []
     else (\<forall>us. d_rgb_utxos d = Some us \<longrightarrow> rgb_utxos (b_node b) = us) \<and>
       b_watched b = map snd (d_monitors d) \<and> list_all (watch_completes h) (b_watched b) \<and>
       tl (b_listeners b) = map fst (d_monitors d) \<and> synchronize h (b_listeners b) = Some (b_chain_tip b))"
proof -
  from start_ldk_Inr [OF assms] obtain u p q d1 seed where d1: "d_manager d1 = d_manager d" "d_monitors d1 = d_monitors d"
    "d_rgb_utxos d1 = d_rgb_utxos d" "start_node h (b_user b) (b_bitcoind b) u (p, q) d1 seed = (d', Inr b)" by blast
  note n = start_node_Inr [OF d1(4)]
  from n have node: "b_node b = node_of_disk d'" by blast
  have "invoice_status i (b_node b) = Continue (println MUnknownInvoice (b_node b))"
    by (simp add: node node_of_disk_def invoice_status_def)
  moreover have "\<not> forwards env ih (b_node b)"
    by (auto simp: node node_of_disk_def forwards_def)
  moreover have "if manager_file h d = None then rgb_utxos (b_node b) = [] \<and> b_watched b = []
     else (\<forall>us. d_rgb_utxos d = Some us \<longrightarrow> rgb_utxos (b_node b) = us) \<and>
       b_watched b = map snd (d_monitors d) \<and> list_all (watch_completes h) (b_watched b) \<and>
       tl (b_listeners b) = map fst (d_monitors d) \<and> synchronize h (b_listeners b) = Some (b_chain_tip b)"
    using n d1 files_cong(2) [OF d1(1), of h] by (auto simp: node_of_disk_def split: option.splits)
  ultimately show ?thesis using swap_effects [of ih "b_node b" env] by auto
qed

theorem start_remembers_witness:
  "\<exists>d b. start_ldk sample_host (used_disk\<lparr>d_manager := None\<rparr>) = (d, Inr b) \<and>
     rgb_utxos (b_node b) = [] \<and> b_watched b = []"
proof -
  have "\<exists>d' b. start_ldk sample_host (used_disk\<lparr>d_manager := None\<rparr>) = (d', Inr b) \<and> b_user b = boot_user"
    by (intro boots) (simp add: used_disk_def empty_disk_def)
  then obtain d b where b: "start_ldk sample_host (used_disk\<lparr>d_manager := None\<rparr>) = (d, Inr b)" by blast
  from start_remembers [OF b] b show ?thesis by (auto simp: manager_file_def)
qed

text \<open>
  C15. A seed file whose writing was cut short stays: it is written in place, the crash leaves fewer than 32 bytes, and no
  later start that can read them, in any environment, ever gets past them.
\<close>

theorem torn_seed_blocks_every_start:
  assumes "seed_file h d = None" and "seed_file_creatable h" and "seed_write_fails h = Some n" and "n < 32"
    and "load_seed h d = (d1, r)" and "lives seed_readable d1 d2"
    and "seed_readable h'" and "start_ldk h' d2 = (d3, r')"
  shows "r = Inl Crashes \<and> (\<exists>e. r' = Inl e)"
proof -
  obtain seed where seed: "d_keys_seed d1 = Some seed" "length seed \<noteq> 32" "r = Inl Crashes"
    using assms(1-5) by (auto simp: load_seed_def Let_def)
  from lives_seed [OF assms(6) seed(1)] have "d_keys_seed d2 = Some seed" .
  moreover have "\<exists>e. r' = Inl e"
  proof (cases r')
    case (Inr b)
    from start_ldk_Inr [OF assms(8) [unfolded this]] calculation seed(2) assms(7) show ?thesis
      by (auto simp: seed_file_def)
  qed simp
  ultimately show ?thesis using seed(3) by blast
qed

theorem torn_seed_blocks_every_start_witness:
  "\<exists>d1 r. load_seed (sample_host\<lparr>seed_write_fails := Some 0\<rparr>) empty_disk = (d1, r) \<and>
     (\<exists>e. snd (start_ldk sample_host d1) = Inl e)"
proof -
  let ?h = "sample_host\<lparr>seed_write_fails := Some 0\<rparr>"
  obtain d1 r where l: "load_seed ?h empty_disk = (d1, r)" by force
  obtain d3 r' where s: "start_ldk sample_host d1 = (d3, r')" by force
  have "seed_file ?h empty_disk = None" "seed_file_creatable ?h" "seed_write_fails ?h = Some 0"
    by (simp_all add: empty_disk_def sample_host_def seed_file_def)
  from torn_seed_blocks_every_start [OF this _ l lives.unborn _ s] l s show ?thesis by (auto simp: sample_host_simps)
qed

text \<open>
  A seed file that is there and cannot be read at one start is overwritten: a start that succeeds then runs on new keys,
  and the old seed is gone from the disk.
\<close>

theorem unread_seed_is_replaced:
  assumes "\<not> seed_readable h" and "start_ldk h d = (d', Inr b)"
  shows "d_keys_seed d' = Some (map (random_byte h) [0..<32])"
  using assms(2)
proof (cases rule: start_ldk_cases)
  case (seed args client u p q c st d0 d1 r1)
  then obtain s where s: "r1 = Inr s" "start_node h args client u (p, q) d1 s = (d', Inr b)" by auto
  from seed(6) have "d_keys_seed d1 = Some (map (random_byte h) [0..<32])"
    using assms(1) by (auto simp: load_seed_def seed_file_def s(1) Let_def split: if_splits option.splits)
  with start_node_disk [OF s(2)] show ?thesis by auto
qed simp

theorem unread_seed_is_replaced_witness:
  "\<exists>d b. start_ldk (sample_host\<lparr>seed_readable := False\<rparr>) used_disk = (d, Inr b) \<and>
     d_keys_seed d \<noteq> d_keys_seed used_disk"
proof -
  let ?h = "sample_host\<lparr>seed_readable := False\<rparr>"
  obtain d b where b: "start_ldk ?h used_disk = (d, Inr b)" using boots_reading [of False used_disk] by blast
  have "\<not> seed_readable ?h" by simp
  from unread_seed_is_replaced [OF this b] have "hd (the (d_keys_seed d)) = 0"
    by (simp add: sample_host_def upt_conv_Cons)
  with b show ?thesis by (auto simp: used_disk_def)
qed

end
