(* ===== verification/Session.thy ===== *)
theory Session
  imports Startup
begin

text \<open>
  The process as a whole: \<open>start_ldk\<close> (\<open>src/main.rs\<close>) from the start over the command loop to the orderly end,
  with the tasks that listen for connections and announce the node.
\<close>

subsection \<open>The tasks\<close>

text \<open>
  The listening task: the port is bound first, then for every \<open>accept\<close> that returns the value of the stop flag that
  is read then, \<^term>\<open>None\<close> for one that fails; both failures panic. The handshake of a connection is LDK's.
\<close>

fun accept_loop :: "bool option list \<Rightarrow> node \<Rightarrow> flow" where
  "accept_loop [] s = Continue s"
| "accept_loop (None # rest) s = Abort s"
| "accept_loop (Some stop_listen # rest) s =
     (if stop_listen then Continue s else accept_loop rest (emit SetupInbound s))"

definition listen_task :: "bool \<Rightarrow> bool option list \<Rightarrow> node \<Rightarrow> flow" where
  "listen_task bound accepts s = (if bound then accept_loop accepts s else Abort s)"

fun address_octets :: "net_address \<Rightarrow> bytes \<times> u16" where
  "address_octets (IPv4 addr port) = (addr, port)"
| "address_octets (IPv6 addr port) = (addr, port)"

text \<open>One tick of the announcing task, which is spawned only when there are addresses to announce.\<close>

definition announce_tick :: "booted \<Rightarrow> node \<Rightarrow> node" where
  "announce_tick b s =
     (case b_announcement b of
        None \<Rightarrow> s
      | Some (name, addrs) \<Rightarrow> emit (BroadcastAnnouncement name (map address_octets addrs)) s)"

subsection \<open>The end\<close>

text \<open>After the command loop: the peers are disconnected, then the background processor is stopped.\<close>

definition shut_down :: "world \<Rightarrow> node \<Rightarrow> flow" where
  "shut_down w s =
     (let s = emit StopBackground (emit DisconnectAllPeers s)
      in if background_exits_ok w (trace s) then Break s else Abort s)"

text \<open>
  The command loop and the end: \<open>Break\<close> is the end of the process, \<open>Continue\<close> a loop that waits for more input.
\<close>

definition run_session :: "world \<Rightarrow> string option list \<Rightarrow> node \<Rightarrow> flow" where
  "run_session w input s =
     (case start_cli w input s of Break t \<Rightarrow> shut_down w t | f \<Rightarrow> f)"

definition run_process :: "host \<Rightarrow> string option list \<Rightarrow> disk \<Rightarrow> disk \<times> (boot_end + flow)" where
  "run_process h input d =
     (case start_ldk h d of
        (d, Inl e) \<Rightarrow> (d, Inl e)
      | (d, Inr b) \<Rightarrow> (d, Inr (run_session (h_world h) input (b_node b))))"

subsection \<open>Lemmas\<close>

lemma accept_loop_stops:
  "accept_loop (replicate n (Some False) @ Some True # rest) s = Continue (s\<lparr>trace := trace s @ replicate n SetupInbound\<rparr>)"
proof (induction n arbitrary: s)
  case (Suc n)
  then show ?case by (simp add: emit_def)
qed simp

lemma run_session_Break:
  assumes "run_session w input s = Break t"
  obtains u where "start_cli w input s = Break u"
    "t = emit StopBackground (emit DisconnectAllPeers u)"
  using assms by (auto simp: run_session_def shut_down_def Let_def split: flow.splits if_splits)

lemma run_process_Inr:
  assumes "run_process h input d = (d', Inr f)"
  obtains b where "start_ldk h d = (d', Inr b)" "f = run_session (h_world h) input (b_node b)"
  using assms by (auto simp: run_process_def split: prod.splits sum.splits)

text \<open>An invariant of the node that does not look at the trace holds at the end of a session.\<close>

context node_invariant
begin

lemma session_ends: "P (w_build w) s \<Longrightarrow> run_session w input s = Break t \<Longrightarrow> P (w_build w) t"
  by (erule run_session_Break) (auto intro!: emits dest: ends_Break [OF cli_ends])

end

subsection \<open>Properties\<close>


text \<open>Connections are set up until the stop flag is seen, and never after, whatever is accepted then.\<close>

theorem no_connection_after_stop:
  "new_effects s (listen_task True (replicate n (Some False) @ Some True # rest) s) = replicate n SetupInbound"
  by (simp add: listen_task_def accept_loop_stops new_effects_def)


end
