(* ===== verification/Locks.thy ===== *)
theory Locks
  imports Prelude
begin

text \<open>
  Threads that take and release locks: what a schedule of them does, when they are stuck, and the
  discipline of taking locks in a fixed order, under which they never are. \<open>NodeLocks\<close> applies it to the
  tasks of the node.
\<close>

subsection \<open>Threads and locks\<close>

datatype 'l lock_op = Acquire 'l | Release 'l

text \<open>
  A thread: the locks it holds, the last one first, and what it has still to do. A schedule is a
  list of thread numbers; a step is refused when the thread is done or waits for a lock (also one of its
  own, as neither lock is reentrant).
\<close>

type_synonym 'l thread = "'l list \<times> 'l lock_op list"

definition advance :: "nat \<Rightarrow> 'l thread list \<Rightarrow> 'l thread list option" where
  "advance i ts =
     (if i < length ts then
        case ts ! i of
          (held, []) \<Rightarrow> None
        | (held, Acquire l # ops) \<Rightarrow> if list_ex (\<lambda>t. l \<in> set (fst t)) ts then None else Some (ts[i := (l # held, ops)])
        | (held, Release l # ops) \<Rightarrow> Some (ts[i := (remove1 l held, ops)])
      else None)"

fun schedule :: "nat list \<Rightarrow> 'l thread list \<Rightarrow> 'l thread list option" where
  "schedule [] ts = Some ts"
| "schedule (i # is) ts = Option.bind (advance i ts) (schedule is)"

definition finished :: "'l thread list \<Rightarrow> bool" where
  "finished ts \<longleftrightarrow> list_all (\<lambda>t. snd t = []) ts"

definition stuck :: "'l thread list \<Rightarrow> bool" where
  "stuck ts \<longleftrightarrow> \<not> finished ts \<and> list_all (\<lambda>i. advance i ts = None) [0..<length ts]"

text \<open>
  The discipline: a lock is taken only above every lock that is held, and released only when held. The
  result are the locks held at the end.
\<close>

fun orderly :: "('l::linorder) list \<Rightarrow> 'l lock_op list \<Rightarrow> 'l list option" where
  "orderly held [] = Some held"
| "orderly held (Acquire l # ops) = (if list_all (\<lambda>h. h < l) held then orderly (l # held) ops else None)"
| "orderly held (Release l # ops) = (if l \<in> set held then orderly (remove1 l held) ops else None)"

lemma orderly_append: "orderly h (xs @ ys) = Option.bind (orderly h xs) (\<lambda>h'. orderly h' ys)"
  by (induction h xs rule: orderly.induct) auto

lemma orderly_distinct: "orderly h ops = Some h' \<Longrightarrow> distinct h \<Longrightarrow> distinct h'"
  by (induction h ops rule: orderly.induct) (auto simp: list_all_iff split: if_splits)

definition disciplined :: "('l::linorder) thread list \<Rightarrow> bool" where
  "disciplined ts \<longleftrightarrow> list_all (\<lambda>t. orderly (fst t) (snd t) = Some []) ts"

text \<open>A disciplined thread that holds locks and waits, waits for a lock above all of them.\<close>

lemma disciplined_nth: "disciplined ts \<Longrightarrow> i < length ts \<Longrightarrow> orderly (fst (ts ! i)) (snd (ts ! i)) = Some []"
  by (simp add: disciplined_def list_all_length)

lemma advance_cases:
  assumes "advance i ts = Some us"
  obtains (acquire) held l ops where "i < length ts" "ts ! i = (held, Acquire l # ops)"
      "us = ts[i := (l # held, ops)]"
    | (release) held l ops where "i < length ts" "ts ! i = (held, Release l # ops)"
      "us = ts[i := (remove1 l held, ops)]"
  using assms by (auto simp: advance_def split: if_splits prod.splits list.splits lock_op.splits)

lemma disciplined_update:
  "disciplined ts \<Longrightarrow> orderly (fst t) (snd t) = Some [] \<Longrightarrow> disciplined (ts[i := t])"
  by (auto simp: disciplined_def list_all_iff dest!: set_update_subset_insert [THEN subsetD])

lemma disciplined_advance:
  assumes "disciplined ts" and "advance i ts = Some us"
  shows "disciplined us"
  using assms(2)
proof (cases rule: advance_cases)
  case (acquire held l ops)
  with disciplined_nth [OF assms(1)] have "orderly (l # held) ops = Some []" by (fastforce split: if_splits)
  with assms(1) acquire show ?thesis by (simp add: disciplined_update)
next
  case (release held l ops)
  with disciplined_nth [OF assms(1)] have "orderly (remove1 l held) ops = Some []" by (fastforce split: if_splits)
  with assms(1) release show ?thesis by (simp add: disciplined_update)
qed

definition remaining :: "'l thread list \<Rightarrow> nat" where
  "remaining ts = sum_list (map (\<lambda>t. length (snd t)) ts)"

lemma remaining_update:
  "i < length ts \<Longrightarrow> remaining (ts[i := t]) + length (snd (ts ! i)) = remaining ts + length (snd t)"
proof (induction ts arbitrary: i)
  case (Cons u ts)
  then show ?case by (cases i) (auto simp: remaining_def)
qed simp

lemma advance_decreases: "advance i ts = Some us \<Longrightarrow> Suc (remaining us) = remaining ts"
proof (erule advance_cases)
  fix held l ops
  assume "i < length ts" and "ts ! i = (held, Acquire l # ops)" and "us = ts[i := (l # held, ops)]"
  then show ?thesis using remaining_update [of i ts "(l # held, ops)"] by simp
next
  fix held l ops
  assume "i < length ts" and "ts ! i = (held, Release l # ops)" and "us = ts[i := (remove1 l held, ops)]"
  then show ?thesis using remaining_update [of i ts "(remove1 l held, ops)"] by simp
qed

text \<open>Some thread can move: one that holds the highest lock taken, or any one when none is taken.\<close>

lemma disciplined_progress:
  assumes "disciplined ts" and "\<not> finished ts"
  obtains i us where "advance i ts = Some us"
proof -
  let ?L = "\<Union>t\<in>set ts. set (fst t)"
  have move: "\<exists>us. advance i ts = Some us"
    if i: "i < length ts" and todo: "snd (ts ! i) \<noteq> []" and top: "\<And>l. l \<in> ?L \<Longrightarrow> \<exists>h\<in>set (fst (ts ! i)). l \<le> h" for i
  proof -
    obtain held x ops where t: "ts ! i = (held, x # ops)" using todo by (cases "ts ! i"; cases "snd (ts ! i)") auto
    from disciplined_nth [OF assms(1) i] t have o: "orderly held (x # ops) = Some []" by simp
    show ?thesis
    proof (cases x)
      case (Acquire l)
      with o have "\<forall>h\<in>set held. h < l" by (auto simp: list_all_iff split: if_splits)
      with top [of l] t have "l \<notin> ?L" by fastforce
      with i t Acquire show ?thesis by (auto simp: advance_def list_ex_iff)
    next
      case (Release l)
      with i t show ?thesis by (simp add: advance_def)
    qed
  qed
  show thesis
  proof (cases "?L = {}")
    case True
    from assms(2) obtain i where "i < length ts" "snd (ts ! i) \<noteq> []" by (auto simp: finished_def list_all_length)
    with move [of i] True that show thesis by blast
  next
    case False
    have fin: "finite ?L" by simp
    from Max_in [OF fin False] obtain t where "t \<in> set ts" "Max ?L \<in> set (fst t)" by blast
    then obtain i where i: "i < length ts" "Max ?L \<in> set (fst (ts ! i))" by (metis in_set_conv_nth)
    from disciplined_nth [OF assms(1) i(1)] i(2) have "snd (ts ! i) \<noteq> []"
      by (cases "snd (ts ! i)") auto
    with move [OF i(1)] i(2) Max_ge [OF fin] that show thesis by blast
  qed
qed

lemma disciplined_finishes:
  "disciplined ts \<Longrightarrow> \<exists>more us. schedule more ts = Some us \<and> finished us"
proof (induction "remaining ts" arbitrary: ts rule: less_induct)
  case less
  show ?case
  proof (cases "finished ts")
    case True
    then have "schedule [] ts = Some ts \<and> finished ts" by simp
    then show ?thesis by blast
  next
    case False
    with less.prems obtain i us where a: "advance i ts = Some us" by (rule disciplined_progress)
    have "remaining us < remaining ts"
      using advance_decreases [OF a] by linarith
    from less.hyps [OF this disciplined_advance [OF less.prems a]]
    obtain more vs where "schedule more us = Some vs" "finished vs" by blast
    with a have "schedule (i # more) ts = Some vs \<and> finished vs" by simp
    then show ?thesis by blast
  qed
qed

lemma schedule_keeps:
  "schedule is ts = Some us \<Longrightarrow> disciplined ts \<Longrightarrow> disciplined us"
  by (induction "is" arbitrary: ts) (auto simp: bind_eq_Some_conv dest: disciplined_advance)

lemma schedule_bounded: "schedule is ts = Some us \<Longrightarrow> length is + remaining us = remaining ts"
  by (induction "is" arbitrary: ts) (fastforce simp: bind_eq_Some_conv dest: advance_decreases)+

lemma finished_remaining: "finished ts \<longleftrightarrow> remaining ts = 0"
  by (induction ts) (auto simp: finished_def remaining_def)

lemma disciplined_not_stuck: "disciplined ts \<Longrightarrow> \<not> stuck ts"
proof
  assume d: "disciplined ts" and s: "stuck ts"
  then have "\<not> finished ts" by (simp add: stuck_def)
  with d obtain i us where a: "advance i ts = Some us" by (rule disciplined_progress)
  moreover from a have "i < length ts" by (auto simp: advance_def split: if_splits)
  ultimately show False using s by (auto simp: stuck_def list_all_iff)
qed

text \<open>
  The contract of the operations that share locks: each keeps the discipline and gives back what it took.
  Then, however they are interleaved, none waits for ever: every schedule can be completed, and its
  length is bounded.
\<close>

definition start :: "'l lock_op list list \<Rightarrow> 'l thread list" where
  "start = map (\<lambda>p. ([], p))"

locale lock_clients =
  fixes program :: "'a \<Rightarrow> ('l::linorder) lock_op list" and client :: "'a \<Rightarrow> bool"
  assumes keeps_order: "client a \<Longrightarrow> orderly [] (program a) = Some []"
begin

lemma start_disciplined: "list_all client as \<Longrightarrow> disciplined (start (map program as))"
  by (auto simp: disciplined_def start_def list_all_iff keeps_order)

lemma completes:
  "list_all client as \<Longrightarrow> schedule is (start (map program as)) = Some ts \<Longrightarrow>
   \<exists>more us. schedule more ts = Some us \<and> finished us"
  by (blast intro: disciplined_finishes schedule_keeps start_disciplined)

lemma never_stuck: "list_all client as \<Longrightarrow> schedule is (start (map program as)) = Some ts \<Longrightarrow> \<not> stuck ts"
  by (rule disciplined_not_stuck) (blast intro: schedule_keeps start_disciplined)

lemma bounded:
  assumes "schedule is (start (map program as)) = Some ts"
  shows "length is \<le> sum_list (map (length \<circ> program) as)"
    and "finished ts \<longleftrightarrow> length is = sum_list (map (length \<circ> program) as)"
proof -
  have "remaining (start (map program as)) = sum_list (map (length \<circ> program) as)"
    by (induction as) (auto simp: remaining_def start_def)
  with schedule_bounded [OF assms] have "length is + remaining ts = sum_list (map (length \<circ> program) as)" by simp
  then show "length is \<le> sum_list (map (length \<circ> program) as)"
    and "finished ts \<longleftrightarrow> length is = sum_list (map (length \<circ> program) as)"
    by (auto simp: finished_remaining)
qed

end

end
