(* ===== verification/NodeLocks.thy ===== *)
theory NodeLocks
  imports Invariants Locks
begin

text \<open>
  The two locks the tasks of the node share: the mutex of the bdk wallet (\<open>wallet.lock().unwrap()\<close>) and
  the lock file of the RGB runtime (\<open>get_rgb_runtime\<close> waits for it, \<open>drop_rgb_runtime\<close> removes it). Which of
  them an operation takes, and in which order, is read off its trace.
\<close>

subsection \<open>The locks of the node\<close>

text \<open>The order in which all but one operation take them: the runtime before the wallet.\<close>

datatype lock = Runtime | Wallet

instantiation lock :: linorder
begin

definition less_eq_lock :: "lock \<Rightarrow> lock \<Rightarrow> bool" where
  "less_eq_lock a b \<longleftrightarrow> a = b \<or> a = Runtime"

definition less_lock :: "lock \<Rightarrow> lock \<Rightarrow> bool" where
  "less_lock a b \<longleftrightarrow> a = Runtime \<and> b = Wallet"

instance
proof
  fix a b :: lock
  show "a \<le> b \<or> b \<le> a" by (cases a; cases b) (simp_all add: less_eq_lock_def)
qed (auto simp: less_eq_lock_def less_lock_def intro: lock.exhaust)

end

fun locking :: "effect \<Rightarrow> lock lock_op list" where
  "locking GetRuntime = [Acquire Runtime]"
| "locking DropRuntime = [Release Runtime]"
| "locking LockWallet = [Acquire Wallet]"
| "locking UnlockWallet = [Release Wallet]"
| "locking _ = []"

definition lock_ops :: "effect list \<Rightarrow> lock lock_op list" where
  "lock_ops tr = concat (map locking tr)"

definition lock_state :: "effect list \<Rightarrow> lock list option" where
  "lock_state tr = orderly [] (lock_ops tr)"

lemma lock_state_append [simp]:
  "lock_state (tr @ es) = Option.bind (lock_state tr) (\<lambda>h. orderly h (lock_ops es))"
  by (simp add: lock_state_def lock_ops_def orderly_append)

lemma lock_ops_simps [simp]: "lock_ops [] = []" "lock_ops (e # es) = locking e @ lock_ops es"
  by (simp_all add: lock_ops_def)

lemma lock_less [simp]: "Runtime < Wallet" "\<not> l < Runtime"  "\<not> l < l" for l :: lock
  by (simp_all add: less_lock_def)

abbreviation locks :: "node \<Rightarrow> lock list option" where
  "locks s \<equiv> lock_state (trace s)"

abbreviation at_rest :: "node \<Rightarrow> bool" where
  "at_rest t \<equiv> locks t = Some [] \<or> locks t = Some [Runtime]"

lemma locks_call:
  "locking e = [] \<Longrightarrow> (\<And>u. locks u = locks s \<Longrightarrow> ends P (k u)) \<Longrightarrow> ends P (call e ok s k)"
  by (simp add: call_def ends_leaf)

lemma locks_with_wallet:
  "ends (\<lambda>t. P (emit UnlockWallet t)) (body (emit LockWallet s)) \<Longrightarrow> ends P (with_wallet s body)"
  by (auto simp: with_wallet_def ends_def)

lemma locks_shared:
  "(\<And>u. locks u = locks s \<Longrightarrow> ends P (k u)) \<Longrightarrow> ends P (sync_wallet w s k)"
  "(\<And>u. locks u = locks s \<Longrightarrow> ends P (k u)) \<Longrightarrow> ends P (broadcast_tx w txid s k)"
  "(\<And>u. locks u = locks s \<Longrightarrow> ends P (k u)) \<Longrightarrow> ends P (finish_tx w req s k)"
  "(\<And>x u. locks u = locks s \<Longrightarrow> ends P (k' x u)) \<Longrightarrow> ends P (sign_tx w s k')"
  "(\<And>x u. locks u = locks s \<Longrightarrow> ends P (k'' x u)) \<Longrightarrow> ends P (new_address w s k'')"
  by (auto simp: shared_defs call_def ends_leaf intro!: ends_rules)

lemma locks_wallet_scopes:
  "at_rest s \<Longrightarrow> (\<And>x u. locks u = locks s \<Longrightarrow> ends P (r x u)) \<Longrightarrow> ends P (asset_owned_values w c s r)"
  "at_rest s \<Longrightarrow> (\<And>x u. locks u = locks s \<Longrightarrow> ends P (r' x u)) \<Longrightarrow> ends P (rgb_total_amount w c s r')"
  by (auto simp: shared_defs call_def ends_leaf intro!: ends_rules)

lemma locks_take:
  "P (println (MError ''no available UTXOs'') s) \<Longrightarrow> (\<And>x u. locks u = locks s \<Longrightarrow> ends P (t x u)) \<Longrightarrow> ends P (take_utxo s t)"
  by (auto simp: take_utxo_def error_def ends_leaf intro!: ends_rules)

lemma locks_error: "P (println (MError m) s) \<Longrightarrow> ends P (error m s)"
  by (simp add: error_def ends_leaf)

lemma locks_funds:
  "locks s = Some [] \<Longrightarrow> (\<And>u. locks u = Some [] \<Longrightarrow> ends at_rest (k u)) \<Longrightarrow> ends at_rest (check_rgb_funds w c amt s k)"
  by (auto simp: check_rgb_funds_def error_def ends_leaf Let_def intro!: locks_wallet_scopes ends_rules)

lemma ends_bool:
  "(x \<Longrightarrow> ends P f) \<Longrightarrow> (\<not> x \<Longrightarrow> ends P g) \<Longrightarrow> ends P (case x of True \<Rightarrow> f | False \<Rightarrow> g)"
  by (cases x) simp_all

lemmas locks_rules = ends_bool ends_need ends_expect ends_if ends_sum ends_option ends_prod ends_leaf
  locks_call locks_with_wallet locks_shared locks_wallet_scopes locks_take locks_error locks_funds

lemma onchain_locks:
  "locks s = Some [] \<Longrightarrow> ends at_rest (mine_cmd w ws s)" "locks s = Some [] \<Longrightarrow> ends at_rest (listunspent w s)"
  "locks s = Some [] \<Longrightarrow> ends at_rest (getaddress w s)"
  "locks s = Some [] \<Longrightarrow> ends at_rest (issueasset w ws s)"
  "locks s = Some [] \<Longrightarrow> ends at_rest (assetbalance w ws s)"
  "locks s = Some [] \<Longrightarrow> ends at_rest (receiveasset w s)"
  unfolding onchain_defs Let_def by (intro locks_rules; simp)+

lemma add_recipients_locks:
  "(\<And>rs u. locks u = locks s \<Longrightarrow> ends P (k rs u)) \<Longrightarrow> ends P (add_recipients w n rs s k)"
  by (induction n arbitrary: rs s) (auto intro!: locks_shared)

lemma createutxos_locks: "locks s = Some [] \<Longrightarrow> ends at_rest (createutxos w s)"
  unfolding createutxos_def create_tx_def Let_def
  by (intro locks_rules add_recipients_locks; simp)+

lemma refresh_locks:
  assumes "locks s = Some []"
  shows "ends (\<lambda>t. locks t = Some []) (refresh_loop w bfs s)"
  using assms
proof (induction bfs arbitrary: s)
  case (Cons bf bfs)
  have "ends (\<lambda>t. locks t = Some []) (refresh_file w bf s)"
    unfolding refresh_file_def Let_def using Cons.prems by (intro locks_rules; simp)+
  then show ?case using Cons.IH by (auto intro!: ends_rules)
qed (simp add: ends_leaf)

lemma sendasset_locks: "locks s = Some [] \<Longrightarrow> ends at_rest (sendasset w ws s)"
proof -
  have c: "ends at_rest (complete_send w c amt b seal inputs change s)" if "locks s = Some [Runtime]"
    for c amt b seal inputs change s
    unfolding complete_send_def Let_def using that by (intro locks_rules; simp)+
  assume "locks s = Some []"
  then show ?thesis
    unfolding sendasset_def send_owned_def Let_def by (intro locks_rules c; simp)+
qed

lemma funding_task_locks: "locks s = Some [] \<Longrightarrow> ends at_rest (funding_task w tmp cp txid col s)"
  unfolding funding_task_def Let_def by (intro locks_rules; simp)+

lemma funding_locks:
  "locks s = Some [] \<Longrightarrow> rgb_channel_files s tmp = None \<Longrightarrow> ends at_rest (funding_generation_ready w tmp cp sats script s)"
  unfolding funding_generation_ready_def fund_channel_def Let_def
  by (simp, intro locks_rules funding_task_locks; simp)+

lemma channel_ready_locks: "locks s = Some [] \<Longrightarrow> ends at_rest (channel_ready w cid s)"
  unfolding channel_ready_def Let_def by (intro locks_rules; simp)+

lemma sweep_outputs_locks:
  assumes "locks s = Some [Runtime]"
  shows "ends (\<lambda>t. locks t = Some [Runtime]) (sweep_outputs w outs s)"
  using assms
proof (induction outs arbitrary: s)
  case (Cons outp outs)
  have "ends (\<lambda>t. locks t = Some [Runtime]) (sweep_output w outp s)"
    unfolding sweep_output_def sweep_transfer_def sweep_build_def get_bdk_wallet_seckey_def sweep_record_def Let_def
    using Cons.prems by (intro locks_rules; simp)+
  then show ?case using Cons.IH by (auto intro!: ends_rules)
qed (simp add: ends_leaf)

lemma spendable_outputs_locks: "locks s = Some [] \<Longrightarrow> ends at_rest (spendable_outputs w outs s)"
  unfolding spendable_outputs_def
  by (rule ends_flow [OF sweep_outputs_locks]) (auto intro!: ends_leaf)

lemma maker_init_locks:
  "locks s = Some [] \<Longrightarrow> (\<And>h sec u. locks u = Some [] \<Longrightarrow> ends at_rest (k h sec u)) \<Longrightarrow> ends at_rest (maker_init w st timeout cid s k)"
  by (auto simp: maker_init_def Let_def intro!: locks_rules)

lemma trades_locks:
  "locks s = Some [] \<Longrightarrow> ends at_rest (makerinit w ws s)" "locks s = Some [] \<Longrightarrow> ends at_rest (taker w ws s)"
  unfolding makerinit_def make_offer_def taker_def whitelist_trade_def Let_def
  by (intro locks_rules maker_init_locks; simp)+

lemma makerexecute_locks: "locks s = Some [] \<Longrightarrow> ends at_rest (makerexecute w ws s)"
proof -
  have e: "ends at_rest (maker_execute w pk st cid h sec s)" if "locks s = Some []" for pk st cid h sec s
    using that by (auto simp: maker_execute_def get_route_def Let_def intro!: locks_rules split: option.splits)
  assume "locks s = Some []"
  then show ?thesis unfolding makerexecute_def Let_def by (intro locks_rules e; simp)+
qed

lemma connect_locks: "locks (snd (connect_peer_if_necessary env pk addr s)) = locks s"
  "locks (snd (do_connect_peer env pk addr s)) = locks s" "locks (snd (do_disconnect_peer env pk s)) = locks s"
  by (auto simp: connect_peer_if_necessary_def do_connect_peer_def do_disconnect_peer_def Let_def
      split: option.splits bool.splits)

lemma openchannel_locks: "locks s = Some [] \<Longrightarrow> ends at_rest (openchannel w col ws s)"
proof -
  have o: "ends at_rest (open_with w str pk addr sat push ann info s)" if "locks s = Some []"
    for str pk addr sat push ann info s
  proof -
    obtain r u where c: "connect_peer_if_necessary (w_ldk w) pk addr s = (r, u)" by force
    with connect_locks(1) [of "w_ldk w" pk addr s] that have "locks u = Some []" by simp
    then show ?thesis
      unfolding open_with_def c open_channel_def Let_def
      by (auto intro!: locks_rules split: option.splits bool.splits)
  qed
  assume "locks s = Some []"
  then show ?thesis unfolding openchannel_def Let_def by (intro locks_rules o; simp)+
qed

lemma channels_locks:
  "locks s = Some [] \<Longrightarrow> ends at_rest (closechannel w ws s)"
  "locks s = Some [] \<Longrightarrow> ends at_rest (forceclosechannel w ws s)"
  "locks s = Some [] \<Longrightarrow> ends at_rest (sendonionmessage w ws s)"
  "locks s = Some [] \<Longrightarrow> ends at_rest (signmessage line s)"
  "locks s = Some [] \<Longrightarrow> ends at_rest (node_info w s)"
  unfolding closechannel_def forceclosechannel_def channel_and_peer_def close_channel_def force_close_channel_def
    sendonionmessage_def signmessage_def node_info_def Let_def
  by (intro locks_rules; simp)+

lemma peers_locks:
  "locks s = Some [] \<Longrightarrow> ends at_rest (connectpeer w ws s)" "locks s = Some [] \<Longrightarrow> ends at_rest (disconnectpeer w ws s)"
  using connect_locks
  by (auto simp: connectpeer_def disconnectpeer_def intro!: locks_rules split: option.splits) (metis snd_conv)+

lemma payments_locks:
  "locks s = Some [] \<Longrightarrow> ends at_rest (sendpayment w ws s)" "locks s = Some [] \<Longrightarrow> ends at_rest (keysend_cmd w col ws s)"
  "locks s = Some [] \<Longrightarrow> ends at_rest (getinvoice w col ws s)" "locks s = Some [] \<Longrightarrow> ends at_rest (invoicestatus w ws s)"
  "locks s = Some [] \<Longrightarrow> ends at_rest (payment_claimable h pur amt s)"
  "locks s = Some [] \<Longrightarrow> ends at_rest (payment_claimed h pur amt s)"
  "locks s = Some [] \<Longrightarrow> ends at_rest (payment_sent pre h fee s)"
  "locks s = Some [] \<Longrightarrow> ends at_rest (payment_failed h s)"
  by (auto simp: invoices_defs send_payment_def keysend_def get_invoice_def invoice_status_def payment_claimable_def
      payment_claimed_def payment_sent_def payment_failed_def Let_def intro!: locks_rules split: option.splits)

lemma print_lines_locks: "locks (print_lines ls s) = locks s"
  by (induction ls arbitrary: s) simp_all

lemma listings_locks:
  "locks s = Some [] \<Longrightarrow> ends at_rest (tradeslist w ws s)" "locks s = Some [] \<Longrightarrow> ends at_rest (list_payments w s)"
  "locks s = Some [] \<Longrightarrow> ends at_rest (list_peers w s)" "locks s = Some [] \<Longrightarrow> ends at_rest (list_channels_cmd w s)"
  "locks s = Some [] \<Longrightarrow> ends at_rest (payment_forwarded w prev nxt fee onchain amt s)"
  "locks s = Some [] \<Longrightarrow> ends at_rest (pending_htlcs_forwardable w millis s)"
  unfolding listing_defs Let_def by (intro locks_rules; simp add: print_lines_locks)+

lemma texts_locks: "locks s = Some [] \<Longrightarrow> ends at_rest (help_cmd s)"
  "locks s = Some [] \<Longrightarrow> ends at_rest (channel_pending cid pk s)" "locks s = Some [] \<Longrightarrow> ends at_rest (channel_closed cid reason s)"
  unfolding text_defs by (intro locks_rules; simp add: print_lines_locks)+

lemma intercept_locks: "locks s = Some [] \<Longrightarrow> ends at_rest (htlc_intercepted env ih s)"
  unfolding htlc_intercepted_def htlc_intercepted_swap_def fail_intercepted_def Let_def
  by (intro locks_rules; simp)+

lemma reconnect_locks: "locks s = Some [] \<Longrightarrow> ends at_rest (reconnect_tick env stop parse s)"
proof -
  have r: "ends at_rest (reconnect_channels env stop info ids s)" if "locks s = Some []" for info ids s
    using that
  proof (induction ids arbitrary: s)
    case (Cons i ids)
    then show ?case using connect_locks(2) [of env i _ s]
      by (auto intro!: ends_rules Cons split: option.splits) (metis snd_conv)
  qed (simp add: ends_leaf)
  assume "locks s = Some []"
  then show ?thesis unfolding reconnect_tick_def Let_def by (intro locks_rules r; simp)+
qed

text \<open>What the tasks of the node execute.\<close>

datatype activity = Line string | Handle ldk_event | Tick "effect list \<Rightarrow> bool" "string \<Rightarrow> peer_error + pubkey \<times> sockaddr"

fun perform :: "world \<Rightarrow> activity \<Rightarrow> node \<Rightarrow> flow" where
  "perform w (Line line) s = run_command w line s"
| "perform w (Handle e) s = handle_ldk_events w e s"
| "perform w (Tick stop parse) s = reconnect_tick (w_ldk w) stop parse s"

fun funds_colored :: "node \<Rightarrow> activity \<Rightarrow> bool" where
  "funds_colored s (Handle (FundingGenerationReady tmp _ _ _)) = (rgb_channel_files s tmp \<noteq> None)"
| "funds_colored s _ = False"

lemma ends_weaken: "ends P f \<Longrightarrow> (\<And>t. P t \<Longrightarrow> Q t) \<Longrightarrow> ends Q f"
  by (simp add: ends_def)

lemma run_command_locks:
  assumes s: "locks s = Some []"
  shows "ends at_rest (run_command w line s)"
proof (cases "split_whitespace line")
  case Nil
  then show ?thesis using s by (simp add: run_command_def ends_leaf)
next
  case (Cons name ws)
  show ?thesis
    unfolding run_command_def refresh_def Cons list.case
    by (intro ends_if onchain_locks createutxos_locks sendasset_locks trades_locks makerexecute_locks openchannel_locks
        channels_locks peers_locks payments_locks listings_locks texts_locks locks_error ends_weaken [OF refresh_locks] ends_leaf;
        simp add: s)
qed

lemma handler_locks:
  "locks s = Some [] \<Longrightarrow> \<not> funds_colored s (Handle e) \<Longrightarrow> ends at_rest (handle_ldk_events w e s)"
  by (cases e)
     (simp_all add: handle_ldk_events_def ends_leaf funding_locks payments_locks
       spendable_outputs_locks channel_ready_locks intercept_locks listings_locks texts_locks)

lemma perform_locks: "locks s = Some [] \<Longrightarrow> \<not> funds_colored s a \<Longrightarrow> ends at_rest (perform w a s)"
  by (cases a) (simp_all add: run_command_locks handler_locks reconnect_locks)

text \<open>The trace only grows, so what an operation does to the locks can be read off what it added.\<close>

interpretation growing: node_invariant "\<lambda>_ t. \<exists>es. trace t = tr @ es" for tr
  by unfold_locales (auto simp: payment_sent_def payment_failed_def Let_def split: option.splits)

lemma growing_perform:
  assumes "perform w a s = Continue t"
  obtains es where "trace t = trace s @ es"
proof -
  from assms have "node_step w s t" by (cases a) (auto intro: node_step.intros)
  from growing.step_keeps [OF this, of "trace s"] that show thesis by auto
qed

lemma lock_state_held: "lock_state tr = Some h \<Longrightarrow> runtime_held tr \<longleftrightarrow> Runtime \<in> set h"
proof (induction tr arbitrary: h rule: rev_induct)
  case (snoc e tr)
  then obtain h' where h: "lock_state tr = Some h'" "orderly h' (locking e) = Some h"
    by (auto simp: bind_eq_Some_conv)
  have "distinct h'" using h(1) by (auto simp: lock_state_def dest: orderly_distinct)
  with snoc.IH [OF h(1)] h show ?case by (cases e) (auto split: if_splits)
qed (simp add: lock_state_def)

subsection \<open>The tasks as threads\<close>

fun operation_locks :: "world \<times> activity \<times> node \<Rightarrow> lock lock_op list" where
  "operation_locks (w, a, s) = lock_ops (new_effects s (perform w a s))"

text \<open>
  An operation started with both locks free that returns without leaving the runtime's lock file behind,
  and is not the funding of a coloured channel.
\<close>

fun well_behaved :: "world \<times> activity \<times> node \<Rightarrow> bool" where
  "well_behaved (w, a, s) =
     (lock_state (trace s) = Some [] \<and> \<not> funds_colored s a \<and>
      (case perform w a s of Continue t \<Rightarrow> \<not> runtime_held (trace t) | _ \<Rightarrow> False))"

lemma operation_at_rest:
  assumes "perform w a s = Continue t" and "lock_state (trace s) = Some []" and "\<not> funds_colored s a"
  shows "orderly [] (operation_locks (w, a, s)) = lock_state (trace t) \<and> at_rest t"
proof -
  obtain es where "trace t = trace s @ es" using assms(1) by (rule growing_perform)
  then have "orderly [] (operation_locks (w, a, s)) = lock_state (trace t)"
    using assms(1,2) by (simp add: new_effects_def)
  moreover have "at_rest t" using perform_locks [OF assms(2,3), of w] assms(1) by (simp add: ends_def)
  ultimately show ?thesis by blast
qed

interpretation tasks: lock_clients operation_locks well_behaved
proof
  fix r assume r: "well_behaved r"
  obtain w a s where was: "r = (w, a, s)" by (cases r)
  with r obtain t where t: "perform w a s = Continue t" "\<not> runtime_held (trace t)" by (auto split: flow.splits)
  with r was operation_at_rest [OF t(1)] show "orderly [] (operation_locks r) = Some []"
    by (auto dest: lock_state_held)
qed

subsection \<open>The funding of a coloured channel\<close>

lemma prefix_deadlocks:
  "\<exists>ts. schedule [0, 0, 0, 0, 0, 1] (start
      [[Acquire Runtime, Acquire Wallet, Release Wallet, Release Runtime, Acquire Wallet, Acquire Runtime] @ xs,
       [Acquire Runtime, Acquire Wallet] @ ys]) = Some ts \<and> stuck ts"
  by (simp add: start_def advance_def stuck_def finished_def upt_rec)

lemma ops_shared:
  "(\<And>u. lock_ops (trace u) = lock_ops (trace s) \<Longrightarrow> ends P (k u)) \<Longrightarrow> ends P (finish_tx w req s k)"
  "(\<And>x u. lock_ops (trace u) = lock_ops (trace s) \<Longrightarrow> ends P (k'' x u)) \<Longrightarrow> ends P (new_address w s k'')"
  "(\<And>x u. lock_ops (trace u) = lock_ops (trace s) @ [Acquire Wallet, Release Wallet] \<Longrightarrow> ends P (r x u)) \<Longrightarrow>
     ends P (asset_owned_values w c s r)"
  by (auto simp: shared_defs call_def ends_leaf lock_ops_def intro!: ends_rules)

lemma lock_ops_append [simp]: "lock_ops (xs @ ys) = lock_ops xs @ lock_ops ys"
  by (simp add: lock_ops_def)

interpretation prefix: node_invariant "\<lambda>_ t. \<exists>xs. lock_ops (trace t) = pre @ xs" for pre
  by unfold_locales (auto simp: payment_sent_def payment_failed_def Let_def split: option.splits)

lemma fund_channel_locks:
  "ends (\<lambda>t. \<exists>xs. lock_ops (trace t) = (lock_ops (trace s) @ [Acquire Wallet, Acquire Runtime]) @ xs)
    (fund_channel w tmp cp sats script (Some (info, inputs, change)) s)"
  unfolding fund_channel_def Let_def option.case prod.case
  by (rule ops_shared(2), rule ops_shared(1), rule prefix.call_ends, simp,
      intro prefix.shared_ends(4) prefix.funding_task_ends prefix.changes)
     (auto intro!: prefix.shared_ends prefix.funding_task_ends)

lemma colored_funding_locks:
  assumes "rgb_channel_files s tmp = Some info"
  shows "ends (\<lambda>t. \<exists>xs. lock_ops (trace t) = (lock_ops (trace s) @
      [Acquire Runtime, Acquire Wallet, Release Wallet, Release Runtime, Acquire Wallet, Acquire Runtime]) @ xs)
    (funding_generation_ready w tmp cp sats script s)"
  unfolding funding_generation_ready_def assms option.case
  by (intro ends_expect ops_shared(3) ends_sum ends_if ends_prod ends_weaken [OF fund_channel_locks])
     (auto simp: ends_def)

definition send_line :: string where
  "send_line = ''sendasset'' @ CHR '' '' # ''a'' @ CHR '' '' # ''60'' @ CHR '' '' # ''b'' @ newline # []"

lemma send_line: "run_command sample_world send_line asset_node = Continue sent_node"
proof -
  have ws: "is_ws (CHR '' '')" "is_ws newline" "\<not> is_ws (CHR ''a'')" "\<not> is_ws (CHR ''b'')" "\<not> is_ws (CHR ''6'')"
    "\<not> is_ws (CHR ''0'')" "\<not> is_ws (CHR ''s'')" "\<not> is_ws (CHR ''e'')" "\<not> is_ws (CHR ''n'')" "\<not> is_ws (CHR ''d'')"
    "\<not> is_ws (CHR ''t'')"
    by (simp_all add: is_ws_def newline_def)
  have "split_whitespace (''b'' @ newline # []) = ''b'' # split_whitespace []"
    by (rule split_whitespace_word) (simp_all add: ws)
  moreover have "split_whitespace (''60'' @ CHR '' '' # ''b'' @ newline # []) = ''60'' # split_whitespace (''b'' @ newline # [])"
    by (rule split_whitespace_word) (simp_all add: ws)
  moreover have "split_whitespace (''a'' @ CHR '' '' # ''60'' @ CHR '' '' # ''b'' @ newline # []) =
      ''a'' # split_whitespace (''60'' @ CHR '' '' # ''b'' @ newline # [])"
    by (rule split_whitespace_word) (simp_all add: ws)
  moreover have "split_whitespace send_line =
      ''sendasset'' # split_whitespace (''a'' @ CHR '' '' # ''60'' @ CHR '' '' # ''b'' @ newline # [])"
    unfolding send_line_def by (rule split_whitespace_word) (simp_all add: ws)
  ultimately have "split_whitespace send_line = [''sendasset'', ''a'', ''60'', ''b'']"
    by (simp only: split_whitespace_Nil)
  then show ?thesis by (simp add: run_command_def sent_node)
qed

lemma sent_locks: "lock_ops (new_effects asset_node (Continue sent_node)) =
    [Acquire Runtime, Acquire Wallet, Release Wallet, Acquire Wallet, Release Wallet, Acquire Wallet,
     Release Runtime, Release Wallet]"
  by (simp add: new_effects_def sent_node_def sendasset_def need_def sample_run parse_word_def digit_val_def
      rgb_total_amount_def
      sync_wallet_def call_def expect_def get_rgb_total_amount_def add_w_def asset_owned_values_def send_owned_def
      select_with_change_def sub_w_def take_utxo_def take_uncolored_def check_uncolored_utxos_def get_utxo_def
      asset_node_def complete_send_def with_wallet_def new_address_def finish_tx_def sign_tx_def broadcast_tx_def
      Let_def post_consignment_ok_def sample_world_def recipients_total_def sample_node_def)

subsection \<open>Properties\<close>




text \<open>
  C18. The exception: the handler of \<open>FundingGenerationReady\<close> for a coloured channel takes the runtime's lock
  while it holds the wallet's mutex. Beside any operation that takes the mutex under the runtime's lock
  the node can deadlock: after a schedule of six steps neither of the two can go on.
\<close>

theorem colored_funding_can_deadlock:
  assumes "perform w (Handle (FundingGenerationReady tmp cp sats script)) s = Continue t"
    and "rgb_channel_files s tmp = Some info"
    and "operation_locks (w', a, s') = [Acquire Runtime, Acquire Wallet] @ ops"
  shows "\<exists>ts. schedule [0, 0, 0, 0, 0, 1]
      (start [operation_locks (w, Handle (FundingGenerationReady tmp cp sats script), s), operation_locks (w', a, s')]) =
        Some ts \<and> stuck ts"
proof -
  from assms(1) have f: "funding_generation_ready w tmp cp sats script s = Continue t"
    by (simp add: handle_ldk_events_def)
  obtain es where es: "trace t = trace s @ es" by (rule growing_perform [OF assms(1)])
  from colored_funding_locks [OF assms(2), of w cp sats script] f es obtain xs
    where "lock_ops es =
      [Acquire Runtime, Acquire Wallet, Release Wallet, Release Runtime, Acquire Wallet, Acquire Runtime] @ xs"
    by (auto simp: ends_def)
  then have "operation_locks (w, Handle (FundingGenerationReady tmp cp sats script), s) =
      [Acquire Runtime, Acquire Wallet, Release Wallet, Release Runtime, Acquire Wallet, Acquire Runtime] @ xs"
    using assms(1) es by (simp add: new_effects_def)
  with assms(3) prefix_deadlocks show ?thesis by simp
qed

theorem colored_funding_can_deadlock_witness:
  "\<exists>ts. schedule [0, 0, 0, 0, 0, 1]
      (start [operation_locks (sample_world, Handle (FundingGenerationReady [1] [9] 30000 (Some [5])), asset_node),
              operation_locks (sample_world, Line send_line, asset_node)]) = Some ts \<and> stuck ts"
proof (rule colored_funding_can_deadlock)
  show "perform sample_world (Handle (FundingGenerationReady [1] [9] 30000 (Some [5]))) asset_node = Continue funded_node"
    by (simp add: handle_ldk_events_def funded_node)
  show "rgb_channel_files asset_node [1] =
      Some \<lparr>ri_contract_id = [42], ri_local_rgb_amount = 50, ri_remote_rgb_amount = 50\<rparr>"
    by (simp add: asset_node_def sample_node_def)
  show "operation_locks (sample_world, Line send_line, asset_node) = [Acquire Runtime, Acquire Wallet] @
      [Release Wallet, Acquire Wallet, Release Wallet, Acquire Wallet, Release Runtime, Release Wallet]"
    by (simp add: send_line sent_locks)
qed

lemma sent_at_rest: "lock_state (trace asset_node) = Some []" "lock_state (trace sent_node) = Some []"
proof -
  show a: "lock_state (trace asset_node) = Some []" by (simp add: asset_node_def sample_node_def lock_state_def)
  obtain es where "trace sent_node = trace asset_node @ es"
    using growing_perform [of sample_world "Line send_line" asset_node] send_line by auto
  with a sent_locks show "lock_state (trace sent_node) = Some []" by (simp add: new_effects_def)
qed

lemma sending: "well_behaved (sample_world, Line send_line, asset_node)"
  using sent_at_rest lock_state_held [OF sent_at_rest(2)] by (simp add: send_line)




end
