(* ===== verification/SendRgb.thy ===== *)
theory SendRgb
  imports Transfers "HOL-Library.Monad_Syntax" "HOL-Library.Multiset"
begin

text \<open>
  \<open>send_rgb\<close> of \<open>src/rgb_utils.rs\<close>, which the transfers call as \<open>SendRgb\<close>: which allocations the transition
  takes as inputs, which inputs of the transaction are marked as its consumers, and where the commitment
  goes. The stock of the RGB runtime and the commitment functions of the RGB library are the record \<open>stock\<close>;
  every \<open>expect\<close> that fails makes the result \<^term>\<open>None\<close>.
\<close>

subsection \<open>Data\<close>

record transition =
  tr_contract :: contract_id
  tr_inputs :: "(bytes \<times> u64) list"
  tr_outputs :: "(rgb_seal \<times> u64) list"

record psbt_input =
  txin_outpoint :: outpoint
  txin_consumers :: "contract_id \<rightharpoonup> bytes"

record psbt_output =
  txo_is_op_return :: bool
  txo_opret_host :: bool

record psbt =
  ps_inputs :: "psbt_input list"
  ps_outputs :: "psbt_output list"
  ps_transitions :: "transition list"

record stock =
  state_for_outpoints :: "contract_id \<Rightarrow> outpoint list \<Rightarrow> (bytes \<times> u64) list option"
  contracts_by_outpoint :: "outpoint \<Rightarrow> contract_id list option"
  add_input_ok :: "transition \<Rightarrow> bytes \<Rightarrow> bool"
  complete_ok :: "transition \<Rightarrow> bool"
  transition_id :: "transition \<Rightarrow> bytes"
  set_consumer_ok :: "psbt_input \<Rightarrow> contract_id \<Rightarrow> bytes \<Rightarrow> bool"
  push_transition_ok :: "psbt \<Rightarrow> transition \<Rightarrow> bool"
  bundles_ok :: "psbt \<Rightarrow> bool"
  opret_host_ok :: "psbt_output \<Rightarrow> bool"
  \<comment> \<open>\<open>rgb_bundle_to_lnpbp4\<close>, \<open>dbc_conclude_static\<close>, \<open>consume_anchor\<close>, \<open>consume_bundle\<close>: the witness txid\<close>
  commit :: "psbt \<Rightarrow> txid option"
  transfer_ok :: "contract_id \<Rightarrow> rgb_seal list \<Rightarrow> bool"

subsection \<open>The operation\<close>

definition require :: "bool \<Rightarrow> unit option" where
  "require b = (if b then Some () else None)"

fun add_inputs :: "stock \<Rightarrow> (bytes \<times> u64) list \<Rightarrow> transition \<Rightarrow> transition option" where
  "add_inputs r [] tr = Some tr"
| "add_inputs r ((opout, amt) # states) tr =
     (if add_input_ok r tr opout then add_inputs r states (tr\<lparr>tr_inputs := tr_inputs tr @ [(opout, amt)]\<rparr>) else None)"

text \<open>The map from every contract with state on the spent outputs to these outputs.\<close>

definition push_input :: "outpoint \<Rightarrow> contract_id \<Rightarrow> (contract_id \<rightharpoonup> outpoint list) \<Rightarrow> (contract_id \<rightharpoonup> outpoint list)" where
  "push_input outpoint cid m = m(cid \<mapsto> (case m cid of None \<Rightarrow> [] | Some l \<Rightarrow> l) @ [outpoint])"

fun contract_inputs :: "stock \<Rightarrow> outpoint list \<Rightarrow> (contract_id \<rightharpoonup> outpoint list) \<Rightarrow> (contract_id \<rightharpoonup> outpoint list) option" where
  "contract_inputs r [] m = Some m"
| "contract_inputs r (outpoint # rest) m =
     (case contracts_by_outpoint r outpoint of
        None \<Rightarrow> None
      | Some ids \<Rightarrow> contract_inputs r rest (fold (push_input outpoint) ids m))"

fun set_consumers :: "stock \<Rightarrow> contract_id \<Rightarrow> bytes \<Rightarrow> outpoint list \<Rightarrow> psbt_input list \<Rightarrow> psbt_input list option" where
  "set_consumers r cid i inputs [] = Some []"
| "set_consumers r cid i inputs (input # rest) =
     (if txin_outpoint input \<in> set inputs then
        if set_consumer_ok r input cid i then
          map_option ((#) (input\<lparr>txin_consumers := (txin_consumers input)(cid \<mapsto> i)\<rparr>)) (set_consumers r cid i inputs rest)
        else None
      else map_option ((#) input) (set_consumers r cid i inputs rest))"

text \<open>A seal on an output of the witness transaction gets its txid.\<close>

fun resolve :: "txid \<Rightarrow> rgb_seal \<Rightarrow> rgb_seal" where
  "resolve txid (AtVout v) = AtOutpoint (OutPoint txid v)"
| "resolve txid seal = seal"

text \<open>
  The transaction, the completed transition and the receivers of the consignment. \<open>builder\<close> holds the
  transition's outputs.
\<close>

definition send_rgb ::
  "stock \<Rightarrow> contract_id \<Rightarrow> psbt \<Rightarrow> transition \<Rightarrow> rgb_seal list \<Rightarrow> (psbt \<times> transition \<times> rgb_seal list) option" where
  "send_rgb r contract_id psbt builder beneficiaries =
     do {
       let prev_outputs = map txin_outpoint (ps_inputs psbt);
       states \<leftarrow> state_for_outpoints r contract_id prev_outputs;
       builder \<leftarrow> add_inputs r states builder;
       let transition = builder\<lparr>tr_contract := contract_id\<rparr>;
       require (complete_ok r transition);
       m \<leftarrow> contract_inputs r prev_outputs Map.empty;
       let inputs = (case m contract_id of None \<Rightarrow> [] | Some l \<Rightarrow> l);
       marked \<leftarrow> set_consumers r contract_id (transition_id r transition) inputs (ps_inputs psbt);
       let psbt = psbt\<lparr>ps_inputs := marked\<rparr>;
       require (push_transition_ok r psbt transition);
       let psbt = psbt\<lparr>ps_transitions := ps_transitions psbt @ [transition]\<rparr>;
       require (bundles_ok r psbt);
       opreturn_index \<leftarrow> find_index txo_is_op_return (ps_outputs psbt);
       let opreturn_output = ps_outputs psbt ! opreturn_index;
       require (opret_host_ok r opreturn_output);
       let psbt = psbt\<lparr>ps_outputs := (ps_outputs psbt)[opreturn_index := opreturn_output\<lparr>txo_opret_host := True\<rparr>]\<rparr>;
       witness_txid \<leftarrow> commit r psbt;
       let beneficiaries = map (resolve witness_txid) beneficiaries;
       require (transfer_ok r contract_id beneficiaries);
       Some (psbt, transition, beneficiaries)
     }"

subsection \<open>Lemmas\<close>

lemma require_iff [simp]: "require b = Some u \<longleftrightarrow> b"
  by (simp add: require_def)

lemma add_inputs_Some: "add_inputs r states tr = Some tr' \<Longrightarrow> tr' = tr\<lparr>tr_inputs := tr_inputs tr @ states\<rparr>"
  by (induction r states tr rule: add_inputs.induct) (auto split: if_splits)

lemma fold_push_input:
  "(case fold (push_input outpoint) ids m cid of None \<Rightarrow> [] | Some l \<Rightarrow> l) =
     (case m cid of None \<Rightarrow> [] | Some l \<Rightarrow> l) @ replicate (count_list ids cid) outpoint"
  by (induction ids arbitrary: m) (auto simp: push_input_def replicate_append_same split: option.splits)

lemma contract_inputs_Some:
  "contract_inputs r os m = Some m' \<Longrightarrow>
     set (case m' cid of None \<Rightarrow> [] | Some l \<Rightarrow> l) = set (case m cid of None \<Rightarrow> [] | Some l \<Rightarrow> l) \<union>
       {o'\<in>set os. \<exists>ids. contracts_by_outpoint r o' = Some ids \<and> cid \<in> set ids}"
proof (induction r os m rule: contract_inputs.induct)
  case (2 r outpoint rest m)
  then obtain ids where ids: "contracts_by_outpoint r outpoint = Some ids"
    "contract_inputs r rest (fold (push_input outpoint) ids m) = Some m'"
    by (auto split: option.splits)
  from "2.IH" [OF ids] have "set (case m' cid of None \<Rightarrow> [] | Some l \<Rightarrow> l) =
      set (case m cid of None \<Rightarrow> [] | Some l \<Rightarrow> l) \<union> set (replicate (count_list ids cid) outpoint) \<union>
       {o'\<in>set rest. \<exists>ids. contracts_by_outpoint r o' = Some ids \<and> cid \<in> set ids}"
    by (simp add: fold_push_input)
  moreover have "set (replicate (count_list ids cid) outpoint) = (if cid \<in> set ids then {outpoint} else {})"
    by (auto simp: count_list_0_iff)
  ultimately show ?case using ids(1) by auto
qed simp

lemma set_consumers_Some:
  "set_consumers r cid i inputs xs = Some ys \<Longrightarrow>
     ys = map (\<lambda>x. if txin_outpoint x \<in> set inputs then x\<lparr>txin_consumers := (txin_consumers x)(cid \<mapsto> i)\<rparr> else x) xs"
  by (induction xs arbitrary: ys) (auto split: if_splits)

lemma find_index_Some:
  "find_index p xs = Some i \<longleftrightarrow> i < length xs \<and> p (xs ! i) \<and> (\<forall>j<i. \<not> p (xs ! j))"
proof (induction xs arbitrary: i)
  case (Cons x xs)
  show ?case
  proof (cases i)
    case 0
    then show ?thesis by auto
  next
    case (Suc n)
    have "(\<forall>j<Suc n. \<not> p ((x # xs) ! j)) \<longleftrightarrow> \<not> p x \<and> (\<forall>j<n. \<not> p (xs ! j))"
      by (metis (no_types) less_Suc_eq_0_disj nth_Cons_0 nth_Cons_Suc)
    with Suc Cons.IH [of n] show ?thesis by auto
  qed
qed simp

text \<open>What a successful call did.\<close>

lemma send_rgb_Some:
  assumes "send_rgb r cid psbt builder seals = Some (psbt', transition, seals')"
  obtains states j txid where
    "state_for_outpoints r cid (map txin_outpoint (ps_inputs psbt)) = Some states"
    "transition = builder\<lparr>tr_contract := cid, tr_inputs := tr_inputs builder @ states\<rparr>"
    "ps_inputs psbt' = map (\<lambda>x. if \<exists>ids. contracts_by_outpoint r (txin_outpoint x) = Some ids \<and> cid \<in> set ids
       then x\<lparr>txin_consumers := (txin_consumers x)(cid \<mapsto> transition_id r transition)\<rparr> else x) (ps_inputs psbt)"
    "ps_transitions psbt' = ps_transitions psbt @ [transition]"
    "find_index txo_is_op_return (ps_outputs psbt) = Some j"
    "ps_outputs psbt' = (ps_outputs psbt)[j := (ps_outputs psbt ! j)\<lparr>txo_opret_host := True\<rparr>]"
    "commit r psbt' = Some txid" "seals' = map (resolve txid) seals"
proof -
  from assms obtain states b m marked j txid where x:
    "state_for_outpoints r cid (map txin_outpoint (ps_inputs psbt)) = Some states"
    "add_inputs r states builder = Some b" "transition = b\<lparr>tr_contract := cid\<rparr>"
    "contract_inputs r (map txin_outpoint (ps_inputs psbt)) Map.empty = Some m"
    "set_consumers r cid (transition_id r transition) (case m cid of None \<Rightarrow> [] | Some l \<Rightarrow> l) (ps_inputs psbt) = Some marked"
    "ps_inputs psbt' = marked" "ps_transitions psbt' = ps_transitions psbt @ [transition]"
    "find_index txo_is_op_return (ps_outputs psbt) = Some j"
    "ps_outputs psbt' = (ps_outputs psbt)[j := (ps_outputs psbt ! j)\<lparr>txo_opret_host := True\<rparr>]"
    "commit r psbt' = Some txid" "seals' = map (resolve txid) seals"
    by (auto simp: send_rgb_def Let_def bind_eq_Some_conv)
  have s: "set (case m cid of None \<Rightarrow> [] | Some l \<Rightarrow> l) =
      {o'\<in>set (map txin_outpoint (ps_inputs psbt)). \<exists>ids. contracts_by_outpoint r o' = Some ids \<and> cid \<in> set ids}"
    using contract_inputs_Some [OF x(4), of cid] by simp
  have "ps_inputs psbt' = map (\<lambda>x. if \<exists>ids. contracts_by_outpoint r (txin_outpoint x) = Some ids \<and> cid \<in> set ids
       then x\<lparr>txin_consumers := (txin_consumers x)(cid \<mapsto> transition_id r transition)\<rparr> else x) (ps_inputs psbt)"
    unfolding x(6) set_consumers_Some [OF x(5)] s by (rule map_cong) auto
  moreover have "transition = builder\<lparr>tr_contract := cid, tr_inputs := tr_inputs builder @ states\<rparr>"
    using x(3) add_inputs_Some [OF x(2)] by simp
  ultimately show thesis using x by (intro that)
qed

lemma find_SomeD: "find p xs = Some x \<Longrightarrow> x \<in> set xs \<and> p x"
  by (induction xs) (auto split: if_splits)

text \<open>The owned allocations are, up to their order, the entries of the history on the wallet's outputs.\<close>

lemma owned_mset:
  assumes "get_asset_owned_values unspents (Some history) = Inr owned" and "distinct (map fo_opout history)"
  shows "mset owned =
    image_mset (\<lambda>f. (fo_opout f, fo_seal f, fo_value f)) (mset (filter (\<lambda>f. fo_seal f \<in> set unspents) history))"
proof -
  let ?e = "\<lambda>f. (fo_opout f, fo_seal f, fo_value f)" and ?fs = "filter (\<lambda>f. fo_seal f \<in> set unspents) history"
  have nil: "btree_ok ([] :: (bytes \<times> outpoint \<times> u64) list)" by (simp add: btree_ok_def)
  have o': "owned = fold (owned_step unspents) history []" using assms(1) by (simp add: get_asset_owned_values_def)
  have ok: "btree_ok owned" unfolding o' by (rule owned_fold_ok [OF nil])
  have d: "distinct (map fo_opout ?fs)" using assms(2) by (simp add: distinct_map_filter)
  have "find (\<lambda>f. fo_seal f \<in> set unspents \<and> fo_opout f = k) (rev history) = Some f \<longleftrightarrow>
      f \<in> set ?fs \<and> fo_opout f = k" for k f
  proof
    assume "find (\<lambda>f. fo_seal f \<in> set unspents \<and> fo_opout f = k) (rev history) = Some f"
    then show "f \<in> set ?fs \<and> fo_opout f = k" by (auto dest: find_SomeD)
  next
    assume f: "f \<in> set ?fs \<and> fo_opout f = k"
    then obtain g where g: "find (\<lambda>f. fo_seal f \<in> set unspents \<and> fo_opout f = k) (rev history) = Some g"
      by (cases "find (\<lambda>f. fo_seal f \<in> set unspents \<and> fo_opout f = k) (rev history)") (auto simp: find_None_iff)
    then have "g \<in> set history" "fo_opout g = k" by (auto dest: find_SomeD)
    with f assms(2) have "g = f" by (auto simp: distinct_map inj_on_def)
    with g show "find (\<lambda>f. fo_seal f \<in> set unspents \<and> fo_opout f = k) (rev history) = Some f" by simp
  qed
  moreover have "(k, p, v) \<in> set owned \<longleftrightarrow>
      (\<exists>f. find (\<lambda>f. fo_seal f \<in> set unspents \<and> fo_opout f = k) (rev history) = Some f \<and>
        p = fo_seal f \<and> v = fo_value f)" for k p v
    unfolding btree.entry_iff [OF ok] unfolding o' owned_fold_lookup [OF nil] by (auto split: option.splits)
  ultimately have "(k, p, v) \<in> set owned \<longleftrightarrow> (k, p, v) \<in> set (map ?e ?fs)" for k p v by auto
  then have "set owned = set (map ?e ?fs)" by auto
  moreover have "distinct owned" using btree.distinct_keys [OF ok] by (simp add: distinct_map)
  moreover have "distinct (map ?e ?fs)" using d by (auto simp: distinct_map inj_on_def)
  ultimately have "mset owned = mset (map ?e ?fs)" using set_eq_iff_mset_eq_distinct [of owned "map ?e ?fs"] by blast
  then show ?thesis by simp
qed

lemma amounts_filter_mset:
  "amounts (filter (\<lambda>(_, p, _). p \<in> A) xs) =
     sum_mset (image_mset (\<lambda>(_, _, v). unat v) (filter_mset (\<lambda>(_, p, _). p \<in> A) (mset xs)))"
  by (simp flip: mset_filter mset_map sum_mset_sum_list)

lemma consumed_owned:
  assumes "get_asset_owned_values unspents (Some history) = Inr owned" and "distinct (map fo_opout history)"
    and "set os \<subseteq> set unspents"
  shows "sum_list (map (\<lambda>f. unat (fo_value f)) (filter (\<lambda>f. fo_seal f \<in> set os) history)) =
    amounts (filter (\<lambda>(_, p, _). p \<in> set os) owned)"
proof -
  let ?in = "\<lambda>f. fo_seal f \<in> set os" and ?un = "\<lambda>f. fo_seal f \<in> set unspents"
  have "amounts (filter (\<lambda>(_, p, _). p \<in> set os) owned) =
      sum_mset (image_mset (\<lambda>f. unat (fo_value f)) (filter_mset ?in (filter_mset ?un (mset history))))"
    unfolding amounts_filter_mset owned_mset [OF assms(1,2)]
    by (simp add: filter_mset_image_mset image_mset.compositionality comp_def)
  also have "filter_mset ?in (filter_mset ?un (mset history)) = filter_mset ?in (mset history)"
    using assms(3) by (auto simp: filter_filter_mset intro: filter_mset_cong)
  finally show ?thesis by (simp flip: mset_filter mset_map sum_mset_sum_list)
qed

lemma filter_take_all: "filter (\<lambda>(_, p, _). p \<in> set (outpoints_of (take k xs))) (take k xs) = take k xs"
  by (rule filter_True) force

subsection \<open>Properties\<close>

text \<open>
  C21. A successful \<open>send_rgb\<close> keeps what the transaction spends, takes as inputs of the transition the contract's
  whole state on these outputs, marks as its consumers exactly the inputs that hold state of the contract, puts
  the commitment into the first OP_RETURN output, and adds no transition for any other contract, whatever
  state of other contracts the spent outputs hold.
\<close>

theorem send_rgb_effect:
  assumes "send_rgb r cid psbt builder seals = Some (psbt', transition, seals')"
  shows "map txin_outpoint (ps_inputs psbt') = map txin_outpoint (ps_inputs psbt) \<and>
    state_for_outpoints r cid (map txin_outpoint (ps_inputs psbt)) =
      Some (drop (length (tr_inputs builder)) (tr_inputs transition)) \<and>
    tr_outputs transition = tr_outputs builder \<and>
    list_all2 (\<lambda>x y. txin_consumers y =
        (if \<exists>ids. contracts_by_outpoint r (txin_outpoint x) = Some ids \<and> cid \<in> set ids
         then (txin_consumers x)(cid \<mapsto> transition_id r transition) else txin_consumers x))
      (ps_inputs psbt) (ps_inputs psbt') \<and>
    (\<exists>j<length (ps_outputs psbt). txo_is_op_return (ps_outputs psbt ! j) \<and>
       list_all (\<lambda>out. \<not> txo_is_op_return out) (take j (ps_outputs psbt)) \<and>
       ps_outputs psbt' = (ps_outputs psbt)[j := (ps_outputs psbt ! j)\<lparr>txo_opret_host := True\<rparr>]) \<and>
    filter (\<lambda>x. tr_contract x \<noteq> cid) (ps_transitions psbt') = filter (\<lambda>x. tr_contract x \<noteq> cid) (ps_transitions psbt)"
proof (rule send_rgb_Some [OF assms], goal_cases)
  case (1 states j txid)
  note x = 1
  have i: "map txin_outpoint (ps_inputs psbt') = map txin_outpoint (ps_inputs psbt)"
    unfolding x(3) map_map by (rule map_cong) simp_all
  have c: "list_all2 (\<lambda>x y. txin_consumers y =
        (if \<exists>ids. contracts_by_outpoint r (txin_outpoint x) = Some ids \<and> cid \<in> set ids
         then (txin_consumers x)(cid \<mapsto> transition_id r transition) else txin_consumers x))
      (ps_inputs psbt) (ps_inputs psbt')"
    unfolding x(3) list.rel_map by (rule list.rel_refl_strong) auto
  have j: "j < length (ps_outputs psbt)" "txo_is_op_return (ps_outputs psbt ! j)"
      "list_all (\<lambda>out. \<not> txo_is_op_return out) (take j (ps_outputs psbt))"
    using x(5) by (auto simp: find_index_Some list_all_length)
  have t: "tr_contract transition = cid" "tr_outputs transition = tr_outputs builder"
      "drop (length (tr_inputs builder)) (tr_inputs transition) = states"
    by (simp_all add: x(2))
  show ?case
    using i c j x(1) t by (intro conjI exI [of _ j]) (simp_all only: x(4,6) t filter_append, simp add: t)
qed


definition crowded_history :: "fungible_output list" where
  "crowded_history = [\<lparr>fo_opout = [1], fo_seal = OutPoint [1] 0, fo_value = 5\<rparr>,
                      \<lparr>fo_opout = [2], fo_seal = OutPoint [1] 0, fo_value = 4\<rparr>]"

definition sample_stock :: stock where
  "sample_stock = \<lparr>state_for_outpoints = (\<lambda>_ os.
       Some (map (\<lambda>f. (fo_opout f, fo_value f)) (filter (\<lambda>f. fo_seal f \<in> set os) crowded_history))),
     contracts_by_outpoint = (\<lambda>o'. Some (if o' = OutPoint [1] 0 then [[42], [43]] else [])),
     add_input_ok = (\<lambda>_ _. True), complete_ok = (\<lambda>_. True), transition_id = (\<lambda>_. [9]),
     set_consumer_ok = (\<lambda>_ _ _. True), push_transition_ok = (\<lambda>_ _. True), bundles_ok = (\<lambda>_. True),
     opret_host_ok = (\<lambda>out. \<not> txo_opret_host out), commit = (\<lambda>_. Some [7]), transfer_ok = (\<lambda>_ _. True)\<rparr>"

definition sample_psbt :: psbt where
  "sample_psbt = \<lparr>ps_inputs = [\<lparr>txin_outpoint = OutPoint [1] 0, txin_consumers = Map.empty\<rparr>],
     ps_outputs = [\<lparr>txo_is_op_return = False, txo_opret_host = False\<rparr>,
                   \<lparr>txo_is_op_return = True, txo_opret_host = False\<rparr>], ps_transitions = []\<rparr>"

definition sample_builder :: transition where
  "sample_builder = \<lparr>tr_contract = [], tr_inputs = [], tr_outputs = [(AtVout 0, 5)]\<rparr>"

lemma sample_send:
  "send_rgb sample_stock [42] sample_psbt sample_builder [AtVout 0] =
     Some (\<lparr>ps_inputs = [\<lparr>txin_outpoint = OutPoint [1] 0, txin_consumers = [[42] \<mapsto> [9]]\<rparr>],
        ps_outputs = [\<lparr>txo_is_op_return = False, txo_opret_host = False\<rparr>,
                      \<lparr>txo_is_op_return = True, txo_opret_host = True\<rparr>],
        ps_transitions = [\<lparr>tr_contract = [42], tr_inputs = [([1], 5), ([2], 4)], tr_outputs = [(AtVout 0, 5)]\<rparr>]\<rparr>,
      \<lparr>tr_contract = [42], tr_inputs = [([1], 5), ([2], 4)], tr_outputs = [(AtVout 0, 5)]\<rparr>,
      [AtOutpoint (OutPoint [7] 0)])"
  by (simp add: send_rgb_def sample_stock_def sample_psbt_def sample_builder_def crowded_history_def push_input_def
      require_def Let_def)

theorem send_rgb_effect_witness:
  "state_for_outpoints sample_stock [42] [OutPoint [1] 0] = Some [([1], 5), ([2], 4)]"
  using send_rgb_effect [OF sample_send] by (simp add: sample_psbt_def sample_builder_def)


end
