(* ===== verification/RgbPool.thy ===== *)
theory RgbPool
  imports RgbUtxos
begin

text \<open>
  The abstract specification of the \<open>rgb_utxos\<close> file and its refinement: the file of \<open>RgbUtxos\<close>, with its
  order and its search for the first free entry, implements a pool of free and used outputs.
\<close>

subsection \<open>The abstract store\<close>

text \<open>
  What the file promises, without its order: a pool of free outputs and of outputs that hold assets. Taking
  gives any free output; new outputs are new to the pool.
\<close>

type_synonym pool = "outpoint set \<times> outpoint set"

definition pool_of :: "rgb_utxo list \<Rightarrow> pool" where
  "pool_of us = (uncolored us, colored us)"

inductive pool_step :: "utxo_op \<Rightarrow> pool \<Rightarrow> outpoint list \<Rightarrow> pool \<Rightarrow> bool" where
  give: "p \<in> free \<Longrightarrow> pool_step Take (free, used) [p] (free - {p}, insert p used)"
| empty: "pool_step Take ({}, used) [] ({}, used)"
| create: "new \<inter> (free \<union> used) = {} \<Longrightarrow> card new = UTXO_NUM \<Longrightarrow> \<forall>p\<in>new. op_txid p = t \<Longrightarrow>
    pool_step (Create t) (free, used) [] (free \<union> new, used)"
| color: "p \<notin> free \<union> used \<Longrightarrow> pool_step (AddColored p) (free, used) [] (free, insert p used)"

inductive pool_run :: "utxo_op list \<Rightarrow> pool \<Rightarrow> outpoint list \<Rightarrow> pool \<Rightarrow> bool" where
  nil: "pool_run [] a [] a"
| step: "pool_step x a ps b \<Longrightarrow> pool_run xs b qs c \<Longrightarrow> pool_run (x # xs) a (ps @ qs) c"


lemma pool_outpoints: "uncolored us \<union> colored us = utxo_outpoint ` set us"
  by (auto simp: uncolored_def colored_def)

lemma utxo_step_refines:
  assumes "utxos_wf us" and "fresh_op x us" and "utxo_step x us = (ps, us')"
  shows "pool_step x (pool_of us) ps (pool_of us')"
proof (cases x)
  case Take
  show ?thesis
  proof (cases "take_some us")
    case None
    then have "uncolored us = {}" using utxos.take_none [OF assms(1)] by simp
    with None Take assms(3) show ?thesis by (auto simp: pool_of_def intro: pool_step.empty)
  next
    case (Some r)
    obtain p v where r: "r = (p, v)" by (cases r)
    from Some r have "take_uncolored us = Some (Inr (p, v))"
      by (auto simp: take_some_def split: option.splits sum.splits)
    note t = take_uncolored_Inr [OF assms(1) this]
    have "pool_step Take (uncolored us, colored us) [p] (uncolored us - {p}, insert p (colored us))"
      by (rule pool_step.give) (use t in blast)
    with t Some r Take assms(3) show ?thesis by (simp add: pool_of_def)
  qed
next
  case (Create t)
  let ?new = "{OutPoint t 0, OutPoint t 1, OutPoint t 2, OutPoint t 3}"
  have "?new \<inter> (uncolored us \<union> colored us) = {}"
    unfolding pool_outpoints using assms(2) Create fresh_txid_outpoint [of us t] by (auto simp: list_all_iff)
  then have "pool_step (Create t) (uncolored us, colored us) [] (uncolored us \<union> ?new, colored us)"
    by (rule pool_step.create) (simp_all add: UTXO_NUM_def)
  with Create assms(3) show ?thesis by (auto simp: pool_of_def push_created_sets)
next
  case (AddColored p)
  then have "p \<notin> uncolored us \<union> colored us"
    unfolding pool_outpoints using assms(2) by (auto simp: list_all_iff)
  then have "pool_step (AddColored p) (uncolored us, colored us) [] (uncolored us, insert p (colored us))"
    by (rule pool_step.color)
  with AddColored assms(3) show ?thesis by (auto simp: pool_of_def push_colored_sets)
qed

subsection \<open>Property\<close>

text \<open>
  C7. The file refines the pool: every run of takes, creations and coloured additions over the file (new
  outpoints only) is a run of the abstract store over its free and its used outputs that hands out the
  same outputs.
\<close>

theorem file_refines_pool:
  assumes "utxos_wf us" and "fresh_run xs us" and "utxo_run xs us = (handed, us')"
  shows "pool_run xs (pool_of us) handed (pool_of us')"
  using assms
proof (induction xs arbitrary: us handed)
  case (Cons x xs)
  obtain qs v where st: "utxo_step x us = (qs, v)" by (cases "utxo_step x us")
  obtain rs w where rn: "utxo_run xs v = (rs, w)" by (cases "utxo_run xs v")
  from Cons.prems(2) st have f: "fresh_op x us" "fresh_run xs v" by auto
  have "utxos_wf v" using utxo_step_spec [OF Cons.prems(1) f(1) st] by blast
  from Cons.IH [OF this f(2)] rn Cons.prems(3) st
  have "pool_run xs (pool_of v) rs (pool_of us')" and "handed = qs @ rs" by auto
  with utxo_step_refines [OF Cons.prems(1) f(1) st] show ?case by (auto intro: pool_run.step)
qed (auto intro: pool_run.nil)

theorem file_refines_pool_witness:
  "pool_run [Take, Create [5], Take, Take] (pool_of sample_utxos) [OutPoint [1] 1, OutPoint [1] 2, OutPoint [5] 0]
     (pool_of (snd (utxo_run [Take, Create [5], Take, Take] sample_utxos)))"
proof -
  note e = sample_utxos_def take_some_def take_uncolored_def check_uncolored_utxos_def get_utxo_def push_created_eq
  obtain us' where r: "utxo_run [Take, Create [5], Take, Take] sample_utxos =
      ([OutPoint [1] 1, OutPoint [1] 2, OutPoint [5] 0], us')" by (simp add: e)
  have "fresh_run [Take, Create [5], Take, Take] sample_utxos" by (simp add: e)
  from file_refines_pool [OF sample_utxos_wf this r] r show ?thesis by simp
qed

end
