(* ===== verification/ArgsTests.thy ===== *)
theory ArgsTests
  imports Args
begin

text \<open>
  The unit tests of \<open>src/args.rs\<close> (\<open>rpc_auth_tests\<close>) run on the model: one definition for each test, true when
  no \<open>unwrap\<close> panics and no assertion fails. The files of \<open>test_data\<close> are given with their contents.
\<close>

subsection \<open>The constants and the files\<close>

definition TEST_ENV_FILE :: string where "TEST_ENV_FILE = ''test_data/test_env_file''"
definition TEST_ENV_FILE_BAD :: string where "TEST_ENV_FILE_BAD = ''test_data/test_env_file_bad''"
definition TEST_ABSENT_FILE :: string where "TEST_ABSENT_FILE = ''nonexistent_file''"
definition TEST_DATA_DIR :: string where "TEST_DATA_DIR = ''test_data''"
definition TEST_COOKIE :: string where "TEST_COOKIE = ''test_cookie''"
definition TEST_COOKIE_BAD :: string where "TEST_COOKIE_BAD = ''test_cookie_bad''"
definition EXPECTED_USER :: string where "EXPECTED_USER = ''testuser''"
definition EXPECTED_PASSWORD :: string where "EXPECTED_PASSWORD = ''testpassword''"

lemmas test_constants = TEST_ENV_FILE_def TEST_ENV_FILE_BAD_def TEST_ABSENT_FILE_def TEST_DATA_DIR_def
  TEST_COOKIE_def TEST_COOKIE_BAD_def EXPECTED_USER_def EXPECTED_PASSWORD_def

definition test_data :: "string \<rightharpoonup> string" where
  "test_data =
     [''test_data/test_env_file'' \<mapsto> ''RPC_USER=testuser'' @ newline # ''RPC_PASSWORD=testpassword'',
      ''test_data/test_env_file_bad'' \<mapsto> ''RPC_USER=testuser'' @ newline # ''RPC_PASSWORD'',
      ''test_data/test_cookie'' \<mapsto> ''testuser:testpassword'',
      ''test_data/test_cookie_bad'' \<mapsto> ''testuser'']"

subsection \<open>The tests\<close>

definition is_err :: "'a \<times> 'b option \<Rightarrow> bool" where
  "is_err r \<longleftrightarrow> snd r = None"

definition expected_pair :: "credentials \<Rightarrow> bool" where
  "expected_pair r \<longleftrightarrow> snd r = Some (EXPECTED_USER, EXPECTED_PASSWORD)"

definition test_parse_rpc_auth_success :: bool where
  "test_parse_rpc_auth_success \<longleftrightarrow> expected_pair (parse_rpc_auth ''testuser:testpassword'')"

definition test_parse_rpc_auth_fail :: bool where
  "test_parse_rpc_auth_fail \<longleftrightarrow> is_err (parse_rpc_auth ''testuser'')"

definition test_get_cookie_path_success :: "process_env \<Rightarrow> bool" where
  "test_get_cookie_path_success env =
     (case home_dir env of
        None \<Rightarrow> False
      | Some home \<Rightarrow>
          list_all (\<lambda>(data_dir, net, cookie_file, expected_path).
              get_cookie_path env data_dir net cookie_file = Some expected_path)
            [(None, None, None, path_join (path_join home DEFAULT_BITCOIN_DATADIR) ''.cookie''),
             (Some (TEST_DATA_DIR, True), Some Testnet, None,
                path_join (path_join (path_join home TEST_DATA_DIR) ''testnet3'') ''.cookie''),
             (Some (TEST_DATA_DIR, False), Some Regtest, Some TEST_COOKIE,
                path_join (path_join TEST_DATA_DIR ''regtest'') TEST_COOKIE),
             (Some (TEST_DATA_DIR, False), Some Signet, None,
                path_join (path_join TEST_DATA_DIR ''signet'') ''.cookie''),
             (Some (TEST_DATA_DIR, False), Some Bitcoin, None, path_join TEST_DATA_DIR ''.cookie'')])"

definition test_get_rpc_auth_from_cookie_success :: "process_env \<Rightarrow> bool" where
  "test_get_rpc_auth_from_cookie_success env \<longleftrightarrow>
     expected_pair (get_rpc_auth_from_cookie env (Some (TEST_DATA_DIR, False)) (Some Bitcoin) (Some TEST_COOKIE))"

definition test_get_rpc_auth_from_cookie_fail :: "process_env \<Rightarrow> bool" where
  "test_get_rpc_auth_from_cookie_fail env \<longleftrightarrow>
     is_err (get_rpc_auth_from_cookie env (Some (TEST_DATA_DIR, False)) (Some Bitcoin) (Some TEST_COOKIE_BAD))"

definition test_parse_env_file_success :: "process_env \<Rightarrow> bool" where
  "test_parse_env_file_success env =
     (case snd (parse_env_file env (Some TEST_ENV_FILE)) of
        None \<Rightarrow> False
      | Some env_file_map \<Rightarrow>
          env_file_map BITCOIND_RPC_USER_KEY = Some EXPECTED_USER \<and>
          env_file_map BITCOIND_RPC_PASSWORD_KEY = Some EXPECTED_PASSWORD)"

definition test_parse_env_file_fail :: "process_env \<Rightarrow> bool" where
  "test_parse_env_file_fail env \<longleftrightarrow>
     is_err (parse_env_file env (Some TEST_ENV_FILE_BAD)) \<and>
     env_file env TEST_ABSENT_FILE = None \<and>
     is_err (parse_env_file env (Some TEST_ABSENT_FILE))"

definition test_get_rpc_auth_from_env_file_success :: "process_env \<Rightarrow> bool" where
  "test_get_rpc_auth_from_env_file_success env \<longleftrightarrow>
     expected_pair (get_rpc_auth_from_env_file env (Some TEST_ENV_FILE))"

definition test_get_rpc_auth_from_env_file_fail :: "process_env \<Rightarrow> bool" where
  "test_get_rpc_auth_from_env_file_fail env \<longleftrightarrow> is_err (get_rpc_auth_from_env_file env (Some TEST_ABSENT_FILE))"

definition test_get_rpc_auth_from_env_vars_success :: "process_env \<Rightarrow> bool" where
  "test_get_rpc_auth_from_env_vars_success env \<longleftrightarrow>
     expected_pair (get_rpc_auth_from_env_vars (env\<lparr>env_var := (env_var env)
       (BITCOIND_RPC_USER_KEY \<mapsto> EXPECTED_USER, BITCOIND_RPC_PASSWORD_KEY \<mapsto> EXPECTED_PASSWORD)\<rparr>))"

lemmas tests_defs = test_parse_rpc_auth_success_def test_parse_rpc_auth_fail_def test_get_cookie_path_success_def
  test_get_rpc_auth_from_cookie_success_def test_get_rpc_auth_from_cookie_fail_def test_parse_env_file_success_def
  test_parse_env_file_fail_def test_get_rpc_auth_from_env_file_success_def
  test_get_rpc_auth_from_env_file_fail_def test_get_rpc_auth_from_env_vars_success_def

subsection \<open>They pass\<close>

lemma lines_last: "newline \<notin> set l \<Longrightarrow> l \<noteq> [] \<Longrightarrow> lines l = [l]"
  by (simp add: lines_def split_on_free Let_def)

lemma test_env_lines:
  "lines (''RPC_USER=testuser'' @ newline # ''RPC_PASSWORD=testpassword'') =
     [''RPC_USER=testuser'', ''RPC_PASSWORD=testpassword'']"
  "lines (''RPC_USER=testuser'' @ newline # ''RPC_PASSWORD'') = [''RPC_USER=testuser'', ''RPC_PASSWORD'']"
proof -
  have "newline \<notin> set ''RPC_USER=testuser''" "newline \<notin> set ''RPC_PASSWORD=testpassword''"
    "newline \<notin> set ''RPC_PASSWORD''" by (simp_all add: newline_def)
  then show "lines (''RPC_USER=testuser'' @ newline # ''RPC_PASSWORD=testpassword'') =
     [''RPC_USER=testuser'', ''RPC_PASSWORD=testpassword'']"
    "lines (''RPC_USER=testuser'' @ newline # ''RPC_PASSWORD'') = [''RPC_USER=testuser'', ''RPC_PASSWORD'']"
    by (simp_all only: lines_Cons lines_last list.distinct not_False_eq_True)
       (simp_all add: strip_cr_def)
qed

lemma test_pair: "split_on (CHR '':'') ''testuser:testpassword'' = [''testuser'', ''testpassword'']"
  "split_on (CHR '':'') ''testuser'' = [''testuser'']"
proof -
  have "CHR '':'' \<notin> set ''testuser''" "CHR '':'' \<notin> set ''testpassword''" by simp_all
  from split_on_append [OF this(1), of "''testpassword''"] split_on_free [OF this(2)] split_on_free [OF this(1)]
  show "split_on (CHR '':'') ''testuser:testpassword'' = [''testuser'', ''testpassword'']"
    "split_on (CHR '':'') ''testuser'' = [''testuser'']" by (simp_all only: append.simps)
qed

text \<open>
  Every unit test of the module passes on the model, in any environment that has a home directory and reads the
  files of \<open>test_data\<close>.
\<close>

theorem rpc_auth_tests_pass:
  assumes "home_dir env \<noteq> None" and "env_file env = test_data"
  shows "test_parse_rpc_auth_success \<and> test_parse_rpc_auth_fail \<and> test_get_cookie_path_success env \<and>
    test_get_rpc_auth_from_cookie_success env \<and> test_get_rpc_auth_from_cookie_fail env \<and>
    test_parse_env_file_success env \<and> test_parse_env_file_fail env \<and>
    test_get_rpc_auth_from_env_file_success env \<and> test_get_rpc_auth_from_env_file_fail env \<and>
    test_get_rpc_auth_from_env_vars_success env"
proof -
  from assms(1) obtain home where h: "home_dir env = Some home" by blast
  have files: "env_file env ''test_data/test_env_file'' = Some (''RPC_USER=testuser'' @ newline # ''RPC_PASSWORD=testpassword'')"
    "env_file env ''test_data/test_env_file_bad'' = Some (''RPC_USER=testuser'' @ newline # ''RPC_PASSWORD'')"
    "env_file env ''test_data/test_cookie'' = Some ''testuser:testpassword''"
    "env_file env ''test_data/test_cookie_bad'' = Some ''testuser''"
    "env_file env ''nonexistent_file'' = None"
    by (simp_all add: assms(2) test_data_def)
  have good: "parse_env_file env (Some ''test_data/test_env_file'') =
      ([], Some [''RPC_USER'' \<mapsto> ''testuser'', ''RPC_PASSWORD'' \<mapsto> ''testpassword''])"
    unfolding parse_env_file_def option.case files test_env_lines by (simp add: splitn2_def)
  have bad: "parse_env_file env (Some ''test_data/test_env_file_bad'') = ([MBadEnvFile], None)"
    unfolding parse_env_file_def option.case files test_env_lines by (simp add: splitn2_def)
  have absent: "parse_env_file env (Some ''nonexistent_file'') = ([], None)"
    by (simp add: parse_env_file_def files)
  have cookie: "get_rpc_auth_from_cookie env (Some (''test_data'', False)) (Some Bitcoin) (Some f) =
      (case env_file env (''test_data/'' @ f) of None \<Rightarrow> ([], None) | Some c \<Rightarrow> parse_rpc_auth c)"
    if "f \<noteq> []" "hd f \<noteq> CHR ''/''" for f
    using that by (simp add: get_rpc_auth_from_cookie_def get_cookie_path_def path_join_def)
  have paths: "test_get_cookie_path_success env"
    unfolding test_get_cookie_path_success_def h option.case list.pred_inject prod.case
    by (simp add: get_cookie_path_def h test_constants)
  note d = is_err_def expected_pair_def test_constants BITCOIND_RPC_USER_KEY_def BITCOIND_RPC_PASSWORD_KEY_def
  show ?thesis
    by (simp add: paths tests_defs(1,2,4-) d parse_rpc_auth_def test_pair good bad absent cookie files
        get_rpc_auth_from_env_file_def get_rpc_auth_from_env_vars_def del: split_on.simps)
qed

theorem rpc_auth_tests_pass_witness:
  "test_get_cookie_path_success (sample_env\<lparr>env_file := test_data\<rparr>) \<and>
   test_parse_env_file_success (sample_env\<lparr>env_file := test_data\<rparr>)"
  using rpc_auth_tests_pass [of "sample_env\<lparr>env_file := test_data\<rparr>"] by (simp add: sample_env_def)

end
