(* ===== verification/Proxy.thy ===== *)
theory Proxy
  imports World Json
begin

text \<open>
  The client of the RGB proxy (\<open>src/proxy.rs\<close>): the requests it makes and how it reads the answers. The server is
  a function from requests to the answer's JSON (\<^term>\<open>None\<close>: no answer, or one that is not JSON); the text of a
  JSON value is serde_json's, a parameter.
\<close>

subsection \<open>Requests and answers\<close>

definition option_json :: "('a \<Rightarrow> json) \<Rightarrow> 'a option \<Rightarrow> json" where
  "option_json encode x = (case x of None \<Rightarrow> JNull | Some v \<Rightarrow> encode v)"

record 'p json_rpc_request =
  rq_method :: string
  rq_jsonrpc :: string
  rq_id :: "string option"
  rq_params :: "'p option"

definition request_json :: "('p \<Rightarrow> json) \<Rightarrow> 'p json_rpc_request \<Rightarrow> json" where
  "request_json encode r =
     JObject [(''method'', JString (rq_method r)), (''jsonrpc'', JString (rq_jsonrpc r)),
              (''id'', option_json JString (rq_id r)), (''params'', option_json encode (rq_params r))]"

text \<open>\<open>BlindedUtxoParam\<close>, a record of one field.\<close>

definition blinded_utxo_param :: "string \<Rightarrow> json" where
  "blinded_utxo_param blinded_utxo = JObject [(''blinded_utxo'', JString blinded_utxo)]"

definition error_json :: "int \<times> string \<Rightarrow> json" where
  "error_json e = JObject [(''code'', JInt (fst e)), (''message'', JString (snd e))]"

fun error_of_json :: "json \<Rightarrow> (int \<times> string) option" where
  "error_of_json (JObject members) =
     (case (required_field as_i64 ''code'' members, required_field as_string ''message'' members) of
        (Some c, Some m) \<Rightarrow> Some (c, m)
      | _ \<Rightarrow> None)"
| "error_of_json _ = None"

definition response_json :: "('r \<Rightarrow> json) \<Rightarrow> 'r json_rpc_response \<Rightarrow> json" where
  "response_json encode r =
     JObject [(''id'', option_json JString (rs_id r)), (''result'', option_json encode (rs_result r)),
              (''error'', option_json error_json (rs_error r))]"

fun response_of_json :: "(json \<Rightarrow> 'r option) \<Rightarrow> json \<Rightarrow> 'r json_rpc_response option" where
  "response_of_json decode (JObject members) =
     (case (optional_field as_string ''id'' members, optional_field decode ''result'' members,
            optional_field error_of_json ''error'' members) of
        (Some i, Some r, Some e) \<Rightarrow> Some \<lparr>rs_id = i, rs_result = r, rs_error = e\<rparr>
      | _ \<Rightarrow> None)"
| "response_of_json decode _ = None"

subsection \<open>The two calls\<close>

datatype http_body = JsonBody json | Form "(string \<times> string) list" "(string \<times> string \<times> bytes) list"

record http_request =
  http_url :: string
  http_content_type :: "string option"
  http_body :: http_body

text \<open>\<open>Path::file_name\<close>: the last component, if it is a name.\<close>

definition file_name :: "string \<Rightarrow> string option" where
  "file_name path =
     (case filter (\<lambda>c. c \<noteq> [] \<and> c \<noteq> ''.'') (split_on (CHR ''/'') path) of
        [] \<Rightarrow> None
      | cs \<Rightarrow> if last cs = ''..'' then None else Some (last cs))"

datatype proxy_error = IoError | ProxyError

definition post_request :: "(json \<Rightarrow> string) \<Rightarrow> string \<Rightarrow> string \<Rightarrow> string \<Rightarrow> bytes \<Rightarrow> http_request" where
  "post_request json_text url consignment_id name consignment =
     \<lparr>http_url = url, http_content_type = None,
      http_body = Form
        [(''method'', ''consignment.post''), (''jsonrpc'', ''2.0''), (''id'', ''1''),
         (''params'', json_text (blinded_utxo_param consignment_id))]
        [(''file'', name, consignment)]\<rparr>"

text \<open>
  \<open>post_consignment\<close>: the file is opened first (\<^term>\<open>None\<close>: it cannot be), its name is expected to exist
  (\<^term>\<open>None\<close>: the panic), and the answer is read as a response with a boolean.
\<close>

definition post_consignment ::
  "(json \<Rightarrow> string) \<Rightarrow> (http_request \<Rightarrow> json option) \<Rightarrow> (string \<rightharpoonup> bytes) \<Rightarrow> string \<Rightarrow> string \<Rightarrow> string \<Rightarrow>
   (proxy_error + bool json_rpc_response) option" where
  "post_consignment json_text send files url consignment_id path =
     (case files path of
        None \<Rightarrow> Some (Inl IoError)
      | Some consignment \<Rightarrow>
          map_option (\<lambda>name.
            case Option.bind (send (post_request json_text url consignment_id name consignment))
                   (response_of_json as_bool) of
              None \<Rightarrow> Inl ProxyError
            | Some r \<Rightarrow> Inr r) (file_name path))"

definition get_request :: "string \<Rightarrow> string \<Rightarrow> http_request" where
  "get_request url consignment_id =
     \<lparr>http_url = url, http_content_type = Some ''application/json'',
      http_body = JsonBody (request_json blinded_utxo_param
        \<lparr>rq_method = ''consignment.get'', rq_jsonrpc = ''2.0'', rq_id = None, rq_params = Some consignment_id\<rparr>)\<rparr>"

definition fetch_consignment ::
  "(http_request \<Rightarrow> json option) \<Rightarrow> string \<Rightarrow> string \<Rightarrow> proxy_error + string json_rpc_response" where
  "fetch_consignment send url consignment_id =
     (case Option.bind (send (get_request url consignment_id)) (response_of_json as_string) of
        None \<Rightarrow> Inl ProxyError
      | Some r \<Rightarrow> Inr r)"

subsection \<open>Lemmas\<close>

definition i64_error :: "(int \<times> string) option \<Rightarrow> bool" where
  "i64_error e \<longleftrightarrow> (case e of None \<Rightarrow> True | Some (c, _) \<Rightarrow> - (2 ^ 63) \<le> c \<and> c < 2 ^ 63)"

lemma error_of_json_json: "i64_error (Some e) \<Longrightarrow> error_of_json (error_json e) = Some e"
  by (cases e) (simp add: i64_error_def error_json_def required_field_def json_field_def)

lemma error_json_not_null [simp]: "error_json e \<noteq> JNull"
  by (simp add: error_json_def)

lemma optional_field_json:
  assumes "\<And>v. x = Some v \<Longrightarrow> decode (encode v) = Some v \<and> encode v \<noteq> JNull"
    and "filter (\<lambda>f. fst f = name) members = [(name, option_json encode x)]"
  shows "optional_field decode name members = Some x"
proof (cases x)
  case (Some v)
  with assms(1) have "decode (encode v) = Some v" "encode v \<noteq> JNull" by auto
  with Some assms(2) show ?thesis
    by (cases "encode v") (simp_all add: optional_field_def json_field_def option_json_def)
qed (use assms(2) in \<open>simp add: optional_field_def json_field_def option_json_def\<close>)

lemma response_of_json_json:
  assumes "\<And>v. rs_result r = Some v \<Longrightarrow> decode (encode v) = Some v \<and> encode v \<noteq> JNull"
    and "i64_error (rs_error r)"
  shows "response_of_json decode (response_json encode r) = Some r"
proof -
  let ?fs = "[(''id'', option_json JString (rs_id r)), (''result'', option_json encode (rs_result r)),
              (''error'', option_json error_json (rs_error r))]"
  have "optional_field as_string ''id'' ?fs = Some (rs_id r)"
    by (rule optional_field_json [of _ _ JString]) simp_all
  moreover have "optional_field decode ''result'' ?fs = Some (rs_result r)"
    by (rule optional_field_json [of _ _ encode]) (use assms(1) in simp_all)
  moreover have "optional_field error_of_json ''error'' ?fs = Some (rs_error r)"
    by (rule optional_field_json [of _ _ error_json])
       (use assms(2) in \<open>simp_all add: error_of_json_json\<close>)
  ultimately show ?thesis unfolding response_json_def by simp
qed

subsection \<open>Properties\<close>

text \<open>
  An answer of the proxy is read back as the response it was written from, whatever its id, result and error are,
  for both kinds of result; the error's code has to be an \<open>i64\<close>.
\<close>

theorem response_read_back:
  assumes "i64_error (rs_error r)" and "i64_error (rs_error q)"
  shows "response_of_json as_bool (response_json JBool r) = Some r \<and>
    response_of_json as_string (response_json JString q) = Some q"
  using assms by (simp add: response_of_json_json)

theorem response_read_back_witness:
  "response_of_json as_string (response_json JString
     \<lparr>rs_id = None, rs_result = None, rs_error = Some (-32600, ''no consignment'')\<rparr>) =
   Some \<lparr>rs_id = None, rs_result = None, rs_error = Some (-32600, ''no consignment'')\<rparr>"
  using response_read_back [of "\<lparr>rs_id = None, rs_result = Some True, rs_error = None\<rparr>"
      "\<lparr>rs_id = None, rs_result = None, rs_error = Some (-32600, ''no consignment'')\<rparr>"]
  by (simp add: i64_error_def)



end
