(* ===== verification/Spec2Isabelle.thy ===== *)
theory Spec2Isabelle
  imports Session NodeLocks SendRgb RgbPool ArgsTests Proxy
begin

text \<open>
  A model of the RGB Lightning node (\<open>src/src/*.rs\<close>): a Lightning node built on a fork of LDK whose channels
  and payments can carry RGB assets, with a command line, a maker and taker of atomic swaps, an on-chain
  wallet (bdk) and a proxy that passes RGB consignments on.

  \<^bold>\<open>The program.\<close> \<open>main.rs\<close> starts the node (\<open>start_ldk\<close>) and handles LDK's events (\<open>handle_ldk_events\<close>);
  \<open>cli.rs\<close> is the command loop (\<open>poll_for_user_input\<close>) and the commands; \<open>args.rs\<close> reads the arguments;
  \<open>swap.rs\<close> the swap offers; \<open>rgb_utils.rs\<close> the allocations of an asset; \<open>disk.rs\<close> the file of channel
  peers; \<open>bitcoind_client.rs\<close> and \<open>convert.rs\<close> the client of bitcoind with the fee estimator; \<open>proxy.rs\<close> the client of the RGB
  proxy; \<open>hex_utils.rs\<close> hexadecimal text. The parts
  share four maps in memory (incoming and outgoing payments, whitelisted trades, the maker's trades) and files
  of the data directory (\<open>rgb_utxos\<close>, \<open>channel_peer_data\<close>, \<open>blinded_utxos\<close>, one file for each coloured
  channel).

  \<^bold>\<open>State and calls.\<close> The record \<open>node\<close> (\<open>Node\<close>) holds these maps and files and the \<open>trace\<close>: every call to
  LDK, the wallet, the RGB runtime, the proxy and the screen, in order. What such a call answers is a
  parameter, a field of \<open>ldk\<close> (\<open>Node\<close>), \<open>world\<close> (\<open>World\<close>) or \<open>host\<close> (\<open>Startup\<close>) that may depend on the whole
  trace so far; nothing is assumed of the answers but what a theorem states as a hypothesis. An
  operation returns a \<open>flow\<close>: \<open>Continue\<close> (a return, or a \<open>continue\<close> of the command loop), \<open>Break\<close> (the loop is
  left), \<open>Abort\<close> (a panic: both Cargo profiles abort), \<open>Hang\<close> (a wait that never ends). Machine integers are
  words; where the source uses an unchecked operator, the parameter \<open>build\<close> chooses between the panic of the
  dev profile and the wrap-around of the release profile. Library identifiers are byte lists, a Rust
  \<open>str\<close> its UTF-8 bytes.

  \<^bold>\<open>The theories.\<close>
  \<^item> \<open>Prelude\<close>: words, checked arithmetic, the string functions of the standard library the source uses, shared
    lemma collections. \<open>Codec\<close>: encoders with a separator as the locales \<open>codec\<close> and \<open>field_codec\<close>; decimal text.
  \<^item> \<open>HexUtils\<close> (\<open>hex_utils.rs\<close>): the decoder with its accumulator, against a reference decoder by pairs.
  \<^item> \<open>Swap\<close> (\<open>swap.rs\<close>): swap types, the parser of offers; the round trip with the line \<open>makerinit\<close> prints.
  \<^item> \<open>Node\<close>: data, state, calls. \<open>World\<close>: the environment, the control constructs of the handlers
    (\<open>need\<close>, \<open>expect\<close>, \<open>call\<close>), the steps several handlers share, the rules \<open>ends_rules\<close> that walk an operation
    to where it returns, and the locale \<open>lock_user\<close> of operations that free the RGB runtime's lock they take.
  \<^item> \<open>RgbUtils\<close> (\<open>rgb_utils.rs\<close>): owned allocations as an ordered map, balance, coin selection with change, the
    seal of a sweep. \<open>RgbUtxos\<close>: the file of RGB outputs, as an instance of the locale \<open>utxo_store\<close>, runs of
    operations over it, and the schedule in which two unsynchronised writers lose an update. \<open>RgbPool\<close>: the
    pool of outputs it promises, as an inductive step relation, and the refinement.
  \<^item> \<open>Payments\<close>: the payment storages with the events and calls that change them, as an instance of the locale
    \<open>payment_ledger\<close>. \<open>Invoices\<close>: the payment commands with their bounds.
  \<^item> \<open>Intercept\<close>: the handler of intercepted HTLCs. \<open>Trades\<close>: \<open>makerinit\<close>, \<open>taker\<close>, \<open>makerexecute\<close>.
  \<^item> \<open>OnChain\<close>: the commands on the wallet and on assets. \<open>Transfers\<close>: \<open>sendasset\<close>, the funding of a channel,
    \<open>ChannelReady\<close>, the sweeping of closed channels. \<open>SendRgb\<close> (\<open>rgb_utils.rs\<close>): the transition a transfer makes,
    over the stock of the RGB runtime.
  \<^item> \<open>Peers\<close>: peer info, the peer file, connections, the reconnecting task. \<open>Channels\<close>: opening, closing,
    messages.
  \<^item> \<open>Listings\<close>: the commands that only print and the forwarding events. \<open>Help\<close>: the banner, the help, and the
    events that are only reported.
  \<^item> \<open>Json\<close>: JSON values. \<open>Fees\<close>: bitcoind's answers, and the stored fee rates as a transition system of the polling task.
    \<open>Bitcoind\<close>: the client of bitcoind and the background activities that call it, as runs over what bitcoind answers.
    \<open>Proxy\<close> (\<open>proxy.rs\<close>): requests and answers of the RGB proxy. \<open>Logger\<close> (\<open>disk.rs\<close>): the log file.
  \<^item> \<open>Args\<close>: the command line. \<open>ArgsTests\<close>: the unit tests of \<open>args.rs\<close>, run on the model.
  \<^item> \<open>Commands\<close>: the command loop, the event dispatcher and the node as a transition system. \<open>Invariants\<close>: the
    locale \<open>node_invariant\<close> names every way an operation changes the state; inside it every command and event
    is shown to keep the invariant, its interpretations are the invariants of the node.
  \<^item> \<open>Locks\<close>: threads, schedules, and freedom from deadlock for the locale \<open>lock_clients\<close> of operations that take
    locks in order. \<open>NodeLocks\<close>: its interpretation on the operations of the node, with the wallet's mutex and the
    lock file of the RGB runtime as read off the traces, and the one operation that is outside it.
  \<^item> \<open>Startup\<close>: \<open>start_ldk\<close> over the data directory, and the lives of a node over many starts. \<open>Session\<close>: one
    process from the start over the command loop to its orderly end.

  \<^bold>\<open>What is shown.\<close> Swaps: a trade is whitelisted only from a valid, unexpired, covered offer, maker and taker
  read the same terms, an HTLC is forwarded only on exactly those terms, at most once, and the maker's route
  carries them. Assets: transfers and channel fundings assign exactly what their selected inputs hold; what the
  transition takes in is that and any other allocation on the same outputs. The trades it holds are well formed (a 32-byte hash, an amount and a price that are not zero). An output is
  handed out at most once and its record only grows, also over restarts and to the end of a process, and the outputs that hold assets are
  excluded from being spent for bitcoin. Payments: their life cycle, bounds, and the preimage of every
  succeeded one. Start: networks, identity, what survives and what does not. Round trips of offers, peer
  and environment files and of consignments through the proxy; equivalence of the decoder and of the allocations with their specifications.
  Concurrency: every operation but one takes the two locks in the same order, so any number of them can always
  be run to their ends; the funding of a coloured channel does not and can deadlock. Failures: what the process survives of
  its bitcoind, and what a start never gets past.
  The theorems about overflow, lock leaks, deadlock, lost updates, sweeps and aborts state where the code does not keep
  what its other parts rely on.

  \<^bold>\<open>Loops and bounds.\<close> No definition uses fuel. The loops of the source over lists are structural recursion;
  the waiting loop of \<open>do_connect_peer\<close> runs over the list of its ticks' observations, and a list without a
  deciding tick is the value \<open>None\<close>, which callers turn into \<open>Hang\<close>; the command loop runs over the lines it reads;
  endless tasks are given by one iteration and a transition system.

  \<^bold>\<open>Not modelled.\<close> The libraries (LDK, bdk, the RGB runtime, reqwest, tokio): parameters, with the transport of
  their requests. Handing their objects to each other in \<open>start_ldk\<close>, the type aliases and the dummy handler of Ctrl-C
  have no state of the program and no definition. In \<open>Commands\<close> an operation is run to its end before the next; interleavings are
  treated where they matter, for the locks in \<open>NodeLocks\<close> and for the one shared file without a lock in \<open>RgbUtxos\<close>.
  While the node runs, a file of the data directory the program itself writes is taken to be writable and to read back
  as it was written (a start checks each of its writes, and whether it can read the seed and the manager), and a lock file left by a crash is not part of the disk a
  start reads. The messages of some commands are one constructor without the text's arguments.
\<close>

end
